(* ===== verification/Prelude.thy ===== *)
theory Prelude
  imports Main "HOL-Library.List_Lexorder" "HOL-Library.Multiset"
begin

text \<open>
  Shared vocabulary of the development: Python \<open>str\<close> values as lists of Unicode code
  points, the character classes the code relies on (\<open>str.isspace\<close> and the regex class
  \<open>\s\<close>, \<open>str.isdecimal\<close> and the regex class \<open>\d\<close>, \<open>str.isdigit\<close>,
  \<open>str.lower\<close>), and the \<open>str\<close> methods the pipeline calls (\<open>strip\<close>,
  \<open>lstrip\<close>, \<open>startswith\<close>, \<open>in\<close>, \<open>split\<close>, \<open>join\<close>, \<open>replace\<close>,
  slicing). The character tables are those of Python 3.11 (Unicode 14.0); every
  definition is executable, so concrete strings evaluate by \<open>simp\<close>.
  Generic lemmas on these operations are collected in \<open>pystr_simps\<close>; the
  last section holds the facts on Python's stable \<open>sorted\<close> (\<open>sort_key\<close>)
  followed by a slice \<open>[:n]\<close> that the retrieval proofs share.
\<close>

section \<open>Strings and errors\<close>

type_synonym uchar = nat
type_synonym pystr = "uchar list"

text \<open>Python exceptions the modelled code can raise (\<open>StoreError\<close>: an exception of the
  vector store; \<open>ValueError\<close>: the one \<^verbatim>\<open>csv.DictWriter\<close> raises for an unknown field;
  \<open>TypeError\<close>: iterating over \<^verbatim>\<open>None\<close>).\<close>

datatype py_error = IndexError | StoreError | ValueError | TypeError

named_theorems pystr_simps "rewrite rules for the Python string operations"
named_theorems pystr_eval "unfolding rules that evaluate the string model on literals"

text \<open>An ASCII literal as a Python string (code points below 128).\<close>

definition asc :: "string \<Rightarrow> pystr" where
  "asc s = map of_char s"

text \<open>The floor glyph U+6A13, which both the cleaner and the extractor look for.\<close>

definition LOU :: uchar where
  "LOU = 0x6A13"

section \<open>Character classes\<close>

text \<open>\<open>str.isspace\<close>, also the regex class \<open>\s\<close> of a \<open>str\<close> pattern.\<close>

definition space_runs :: "(nat \<times> nat) list" where
  "space_runs = [(9, 13), (28, 32), (0x85, 0x85), (0xA0, 0xA0), (0x1680, 0x1680),
     (0x2000, 0x200A), (0x2028, 0x2029), (0x202F, 0x202F), (0x205F, 0x205F),
     (0x3000, 0x3000)]"

definition in_runs :: "(nat \<times> nat) list \<Rightarrow> uchar \<Rightarrow> bool" where
  "in_runs rs c \<longleftrightarrow> list_ex (\<lambda>(a, b). a \<le> c \<and> c \<le> b) rs"

definition py_isspace :: "uchar \<Rightarrow> bool" where
  "py_isspace c \<longleftrightarrow> in_runs space_runs c"

text \<open>\<open>str.isdecimal\<close> (general category Nd), also the regex class \<open>\d\<close>.\<close>

definition decimal_runs :: "(nat \<times> nat) list" where
  "decimal_runs = [
     (0x30, 0x39), (0x660, 0x669), (0x6F0, 0x6F9), (0x7C0, 0x7C9),
     (0x966, 0x96F), (0x9E6, 0x9EF), (0xA66, 0xA6F), (0xAE6, 0xAEF),
     (0xB66, 0xB6F), (0xBE6, 0xBEF), (0xC66, 0xC6F), (0xCE6, 0xCEF),
     (0xD66, 0xD6F), (0xDE6, 0xDEF), (0xE50, 0xE59), (0xED0, 0xED9),
     (0xF20, 0xF29), (0x1040, 0x1049), (0x1090, 0x1099), (0x17E0, 0x17E9),
     (0x1810, 0x1819), (0x1946, 0x194F), (0x19D0, 0x19D9), (0x1A80, 0x1A89),
     (0x1A90, 0x1A99), (0x1B50, 0x1B59), (0x1BB0, 0x1BB9), (0x1C40, 0x1C49),
     (0x1C50, 0x1C59), (0xA620, 0xA629), (0xA8D0, 0xA8D9), (0xA900, 0xA909),
     (0xA9D0, 0xA9D9), (0xA9F0, 0xA9F9), (0xAA50, 0xAA59), (0xABF0, 0xABF9),
     (0xFF10, 0xFF19), (0x104A0, 0x104A9), (0x10D30, 0x10D39), (0x11066, 0x1106F),
     (0x110F0, 0x110F9), (0x11136, 0x1113F), (0x111D0, 0x111D9), (0x112F0, 0x112F9),
     (0x11450, 0x11459), (0x114D0, 0x114D9), (0x11650, 0x11659), (0x116C0, 0x116C9),
     (0x11730, 0x11739), (0x118E0, 0x118E9), (0x11950, 0x11959), (0x11C50, 0x11C59),
     (0x11D50, 0x11D59), (0x11DA0, 0x11DA9), (0x16A60, 0x16A69), (0x16AC0, 0x16AC9),
     (0x16B50, 0x16B59), (0x1D7CE, 0x1D7FF), (0x1E140, 0x1E149), (0x1E2F0, 0x1E2F9),
     (0x1E950, 0x1E959), (0x1FBF0, 0x1FBF9)]"

definition py_isdecimal :: "uchar \<Rightarrow> bool" where
  "py_isdecimal c \<longleftrightarrow> in_runs decimal_runs c"

text \<open>\<open>str.isdigit\<close>: the decimal digits and the other characters whose numeric type
  is Digit (superscripts, circled and parenthesised digits, ...).\<close>

definition digit_extra_runs :: "(nat \<times> nat) list" where
  "digit_extra_runs = [
     (0xB2, 0xB3), (0xB9, 0xB9), (0x1369, 0x1371), (0x19DA, 0x19DA),
     (0x2070, 0x2070), (0x2074, 0x2079), (0x2080, 0x2089), (0x2460, 0x2468),
     (0x2474, 0x247C), (0x2488, 0x2490), (0x24EA, 0x24EA), (0x24F5, 0x24FD),
     (0x24FF, 0x24FF), (0x2776, 0x277E), (0x2780, 0x2788), (0x278A, 0x2792),
     (0x10A40, 0x10A43), (0x10E60, 0x10E68), (0x11052, 0x1105A), (0x1F100, 0x1F10A)]"

definition py_isdigit :: "uchar \<Rightarrow> bool" where
  "py_isdigit c \<longleftrightarrow> py_isdecimal c \<or> in_runs digit_extra_runs c"

text \<open>
  \<open>str.lower\<close>, character by character: an entry \<open>(a, b, s, d)\<close> maps every
  \<open>c\<close> with \<open>a \<le> c \<le> b\<close> and \<open>c - a\<close> a multiple of \<open>s\<close> to \<open>c + d\<close>;
  U+0130 lowers to two code points. ASCII and the range U+2E00..U+A63F (CJK) have
  their own branches, which agree with the table.
\<close>

definition lower_runs :: "(nat \<times> nat \<times> nat \<times> int) list" where
  "lower_runs = [
     (0x41, 0x5A, 1, 32), (0xC0, 0xD6, 1, 32), (0xD8, 0xDE, 1, 32),
     (0x100, 0x12E, 2, 1), (0x132, 0x136, 2, 1), (0x139, 0x147, 2, 1),
     (0x14A, 0x176, 2, 1), (0x178, 0x178, 1, - 121), (0x179, 0x17D, 2, 1),
     (0x181, 0x181, 1, 210), (0x182, 0x184, 2, 1), (0x186, 0x186, 1, 206),
     (0x187, 0x187, 1, 1), (0x189, 0x18A, 1, 205), (0x18B, 0x18B, 1, 1),
     (0x18E, 0x18E, 1, 79), (0x18F, 0x18F, 1, 202), (0x190, 0x190, 1, 203),
     (0x191, 0x191, 1, 1), (0x193, 0x193, 1, 205), (0x194, 0x194, 1, 207),
     (0x196, 0x196, 1, 211), (0x197, 0x197, 1, 209), (0x198, 0x198, 1, 1),
     (0x19C, 0x19C, 1, 211), (0x19D, 0x19D, 1, 213), (0x19F, 0x19F, 1, 214),
     (0x1A0, 0x1A4, 2, 1), (0x1A6, 0x1A6, 1, 218), (0x1A7, 0x1A7, 1, 1),
     (0x1A9, 0x1A9, 1, 218), (0x1AC, 0x1AC, 1, 1), (0x1AE, 0x1AE, 1, 218),
     (0x1AF, 0x1AF, 1, 1), (0x1B1, 0x1B2, 1, 217), (0x1B3, 0x1B5, 2, 1),
     (0x1B7, 0x1B7, 1, 219), (0x1B8, 0x1B8, 1, 1), (0x1BC, 0x1BC, 1, 1),
     (0x1C4, 0x1C4, 1, 2), (0x1C5, 0x1C5, 1, 1), (0x1C7, 0x1C7, 1, 2),
     (0x1C8, 0x1C8, 1, 1), (0x1CA, 0x1CA, 1, 2), (0x1CB, 0x1DB, 2, 1),
     (0x1DE, 0x1EE, 2, 1), (0x1F1, 0x1F1, 1, 2), (0x1F2, 0x1F4, 2, 1),
     (0x1F6, 0x1F6, 1, - 97), (0x1F7, 0x1F7, 1, - 56), (0x1F8, 0x21E, 2, 1),
     (0x220, 0x220, 1, - 130), (0x222, 0x232, 2, 1), (0x23A, 0x23A, 1, 10795),
     (0x23B, 0x23B, 1, 1), (0x23D, 0x23D, 1, - 163), (0x23E, 0x23E, 1, 10792),
     (0x241, 0x241, 1, 1), (0x243, 0x243, 1, - 195), (0x244, 0x244, 1, 69),
     (0x245, 0x245, 1, 71), (0x246, 0x24E, 2, 1), (0x370, 0x372, 2, 1),
     (0x376, 0x376, 1, 1), (0x37F, 0x37F, 1, 116), (0x386, 0x386, 1, 38),
     (0x388, 0x38A, 1, 37), (0x38C, 0x38C, 1, 64), (0x38E, 0x38F, 1, 63),
     (0x391, 0x3A1, 1, 32), (0x3A3, 0x3AB, 1, 32), (0x3CF, 0x3CF, 1, 8),
     (0x3D8, 0x3EE, 2, 1), (0x3F4, 0x3F4, 1, - 60), (0x3F7, 0x3F7, 1, 1),
     (0x3F9, 0x3F9, 1, - 7), (0x3FA, 0x3FA, 1, 1), (0x3FD, 0x3FF, 1, - 130),
     (0x400, 0x40F, 1, 80), (0x410, 0x42F, 1, 32), (0x460, 0x480, 2, 1),
     (0x48A, 0x4BE, 2, 1), (0x4C0, 0x4C0, 1, 15), (0x4C1, 0x4CD, 2, 1),
     (0x4D0, 0x52E, 2, 1), (0x531, 0x556, 1, 48), (0x10A0, 0x10C5, 1, 7264),
     (0x10C7, 0x10C7, 1, 7264), (0x10CD, 0x10CD, 1, 7264), (0x13A0, 0x13EF, 1, 38864),
     (0x13F0, 0x13F5, 1, 8), (0x1C90, 0x1CBA, 1, - 3008), (0x1CBD, 0x1CBF, 1, - 3008),
     (0x1E00, 0x1E94, 2, 1), (0x1E9E, 0x1E9E, 1, - 7615), (0x1EA0, 0x1EFE, 2, 1),
     (0x1F08, 0x1F0F, 1, - 8), (0x1F18, 0x1F1D, 1, - 8), (0x1F28, 0x1F2F, 1, - 8),
     (0x1F38, 0x1F3F, 1, - 8), (0x1F48, 0x1F4D, 1, - 8), (0x1F59, 0x1F5F, 2, - 8),
     (0x1F68, 0x1F6F, 1, - 8), (0x1F88, 0x1F8F, 1, - 8), (0x1F98, 0x1F9F, 1, - 8),
     (0x1FA8, 0x1FAF, 1, - 8), (0x1FB8, 0x1FB9, 1, - 8), (0x1FBA, 0x1FBB, 1, - 74),
     (0x1FBC, 0x1FBC, 1, - 9), (0x1FC8, 0x1FCB, 1, - 86), (0x1FCC, 0x1FCC, 1, - 9),
     (0x1FD8, 0x1FD9, 1, - 8), (0x1FDA, 0x1FDB, 1, - 100), (0x1FE8, 0x1FE9, 1, - 8),
     (0x1FEA, 0x1FEB, 1, - 112), (0x1FEC, 0x1FEC, 1, - 7), (0x1FF8, 0x1FF9, 1, - 128),
     (0x1FFA, 0x1FFB, 1, - 126), (0x1FFC, 0x1FFC, 1, - 9), (0x2126, 0x2126, 1, - 7517),
     (0x212A, 0x212A, 1, - 8383), (0x212B, 0x212B, 1, - 8262), (0x2132, 0x2132, 1, 28),
     (0x2160, 0x216F, 1, 16), (0x2183, 0x2183, 1, 1), (0x24B6, 0x24CF, 1, 26),
     (0x2C00, 0x2C2F, 1, 48), (0x2C60, 0x2C60, 1, 1), (0x2C62, 0x2C62, 1, - 10743),
     (0x2C63, 0x2C63, 1, - 3814), (0x2C64, 0x2C64, 1, - 10727), (0x2C67, 0x2C6B, 2, 1),
     (0x2C6D, 0x2C6D, 1, - 10780), (0x2C6E, 0x2C6E, 1, - 10749), (0x2C6F, 0x2C6F, 1, - 10783),
     (0x2C70, 0x2C70, 1, - 10782), (0x2C72, 0x2C72, 1, 1), (0x2C75, 0x2C75, 1, 1),
     (0x2C7E, 0x2C7F, 1, - 10815), (0x2C80, 0x2CE2, 2, 1), (0x2CEB, 0x2CED, 2, 1),
     (0x2CF2, 0x2CF2, 1, 1), (0xA640, 0xA66C, 2, 1), (0xA680, 0xA69A, 2, 1),
     (0xA722, 0xA72E, 2, 1), (0xA732, 0xA76E, 2, 1), (0xA779, 0xA77B, 2, 1),
     (0xA77D, 0xA77D, 1, - 35332), (0xA77E, 0xA786, 2, 1), (0xA78B, 0xA78B, 1, 1),
     (0xA78D, 0xA78D, 1, - 42280), (0xA790, 0xA792, 2, 1), (0xA796, 0xA7A8, 2, 1),
     (0xA7AA, 0xA7AA, 1, - 42308), (0xA7AB, 0xA7AB, 1, - 42319), (0xA7AC, 0xA7AC, 1, - 42315),
     (0xA7AD, 0xA7AD, 1, - 42305), (0xA7AE, 0xA7AE, 1, - 42308), (0xA7B0, 0xA7B0, 1, - 42258),
     (0xA7B1, 0xA7B1, 1, - 42282), (0xA7B2, 0xA7B2, 1, - 42261), (0xA7B3, 0xA7B3, 1, 928),
     (0xA7B4, 0xA7C2, 2, 1), (0xA7C4, 0xA7C4, 1, - 48), (0xA7C5, 0xA7C5, 1, - 42307),
     (0xA7C6, 0xA7C6, 1, - 35384), (0xA7C7, 0xA7C9, 2, 1), (0xA7D0, 0xA7D0, 1, 1),
     (0xA7D6, 0xA7D8, 2, 1), (0xA7F5, 0xA7F5, 1, 1), (0xFF21, 0xFF3A, 1, 32),
     (0x10400, 0x10427, 1, 40), (0x104B0, 0x104D3, 1, 40), (0x10570, 0x1057A, 1, 39),
     (0x1057C, 0x1058A, 1, 39), (0x1058C, 0x10592, 1, 39), (0x10594, 0x10595, 1, 39),
     (0x10C80, 0x10CB2, 1, 64), (0x118A0, 0x118BF, 1, 32), (0x16E40, 0x16E5F, 1, 32),
     (0x1E900, 0x1E921, 1, 34)]"

definition lower_char :: "uchar \<Rightarrow> pystr" where
  "lower_char c =
     (if c < 0x80 then [if 0x41 \<le> c \<and> c \<le> 0x5A then c + 32 else c]
      else if 0x2E00 \<le> c \<and> c < 0xA640 then [c]
      else if c = 0x130 then [0x69, 0x307]
      else (case find (\<lambda>(a, b, s, d). a \<le> c \<and> c \<le> b \<and> (c - a) mod s = 0) lower_runs of
              None \<Rightarrow> [c]
            | Some (a, b, s, d) \<Rightarrow> [nat (int c + d)]))"

definition py_lower :: "pystr \<Rightarrow> pystr" where
  "py_lower s = concat (map lower_char s)"

text \<open>\<open>s.isdigit()\<close> on a whole string: non-empty and every character a digit.\<close>

definition str_isdigit :: "pystr \<Rightarrow> bool" where
  "str_isdigit s \<longleftrightarrow> s \<noteq> [] \<and> list_all py_isdigit s"

section \<open>String methods\<close>

definition py_lstrip :: "pystr \<Rightarrow> pystr" where
  "py_lstrip s = dropWhile py_isspace s"

definition py_rstrip :: "pystr \<Rightarrow> pystr" where
  "py_rstrip s = rev (dropWhile py_isspace (rev s))"

text \<open>\<open>s.strip()\<close>\<close>

definition py_strip :: "pystr \<Rightarrow> pystr" where
  "py_strip s = py_rstrip (py_lstrip s)"

text \<open>\<open>s.lstrip(chars)\<close>\<close>

definition lstrip_chars :: "pystr \<Rightarrow> pystr \<Rightarrow> pystr" where
  "lstrip_chars cs s = dropWhile (\<lambda>c. c \<in> set cs) s"

text \<open>\<open>s.startswith(p)\<close>\<close>

definition starts_with :: "pystr \<Rightarrow> pystr \<Rightarrow> bool" where
  "starts_with s p \<longleftrightarrow> take (length p) s = p"

text \<open>\<open>p in s\<close>: \<open>p\<close> occurs in \<open>s\<close> as a contiguous substring.\<close>

fun contains :: "pystr \<Rightarrow> pystr \<Rightarrow> bool" where
  "contains p [] \<longleftrightarrow> p = []"
| "contains p (c # s) \<longleftrightarrow> starts_with (c # s) p \<or> contains p s"

text \<open>\<open>s.split(p)[0]\<close> for a non-empty separator \<open>p\<close>: the part before the first
  occurrence of \<open>p\<close>, or all of \<open>s\<close> when there is none.\<close>

fun before :: "pystr \<Rightarrow> pystr \<Rightarrow> pystr" where
  "before p [] = []"
| "before p (c # s) = (if starts_with (c # s) p then [] else c # before p s)"

text \<open>\<open>s.split(c)\<close> for a one-character separator.\<close>

fun split_char :: "uchar \<Rightarrow> pystr \<Rightarrow> pystr list" where
  "split_char c [] = [[]]"
| "split_char c (x # s) =
     (if x = c then [] # split_char c s
      else (let r = split_char c s in (x # hd r) # tl r))"

text \<open>\<open>sep.join(xs)\<close>\<close>

fun py_join :: "pystr \<Rightarrow> pystr list \<Rightarrow> pystr" where
  "py_join sep [] = []"
| "py_join sep [x] = x"
| "py_join sep (x # y # xs) = x @ sep @ py_join sep (y # xs)"

text \<open>\<open>s.replace(old, new)\<close> for a non-empty \<open>old\<close>: occurrences are replaced from
  left to right and do not overlap.\<close>

fun py_replace :: "pystr \<Rightarrow> pystr \<Rightarrow> pystr \<Rightarrow> pystr" where
  "py_replace old new [] = []"
| "py_replace old new (c # s) =
     (if old \<noteq> [] \<and> starts_with (c # s) old
      then new @ py_replace old new (drop (length old - 1) s)
      else c # py_replace old new s)"

text \<open>\<^verbatim>\<open>str(n)\<close> for a natural number: its decimal digits, most significant first;
  and \<^verbatim>\<open>xs[i:j]\<close> for non-negative bounds (both clamp to the list).\<close>

fun py_str_nat :: "nat \<Rightarrow> pystr" where
  "py_str_nat n = (if n < 10 then [48 + n] else py_str_nat (n div 10) @ [48 + n mod 10])"

definition py_slice :: "'a list \<Rightarrow> nat \<Rightarrow> nat \<Rightarrow> 'a list" where
  "py_slice xs i j = take (j - i) (drop i xs)"

text \<open>\<open>xs[:n]\<close> for an integer \<open>n\<close>: a negative bound counts from the end.\<close>

definition py_prefix :: "int \<Rightarrow> 'a list \<Rightarrow> 'a list" where
  "py_prefix n xs = take (if 0 \<le> n then nat n else nat (int (length xs) + n)) xs"

text \<open>The value of a string of ASCII digits, as \<^verbatim>\<open>int()\<close> reads it.\<close>

definition dec_value :: "pystr \<Rightarrow> nat" where
  "dec_value s = foldl (\<lambda>a c. 10 * a + (c - 48)) 0 s"

text \<open>\<open>s.split()\<close> without arguments: the runs of non-whitespace characters.\<close>

fun split_pred :: "(uchar \<Rightarrow> bool) \<Rightarrow> pystr \<Rightarrow> pystr list" where
  "split_pred P [] = [[]]"
| "split_pred P (x # s) =
     (if P x then [] # split_pred P s
      else (let r = split_pred P s in (x # hd r) # tl r))"

definition py_split :: "pystr \<Rightarrow> pystr list" where
  "py_split s = filter (\<lambda>w. w \<noteq> []) (split_pred py_isspace s)"

section \<open>Evaluation and generic lemmas\<close>

declare asc_def [pystr_eval] in_runs_def [pystr_eval] space_runs_def [pystr_eval]
  py_isspace_def [pystr_eval] decimal_runs_def [pystr_eval] py_isdecimal_def [pystr_eval]
  digit_extra_runs_def [pystr_eval] py_isdigit_def [pystr_eval] str_isdigit_def [pystr_eval]
  py_lstrip_def [pystr_eval] py_rstrip_def [pystr_eval] py_strip_def [pystr_eval]
  lstrip_chars_def [pystr_eval] Let_def [pystr_eval] LOU_def [pystr_eval]

lemma starts_with_Nil [simp, pystr_simps]: "starts_with s []"
  by (simp add: starts_with_def)

lemma starts_with_Nil_Cons [simp, pystr_simps]: "\<not> starts_with [] (d # p)"
  by (simp add: starts_with_def)

lemma starts_with_Cons_Cons [simp, pystr_simps]:
  "starts_with (c # s) (d # p) \<longleftrightarrow> c = d \<and> starts_with s p"
  by (auto simp: starts_with_def)

lemma starts_with_iff: "starts_with s p \<longleftrightarrow> (\<exists>r. s = p @ r)"
  unfolding starts_with_def by (metis append_eq_conv_conj append_take_drop_id)

lemma contains_iff: "contains p s \<longleftrightarrow> (\<exists>a b. s = a @ p @ b)"
proof (induction s)
  case Nil
  then show ?case by simp
next
  case (Cons c s)
  show ?case
  proof
    assume "contains p (c # s)"
    then consider "starts_with (c # s) p" | "contains p s" by auto
    then show "\<exists>a b. c # s = a @ p @ b"
    proof cases
      case 1
      then obtain r where "c # s = p @ r" by (auto simp: starts_with_iff)
      then show ?thesis by (metis append_Nil)
    next
      case 2
      with Cons.IH obtain a b where "s = a @ p @ b" by blast
      then show ?thesis by (metis append_Cons)
    qed
  next
    assume "\<exists>a b. c # s = a @ p @ b"
    then obtain a b where ab: "c # s = a @ p @ b" by blast
    show "contains p (c # s)"
    proof (cases a)
      case Nil
      with ab have "starts_with (c # s) p" by (auto simp: starts_with_iff)
      then show ?thesis by simp
    next
      case (Cons a1 a')
      with ab Cons.IH show ?thesis by auto
    qed
  qed
qed

lemma contains_Nil [simp]: "contains [] s"
  by (cases s) auto

lemma before_prefix: "\<exists>r. s = before p s @ r"
  by (induction s) auto

lemma before_not_contains: "p \<noteq> [] \<Longrightarrow> \<not> contains p (before p s)"
proof (induction s)
  case Nil
  then show ?case by simp
next
  case (Cons c s)
  show ?case
  proof (cases "starts_with (c # s) p")
    case True
    with Cons.prems show ?thesis by simp
  next
    case False
    have "\<not> starts_with (c # before p s) p"
    proof
      assume "starts_with (c # before p s) p"
      moreover obtain r where "s = before p s @ r" using before_prefix by blast
      ultimately have "starts_with (c # s) p"
        by (metis append_Cons append.assoc starts_with_iff)
      with False show False by simp
    qed
    with False Cons show ?thesis by simp
  qed
qed

lemma before_no_occurrence: "\<not> contains p s \<Longrightarrow> before p s = s"
  by (induction s) auto


lemma py_lower_Nil [simp]: "py_lower [] = []"
  by (simp add: py_lower_def)

lemma py_lower_append [simp]: "py_lower (a @ b) = py_lower a @ py_lower b"
  by (simp add: py_lower_def)

lemma py_strip_no_space: "\<not> list_ex py_isspace s \<Longrightarrow> py_strip s = s"
proof -
  assume h: "\<not> list_ex py_isspace s"
  then have "dropWhile py_isspace s = s" by (cases s) auto
  moreover from h have "dropWhile py_isspace (rev s) = rev s"
    by (cases "rev s") (auto simp: list_ex_iff)
  ultimately show ?thesis by (simp add: py_strip_def py_lstrip_def py_rstrip_def)
qed

lemma contains_trans: "contains a b \<Longrightarrow> contains b c \<Longrightarrow> contains a c"
  by (auto simp: contains_iff) (metis append.assoc)

lemma contains_refl [simp, pystr_simps]: "contains s s"
  by (auto simp: contains_iff intro: exI [of _ "[]"])

lemma contains_take: "contains (take n s) s"
  unfolding contains_iff by (metis append_Nil append_take_drop_id)

lemma contains_Cons: "contains a s \<Longrightarrow> contains a (c # s)"
  by simp

lemma contains_drop: "contains a (drop n s) \<Longrightarrow> contains a s"
  by (auto simp: contains_iff) (metis append.assoc append_take_drop_id)

lemma contains_strip: "contains (py_strip s) s"
proof -
  have "\<exists>r. s = takeWhile py_isspace s @ py_lstrip s" by (simp add: py_lstrip_def)
  moreover have "\<exists>r. py_lstrip s = py_strip s @ r"
    by (simp add: py_strip_def py_rstrip_def) (metis append_take_drop_id rev_append rev_rev_ident takeWhile_dropWhile_id)
  ultimately show ?thesis unfolding contains_iff by (metis append.assoc)
qed

lemma find_SomeD: "find P xs = Some x \<Longrightarrow> x \<in> set xs \<and> P x"
  by (induction xs) (auto split: if_splits)

lemma find_append_opt:
  "find P (xs @ ys) = (case find P xs of None \<Rightarrow> find P ys | Some x \<Rightarrow> Some x)"
  by (induction xs) auto

lemma contains_lower: "contains p s \<Longrightarrow> contains (py_lower p) (py_lower s)"
  unfolding contains_iff by (metis py_lower_append)

lemma contains_append_left: "contains p s \<Longrightarrow> contains p (a @ s)"
  unfolding contains_iff by (metis append.assoc)

lemma contains_prefix: "contains p (p @ s)"
  unfolding contains_iff by (metis append_Nil)

lemma lower_char_ne: "lower_char c \<noteq> []"
  by (simp add: lower_char_def split: option.splits prod.splits)

lemma py_lower_eq_Nil_iff [simp]: "py_lower s = [] \<longleftrightarrow> s = []"
  by (simp add: py_lower_def lower_char_ne)

section \<open>Sorting and slicing\<close>

lemma sort_key_eq_Nil [simp]: "sort_key f xs = [] \<longleftrightarrow> xs = []"
  by (metis length_0_conv length_sort)

lemma distinct_map_sort_key: "distinct (map f (sort_key g xs)) = distinct (map f xs)"
  by (metis mset_eq_imp_distinct_iff mset_map mset_sort)

lemma sorted_take_sort_key: "sorted (map g (take n (sort_key g xs)))"
  by (metis sorted_sort_key sorted_wrt_take take_map)

lemma set_take_sort_key: "set (take n (sort_key g xs)) \<subseteq> set xs"
  by (metis set_sort set_take_subset)

lemma distinct_take_sort_key: "distinct (map f xs) \<Longrightarrow> distinct (map f (take n (sort_key g xs)))"
  by (metis distinct_map_sort_key distinct_take take_map)

lemma sorted_take_mem_less:
  assumes "sorted (map f ys)" "x \<in> set ys" "y \<in> set (take k ys)" "f x < f y"
  shows "x \<in> set (take k ys)"
proof -
  obtain j where j: "j < length (take k ys)" "take k ys ! j = y" using assms(3) by (auto simp: in_set_conv_nth)
  obtain i where i: "i < length ys" "ys ! i = x" using assms(2) by (auto simp: in_set_conv_nth)
  have "i < j"
  proof (rule ccontr)
    assume "\<not> i < j"
    then have "f (ys ! j) \<le> f (ys ! i)"
      using sorted_nth_mono [OF assms(1), of j i] i j by simp
    then show False using assms(4) i j by simp
  qed
  then have "i < length (take k ys)" using i j by simp
  then show ?thesis using i by (metis nth_take in_set_conv_nth length_take min_less_iff_conj)
qed


section \<open>Decimal numerals and slices\<close>

declare py_str_nat.simps [simp del]

lemma py_str_nat_ne [simp]: "py_str_nat n \<noteq> []"
  by (subst py_str_nat.simps) simp

lemma py_str_nat_digits: "c \<in> set (py_str_nat n) \<Longrightarrow> 48 \<le> c \<and> c \<le> 57"
proof (induction n rule: py_str_nat.induct)
  case (1 n)
  then show ?case by (subst (asm) py_str_nat.simps) (auto split: if_splits)
qed

lemma dec_value_py_str_nat [simp]: "dec_value (py_str_nat n) = n"
proof (induction n rule: py_str_nat.induct)
  case (1 n)
  then show ?case by (subst py_str_nat.simps) (simp add: dec_value_def)
qed

lemma py_str_nat_inj: "py_str_nat m = py_str_nat n \<longleftrightarrow> m = n"
  by (metis dec_value_py_str_nat)

lemma concat_py_slices:
  "0 < k \<Longrightarrow> concat (map (\<lambda>j. py_slice xs (k * j) (min (k * j + k) (length xs))) [0..<m]) = take (k * m) xs"
proof (induction m)
  case (Suc m)
  have "py_slice xs (k * m) (min (k * m + k) (length xs)) = take k (drop (k * m) xs)"
    by (simp add: py_slice_def min_def)
  moreover have "take (k * Suc m) xs = take (k * m) xs @ take k (drop (k * m) xs)"
    by (metis mult_Suc_right add.commute take_add)
  ultimately show ?case using Suc by simp
qed simp


section \<open>Separators, stripping and first occurrences\<close>

lemma py_strip_eq_Nil_iff: "py_strip s = [] \<longleftrightarrow> list_all py_isspace s"
proof -
  have "(\<forall>x\<in>set (dropWhile py_isspace s). py_isspace x) \<longleftrightarrow> (\<forall>x\<in>set s. py_isspace x)"
    by (induction s) auto
  then show ?thesis by (simp add: py_strip_def py_lstrip_def py_rstrip_def dropWhile_eq_Nil_conv list_all_iff)
qed

lemma py_lower_space_Cons [simp]: "py_lower (32 # s) = 32 # py_lower s"
  by (simp add: py_lower_def lower_char_def)

lemma starts_with_sep: "c \<notin> set k \<Longrightarrow> starts_with (u @ c # v) k \<longleftrightarrow> starts_with u k"
proof (cases "length k \<le> length u")
  case True
  then show ?thesis by (simp add: starts_with_def)
next
  case False
  assume c: "c \<notin> set k"
  have "take (length k) (u @ c # v) = u @ c # take (length k - length u - 1) v"
    using False by (simp add: take_Cons')
  then have "c \<in> set (take (length k) (u @ c # v))" by simp
  then have "take (length k) (u @ c # v) \<noteq> k" using c by metis
  moreover have "take (length k) u \<noteq> k" using False by (metis length_take min.absorb_iff2 nle_le)
  ultimately show ?thesis by (simp add: starts_with_def)
qed

text \<open>A needle without the separator occurs in a text joined at the separator exactly when
  it occurs in one of the two parts.\<close>

lemma contains_sep_append: "c \<notin> set k \<Longrightarrow> contains k (a @ c # b) \<longleftrightarrow> contains k a \<or> contains k b"
proof (induction a)
  case Nil
  then show ?case using starts_with_sep [of c k "[]" b] by (auto simp: starts_with_def)
next
  case (Cons x a)
  then show ?case using starts_with_sep [of c k "x # a" b] by auto
qed

lemma remdups_append_filter: "remdups (xs @ ys) = remdups (filter (\<lambda>x. x \<notin> set ys) xs) @ remdups ys"
  by (induction xs) auto

lemma remdups_append_mem: "l \<in> set ys \<Longrightarrow> remdups (xs @ l # ys) = remdups (xs @ ys)"
  by (subst (1 2) remdups_append_filter) (simp add: insert_absorb)


section \<open>Splitting on whitespace\<close>

lemma split_pred_ne [simp]: "split_pred P s \<noteq> []"
  by (induction s) (auto simp: Let_def)

lemma split_pred_words: "w \<in> set (split_pred P s) \<Longrightarrow> \<forall>c\<in>set w. \<not> P c"
proof (induction s arbitrary: w)
  case (Cons x s)
  then show ?case
    by (cases "split_pred P s") (fastforce simp: Let_def split: if_splits)+
qed simp

lemma split_pred_append:
  "\<forall>c\<in>set w. \<not> P c \<Longrightarrow> split_pred P (w @ s) = (w @ hd (split_pred P s)) # tl (split_pred P s)"
  by (induction w) (auto simp: Let_def)

lemma split_pred_join:
  "P c \<Longrightarrow> \<forall>w\<in>set ws. \<forall>x\<in>set w. \<not> P x \<Longrightarrow> ws \<noteq> [] \<Longrightarrow> split_pred P (py_join [c] ws) = ws"
proof (induction "[c]" ws rule: py_join.induct)
  case (2 x)
  then show ?case using split_pred_append [of x P "[]"] by simp
next
  case (3 x y xs)
  then show ?case using split_pred_append [of x P "c # py_join [c] (y # xs)"] by simp
qed simp

lemma py_split_join:
  "\<forall>w\<in>set ws. w \<noteq> [] \<and> \<not> list_ex py_isspace w \<Longrightarrow> py_split (py_join [32] ws) = ws"
proof (cases "ws = []")
  case False
  assume a: "\<forall>w\<in>set ws. w \<noteq> [] \<and> \<not> list_ex py_isspace w"
  have "py_isspace 32" by (simp add: py_isspace_def space_runs_def in_runs_def)
  then have "split_pred py_isspace (py_join [32] ws) = ws"
    using a False by (intro split_pred_join) (auto simp: list_ex_iff)
  then show ?thesis using a by (simp add: py_split_def filter_id_conv)
qed (simp add: py_split_def)

lemma py_split_words: "w \<in> set (py_split s) \<Longrightarrow> w \<noteq> [] \<and> \<not> list_ex py_isspace w"
  using split_pred_words [of w py_isspace s] by (auto simp: py_split_def list_ex_iff)

end
