(* ===== verification/OfficeExtractor.thy ===== *)
theory OfficeExtractor
  imports Prelude
begin

text \<open>
  The office-listing parser of \<^verbatim>\<open>src/processor.py\<close>
  (\<^verbatim>\<open>DataProcessor._extract_office_locations\<close>): a single forward pass over the lines
  of a cleaned directory page, with one variable of state, the current floor. The two
  regular expressions of the method are translated into matchers that return what
  Python's backtracking matcher returns on a line without a line break (every line the
  method looks at comes from \<^verbatim>\<open>split('\n')\<close>).
\<close>

section \<open>Records\<close>

record office =
  ofc_building :: pystr
  ofc_floor :: pystr
  ofc_room :: pystr
  ofc_name_zh :: pystr
  ofc_name_en :: pystr

section \<open>The floor-header pattern\<close>

text \<open>
  \<^verbatim>\<open>re.match(r'^(?:##\s*)?(\d+LOU|B\d+)', line)\<close>, group 1. The digit run is greedy
  and giving a digit back never helps (the next character would be a digit), so the
  first alternative matches exactly when the maximal digit run is followed by the floor
  glyph. When the line starts with \<open>##\<close> the optional prefix is taken; without it the
  line would start with \<open>#\<close> and neither alternative could match.
\<close>

definition floor_core :: "pystr \<Rightarrow> pystr option" where
  "floor_core s =
     (let ds = takeWhile py_isdecimal s; r = dropWhile py_isdecimal s in
      if ds \<noteq> [] \<and> r \<noteq> [] \<and> hd r = LOU then Some (ds @ [LOU])
      else (case s of
              c # t \<Rightarrow>
                if c = 66 \<and> takeWhile py_isdecimal t \<noteq> []
                then Some (66 # takeWhile py_isdecimal t) else None
            | [] \<Rightarrow> None))"

definition floor_match :: "pystr \<Rightarrow> pystr option" where
  "floor_match line =
     (if starts_with line (asc ''##'') then floor_core (dropWhile py_isspace (drop 2 line))
      else floor_core line)"

section \<open>The office-entry pattern\<close>

text \<open>
  \<^verbatim>\<open>re.match(r'^-\s*(\d+|B\d+)\s+(.+?)(?:\s*\((.+?)\))?$', line)\<close>.
  The room is the maximal digit run (or \<open>B\<close> and the maximal digit run after it); the
  separating whitespace is taken greedily. The lazy name grows one character at a time,
  and at each length the optional English part is tried first: it matches when the
  rest is whitespace, an opening parenthesis, at least one character and a closing
  parenthesis that ends the line. The name ends at the first length where that
  works, or takes the whole rest.
\<close>

definition room_token :: "pystr \<Rightarrow> (pystr \<times> pystr) option" where
  "room_token s =
     (if takeWhile py_isdecimal s \<noteq> [] then Some (takeWhile py_isdecimal s, dropWhile py_isdecimal s)
      else (case s of
              c # t \<Rightarrow>
                if c = 66 \<and> takeWhile py_isdecimal t \<noteq> []
                then Some (66 # takeWhile py_isdecimal t, dropWhile py_isdecimal t) else None
            | [] \<Rightarrow> None))"

definition en_group :: "pystr \<Rightarrow> pystr option" where
  "en_group t =
     (case dropWhile py_isspace t of
        c # u \<Rightarrow> if c = 40 \<and> 2 \<le> length u \<and> last u = 41 then Some (butlast u) else None
      | [] \<Rightarrow> None)"

fun split_name :: "pystr \<Rightarrow> pystr \<Rightarrow> pystr \<times> pystr option" where
  "split_name acc [] = (acc, None)"
| "split_name acc (c # t) =
     (case en_group t of
        Some e \<Rightarrow> (acc @ [c], Some e)
      | None \<Rightarrow> split_name (acc @ [c]) t)"

definition office_match :: "pystr \<Rightarrow> (pystr \<times> pystr \<times> pystr option) option" where
  "office_match line =
     (case line of
        c # r1 \<Rightarrow>
          if c \<noteq> 45 then None
          else (case room_token (dropWhile py_isspace r1) of
                  None \<Rightarrow> None
                | Some (room, r3) \<Rightarrow>
                    (let ws = takeWhile py_isspace r3; r4 = dropWhile py_isspace r3 in
                     if ws = [] then None
                     else if r4 = [] then (if 2 \<le> length ws then Some (room, [last ws], None) else None)
                     else (let (nm, en) = split_name [] r4 in Some (room, nm, en))))
      | [] \<Rightarrow> None)"

section \<open>The pass over the lines\<close>

text \<open>
  One step of the loop body: the state is the current floor. A floor header replaces
  it and emits nothing; an office entry under a known floor emits one record; any
  other line is skipped.
\<close>

definition extract_step :: "pystr \<Rightarrow> pystr \<Rightarrow> pystr \<Rightarrow> pystr \<times> office option" where
  "extract_step b cur l =
     (let line = py_strip l in
      case floor_match line of
        Some f \<Rightarrow> (f, None)
      | None \<Rightarrow>
          (case office_match line of
             Some (room, nm, en) \<Rightarrow>
               if cur \<noteq> []
               then (cur, Some \<lparr>ofc_building = b, ofc_floor = cur, ofc_room = room,
                                ofc_name_zh = py_strip nm,
                                ofc_name_en = (case en of Some e \<Rightarrow> py_strip e | None \<Rightarrow> [])\<rparr>)
               else (cur, None)
           | None \<Rightarrow> (cur, None)))"

fun extract_lines :: "pystr \<Rightarrow> pystr \<Rightarrow> pystr list \<Rightarrow> office list" where
  "extract_lines b cur [] = []"
| "extract_lines b cur (l # ls) =
     (case extract_step b cur l of
        (cur', None) \<Rightarrow> extract_lines b cur' ls
      | (cur', Some r) \<Rightarrow> r # extract_lines b cur' ls)"

definition extract_office_locations :: "pystr \<Rightarrow> pystr \<Rightarrow> office list" where
  "extract_office_locations content building_name =
     extract_lines building_name [] (split_char 10 content)"

text \<open>The state of the loop: the floor after one line and after a sequence of lines,
  and the floor headers of a sequence of lines.\<close>

definition step_floor :: "pystr \<Rightarrow> pystr \<Rightarrow> pystr" where
  "step_floor cur l = (case floor_match (py_strip l) of Some f \<Rightarrow> f | None \<Rightarrow> cur)"

definition floor_after :: "pystr \<Rightarrow> pystr list \<Rightarrow> pystr" where
  "floor_after cur ls = foldl step_floor cur ls"

definition headers :: "pystr list \<Rightarrow> pystr list" where
  "headers ls = List.map_filter (\<lambda>l. floor_match (py_strip l)) ls"

text \<open>Well-formed records: the shapes the two patterns can produce.\<close>

definition digits_token :: "pystr \<Rightarrow> bool" where
  "digits_token s \<longleftrightarrow> s \<noteq> [] \<and> list_all py_isdecimal s"

definition floor_token :: "pystr \<Rightarrow> bool" where
  "floor_token f \<longleftrightarrow>
     (case f of
        [] \<Rightarrow> False
      | c # ds \<Rightarrow> if c = 66 then digits_token ds else digits_token (butlast f) \<and> last f = LOU)"

definition room_ok :: "pystr \<Rightarrow> bool" where
  "room_ok r \<longleftrightarrow> digits_token r \<or> (case r of c # ds \<Rightarrow> c = 66 \<and> digits_token ds | [] \<Rightarrow> False)"

definition office_wf :: "pystr \<Rightarrow> office \<Rightarrow> bool" where
  "office_wf b r \<longleftrightarrow> ofc_building r = b \<and> floor_token (ofc_floor r) \<and> room_ok (ofc_room r)"

definition is_header_line :: "pystr \<Rightarrow> bool" where
  "is_header_line l \<longleftrightarrow> floor_match (py_strip l) \<noteq> None"

definition is_entry_line :: "pystr \<Rightarrow> bool" where
  "is_entry_line l \<longleftrightarrow> floor_match (py_strip l) = None \<and> office_match (py_strip l) \<noteq> None"


text \<open>Test inputs: the listing of the spec's scenario A, and a small basement listing
  (\<open>B2\<close>, then \<open>- 7 A\<close>).\<close>

definition scenario_a_text :: pystr where
  "scenario_a_text = asc ''## 1'' @ [LOU, 10] @ asc ''- 106 '' @ [0x8A3B, 0x518A, 0x7D44] @ asc '' (Registrar)''"

definition small_listing_text :: pystr where
  "small_listing_text = asc ''B2'' @ [10] @ asc ''- 7 A''"

section \<open>Lemmas on the extractor\<close>

lemma extract_step_fst: "fst (extract_step b cur l) = step_floor cur l"
  by (auto simp: extract_step_def step_floor_def Let_def split: option.splits)

lemma extract_step_Some:
  assumes "extract_step b cur l = (cur', Some r)"
  shows "cur' = cur \<and> cur \<noteq> [] \<and> floor_match (py_strip l) = None \<and>
    (\<exists>nm en. office_match (py_strip l) = Some (ofc_room r, nm, en)) \<and>
    ofc_building r = b \<and> ofc_floor r = cur"
  using assms by (auto simp: extract_step_def Let_def split: option.splits if_splits)

lemma extract_lines_Cons_eq:
  "extract_lines b cur (l # ls) =
     (case snd (extract_step b cur l) of None \<Rightarrow> [] | Some r \<Rightarrow> [r]) @ extract_lines b (step_floor cur l) ls"
  using extract_step_fst [of b cur l] by (cases "extract_step b cur l") (auto split: option.splits)

lemma extract_lines_append:
  "extract_lines b cur (xs @ ys) = extract_lines b cur xs @ extract_lines b (floor_after cur xs) ys"
  by (induction xs arbitrary: cur) (simp_all add: extract_lines_Cons_eq floor_after_def del: extract_lines.simps(2))

lemma floor_after_headers: "floor_after cur ls = last (cur # headers ls)"
  by (induction ls arbitrary: cur)
     (auto simp: floor_after_def headers_def step_floor_def List.map_filter_simps split: option.splits)

lemma extract_lines_origin:
  assumes "r \<in> set (extract_lines b cur ls)"
  shows "\<exists>xs l ys nm en. ls = xs @ l # ys \<and> floor_match (py_strip l) = None \<and>
    office_match (py_strip l) = Some (ofc_room r, nm, en) \<and>
    ofc_floor r = last (cur # headers xs) \<and> ofc_floor r \<noteq> [] \<and> ofc_building r = b"
  using assms
proof (induction ls arbitrary: cur)
  case Nil
  then show ?case by simp
next
  case (Cons l ls)
  show ?case
  proof (cases "r \<in> set (extract_lines b (step_floor cur l) ls)")
    case True
    from Cons.IH [OF True] obtain xs l' ys nm en where
      ls: "ls = xs @ l' # ys" and rest: "floor_match (py_strip l') = None"
        "office_match (py_strip l') = Some (ofc_room r, nm, en)"
        "ofc_floor r = last (step_floor cur l # headers xs)" "ofc_floor r \<noteq> []" "ofc_building r = b"
      by blast
    have "last (step_floor cur l # headers xs) = last (cur # headers (l # xs))"
      using floor_after_headers [of cur "l # xs"] floor_after_headers [of "step_floor cur l" xs]
      by (simp add: floor_after_def)
    with rest(3) have "ofc_floor r = last (cur # headers (l # xs))" by simp
    moreover from ls have "l # ls = (l # xs) @ l' # ys" by simp
    ultimately show ?thesis using rest by blast
  next
    case False
    with Cons.prems obtain cur' where st: "extract_step b cur l = (cur', Some r)"
      by (cases "snd (extract_step b cur l)") (auto simp: extract_lines_Cons_eq prod_eq_iff simp del: extract_lines.simps(2))
    from extract_step_Some [OF st] obtain nm en where
      "cur \<noteq> []" "floor_match (py_strip l) = None" "office_match (py_strip l) = Some (ofc_room r, nm, en)"
      "ofc_building r = b" "ofc_floor r = cur"
      by blast
    then have "l # ls = [] @ l # ls \<and> floor_match (py_strip l) = None \<and>
        office_match (py_strip l) = Some (ofc_room r, nm, en) \<and>
        ofc_floor r = last (cur # headers []) \<and> ofc_floor r \<noteq> [] \<and> ofc_building r = b"
      by (simp add: headers_def)
    then show ?thesis by (intro exI)
  qed
qed

lemma list_all_takeWhile: "list_all P (takeWhile P xs)"
  by (induction xs) auto

lemma not_decimal_B [simp]: "\<not> py_isdecimal 66"
  by (simp add: pystr_eval)

lemma takeWhile_decimal_not_B: "takeWhile py_isdecimal s = c # r \<Longrightarrow> c \<noteq> 66"
  by (metis list.set_intros(1) not_decimal_B set_takeWhileD)

lemma floor_core_token: "floor_core s = Some f \<Longrightarrow> floor_token f"
  using list_all_takeWhile [of py_isdecimal s] list_all_takeWhile [of py_isdecimal "tl s"]
  by (cases "takeWhile py_isdecimal s")
     (auto simp: floor_core_def floor_token_def digits_token_def list_all_takeWhile Let_def
        dest: takeWhile_decimal_not_B split: if_splits list.splits)

lemma floor_match_token: "floor_match line = Some f \<Longrightarrow> floor_token f"
  by (auto simp: floor_match_def split: if_splits intro: floor_core_token)

lemma room_token_ok: "room_token s = Some (room, r) \<Longrightarrow> room_ok room"
  using list_all_takeWhile [of py_isdecimal s] list_all_takeWhile [of py_isdecimal "tl s"]
  by (auto simp: room_token_def room_ok_def digits_token_def split: if_splits list.splits)

lemma office_match_room: "office_match line = Some (room, nm, en) \<Longrightarrow> room_ok room"
  by (auto simp: office_match_def Let_def split: list.splits if_splits option.splits prod.splits
      intro: room_token_ok)

lemma headers_token: "f \<in> set (headers ls) \<Longrightarrow> floor_token f"
  by (induction ls) (auto simp: headers_def List.map_filter_simps split: option.splits intro: floor_match_token)

lemma extract_lines_length: "length (extract_lines b cur ls) \<le> length ls"
  by (induction ls arbitrary: cur)
     (simp_all add: extract_lines_Cons_eq le_SucI del: extract_lines.simps(2) split: option.splits)

lemma floor_token_nonempty: "floor_token f \<Longrightarrow> f \<noteq> []"
  by (auto simp: floor_token_def split: list.splits)

lemma step_floor_nonempty: "cur \<noteq> [] \<Longrightarrow> step_floor cur l \<noteq> []"
  by (auto simp: step_floor_def split: option.splits dest: floor_match_token floor_token_nonempty)

lemma extract_step_snd: "cur \<noteq> [] \<Longrightarrow> (snd (extract_step b cur l) \<noteq> None) = is_entry_line l"
  by (auto simp: extract_step_def is_entry_line_def Let_def split: option.splits)

lemma extract_lines_count:
  "cur \<noteq> [] \<Longrightarrow> length (extract_lines b cur ls) = length (filter is_entry_line ls)"
proof (induction ls arbitrary: cur)
  case Nil
  then show ?case by simp
next
  case (Cons l ls)
  have "length (extract_lines b (step_floor cur l) ls) = length (filter is_entry_line ls)"
    using Cons.IH step_floor_nonempty [OF Cons.prems] by blast
  with extract_step_snd [OF Cons.prems, of b l] show ?case
    by (auto simp: extract_lines_Cons_eq simp del: extract_lines.simps(2) split: option.splits)
qed

lemma extract_lines_count_from_start:
  "length (extract_lines b [] ls) = length (filter is_entry_line (dropWhile (\<lambda>l. \<not> is_header_line l) ls))"
proof (induction ls)
  case Nil
  then show ?case by simp
next
  case (Cons l ls)
  show ?case
  proof (cases "is_header_line l")
    case True
    then obtain f where f: "floor_match (py_strip l) = Some f" by (auto simp: is_header_line_def)
    then have "f \<noteq> []" by (blast dest: floor_match_token floor_token_nonempty)
    moreover from f have "\<not> is_entry_line l" by (simp add: is_entry_line_def)
    ultimately show ?thesis using f extract_lines_count [of f b ls] True
      by (simp add: extract_step_def Let_def)
  next
    case False
    then have "floor_match (py_strip l) = None" by (simp add: is_header_line_def)
    with False Cons.IH show ?thesis
      by (simp add: extract_step_def Let_def split: option.splits)
  qed
qed

lemma split_char_ne [simp]: "split_char c s \<noteq> []"
  by (induction s) (auto simp: Let_def)

lemma split_char_append_sep: "split_char c (xs @ c # ys) = split_char c xs @ split_char c ys"
  by (induction xs) (auto simp: Let_def)


section \<open>Properties of the extractor\<close>

text \<open>The extractor is a single forward pass with
  the current floor as its only state: on two blocks of text joined by a line break it
  returns the records of the first block followed by the records of the second block,
  parsed from the floor in force at the end of the first.
\<close>

theorem extract_office_locations_append:
  "extract_office_locations (c1 @ 10 # c2) b =
     extract_office_locations c1 b @ extract_lines b (floor_after [] (split_char 10 c1)) (split_char 10 c2)"
  by (simp add: extract_office_locations_def split_char_append_sep extract_lines_append)

text \<open>Every record comes from one office-entry line of the
  input that is not a floor header; its room is that line's room, its building the one
  given, and its floor is the most recent floor header before that line, which exists:
  the floor persists from the most recent header, and entries before the first header
  produce nothing.
\<close>

theorem extract_record_origin:
  assumes "r \<in> set (extract_office_locations content b)"
  shows "\<exists>xs l ys nm en. split_char 10 content = xs @ l # ys \<and> floor_match (py_strip l) = None \<and>
    office_match (py_strip l) = Some (ofc_room r, nm, en) \<and>
    ofc_floor r = last ([] # headers xs) \<and> ofc_floor r \<noteq> [] \<and> ofc_building r = b"
  using assms extract_lines_origin [of r b "[]" "split_char 10 content"]
  by (simp add: extract_office_locations_def)

theorem extract_record_origin_witness:
  "\<lparr>ofc_building = asc ''X'', ofc_floor = asc ''B2'', ofc_room = asc ''7'', ofc_name_zh = asc ''A'',
     ofc_name_en = []\<rparr> \<in> set (extract_office_locations small_listing_text (asc ''X'')) \<and>
   (\<exists>xs l ys nm en. split_char 10 small_listing_text = xs @ l # ys \<and> floor_match (py_strip l) = None \<and>
     office_match (py_strip l) = Some (asc ''7'', nm, en) \<and>
     asc ''B2'' = last ([] # headers xs) \<and> asc ''B2'' \<noteq> [] \<and> asc ''X'' = asc ''X'')"
proof -
  have mem: "\<lparr>ofc_building = asc ''X'', ofc_floor = asc ''B2'', ofc_room = asc ''7'', ofc_name_zh = asc ''A'',
     ofc_name_en = []\<rparr> \<in> set (extract_office_locations small_listing_text (asc ''X''))"
    by (simp add: small_listing_text_def extract_office_locations_def extract_step_def floor_match_def
      floor_core_def office_match_def room_token_def en_group_def LOU_def pystr_eval)
  show ?thesis using mem extract_record_origin [OF mem] by simp
qed

text \<open>
  Claim C24: every record is well formed: it carries the building it was
  given, a floor of the header shape (digits and the floor glyph, or \<open>B\<close> and digits)
  and a room of the entry shape (digits, or \<open>B\<close> and digits).
\<close>

theorem extract_records_wf:
  "\<forall>r \<in> set (extract_office_locations content b). office_wf b r"
proof
  fix r
  assume "r \<in> set (extract_office_locations content b)"
  then have "r \<in> set (extract_lines b [] (split_char 10 content))"
    by (simp add: extract_office_locations_def)
  from extract_lines_origin [OF this] obtain xs l ys nm en where
    l: "office_match (py_strip l) = Some (ofc_room r, nm, en)" and
    fl: "ofc_floor r = last ([] # headers xs)" "ofc_floor r \<noteq> []" and
    bl: "ofc_building r = b"
    by blast
  from fl have "ofc_floor r \<in> set (headers xs)"
    by (metis last.simps last_in_set list.distinct(1))
  then have "floor_token (ofc_floor r)" by (rule headers_token)
  moreover have "room_ok (ofc_room r)" using l by (rule office_match_room)
  ultimately show "office_wf b r" using bl by (simp add: office_wf_def)
qed

theorem extract_records_wf_witness:
  "\<lparr>ofc_building = asc ''X'', ofc_floor = asc ''B2'', ofc_room = asc ''7'', ofc_name_zh = asc ''A'',
     ofc_name_en = []\<rparr> \<in> set (extract_office_locations small_listing_text (asc ''X'')) \<and>
   office_wf (asc ''X'') \<lparr>ofc_building = asc ''X'', ofc_floor = asc ''B2'', ofc_room = asc ''7'',
     ofc_name_zh = asc ''A'', ofc_name_en = []\<rparr>"
proof -
  have mem: "\<lparr>ofc_building = asc ''X'', ofc_floor = asc ''B2'', ofc_room = asc ''7'', ofc_name_zh = asc ''A'',
     ofc_name_en = []\<rparr> \<in> set (extract_office_locations small_listing_text (asc ''X''))"
    by (simp add: small_listing_text_def extract_office_locations_def extract_step_def floor_match_def
      floor_core_def office_match_def room_token_def en_group_def LOU_def pystr_eval)
  show ?thesis using mem extract_records_wf [of small_listing_text "asc ''X''"] by blast
qed

text \<open>The extractor emits exactly one record per office-entry
  line (a line matching the entry pattern and not the header pattern) that follows the
  first floor header, and nothing for any other line.
\<close>

theorem extract_record_count:
  "length (extract_office_locations content b) =
     length (filter is_entry_line (dropWhile (\<lambda>l. \<not> is_header_line l) (split_char 10 content)))"
  by (simp add: extract_office_locations_def extract_lines_count_from_start)

end
