(* ===== verification/UnitIdentifier.thy ===== *)
theory UnitIdentifier
  imports Prelude
begin

text \<open>
  The unit-name rules: the lenient detector of \<^verbatim>\<open>src/processor.py\<close>
  (\<^verbatim>\<open>DataProcessor._extract_unit_name_from_text\<close>, used when chunks are built), the
  join-key normalisation (\<^verbatim>\<open>DataProcessor._normalize_unit_id\<close>) and the strict
  extractor of \<^verbatim>\<open>src/rag_engine.py\<close> (\<^verbatim>\<open>EnhancedRAGEngine._extract_unit_names\<close>,
  used at retrieval time). Every pattern of both rule sets has the shape
  \<open>(C{lo,hi}SUFFIX)\<close>: a greedy run of \<open>lo\<close> to \<open>hi\<close> characters of a class, then a
  literal suffix; it is a record of the four parameters, and one matcher serves both
  \<^verbatim>\<open>re.search\<close> and \<^verbatim>\<open>re.findall\<close>.
\<close>

section \<open>Patterns of the form (C{lo,hi}SUFFIX)\<close>

record unit_pattern =
  up_lo :: nat
  up_hi :: nat
  up_class :: "uchar \<Rightarrow> bool"
  up_suffix :: pystr

text \<open>
  The match at the start of \<open>s\<close>: the greedy quantifier first takes as many class
  characters as it may (at most \<open>hi\<close>), then gives them back one at a time until the
  suffix follows; the result is the length of the run, or \<open>None\<close>.
\<close>

definition greedy_len :: "unit_pattern \<Rightarrow> pystr \<Rightarrow> nat option" where
  "greedy_len p s =
     (let m = min (up_hi p) (length (takeWhile (up_class p) s)) in
      find (\<lambda>k. starts_with (drop k s) (up_suffix p)) (rev [up_lo p..<Suc m]))"

text \<open>\<^verbatim>\<open>re.search(p, s).group(1)\<close>: the leftmost match.\<close>

fun re_search :: "unit_pattern \<Rightarrow> pystr \<Rightarrow> pystr option" where
  "re_search p [] = None"
| "re_search p (c # s) =
     (case greedy_len p (c # s) of
        Some k \<Rightarrow> Some (take (k + length (up_suffix p)) (c # s))
      | None \<Rightarrow> re_search p s)"

text \<open>\<^verbatim>\<open>re.findall(p, s)\<close>: the matches from left to right, each search resuming
  after the previous match (the suffixes are non-empty, so no match is empty).\<close>

fun re_findall :: "unit_pattern \<Rightarrow> pystr \<Rightarrow> pystr list" where
  "re_findall p [] = []"
| "re_findall p (c # s) =
     (case greedy_len p (c # s) of
        Some k \<Rightarrow> take (k + length (up_suffix p)) (c # s) #
                  re_findall p (drop (k + length (up_suffix p) - 1) s)
      | None \<Rightarrow> re_findall p s)"

section \<open>The lenient detector (chunk building)\<close>

text \<open>The suffixes U+7D44, U+8655, U+4E2D U+5FC3, U+90E8, U+5BA4, U+9928, U+7CFB,
  U+6240, U+9662, U+8AB2, in the order of the source; the class of \<open>.\<close> is every
  character but the line break.\<close>

definition lenient_suffixes :: "pystr list" where
  "lenient_suffixes = [[0x7D44], [0x8655], [0x4E2D, 0x5FC3], [0x90E8], [0x5BA4], [0x9928],
     [0x7CFB], [0x6240], [0x9662], [0x8AB2]]"

definition lenient_patterns :: "unit_pattern list" where
  "lenient_patterns =
     map (\<lambda>x. \<lparr>up_lo = 2, up_hi = 12, up_class = (\<lambda>c. c \<noteq> 10), up_suffix = x\<rparr>) lenient_suffixes"

text \<open>The loop over the patterns: the first match of a pattern is stripped and taken
  unless it is empty or starts with a digit; then the next pattern is tried.\<close>

fun first_unit :: "unit_pattern list \<Rightarrow> pystr \<Rightarrow> pystr option" where
  "first_unit [] t = None"
| "first_unit (p # ps) t =
     (case re_search p t of
        Some g \<Rightarrow> (let u = py_strip g in if u \<noteq> [] \<and> \<not> py_isdigit (hd u) then Some u else first_unit ps t)
      | None \<Rightarrow> first_unit ps t)"

definition extract_unit_name_from_text :: "pystr \<Rightarrow> pystr option" where
  "extract_unit_name_from_text t = (if t = [] then None else first_unit lenient_patterns t)"

section \<open>The join key\<close>

text \<open>The characters of the class \<^verbatim>\<open>[\s\(\)...\\]\<close> that the normalisation deletes:
  whitespace and the listed brackets, dashes, dots, colons, commas and slashes.\<close>

definition id_strip_chars :: "uchar list" where
  "id_strip_chars = [0x28, 0x29, 0xFF08, 0xFF09, 0x5B, 0x5D, 0x3010, 0x3011, 0x2D, 0x2013, 0x2014,
     0x5F, 0xB7, 0x2022, 0x3A, 0xFF1A, 0x2C, 0xFF0C, 0x3002, 0xFF0E, 0x2E, 0x2F, 0x5C]"

definition id_strip_char :: "uchar \<Rightarrow> bool" where
  "id_strip_char c \<longleftrightarrow> py_isspace c \<or> c \<in> set id_strip_chars"

definition normalize_unit_id :: "pystr \<Rightarrow> pystr" where
  "normalize_unit_id u = (if u = [] then [] else py_lower (filter (\<lambda>c. \<not> id_strip_char c) u))"

section \<open>The strict extractor (retrieval)\<close>

text \<open>The class \<^verbatim>\<open>[^\s,...]\<close>: not whitespace, not a comma (Latin or full width),
  not an ideographic full stop or enumeration comma.\<close>

definition name_class :: "uchar \<Rightarrow> bool" where
  "name_class c \<longleftrightarrow> \<not> py_isspace c \<and> c \<notin> set [0x2C, 0xFF0C, 0x3002, 0x3001]"

definition strict_patterns :: "unit_pattern list" where
  "strict_patterns =
     [\<lparr>up_lo = 2, up_hi = 6, up_class = name_class, up_suffix = [0x7D44]\<rparr>,
      \<lparr>up_lo = 2, up_hi = 6, up_class = name_class, up_suffix = [0x8655]\<rparr>,
      \<lparr>up_lo = 2, up_hi = 8, up_class = name_class, up_suffix = [0x4E2D, 0x5FC3]\<rparr>,
      \<lparr>up_lo = 2, up_hi = 6, up_class = name_class, up_suffix = [0x90E8]\<rparr>,
      \<lparr>up_lo = 2, up_hi = 6, up_class = name_class, up_suffix = [0x5BA4]\<rparr>,
      \<lparr>up_lo = 2, up_hi = 6, up_class = name_class, up_suffix = [0x9928]\<rparr>]"

definition exclude_terms :: "pystr list" where
  "exclude_terms = [[0x672C, 0x7D44], [0x8A72, 0x7D44], [0x5404, 0x7D44], [0x5206, 0x7D44],
     [0x5C0F, 0x7D44], [0x672C, 0x90E8], [0x8A72, 0x90E8], [0x672C, 0x8655], [0x8A72, 0x8655],
     [0x672C, 0x4E2D, 0x5FC3], [0x8FA6, 0x516C, 0x5BA4], [0x6703, 0x8B70, 0x5BA4]]"

definition verb_chars :: "uchar list" where
  "verb_chars = [0x7531, 0x70BA, 0x81F3, 0x5728, 0x5411, 0x5230]"

text \<open>The three filters of the loop body, on the stripped match.\<close>

definition unit_ok :: "pystr \<Rightarrow> bool" where
  "unit_ok c \<longleftrightarrow> \<not> (c \<noteq> [] \<and> py_isdigit (hd c)) \<and> c \<notin> set exclude_terms \<and>
     \<not> list_ex (\<lambda>v. v \<in> set c) verb_chars"

definition unit_candidates :: "pystr \<Rightarrow> pystr list" where
  "unit_candidates t = concat (map (\<lambda>p. map py_strip (re_findall p t)) strict_patterns)"

text \<open>The set the method builds, as a list without repetitions in the order the loop adds
  its elements (Python's \<^verbatim>\<open>list(units)\<close> has an unspecified order; the engine only
  uses the set).\<close>

definition extract_unit_names :: "pystr \<Rightarrow> pystr list" where
  "extract_unit_names t = remdups (filter unit_ok (unit_candidates t))"


text \<open>Test inputs: the unit name of the spec's scenarios (U+8A3B U+518A U+7D44), a phrase
  with a self-reference (U+8ACB U+6D3D U+672C U+7D44, "please contact this section") and a
  compound name (U+6559 U+52D9 U+8655 U+8A3B U+518A U+7D44).\<close>

definition registrar_zh :: pystr where
  "registrar_zh = [0x8A3B, 0x518A, 0x7D44]"

definition contact_this_section :: pystr where
  "contact_this_section = [0x8ACB, 0x6D3D, 0x672C, 0x7D44]"

definition academic_registrar :: pystr where
  "academic_registrar = [0x6559, 0x52D9, 0x8655, 0x8A3B, 0x518A, 0x7D44]"

section \<open>Lemmas on the patterns\<close>

lemma greedy_len_Some:
  assumes "greedy_len p s = Some k"
  shows "up_lo p \<le> k \<and> k \<le> up_hi p \<and> k \<le> length (takeWhile (up_class p) s) \<and>
    list_all (up_class p) (take k s) \<and> starts_with (drop k s) (up_suffix p)"
proof -
  let ?m = "min (up_hi p) (length (takeWhile (up_class p) s))"
  from assms have k: "k \<in> set (rev [up_lo p..<Suc ?m])" and suf: "starts_with (drop k s) (up_suffix p)"
    by (auto simp: greedy_len_def Let_def dest!: find_SomeD simp del: upt_Suc)
  then have bounds: "up_lo p \<le> k" "k \<le> up_hi p" "k \<le> length (takeWhile (up_class p) s)" by auto
  have "take k s = take k (takeWhile (up_class p) s)"
    using bounds(3) by (metis min.absorb1 take_take takeWhile_eq_take)
  moreover have "list_all (up_class p) (take k (takeWhile (up_class p) s))"
    by (metis list_all_iff set_takeWhileD in_set_takeD)
  ultimately show ?thesis using bounds suf by simp
qed

lemma greedy_len_shape:
  assumes "greedy_len p s = Some k"
  shows "\<exists>x. take (k + length (up_suffix p)) s = x @ up_suffix p \<and> length x = k \<and>
    up_lo p \<le> k \<and> k \<le> up_hi p \<and> list_all (up_class p) x"
proof -
  from greedy_len_Some [OF assms] have h: "up_lo p \<le> k" "k \<le> up_hi p"
    "k \<le> length (takeWhile (up_class p) s)" "list_all (up_class p) (take k s)"
    "starts_with (drop k s) (up_suffix p)" by auto
  from h(3) have kl: "k \<le> length s" by (meson length_takeWhile_le order_trans)
  from h(5) obtain r where "drop k s = up_suffix p @ r" by (auto simp: starts_with_iff)
  then have "take (k + length (up_suffix p)) s = take k s @ up_suffix p"
    by (simp add: take_add)
  with h kl show ?thesis by (intro exI [of _ "take k s"]) simp
qed

lemma re_findall_shape:
  "m \<in> set (re_findall p s) \<Longrightarrow>
    contains m s \<and> (\<exists>x. m = x @ up_suffix p \<and> up_lo p \<le> length x \<and> length x \<le> up_hi p \<and>
      list_all (up_class p) x)"
proof (induction p s rule: re_findall.induct)
  case (1 p)
  then show ?case by simp
next
  case (2 p c s)
  show ?case
  proof (cases "greedy_len p (c # s)")
    case None
    with 2 show ?thesis by (auto intro: contains_Cons)
  next
    case (Some k)
    show ?thesis
    proof (cases "m = take (k + length (up_suffix p)) (c # s)")
      case True
      then have "contains m (c # s)" by (simp only: contains_take)
      moreover from greedy_len_shape [OF Some] True have "\<exists>x. m = x @ up_suffix p \<and>
          up_lo p \<le> length x \<and> length x \<le> up_hi p \<and> list_all (up_class p) x"
        by auto
      ultimately show ?thesis by blast
    next
      case False
      with Some 2 have "contains m (drop (k + length (up_suffix p) - 1) s) \<and>
          (\<exists>x. m = x @ up_suffix p \<and> up_lo p \<le> length x \<and> length x \<le> up_hi p \<and> list_all (up_class p) x)"
        by auto
      then show ?thesis by (auto intro: contains_drop contains_Cons)
    qed
  qed
qed

lemma re_search_shape:
  "re_search p s = Some m \<Longrightarrow>
    contains m s \<and> (\<exists>x. m = x @ up_suffix p \<and> up_lo p \<le> length x \<and> length x \<le> up_hi p \<and>
      list_all (up_class p) x)"
proof (induction p s rule: re_search.induct)
  case (1 p)
  then show ?case by simp
next
  case (2 p c s)
  show ?case
  proof (cases "greedy_len p (c # s)")
    case None
    with 2 show ?thesis by (auto intro: contains_Cons)
  next
    case (Some k)
    with 2 have m: "m = take (k + length (up_suffix p)) (c # s)" by simp
    then have "contains m (c # s)" by (simp only: contains_take)
    moreover from greedy_len_shape [OF Some] m have "\<exists>x. m = x @ up_suffix p \<and>
        up_lo p \<le> length x \<and> length x \<le> up_hi p \<and> list_all (up_class p) x"
      by auto
    ultimately show ?thesis by blast
  qed
qed

lemma normalize_unit_id_append: "normalize_unit_id (a @ b) = normalize_unit_id a @ normalize_unit_id b"
  by (simp add: normalize_unit_id_def)

lemma normalize_unit_id_separators: "list_all id_strip_char w \<Longrightarrow> normalize_unit_id w = []"
  by (simp add: normalize_unit_id_def list_all_iff)

lemma strict_pattern_facts:
  "p \<in> set strict_patterns \<Longrightarrow> up_class p = name_class \<and> up_lo p = 2 \<and>
     up_hi p + length (up_suffix p) \<le> 10 \<and> up_suffix p \<noteq> [] \<and> \<not> list_ex py_isspace (up_suffix p)"
  by (auto simp: strict_patterns_def pystr_eval)

lemma name_class_no_space: "list_all name_class x \<Longrightarrow> \<not> list_ex py_isspace x"
  by (auto simp: name_class_def list_all_iff list_ex_iff)

lemma unit_candidate_shape:
  assumes "u \<in> set (unit_candidates t)"
  shows "contains u t \<and> \<not> list_ex py_isspace u \<and> 3 \<le> length u \<and> length u \<le> 10 \<and>
    (\<exists>p \<in> set strict_patterns. \<exists>x. u = x @ up_suffix p \<and> 2 \<le> length x \<and> length x \<le> up_hi p \<and>
       list_all name_class x)"
proof -
  from assms obtain p m where p: "p \<in> set strict_patterns" and m: "m \<in> set (re_findall p t)"
    and u: "u = py_strip m"
    by (auto simp: unit_candidates_def)
  from re_findall_shape [OF m] obtain x where c: "contains m t" and
    x: "m = x @ up_suffix p" "up_lo p \<le> length x" "length x \<le> up_hi p" "list_all (up_class p) x"
    by blast
  from strict_pattern_facts [OF p] x(4) have "\<not> list_ex py_isspace m"
    by (auto simp: x(1) dest: name_class_no_space)
  then have um: "u = m" by (simp add: u py_strip_no_space)
  from strict_pattern_facts [OF p] x have "3 \<le> length u" "length u \<le> 10"
    by (auto simp: um length_greater_0_conv [symmetric] simp del: length_greater_0_conv)
  with um c x strict_pattern_facts [OF p] \<open>\<not> list_ex py_isspace m\<close> p show ?thesis by auto
qed

lemma unit_candidate_excluded:
  assumes "u \<in> set (unit_candidates t)" and "u \<in> set exclude_terms"
  shows "u \<in> set [[0x8FA6, 0x516C, 0x5BA4], [0x6703, 0x8B70, 0x5BA4]]"
proof -
  from unit_candidate_shape [OF assms(1)] obtain p x where
    len: "3 \<le> length u" and p: "p \<in> set strict_patterns" and
    x: "u = x @ up_suffix p" "2 \<le> length x"
    by blast
  from assms(2) len have "u \<in> set [[0x672C, 0x4E2D, 0x5FC3], [0x8FA6, 0x516C, 0x5BA4], [0x6703, 0x8B70, 0x5BA4]]"
    by (auto simp: exclude_terms_def)
  moreover have "u \<noteq> [0x672C, 0x4E2D, 0x5FC3]"
  proof
    assume u: "u = [0x672C, 0x4E2D, 0x5FC3]"
    from x(1) have "length u = length x + length (up_suffix p)" by simp
    with u x(2) have "length (up_suffix p) \<le> 1" by simp
    moreover from u x have "last u = last (up_suffix p) \<or> up_suffix p = []"
      by (metis last_appendR)
    ultimately show False using p u by (auto simp: strict_patterns_def)
  qed
  ultimately show ?thesis by auto
qed

lemma first_unit_Some:
  "first_unit ps t = Some u \<Longrightarrow>
     \<exists>p \<in> set ps. \<exists>m. re_search p t = Some m \<and> u = py_strip m \<and> u \<noteq> [] \<and> \<not> py_isdigit (hd u)"
  by (induction ps t rule: first_unit.induct) (auto simp: Let_def split: option.splits if_splits)

lemma py_strip_suffix:
  assumes "sfx \<noteq> []" "\<not> list_ex py_isspace sfx"
  shows "py_strip (x @ sfx) = dropWhile py_isspace x @ sfx"
proof -
  have hd: "\<not> py_isspace (hd sfx)" "\<not> py_isspace (last sfx)"
    using assms by (auto simp: list_ex_iff)
  have l: "py_lstrip (x @ sfx) = dropWhile py_isspace x @ sfx"
    using assms hd by (cases sfx) (auto simp: py_lstrip_def dropWhile_append)
  have "dropWhile py_isspace (rev (dropWhile py_isspace x @ sfx)) = rev (dropWhile py_isspace x @ sfx)"
    using assms hd by (cases "rev sfx") (auto simp: last_rev [symmetric])
  with l show ?thesis by (simp add: py_strip_def py_rstrip_def)
qed

lemma lenient_pattern_facts:
  "p \<in> set lenient_patterns \<Longrightarrow> up_suffix p \<in> set lenient_suffixes \<and> up_hi p = 12 \<and>
     up_suffix p \<noteq> [] \<and> \<not> list_ex py_isspace (up_suffix p)"
  by (auto simp: lenient_patterns_def lenient_suffixes_def pystr_eval)

text \<open>A detected name ends with one of the ten suffixes, none of which the
  normalisation deletes: its unit id is never empty.\<close>

lemma extract_unit_name_shape:
  assumes "extract_unit_name_from_text t = Some u"
  shows "\<exists>sfx \<in> set lenient_suffixes. \<exists>x. u = x @ sfx"
proof -
  from assms have "first_unit lenient_patterns t = Some u"
    by (simp add: extract_unit_name_from_text_def split: if_splits)
  from first_unit_Some [OF this] obtain p m where p: "p \<in> set lenient_patterns" and
    m: "re_search p t = Some m" and u: "u = py_strip m" by blast
  from re_search_shape [OF m] obtain x where x: "m = x @ up_suffix p" by blast
  note pf = lenient_pattern_facts [OF p]
  have "u = dropWhile py_isspace x @ up_suffix p" using u x pf py_strip_suffix by simp
  then show ?thesis using pf by blast
qed

lemma lenient_suffix_kept: "sfx \<in> set lenient_suffixes \<Longrightarrow> filter (\<lambda>c. \<not> id_strip_char c) sfx \<noteq> []"
  by (auto simp: lenient_suffixes_def id_strip_char_def id_strip_chars_def py_isspace_def space_runs_def in_runs_def)

lemma detected_unit_id_nonempty:
  assumes "extract_unit_name_from_text t = Some u"
  shows "normalize_unit_id u \<noteq> []"
proof -
  obtain sfx x where s: "sfx \<in> set lenient_suffixes" and u: "u = x @ sfx"
    using extract_unit_name_shape [OF assms] by blast
  have "filter (\<lambda>c. \<not> id_strip_char c) sfx \<noteq> []" by (rule lenient_suffix_kept [OF s])
  then show ?thesis using u by (auto simp: normalize_unit_id_def)
qed


section \<open>Properties of the unit rules\<close>

text \<open>The join key ignores separators: deleting any
  run of whitespace, brackets, dashes, dots, colons, commas or slashes from a unit name
  does not change its key; in particular the spec's two spellings of the registrar's
  office, with and without a space before the last character, have the same key.
\<close>

theorem normalize_ignores_separators:
  "list_all id_strip_char w \<Longrightarrow> normalize_unit_id (a @ w @ b) = normalize_unit_id (a @ b)"
  by (simp add: normalize_unit_id_append normalize_unit_id_separators)

theorem normalize_ignores_separators_witness:
  "list_all id_strip_char [32] \<and>
   normalize_unit_id ([0x8A3B, 0x518A] @ [32] @ [0x7D44]) = normalize_unit_id ([0x8A3B, 0x518A] @ [0x7D44])"
proof -
  have h: "list_all id_strip_char [32]" by (simp add: id_strip_char_def pystr_eval)
  show ?thesis using h normalize_ignores_separators [OF h, of "[0x8A3B, 0x518A]" "[0x7D44]"] by simp
qed

text \<open>Every unit name the retrieval-time extractor returns
  occurs in the text, passes the three filters (no leading digit, no stop word, no verb
  character), has no whitespace, is between 3 and 10 characters long and is a run of
  2 to 6 (8 before the two-character suffix) name characters followed by one of the six
  suffixes.
\<close>

theorem extract_unit_names_sound:
  assumes "u \<in> set (extract_unit_names t)"
  shows "contains u t \<and> unit_ok u \<and> \<not> list_ex py_isspace u \<and> 3 \<le> length u \<and> length u \<le> 10 \<and>
    (\<exists>p \<in> set strict_patterns. \<exists>x. u = x @ up_suffix p \<and> 2 \<le> length x \<and> length x \<le> up_hi p \<and>
       list_all name_class x)"
proof -
  from assms have "u \<in> set (unit_candidates t)" "unit_ok u"
    by (auto simp: extract_unit_names_def)
  with unit_candidate_shape show ?thesis by blast
qed

theorem extract_unit_names_sound_witness:
  "academic_registrar \<in> set (extract_unit_names academic_registrar) \<and>
   contains academic_registrar academic_registrar \<and> unit_ok academic_registrar \<and>
   \<not> list_ex py_isspace academic_registrar \<and> 3 \<le> length academic_registrar \<and> length academic_registrar \<le> 10"
proof -
  have c: "unit_candidates academic_registrar = [academic_registrar, [0x6559, 0x52D9, 0x8655]]"
    by (simp add: academic_registrar_def unit_candidates_def strict_patterns_def greedy_len_def
        name_class_def pystr_eval upt_rec)
  have "unit_ok academic_registrar"
    by (simp add: academic_registrar_def unit_ok_def exclude_terms_def verb_chars_def pystr_eval)
  then have m: "academic_registrar \<in> set (extract_unit_names academic_registrar)"
    using c by (simp add: extract_unit_names_def)
  show ?thesis using m extract_unit_names_sound [OF m] by blast
qed

text \<open>
  Of the twelve stop words only the two three-character
  room words (U+8FA6 U+516C U+5BA4 and U+6703 U+8B70 U+5BA4) can ever be removed: every
  candidate has at least two name characters before its suffix, so the two-character
  self-references and U+672C U+4E2D U+5FC3 never match the patterns and the stop-word
  filter behaves exactly as a filter on those two words.
\<close>

theorem stop_words_effective:
  "filter (\<lambda>c. c \<notin> set exclude_terms) (unit_candidates t) =
   filter (\<lambda>c. c \<notin> set [[0x8FA6, 0x516C, 0x5BA4], [0x6703, 0x8B70, 0x5BA4]]) (unit_candidates t)"
proof (rule filter_cong [OF refl])
  fix c
  assume "c \<in> set (unit_candidates t)"
  then show "(c \<notin> set exclude_terms) = (c \<notin> set [[0x8FA6, 0x516C, 0x5BA4], [0x6703, 0x8B70, 0x5BA4]])"
    using unit_candidate_excluded [of c t] by (auto simp: exclude_terms_def)
qed

text \<open>
  The self-reference U+672C U+7D44 ("this section") is not
  filtered when it follows other characters: on U+8ACB U+6D3D U+672C U+7D44 ("please contact
  this section") the extractor returns the whole phrase as a unit name.
\<close>

theorem self_reference_kept:
  "extract_unit_names contact_this_section = [contact_this_section]"
proof -
  have c: "unit_candidates contact_this_section = [contact_this_section]"
    by (simp add: contact_this_section_def unit_candidates_def strict_patterns_def greedy_len_def
        name_class_def pystr_eval upt_rec)
  have "unit_ok contact_this_section"
    by (simp add: contact_this_section_def unit_ok_def exclude_terms_def verb_chars_def pystr_eval)
  with c show ?thesis by (simp add: extract_unit_names_def)
qed

text \<open>A unit name found by the chunk-time detector occurs in
  the text, is non-empty, does not start with a digit, and is at most twelve characters
  followed by one of the ten suffixes.
\<close>

theorem detect_unit_name_sound:
  assumes "extract_unit_name_from_text t = Some u"
  shows "contains u t \<and> u \<noteq> [] \<and> \<not> py_isdigit (hd u) \<and>
    (\<exists>sfx \<in> set lenient_suffixes. \<exists>x. u = x @ sfx \<and> length x \<le> 12)"
proof -
  from assms have "first_unit lenient_patterns t = Some u"
    by (simp add: extract_unit_name_from_text_def split: if_splits)
  from first_unit_Some [OF this] obtain p m where p: "p \<in> set lenient_patterns" and
    m: "re_search p t = Some m" and u: "u = py_strip m" "u \<noteq> []" "\<not> py_isdigit (hd u)"
    by blast
  from re_search_shape [OF m] obtain x where c: "contains m t" and
    x: "m = x @ up_suffix p" "length x \<le> up_hi p"
    by blast
  note pf = lenient_pattern_facts [OF p]
  have us: "u = dropWhile py_isspace x @ up_suffix p"
    using u(1) x(1) pf py_strip_suffix by simp
  have "contains u t" using u(1) c contains_strip contains_trans by blast
  moreover have "length (dropWhile py_isspace x) \<le> 12"
    using x(2) pf by (metis length_dropWhile_le order_trans)
  ultimately show ?thesis using us u pf by blast
qed

theorem detect_unit_name_sound_witness:
  "extract_unit_name_from_text registrar_zh = Some registrar_zh \<and>
   contains registrar_zh registrar_zh \<and> registrar_zh \<noteq> [] \<and> \<not> py_isdigit (hd registrar_zh) \<and>
   (\<exists>sfx \<in> set lenient_suffixes. \<exists>x. registrar_zh = x @ sfx \<and> length x \<le> 12)"
proof -
  have e: "extract_unit_name_from_text registrar_zh = Some registrar_zh"
    by (simp add: registrar_zh_def extract_unit_name_from_text_def lenient_patterns_def
        lenient_suffixes_def greedy_len_def pystr_eval upt_rec)
  show ?thesis using e detect_unit_name_sound [OF e] by blast
qed

text \<open>
  When the leftmost match of a suffix pattern starts
  with a digit the detector abandons that suffix instead of trying a later match: on
  \<open>106 \<close> followed by the registrar's name it finds no unit, although the name itself
  is a valid candidate.
\<close>

theorem detect_unit_name_digit_led:
  "extract_unit_name_from_text (asc ''106 '' @ registrar_zh) = None"
  by (simp add: registrar_zh_def extract_unit_name_from_text_def lenient_patterns_def
      lenient_suffixes_def greedy_len_def pystr_eval upt_rec)

end
