(* ===== verification/TextCleaner.thy ===== *)
theory TextCleaner
  imports Prelude
begin

text \<open>
  The text cleaner of \<^verbatim>\<open>src/processor.py\<close>
  (\<^verbatim>\<open>DataProcessor.clean_text_advanced\<close>): it cuts off a previously appended
  supplementary-location block, applies the \<open>admin\<close> department's fixes, drops empty
  and navigation lines, removes heading markers, rewrites room listings spread over three
  lines into one entry line and marks short floor lines as headers. The method can raise
  \<^verbatim>\<open>IndexError\<close>, so the model returns \<open>py_error + pystr\<close>.
\<close>

section \<open>Constants of the source\<close>

text \<open>The supplementary-location marker U+3010 U+7CFB U+7D71 U+88DC U+5145 U+4F4D U+7F6E
  U+8CC7 U+8A0A U+3011.\<close>

definition supp_marker :: pystr where
  "supp_marker = [0x3010, 0x7CFB, 0x7D71, 0x88DC, 0x5145, 0x4F4D, 0x7F6E, 0x8CC7, 0x8A0A, 0x3011]"

definition admin_dept :: pystr where
  "admin_dept = asc ''admin''"

text \<open>The repeated footer of the admin pages: an English line, a line break and
  U+5217 U+5370 U+6210 U+7E3E U+55AE.\<close>

definition admin_footer :: pystr where
  "admin_footer = asc ''Overseas Chinese and Mainland Chinese Students Advising Division'' @ [10] @
     [0x5217, 0x5370, 0x6210, 0x7E3E, 0x55AE]"

text \<open>The navigation phrases; the Chinese parts are U+5730 U+5716, U+6821 U+5712 U+666F
  U+89C0, U+66F4 U+591A U+8CC7 U+8A0A, U+5B78 U+6821 U+5730 U+5716 U+4E0A U+7684 U+5EFA U+7269
  U+7DE8 U+865F and U+55AE U+4F4D U+6E05 U+55AE.\<close>

definition noise_patterns :: "pystr list" where
  "noise_patterns =
     [asc ''Administration Building - List of Offices'',
      asc ''Main Content'',
      [0x5730, 0x5716] @ asc '' MAP'',
      [0x6821, 0x5712, 0x666F, 0x89C0] @ asc '' Campus View'',
      [0x66F4, 0x591A, 0x8CC7, 0x8A0A],
      [0x5B78, 0x6821, 0x5730, 0x5716, 0x4E0A, 0x7684, 0x5EFA, 0x7269, 0x7DE8, 0x865F],
      asc ''Building ID /'',
      [0x55AE, 0x4F4D, 0x6E05, 0x55AE] @ asc '' / Offices list'']"

section \<open>The passes\<close>

text \<open>Step 0, also the final safety cleanup: cut at the first marker and strip.\<close>

definition strip_marker :: "pystr \<Rightarrow> pystr" where
  "strip_marker t = (if contains supp_marker t then py_strip (before supp_marker t) else t)"

text \<open>Step 1: the \<open>admin\<close> department's literal fixes.\<close>

definition dept_fix :: "pystr \<Rightarrow> pystr \<Rightarrow> pystr" where
  "dept_fix dept t =
     (if dept = admin_dept
      then before admin_footer (py_replace (asc ''Admi nistration'') (asc ''Administration'') t)
      else t)"

text \<open>Step 2, one line: \<open>None\<close> when the line is skipped. A line that consists of
  heading markers only becomes empty and is still kept.\<close>

definition clean_line :: "pystr \<Rightarrow> pystr option" where
  "clean_line l =
     (let l' = py_strip l in
      if l' = [] then None
      else if list_ex (\<lambda>p. contains p l') noise_patterns then None
      else if starts_with l' (asc ''##'') then Some (py_strip (lstrip_chars (asc ''#'') l'))
      else Some l')"

definition clean_lines :: "pystr \<Rightarrow> pystr list" where
  "clean_lines t = List.map_filter clean_line (split_char 10 t)"

text \<open>Step 3: the room test, the floor-header formatting and the entry line.\<close>

definition is_room :: "pystr \<Rightarrow> bool" where
  "is_room l \<longleftrightarrow> (str_isdigit l \<and> length l \<le> 4) \<or> (starts_with l (asc ''B'') \<and> str_isdigit (tl l))"

definition format_line :: "pystr \<Rightarrow> pystr" where
  "format_line l =
     (if contains [LOU] l \<and> length l < 10
      then (if starts_with l (asc ''##'') then l else asc ''## '' @ l)
      else l)"

definition room_entry :: "pystr \<Rightarrow> pystr \<Rightarrow> pystr \<Rightarrow> pystr" where
  "room_entry r n1 n2 = asc ''- '' @ r @ asc '' '' @ n1 @ asc '' ('' @ n2 @ asc '')''"

definition cons_r :: "'a \<Rightarrow> py_error + 'a list \<Rightarrow> py_error + 'a list" where
  "cons_r x r = (case r of Inl e \<Rightarrow> Inl e | Inr xs \<Rightarrow> Inr (x # xs))"

text \<open>The \<open>while i < len(clean_lines)\<close> loop as recursion on the remaining lines: a room
  line with two lines after it is merged with them when the first of them does not start
  with a digit and has no \<open>#\<close> and no floor glyph; reading the first character of an
  empty line raises \<^verbatim>\<open>IndexError\<close>.\<close>

fun reformat :: "pystr list \<Rightarrow> py_error + pystr list" where
  "reformat [] = Inr []"
| "reformat (l # n1 # n2 # rest) =
     (if is_room l
      then (case n1 of
              [] \<Rightarrow> Inl IndexError
            | c # _ \<Rightarrow>
                if \<not> (py_isdigit c \<or> contains (asc ''#'') n1 \<or> contains [LOU] n1)
                then cons_r (room_entry l n1 n2) (reformat rest)
                else cons_r (format_line l) (reformat (n1 # n2 # rest)))
      else cons_r (format_line l) (reformat (n1 # n2 # rest)))"
| "reformat (l # rest) = cons_r (format_line l) (reformat rest)"

definition clean_text_advanced :: "pystr \<Rightarrow> pystr \<Rightarrow> py_error + pystr" where
  "clean_text_advanced text dept =
     (if text = [] then Inr []
      else (case reformat (clean_lines (dept_fix dept (strip_marker text))) of
              Inl e \<Rightarrow> Inl e
            | Inr final \<Rightarrow> Inr (strip_marker (py_join [10] final))))"


text \<open>Test inputs: a room number followed by a line of heading markers; a chain of two
  room numbers before three name lines, and the text the cleaner makes of it.\<close>

definition marker_line_text :: pystr where
  "marker_line_text = asc ''106'' @ [10] @ asc ''##'' @ [10] @ asc ''x''"

definition room_chain_text :: pystr where
  "room_chain_text = asc ''106'' @ [10] @ asc ''107'' @ [10] @ asc ''A'' @ [10] @ asc ''B'' @ [10] @ asc ''C''"

definition room_chain_once :: pystr where
  "room_chain_once = asc ''106'' @ [10] @ asc ''- 107 A (B)'' @ [10] @ asc ''C''"

section \<open>Lemmas on the cleaner\<close>

lemma not_contains_strip: "\<not> contains p s \<Longrightarrow> \<not> contains p (py_strip s)"
  using contains_strip contains_trans by blast

lemma strip_marker_free: "\<not> contains supp_marker (strip_marker t)"
proof (cases "contains supp_marker t")
  case True
  have "supp_marker \<noteq> []" by (simp add: supp_marker_def)
  then have "\<not> contains supp_marker (before supp_marker t)" by (rule before_not_contains)
  with True show ?thesis by (simp add: strip_marker_def not_contains_strip)
next
  case False
  then show ?thesis by (simp add: strip_marker_def)
qed

lemma cons_r_Inl [simp]: "cons_r x r = Inl e \<longleftrightarrow> r = Inl e"
  by (simp add: cons_r_def split: sum.splits)

lemma cons_r_Inr [simp]: "cons_r x r = Inr ys \<longleftrightarrow> (\<exists>xs. r = Inr xs \<and> ys = x # xs)"
  by (auto simp: cons_r_def split: sum.splits)

lemma cons_r_ok: "\<exists>xs. r = Inr xs \<Longrightarrow> \<exists>ys. cons_r x r = Inr ys"
  by auto

lemma reformat_ok: "[] \<notin> set ls \<Longrightarrow> \<exists>out. reformat ls = Inr out"
proof (induction ls rule: reformat.induct)
  case (2 l n1 n2 rest)
  then obtain c cs where n1: "n1 = c # cs" by (cases n1) auto
  show ?case
    using 2 by (simp add: n1 del: cons_r_Inr) (blast intro: cons_r_ok)
qed (auto simp del: cons_r_Inr intro: cons_r_ok)

lemma reformat_error: "reformat ls = Inl e \<Longrightarrow> e = IndexError"
  by (induction ls rule: reformat.induct) (auto split: if_splits list.splits)

lemma clean_line_empty:
  "clean_line l = Some [] \<Longrightarrow>
     starts_with (py_strip l) (asc ''##'') \<and> py_strip (lstrip_chars (asc ''#'') (py_strip l)) = []"
  by (auto simp: clean_line_def Let_def split: if_splits)

lemma clean_lines_empty:
  "[] \<in> set (clean_lines t) \<Longrightarrow> \<exists>l \<in> set (split_char 10 t). clean_line l = Some []"
  by (auto simp: clean_lines_def List.map_filter_def)


lemma admin_dept_nonempty: "([] :: pystr) \<noteq> admin_dept"
  by (simp add: admin_dept_def asc_def)

lemma marker_line_text_eval:
  "marker_line_text \<noteq> [] \<and> clean_lines (dept_fix dept (strip_marker marker_line_text)) = [asc ''106'', [], asc ''x''] \<and>
   reformat [asc ''106'', [], asc ''x''] = Inl IndexError"
proof -
  have m: "strip_marker marker_line_text = marker_line_text"
    by (simp add: strip_marker_def marker_line_text_def supp_marker_def pystr_eval)
  have d: "dept_fix dept marker_line_text = marker_line_text"
    by (simp add: dept_fix_def marker_line_text_def admin_footer_def pystr_eval)
  have l: "clean_lines marker_line_text = [asc ''106'', [], asc ''x'']"
    by (simp add: clean_lines_def clean_line_def marker_line_text_def noise_patterns_def pystr_eval)
  have r: "reformat [asc ''106'', [], asc ''x''] = Inl IndexError"
    by (simp add: is_room_def pystr_eval)
  show ?thesis using m d l r by (simp add: marker_line_text_def)
qed

lemma clean_room_chain_first: "clean_text_advanced room_chain_text [] = Inr room_chain_once"
proof -
  have m1: "strip_marker room_chain_text = room_chain_text"
    by (simp add: strip_marker_def room_chain_text_def supp_marker_def pystr_eval)
  have l1: "clean_lines room_chain_text = [asc ''106'', asc ''107'', asc ''A'', asc ''B'', asc ''C'']"
    by (simp add: clean_lines_def clean_line_def room_chain_text_def noise_patterns_def pystr_eval)
  have r1: "reformat [asc ''106'', asc ''107'', asc ''A'', asc ''B'', asc ''C''] =
      Inr [asc ''106'', asc ''- 107 A (B)'', asc ''C'']"
    by (simp add: is_room_def format_line_def room_entry_def pystr_eval)
  have j1: "strip_marker (py_join [10] [asc ''106'', asc ''- 107 A (B)'', asc ''C'']) = room_chain_once"
    by (simp add: strip_marker_def room_chain_once_def supp_marker_def pystr_eval)
  have ne: "room_chain_text \<noteq> []" by (simp add: room_chain_text_def)
  show ?thesis using admin_dept_nonempty
    by (simp add: clean_text_advanced_def dept_fix_def m1 l1 r1 j1 ne del: reformat.simps py_join.simps)
qed

section \<open>Properties of the cleaner\<close>

text \<open>The cleaner fails only with \<^verbatim>\<open>IndexError\<close>,
  and only when some line of the (marker-cut, department-fixed) text consists of heading
  markers alone, which the heading removal turns into an empty line whose first character
  the room test then reads.
\<close>

theorem clean_error_only_marker_lines:
  assumes "clean_text_advanced t d = Inl e"
  shows "e = IndexError \<and>
    (\<exists>l \<in> set (split_char 10 (dept_fix d (strip_marker t))).
       starts_with (py_strip l) (asc ''##'') \<and> py_strip (lstrip_chars (asc ''#'') (py_strip l)) = [])"
proof -
  from assms have r: "reformat (clean_lines (dept_fix d (strip_marker t))) = Inl e"
    by (auto simp: clean_text_advanced_def split: if_splits sum.splits)
  then have "[] \<in> set (clean_lines (dept_fix d (strip_marker t)))"
    using reformat_ok by fastforce
  then obtain l where "l \<in> set (split_char 10 (dept_fix d (strip_marker t)))" "clean_line l = Some []"
    by (blast dest: clean_lines_empty)
  with r show ?thesis by (blast dest: reformat_error clean_line_empty)
qed


theorem clean_error_only_marker_lines_witness:
  "clean_text_advanced marker_line_text [] = Inl IndexError \<and>
   (\<exists>l. l \<in> set (split_char 10 (dept_fix [] (strip_marker marker_line_text))) \<and>
     starts_with (py_strip l) (asc ''##'') \<and> py_strip (lstrip_chars (asc ''#'') (py_strip l)) = [])"
proof -
  have e: "clean_text_advanced marker_line_text [] = Inl IndexError"
    using marker_line_text_eval [of "[]"]
    by (simp add: clean_text_advanced_def del: reformat.simps)
  show ?thesis using e clean_error_only_marker_lines [OF e] by blast
qed

text \<open>
  The cleaner raises \<^verbatim>\<open>IndexError\<close> on the text \<open>106\<close>,
  \<open>##\<close>, \<open>x\<close> (three lines), for every department: the heading line becomes empty but
  is kept, and the room test reads its first character.
\<close>

theorem clean_index_error: "clean_text_advanced marker_line_text dept = Inl IndexError"
  using marker_line_text_eval [of dept] by (simp add: clean_text_advanced_def del: reformat.simps)

text \<open>
  Cleaning is not idempotent: on the lines \<open>106\<close>,
  \<open>107\<close>, \<open>A\<close>, \<open>B\<close>, \<open>C\<close> the first run merges \<open>107\<close> with the two lines after it
  and keeps \<open>106\<close>, and the second run merges \<open>106\<close> with the new entry line and
  \<open>C\<close>.
\<close>

theorem clean_not_idempotent:
  "clean_text_advanced room_chain_text [] = Inr room_chain_once \<and>
   clean_text_advanced room_chain_once [] = Inr (asc ''- 106 - 107 A (B) (C)'')"
proof -
  have m2: "strip_marker room_chain_once = room_chain_once"
    by (simp add: strip_marker_def room_chain_once_def supp_marker_def pystr_eval)
  have l2: "clean_lines room_chain_once = [asc ''106'', asc ''- 107 A (B)'', asc ''C'']"
    by (simp add: clean_lines_def clean_line_def room_chain_once_def noise_patterns_def pystr_eval)
  have r2: "reformat [asc ''106'', asc ''- 107 A (B)'', asc ''C''] = Inr [asc ''- 106 - 107 A (B) (C)'']"
    by (simp add: is_room_def format_line_def room_entry_def pystr_eval)
  have j2: "strip_marker (py_join [10] [asc ''- 106 - 107 A (B) (C)'']) = asc ''- 106 - 107 A (B) (C)''"
    by (simp add: strip_marker_def supp_marker_def pystr_eval)
  have ne: "room_chain_once \<noteq> []" by (simp add: room_chain_once_def)
  show ?thesis using clean_room_chain_first admin_dept_nonempty
    by (simp add: clean_text_advanced_def dept_fix_def m2 l2 r2 j2 ne del: reformat.simps py_join.simps)
qed

end
