(* ===== verification/ChunkModel.thy ===== *)
theory ChunkModel
  imports Complex_Main Prelude
begin

text \<open>
  The data the pipeline and the engine exchange (the persisted chunk artifact of
  \<^verbatim>\<open>src/processor.py\<close>, read back by \<^verbatim>\<open>src/rag_engine.py\<close> through the vector
  store): a chunk is a text with a metadata dictionary. The keys \<open>title\<close>, \<open>url\<close>,
  \<open>department\<close> and \<open>type\<close> are always present; \<open>unit_name\<close>, \<open>unit_id\<close>,
  \<open>building\<close>, \<open>floor\<close> and \<open>room\<close> are optional and are \<open>option\<close> fields. The
  chunk type is one of the four strings the pipeline writes. A search hit is a document,
  its metadata and its distance, a Python float modelled as a real number.
\<close>

datatype chunk_type = General | Phone | Service | Location

record metadata =
  md_title :: pystr
  md_url :: pystr
  md_department :: pystr
  md_type :: chunk_type
  md_unit_name :: "pystr option"
  md_unit_id :: "pystr option"
  md_building :: "pystr option"
  md_floor :: "pystr option"
  md_room :: "pystr option"

record chunk =
  ck_text :: pystr
  ck_meta :: metadata

type_synonym hit = "pystr \<times> metadata \<times> real"

definition hit_doc :: "hit \<Rightarrow> pystr" where
  "hit_doc h = fst h"

definition hit_meta :: "hit \<Rightarrow> metadata" where
  "hit_meta h = fst (snd h)"

definition hit_dist :: "hit \<Rightarrow> real" where
  "hit_dist h = snd (snd h)"

end
