(* ===== verification/VectorStore.thy ===== *)
theory VectorStore
  imports ChunkModel
begin

text \<open>
  The vector store the engine queries (ChromaDB's \<^verbatim>\<open>collection.query\<close>, an external
  collaborator): a query text, a result count and an optional metadata filter give the
  nearest hits or raise. The engine uses two filters: \<^verbatim>\<open>{"unit_id": u}\<close> and
  \<^verbatim>\<open>{"$and": [{"unit_id": u}, {"type": "location"}]}\<close>. A store is any function of that
  shape; \<open>store_contract\<close> states what the engine may rely on of a store over a corpus,
  and \<open>ref_store\<close> is a reference implementation (exact nearest neighbours under a
  distance function) that meets it (\<open>ref_store_contract\<close>).
\<close>

datatype where_clause = WhereUnit pystr | WhereUnitLocation pystr

type_synonym store = "pystr \<Rightarrow> nat \<Rightarrow> where_clause option \<Rightarrow> py_error + hit list"

definition where_sat :: "where_clause option \<Rightarrow> metadata \<Rightarrow> bool" where
  "where_sat w m =
     (case w of
        None \<Rightarrow> True
      | Some (WhereUnit u) \<Rightarrow> md_unit_id m = Some u
      | Some (WhereUnitLocation u) \<Rightarrow> md_unit_id m = Some u \<and> md_type m = Location)"

definition chunk_hit :: "(pystr \<Rightarrow> chunk \<Rightarrow> real) \<Rightarrow> pystr \<Rightarrow> chunk \<Rightarrow> hit" where
  "chunk_hit dfun q c = (ck_text c, ck_meta c, dfun q c)"

text \<open>The reference store: the \<open>n\<close> chunks nearest to the query among those that satisfy
  the filter, nearest first.\<close>

definition ref_store :: "chunk list \<Rightarrow> (pystr \<Rightarrow> chunk \<Rightarrow> real) \<Rightarrow> store" where
  "ref_store corpus dfun q n w =
     Inr (take n (sort_key hit_dist (map (chunk_hit dfun q) (filter (\<lambda>c. where_sat w (ck_meta c)) corpus))))"

text \<open>
  The contract of a store over a corpus: it answers every query; its hits are hits of
  corpus chunks that satisfy the filter, at most \<open>n\<close> of them, with non-negative
  distances; and when \<open>n > 0\<close> and some chunk satisfies the filter the answer is not
  empty.
\<close>

definition from_corpus :: "chunk list \<Rightarrow> hit \<Rightarrow> bool" where
  "from_corpus corpus h \<longleftrightarrow> (\<exists>c \<in> set corpus. hit_doc h = ck_text c \<and> hit_meta h = ck_meta c)"

definition store_contract :: "chunk list \<Rightarrow> store \<Rightarrow> bool" where
  "store_contract corpus st \<longleftrightarrow>
     (\<forall>q n w. \<exists>hs. st q n w = Inr hs \<and> length hs \<le> n \<and>
        (\<forall>h \<in> set hs. from_corpus corpus h \<and> where_sat w (hit_meta h) \<and> 0 \<le> hit_dist h) \<and>
        (0 < n \<and> (\<exists>c \<in> set corpus. where_sat w (ck_meta c)) \<longrightarrow> hs \<noteq> []))"

text \<open>Two consequences of the contract the engine's proofs use separately: every answer
  lies in a set of hits, and the store never raises.\<close>

definition answers_in :: "store \<Rightarrow> hit set \<Rightarrow> bool" where
  "answers_in st P \<longleftrightarrow> (\<forall>q n w hs. st q n w = Inr hs \<longrightarrow> set hs \<subseteq> P)"

definition never_raises :: "store \<Rightarrow> bool" where
  "never_raises st \<longleftrightarrow> (\<forall>q n w. \<exists>hs. st q n w = Inr hs)"

section \<open>Lemmas\<close>

lemma answers_inD: "answers_in st P \<Longrightarrow> st q n w = Inr hs \<Longrightarrow> set hs \<subseteq> P"
  unfolding answers_in_def by blast

lemma store_contractD:
  assumes "store_contract corpus st"
  obtains hs where "st q n w = Inr hs" "length hs \<le> n"
    "\<And>h. h \<in> set hs \<Longrightarrow> from_corpus corpus h \<and> where_sat w (hit_meta h) \<and> 0 \<le> hit_dist h"
    "0 < n \<Longrightarrow> \<exists>c \<in> set corpus. where_sat w (ck_meta c) \<Longrightarrow> hs \<noteq> []"
  using assms unfolding store_contract_def by metis

lemma store_contract_never_raises: "store_contract corpus st \<Longrightarrow> never_raises st"
  unfolding never_raises_def by (metis store_contractD)

lemma store_contract_answers_in: "store_contract corpus st \<Longrightarrow> answers_in st {h. from_corpus corpus h}"
  unfolding answers_in_def by (metis (mono_tags, lifting) Inr_inject mem_Collect_eq store_contractD subsetI)

lemma store_contract_bounded: "store_contract corpus st \<Longrightarrow> \<forall>q n w hs. st q n w = Inr hs \<longrightarrow> length hs \<le> n"
  by (metis Inr_inject store_contractD)

text \<open>The reference store meets the contract whenever distances are non-negative (as
  cosine distances are): the contract the engine's theorems assume is satisfiable.\<close>

lemma ref_store_contract:
  assumes "\<forall>q c. 0 \<le> dfun q c"
  shows "store_contract corpus (ref_store corpus dfun)"
  unfolding store_contract_def
proof (intro allI exI conjI)
  fix q n w
  let ?cs = "filter (\<lambda>c. where_sat w (ck_meta c)) corpus"
  let ?hs = "take n (sort_key hit_dist (map (chunk_hit dfun q) ?cs))"
  show "ref_store corpus dfun q n w = Inr ?hs" by (simp add: ref_store_def)
  show "length ?hs \<le> n" by simp
  show "\<forall>h \<in> set ?hs. from_corpus corpus h \<and> where_sat w (hit_meta h) \<and> 0 \<le> hit_dist h"
    using set_take_sort_key [of n hit_dist "map (chunk_hit dfun q) ?cs"] assms
    by (fastforce simp: chunk_hit_def hit_doc_def hit_meta_def hit_dist_def from_corpus_def)
  show "0 < n \<and> (\<exists>c \<in> set corpus. where_sat w (ck_meta c)) \<longrightarrow> ?hs \<noteq> []"
    by (auto simp: filter_empty_conv)
qed

end
