(* ===== verification/Retrieval.thy ===== *)
theory Retrieval
  imports VectorStore UnitIdentifier
begin

text \<open>
  The two-stage engine of \<^verbatim>\<open>src/rag_engine.py\<close> (\<^verbatim>\<open>EnhancedRAGEngine\<close>): intent
  classification, the type boost and the rerank, stage 1, unit resolution, stage 2 with
  its fingerprint deduplication and its fallbacks, and the location augmentation. The
  store is a parameter (see \<open>VectorStore\<close>); a raised exception is an \<open>Inl\<close> that
  aborts the request unless the code catches it. Python's sets of unit names and ids are
  iterated in an order the language does not fix: \<open>retrieve\<close> takes that order as a
  function \<open>order\<close> applied to the duplicate-free lists.
\<close>

section \<open>Intent\<close>

text \<open>Location keywords (U+5728 U+54EA, U+4F4D U+7F6E, U+5730 U+5740, U+600E U+9EBC U+53BB,
  U+5982 U+4F55 U+5230, where, location, U+5E7E U+6A13), phone and service keywords.\<close>

definition location_keywords :: "pystr list" where
  "location_keywords = [[0x5728, 0x54EA], [0x4F4D, 0x7F6E], [0x5730, 0x5740], [0x600E, 0x9EBC, 0x53BB],
     [0x5982, 0x4F55, 0x5230], asc ''where'', asc ''location'', [0x5E7E, LOU]]"

definition rag_phone_keywords :: "pystr list" where
  "rag_phone_keywords = [[0x96FB, 0x8A71], [0x5206, 0x6A5F], [0x806F, 0x7D61, 0x65B9, 0x5F0F],
     [0x806F, 0x7D61], asc ''tel'', asc ''phone'']"

definition rag_service_keywords :: "pystr list" where
  "rag_service_keywords = [[0x670D, 0x52D9], [0x696D, 0x52D9], [0x8077, 0x638C], [0x8FA6, 0x7406],
     [0x7533, 0x8ACB], [0x6D41, 0x7A0B], [0x898F, 0x5B9A], [0x8981, 0x4EF6]]"

definition is_location_query :: "pystr \<Rightarrow> bool" where
  "is_location_query q \<longleftrightarrow> list_ex (\<lambda>k. contains k (py_lower q)) location_keywords"

definition query_intent :: "pystr \<Rightarrow> chunk_type" where
  "query_intent q =
     (if is_location_query q then Location
      else if list_ex (\<lambda>k. contains (py_lower k) (py_lower q)) rag_phone_keywords then Phone
      else if list_ex (\<lambda>k. contains (py_lower k) (py_lower q)) rag_service_keywords then Service
      else General)"

section \<open>Boost and rerank\<close>

definition apply_type_boost :: "metadata \<Rightarrow> real \<Rightarrow> chunk_type \<Rightarrow> real" where
  "apply_type_boost m d intent =
     (if intent = Location \<and> md_type m = Location then max 0 (d - 0.2)
      else if intent = Phone \<and> md_type m = Phone then max 0 (d - 0.15)
      else if intent = Service \<and> md_type m = Service then max 0 (d - 0.1)
      else d)"

definition boost_hit :: "chunk_type \<Rightarrow> hit \<Rightarrow> hit" where
  "boost_hit intent h = (hit_doc h, hit_meta h, apply_type_boost (hit_meta h) (hit_dist h) intent)"

text \<open>\<^verbatim>\<open>boosted.sort(key=lambda x: x[2])\<close> is a stable sort, as \<open>sort_key\<close> is.\<close>

definition rerank_with_intent :: "hit list \<Rightarrow> chunk_type \<Rightarrow> nat \<Rightarrow> hit list" where
  "rerank_with_intent hs intent k =
     (if hs = [] then [] else take k (sort_key hit_dist (map (boost_hit intent) hs)))"

section \<open>Stage 2\<close>

text \<open>The deduplication key \<^verbatim>\<open>f"{url}_{title}_{doc[:80]}"\<close>.\<close>

definition fingerprint :: "hit \<Rightarrow> pystr" where
  "fingerprint h = md_url (hit_meta h) @ asc ''_'' @ md_title (hit_meta h) @ asc ''_'' @ take 80 (hit_doc h)"

text \<open>Merging the hits of one query into the accumulated ones: the set \<open>seen_ids\<close> and
  the three parallel lists, here one list of hits.\<close>

fun merge_new :: "pystr list \<times> hit list \<Rightarrow> hit list \<Rightarrow> pystr list \<times> hit list" where
  "merge_new acc [] = acc"
| "merge_new (seen, out) (h # hs) =
     (if fingerprint h \<in> set seen then merge_new (seen, out) hs
      else merge_new (fingerprint h # seen, out @ [h]) hs)"

text \<open>A filtered query inside \<^verbatim>\<open>try\<close>, repeated without the filter when it raises; an
  exception of the second query propagates.\<close>

definition query_or_unfiltered :: "store \<Rightarrow> pystr \<Rightarrow> nat \<Rightarrow> where_clause \<Rightarrow> py_error + hit list" where
  "query_or_unfiltered st q n w = (case st q n (Some w) of Inl _ \<Rightarrow> st q n None | Inr hs \<Rightarrow> Inr hs)"

text \<open>The loop shape the engine repeats four times: for each unit (id or name) issue one
  query and fold its hits into the accumulator; an exception the loop body does not catch
  ends the request.\<close>

fun for_each_query ::
  "(pystr \<Rightarrow> py_error + hit list) \<Rightarrow> ('a \<Rightarrow> hit list \<Rightarrow> 'a) \<Rightarrow> pystr list \<Rightarrow> 'a \<Rightarrow> py_error + 'a" where
  "for_each_query qf mrg [] acc = Inr acc"
| "for_each_query qf mrg (x # xs) acc =
     (case qf x of Inl e \<Rightarrow> Inl e | Inr hs \<Rightarrow> for_each_query qf mrg xs (mrg acc hs))"

definition retrieve_stage2 :: "store \<Rightarrow> pystr list \<Rightarrow> pystr list \<Rightarrow> pystr \<Rightarrow> nat \<Rightarrow> py_error + hit list" where
  "retrieve_stage2 st names ids q n =
     (case for_each_query (\<lambda>u. query_or_unfiltered st q n (WhereUnit u)) merge_new ids ([], []) of
        Inl e \<Rightarrow> Inl e
      | Inr acc \<Rightarrow>
          (case (if snd acc = [] \<and> names \<noteq> [] then for_each_query (\<lambda>nm. st (nm @ asc '' '' @ q) n None) merge_new names acc else Inr acc) of
             Inl e \<Rightarrow> Inl e
           | Inr acc' \<Rightarrow> Inr (take n (sort_key hit_dist (snd acc')))))"

text \<open>The loop invariant of \<^verbatim>\<open>seen_ids\<close>: it holds exactly the fingerprints of the
  collected hits, which are pairwise distinct.\<close>

definition fp_inv :: "pystr list \<times> hit list \<Rightarrow> bool" where
  "fp_inv acc \<longleftrightarrow> set (fst acc) = fingerprint ` set (snd acc) \<and> distinct (map fingerprint (snd acc))"

section \<open>Location augmentation\<close>

definition doc_key :: "hit \<Rightarrow> pystr" where
  "doc_key h = take 100 (hit_doc h)"

text \<open>The invariant of \<^verbatim>\<open>seen\<close> in \<^verbatim>\<open>_append_location_chunks\<close>: the 100-character
  prefixes of the documents collected so far.\<close>

definition dk_inv :: "pystr list \<times> hit list \<Rightarrow> bool" where
  "dk_inv acc \<longleftrightarrow> set (fst acc) = doc_key ` set (snd acc)"

fun append_locations :: "pystr list \<times> hit list \<Rightarrow> hit list \<Rightarrow> pystr list \<times> hit list" where
  "append_locations acc [] = acc"
| "append_locations (seen, out) (h # hs) =
     (if md_type (hit_meta h) = Location \<and> doc_key h \<notin> set seen
      then append_locations (doc_key h # seen, out @ [h]) hs
      else append_locations (seen, out) hs)"

text \<open>What augmentation does to a result: the result is kept as a prefix, and every hit
  after it is a location chunk whose prefix is new, the new prefixes being pairwise
  distinct.\<close>

definition loc_extends :: "hit list \<Rightarrow> hit list \<Rightarrow> bool" where
  "loc_extends res out \<longleftrightarrow> take (length res) out = res \<and>
     list_all (\<lambda>h. md_type (hit_meta h) = Location \<and> doc_key h \<notin> set (map doc_key res)) (drop (length res) out) \<and>
     distinct (map doc_key (drop (length res) out))"

definition append_location_chunks ::
  "store \<Rightarrow> hit list \<Rightarrow> pystr list \<Rightarrow> pystr list \<Rightarrow> nat \<Rightarrow> py_error + hit list" where
  "append_location_chunks st res ids names k =
     (case for_each_query (\<lambda>u. query_or_unfiltered st u k (WhereUnitLocation u)) append_locations ids
             (map doc_key res, res) of
        Inl e \<Rightarrow> Inl e
      | Inr acc \<Rightarrow>
          if ids = [] then (case for_each_query (\<lambda>nm. st nm k None) append_locations names acc of Inl e \<Rightarrow> Inl e | Inr acc' \<Rightarrow> Inr (snd acc'))
          else Inr (snd acc))"

section \<open>The request\<close>

definition retrieve_with_priority :: "store \<Rightarrow> pystr \<Rightarrow> chunk_type \<Rightarrow> py_error + hit list" where
  "retrieve_with_priority st q intent =
     (case st q 15 None of Inl e \<Rightarrow> Inl e | Inr hs \<Rightarrow> Inr (rerank_with_intent hs intent 5))"

text \<open>The guard on stage-1 unit ids: present, shorter than 50 and without a line break.\<close>

definition valid_unit_id :: "pystr \<Rightarrow> bool" where
  "valid_unit_id u \<longleftrightarrow> u \<noteq> [] \<and> length u < 50 \<and> 10 \<notin> set u"

definition stage1_unit_ids :: "hit list \<Rightarrow> pystr list" where
  "stage1_unit_ids hs =
     remdups (List.map_filter
       (\<lambda>h. case md_unit_id (hit_meta h) of Some u \<Rightarrow> if valid_unit_id u then Some u else None | None \<Rightarrow> None) hs)"

definition stage1_unit_names :: "hit list \<Rightarrow> pystr list" where
  "stage1_unit_names hs =
     remdups (concat (map (\<lambda>h. extract_unit_names (hit_doc h)) hs) @
       List.map_filter (\<lambda>h. case md_unit_name (hit_meta h) of Some u \<Rightarrow> if u \<noteq> [] then Some u else None | None \<Rightarrow> None) hs)"

definition retrieve :: "store \<Rightarrow> (pystr list \<Rightarrow> pystr list) \<Rightarrow> pystr \<Rightarrow> bool \<Rightarrow> py_error + hit list" where
  "retrieve st order q use_two_stage =
     (let intent = query_intent q in
      if \<not> use_two_stage then retrieve_with_priority st q intent
      else (case st q 5 None of
              Inl e \<Rightarrow> Inl e
            | Inr s1 \<Rightarrow>
                (let names = order (stage1_unit_names s1); ids = order (stage1_unit_ids s1) in
                 if names = [] \<and> ids = [] then retrieve_with_priority st q intent
                 else (case retrieve_stage2 st names ids q 10 of
                         Inl e \<Rightarrow> Inl e
                       | Inr s2 \<Rightarrow> append_location_chunks st (rerank_with_intent s2 intent 5) ids names 2))))"

section \<open>Scenario B\<close>

text \<open>A two-chunk corpus for the query U+8A3B U+518A U+7D44 U+5728 U+54EA U+88E1 ("where
  is the Registrar's Office"): a service chunk of the unit and its location chunk (as
  \<^verbatim>\<open>_create_location_chunks\<close> builds it, on another page), the location chunk
  being the farther one from the query.\<close>

definition registrar :: pystr where
  "registrar = [0x8A3B, 0x518A, 0x7D44]"

definition scenario_b_query :: pystr where
  "scenario_b_query = [0x8A3B, 0x518A, 0x7D44, 0x5728, 0x54EA, 0x88E1]"

definition base_meta :: metadata where
  "base_meta = \<lparr>md_title = asc ''t'', md_url = asc ''u'', md_department = asc ''d'', md_type = General,
     md_unit_name = None, md_unit_id = None, md_building = None, md_floor = None, md_room = None\<rparr>"

definition service_chunk :: chunk where
  "service_chunk = \<lparr>ck_text = registrar @ [0x670D, 0x52D9],
     ck_meta = base_meta\<lparr>md_type := Service, md_unit_name := Some registrar, md_unit_id := Some registrar\<rparr>\<rparr>"

definition location_chunk :: chunk where
  "location_chunk = \<lparr>ck_text = registrar @ [0x4F4D, 0x7F6E],
     ck_meta = base_meta\<lparr>md_url := asc ''v'', md_type := Location, md_unit_name := Some registrar,
       md_unit_id := Some registrar, md_floor := Some [0x31, LOU], md_room := Some (asc ''106'')\<rparr>\<rparr>"

definition scenario_b_corpus :: "chunk list" where
  "scenario_b_corpus = [service_chunk, location_chunk]"

definition scenario_b_dist :: "pystr \<Rightarrow> chunk \<Rightarrow> real" where
  "scenario_b_dist q c = (if ck_meta c = ck_meta location_chunk then 0.45 else 0.3)"

definition boosted_location :: hit where
  "boosted_location = (ck_text location_chunk, ck_meta location_chunk, 0.25)"

definition scenario_b_answer :: "hit list" where
  "scenario_b_answer = [boosted_location, chunk_hit scenario_b_dist scenario_b_query service_chunk]"

section \<open>Lemmas\<close>

lemma query_or_unfiltered_in:
  "answers_in st P \<Longrightarrow> query_or_unfiltered st q n w = Inr hs \<Longrightarrow> set hs \<subseteq> P"
  unfolding query_or_unfiltered_def by (auto split: sum.splits dest: answers_inD)

lemma never_raises_query_or_unfiltered:
  "never_raises st \<Longrightarrow> \<exists>hs. query_or_unfiltered st q n w = Inr hs"
  unfolding never_raises_def query_or_unfiltered_def by (auto split: sum.splits)

subsection \<open>The query loop\<close>

lemma for_each_query_inv:
  assumes "for_each_query qf mrg xs acc = Inr acc'" "P acc"
    and "\<And>a x hs. P a \<Longrightarrow> x \<in> set xs \<Longrightarrow> qf x = Inr hs \<Longrightarrow> P (mrg a hs)"
  shows "P acc'"
  using assms
proof (induction xs arbitrary: acc)
  case (Cons y ys)
  then obtain hs where "qf y = Inr hs" "for_each_query qf mrg ys (mrg acc hs) = Inr acc'"
    by (auto split: sum.splits)
  then show ?case using Cons.IH Cons.prems(2,3) by (metis list.set_intros)
qed simp

lemma for_each_query_total:
  "(\<And>x. x \<in> set xs \<Longrightarrow> \<exists>hs. qf x = Inr hs) \<Longrightarrow> \<exists>acc'. for_each_query qf mrg xs acc = Inr acc'"
proof (induction xs arbitrary: acc)
  case (Cons y ys)
  then obtain hs where "qf y = Inr hs" by auto
  then show ?case using Cons.IH [of "mrg acc hs"] Cons.prems by simp
qed simp

lemma for_each_query_raises:
  "x \<in> set xs \<Longrightarrow> qf x = Inl e \<Longrightarrow> \<exists>e'. for_each_query qf mrg xs acc = Inl e'"
  by (induction xs arbitrary: acc) (auto split: sum.splits)

lemma for_each_query_cover:
  assumes "for_each_query qf mrg xs acc = Inr acc'" "x \<in> set xs" "qf x = Inr hs" "I acc"
    and "\<And>a y hs'. I a \<Longrightarrow> y \<in> set xs \<Longrightarrow> qf y = Inr hs' \<Longrightarrow> I (mrg a hs')"
    and "\<And>a. I a \<Longrightarrow> Q (mrg a hs)"
    and "\<And>a y hs'. I a \<Longrightarrow> Q a \<Longrightarrow> y \<in> set xs \<Longrightarrow> qf y = Inr hs' \<Longrightarrow> Q (mrg a hs')"
  shows "Q acc'"
  using assms
proof (induction xs arbitrary: acc)
  case (Cons y ys)
  then obtain hs' where q: "qf y = Inr hs'" and r: "for_each_query qf mrg ys (mrg acc hs') = Inr acc'"
    by (auto split: sum.splits)
  have I': "I (mrg acc hs')" using Cons.prems(4,5) q by (meson list.set_intros(1))
  show ?case
  proof (cases "x = y")
    case True
    then have "Q (mrg acc hs')" using Cons.prems(3,4,6) q by simp
    have "I a \<and> Q a \<Longrightarrow> z \<in> set ys \<Longrightarrow> qf z = Inr hz \<Longrightarrow> I (mrg a hz) \<and> Q (mrg a hz)" for a z hz
      using Cons.prems(5,7) by (meson list.set_intros(2))
    then show ?thesis
      using for_each_query_inv [OF r, of "\<lambda>a. I a \<and> Q a"] I' \<open>Q (mrg acc hs')\<close> by blast
  next
    case False
    then have "x \<in> set ys" using Cons.prems(2) by simp
    moreover have "\<And>a z hz. I a \<Longrightarrow> z \<in> set ys \<Longrightarrow> qf z = Inr hz \<Longrightarrow> I (mrg a hz)"
      and "\<And>a z hz. I a \<Longrightarrow> Q a \<Longrightarrow> z \<in> set ys \<Longrightarrow> qf z = Inr hz \<Longrightarrow> Q (mrg a hz)"
      using Cons.prems(5,7) by (meson list.set_intros(2))+
    ultimately show ?thesis using Cons.IH [OF r _ Cons.prems(3) I' _ Cons.prems(6)] by blast
  qed
qed simp

subsection \<open>Stage 2\<close>

lemma merge_new_fp_inv: "fp_inv acc \<Longrightarrow> fp_inv (merge_new acc hs)"
  by (induction acc hs rule: merge_new.induct) (auto simp: fp_inv_def)

lemma merge_new_subset: "set (snd (merge_new acc hs)) \<subseteq> set (snd acc) \<union> set hs"
  by (induction acc hs rule: merge_new.induct) auto

lemma merge_new_in: "set (snd acc) \<subseteq> P \<Longrightarrow> set hs \<subseteq> P \<Longrightarrow> set (snd (merge_new acc hs)) \<subseteq> P"
  using merge_new_subset by blast

lemma retrieve_stage2_Inr:
  assumes "retrieve_stage2 st names ids q n = Inr hs"
  obtains acc where "fp_inv acc" "hs = take n (sort_key hit_dist (snd acc))"
    "\<And>P. answers_in st P \<Longrightarrow> set (snd acc) \<subseteq> P"
proof -
  have fp0: "fp_inv ([], [])" by (simp add: fp_inv_def)
  obtain acc1 where a1: "for_each_query (\<lambda>u. query_or_unfiltered st q n (WhereUnit u)) merge_new ids ([], []) = Inr acc1"
    using assms by (auto simp: retrieve_stage2_def split: sum.splits)
  obtain acc2 where a2: "(if snd acc1 = [] \<and> names \<noteq> []
      then for_each_query (\<lambda>nm. st (nm @ asc '' '' @ q) n None) merge_new names acc1 else Inr acc1) = Inr acc2"
    and hs: "hs = take n (sort_key hit_dist (snd acc2))"
    using assms a1 by (auto simp: retrieve_stage2_def split: sum.splits)
  have "fp_inv acc1"
    using for_each_query_inv [OF a1, of fp_inv] fp0 merge_new_fp_inv by blast
  then have "fp_inv acc2"
    using a2 for_each_query_inv [of _ merge_new names acc1 acc2 fp_inv] merge_new_fp_inv by (auto split: if_splits)
  moreover have "set (snd acc2) \<subseteq> P" if P: "answers_in st P" for P
  proof -
    have "set (snd acc1) \<subseteq> P"
      using for_each_query_inv [OF a1, of "\<lambda>a. set (snd a) \<subseteq> P"] merge_new_in query_or_unfiltered_in [OF P] by simp
    then show ?thesis
      using a2 for_each_query_inv [of _ merge_new names acc1 acc2 "\<lambda>a. set (snd a) \<subseteq> P"] merge_new_in answers_inD [OF P]
      by (auto split: if_splits)
  qed
  ultimately show ?thesis using that hs by blast
qed

lemma retrieve_stage2_in: "retrieve_stage2 st names ids q n = Inr hs \<Longrightarrow> answers_in st P \<Longrightarrow> set hs \<subseteq> P"
  by (erule retrieve_stage2_Inr) (meson order_trans set_take_sort_key)

lemma retrieve_stage2_total: "never_raises st \<Longrightarrow> \<exists>hs. retrieve_stage2 st names ids q n = Inr hs"
proof -
  assume nr: "never_raises st"
  obtain acc1 where a1: "for_each_query (\<lambda>u. query_or_unfiltered st q n (WhereUnit u)) merge_new ids ([], []) = Inr acc1"
    using for_each_query_total [of ids "\<lambda>u. query_or_unfiltered st q n (WhereUnit u)" merge_new "([], [])"]
      never_raises_query_or_unfiltered [OF nr] by blast
  obtain acc2 where "for_each_query (\<lambda>nm. st (nm @ asc '' '' @ q) n None) merge_new names acc1 = Inr acc2"
    using for_each_query_total [of names "\<lambda>nm. st (nm @ asc '' '' @ q) n None" merge_new acc1] nr
    unfolding never_raises_def by blast
  then show ?thesis using a1 by (simp add: retrieve_stage2_def)
qed

subsection \<open>Location augmentation\<close>

lemma loc_extends_iff:
  "loc_extends res out \<longleftrightarrow> (\<exists>e. out = res @ e \<and>
     (\<forall>h \<in> set e. md_type (hit_meta h) = Location \<and> doc_key h \<notin> doc_key ` set res) \<and> distinct (map doc_key e))"
proof
  assume "loc_extends res out"
  then show "\<exists>e. out = res @ e \<and>
     (\<forall>h \<in> set e. md_type (hit_meta h) = Location \<and> doc_key h \<notin> doc_key ` set res) \<and> distinct (map doc_key e)"
    unfolding loc_extends_def list_all_iff by (metis append_take_drop_id set_map)
qed (auto simp: loc_extends_def list_all_iff)

lemma loc_extends_refl: "loc_extends res res"
  by (simp add: loc_extends_def)

lemma loc_extends_trans:
  assumes "loc_extends a b" "loc_extends b c"
  shows "loc_extends a c"
proof -
  obtain e1 where e1: "b = a @ e1" "\<forall>h \<in> set e1. md_type (hit_meta h) = Location \<and> doc_key h \<notin> doc_key ` set a"
    "distinct (map doc_key e1)"
    using assms(1) unfolding loc_extends_iff by blast
  obtain e2 where e2: "c = b @ e2" "\<forall>h \<in> set e2. md_type (hit_meta h) = Location \<and> doc_key h \<notin> doc_key ` set b"
    "distinct (map doc_key e2)"
    using assms(2) unfolding loc_extends_iff by blast
  have "c = a @ (e1 @ e2)" using e1 e2 by simp
  moreover have "doc_key ` set e1 \<inter> doc_key ` set e2 = {}" using e1(1) e2(2) by (simp add: disjoint_iff) blast
  then have "distinct (map doc_key (e1 @ e2))" using e1(3) e2(3) by simp
  ultimately show ?thesis unfolding loc_extends_iff using e1 e2 by auto
qed

lemma append_locations_dk_inv: "dk_inv acc \<Longrightarrow> dk_inv (append_locations acc hs)"
  by (induction acc hs rule: append_locations.induct) (auto simp: dk_inv_def)

lemma append_locations_extends: "dk_inv acc \<Longrightarrow> loc_extends (snd acc) (snd (append_locations acc hs))"
proof (induction acc hs rule: append_locations.induct)
  case (2 seen out h hs)
  show ?case
  proof (cases "md_type (hit_meta h) = Location \<and> doc_key h \<notin> set seen")
    case True
    then have "loc_extends out (out @ [h])" "dk_inv (doc_key h # seen, out @ [h])"
      using "2.prems" by (auto simp: loc_extends_def dk_inv_def)
    then show ?thesis using True "2.IH"(1) loc_extends_trans by simp
  next
    case False
    then show ?thesis using "2.IH"(2) "2.prems" by auto
  qed
qed (simp add: loc_extends_refl)

lemma append_locations_subset: "set (snd (append_locations acc hs)) \<subseteq> set (snd acc) \<union> set hs"
  by (induction acc hs rule: append_locations.induct) auto

lemma append_locations_mono: "set (snd acc) \<subseteq> set (snd (append_locations acc hs))"
  by (induction acc hs rule: append_locations.induct) auto

lemma append_locations_length: "length (snd (append_locations acc hs)) \<le> length (snd acc) + length hs"
  by (induction acc hs rule: append_locations.induct) (auto simp: le_SucI)

lemma append_locations_cover:
  "dk_inv acc \<Longrightarrow> h \<in> set hs \<Longrightarrow> md_type (hit_meta h) = Location \<Longrightarrow>
     doc_key h \<in> doc_key ` set (snd (append_locations acc hs))"
proof (induction acc hs rule: append_locations.induct)
  case (2 seen out h' hs)
  have keep: "x \<in> doc_key ` set o' \<Longrightarrow> x \<in> doc_key ` set (snd (append_locations (s, o') hs))" for x s o'
    using append_locations_mono [of "(s, o')" hs] by auto
  show ?case
  proof (cases "h = h'")
    case True
    then show ?thesis using "2.prems" keep [of "doc_key h" "out @ [h]"] keep [of "doc_key h" out] by (auto simp: dk_inv_def)
  next
    case False
    then show ?thesis using "2.IH" "2.prems" by (auto simp: dk_inv_def)
  qed
qed simp

lemma for_each_query_measure:
  "for_each_query qf mrg xs acc = Inr acc' \<Longrightarrow>
     (\<And>a x hs. x \<in> set xs \<Longrightarrow> qf x = Inr hs \<Longrightarrow> f (mrg a hs) \<le> f a + k) \<Longrightarrow> f acc' \<le> f acc + k * length xs"
proof (induction xs arbitrary: acc)
  case (Cons y ys)
  then obtain hs where q: "qf y = Inr hs" and r: "for_each_query qf mrg ys (mrg acc hs) = Inr acc'"
    by (auto split: sum.splits)
  have "f acc' \<le> f (mrg acc hs) + k * length ys"
    by (rule Cons.IH [OF r]) (rule Cons.prems(2); simp)
  moreover have "f (mrg acc hs) \<le> f acc + k" using Cons.prems(2) [of y hs acc] q by simp
  ultimately show ?case by simp
qed simp

lemma append_location_chunks_Inr:
  assumes "append_location_chunks st res ids names k = Inr out"
  obtains xs qf acc where "for_each_query qf append_locations xs (map doc_key res, res) = Inr acc" "out = snd acc"
    "xs = (if ids = [] then names else ids)"
    "qf = (if ids = [] then (\<lambda>nm. st nm k None) else (\<lambda>u. query_or_unfiltered st u k (WhereUnitLocation u)))"
proof (cases "ids = []")
  case True
  then show ?thesis using assms that by (auto simp: append_location_chunks_def split: sum.splits)
next
  case False
  then show ?thesis using assms that by (auto simp: append_location_chunks_def split: sum.splits)
qed

lemma dk_inv_start: "dk_inv (map doc_key res, res)"
  by (simp add: dk_inv_def)

lemma append_locations_step:
  "dk_inv a \<and> loc_extends res (snd a) \<Longrightarrow> dk_inv (append_locations a hs) \<and> loc_extends res (snd (append_locations a hs))"
  using append_locations_dk_inv append_locations_extends loc_extends_trans by blast

lemma append_location_chunks_cover:
  assumes "append_location_chunks st res ids names k = Inr out" "u \<in> set ids"
    and "query_or_unfiltered st u k (WhereUnitLocation u) = Inr hs" "h \<in> set hs"
    and "md_type (hit_meta h) = Location"
  shows "doc_key h \<in> doc_key ` set out"
proof (rule append_location_chunks_Inr [OF assms(1)])
  fix xs qf acc
  assume a: "for_each_query qf append_locations xs (map doc_key res, res) = Inr acc" "out = snd acc"
    "xs = (if ids = [] then names else ids)"
    "qf = (if ids = [] then (\<lambda>nm. st nm k None) else (\<lambda>u. query_or_unfiltered st u k (WhereUnitLocation u)))"
  have ids: "ids \<noteq> []" using assms(2) by auto
  have "doc_key h \<in> doc_key ` set (snd acc)"
  proof (rule for_each_query_cover [OF a(1), of u hs dk_inv])
    show "u \<in> set xs" "qf u = Inr hs" using a(3,4) ids assms(2,3) by simp_all
    show "dk_inv (map doc_key res, res)" by (rule dk_inv_start)
    show "dk_inv (append_locations b hs')" if "dk_inv b" for b hs' using that by (rule append_locations_dk_inv)
    show "doc_key h \<in> doc_key ` set (snd (append_locations b hs))" if "dk_inv b" for b
      using append_locations_cover [OF that assms(4,5)] .
    show "doc_key h \<in> doc_key ` set (snd (append_locations b hs'))"
      if "doc_key h \<in> doc_key ` set (snd b)" for b hs'
      using that append_locations_mono [of b hs'] by blast
  qed
  then show ?thesis using a(2) by simp
qed

lemma append_location_chunks_in:
  assumes "append_location_chunks st res ids names k = Inr out" "answers_in st P" "set res \<subseteq> P"
  shows "set out \<subseteq> P"
proof (rule append_location_chunks_Inr [OF assms(1)])
  fix xs qf acc
  assume a: "for_each_query qf append_locations xs (map doc_key res, res) = Inr acc" "out = snd acc"
    "xs = (if ids = [] then names else ids)"
    "qf = (if ids = [] then (\<lambda>nm. st nm k None) else (\<lambda>u. query_or_unfiltered st u k (WhereUnitLocation u)))"
  have q: "qf x = Inr hs \<Longrightarrow> set hs \<subseteq> P" for x hs
    using a(4) answers_inD [OF assms(2)] query_or_unfiltered_in [OF assms(2)] by (auto split: if_splits)
  have "set (snd acc) \<subseteq> P"
  proof (rule for_each_query_inv [OF a(1)])
    show "set (snd (map doc_key res, res)) \<subseteq> P" using assms(3) by simp
    show "set (snd (append_locations b hs)) \<subseteq> P" if "set (snd b) \<subseteq> P" "qf x = Inr hs" for b x hs
      using append_locations_subset [of b hs] that q by blast
  qed
  then show ?thesis using a(2) by simp
qed

lemma append_location_chunks_total:
  assumes "never_raises st"
  shows "\<exists>out. append_location_chunks st res ids names k = Inr out"
proof -
  obtain acc where a: "for_each_query (\<lambda>u. query_or_unfiltered st u k (WhereUnitLocation u)) append_locations ids
      (map doc_key res, res) = Inr acc"
    using for_each_query_total [of ids "\<lambda>u. query_or_unfiltered st u k (WhereUnitLocation u)"]
      never_raises_query_or_unfiltered [OF assms] by metis
  obtain acc' where "for_each_query (\<lambda>nm. st nm k None) append_locations names acc = Inr acc'"
    using for_each_query_total [of names "\<lambda>nm. st nm k None"] assms unfolding never_raises_def by metis
  then show ?thesis using a by (simp add: append_location_chunks_def)
qed

subsection \<open>Boost and rerank\<close>

lemma boost_hit_simps [simp]:
  "hit_doc (boost_hit i h) = hit_doc h" "hit_meta (boost_hit i h) = hit_meta h"
  "hit_dist (boost_hit i h) = apply_type_boost (hit_meta h) (hit_dist h) i"
  by (simp_all add: boost_hit_def hit_doc_def hit_meta_def hit_dist_def)

lemma rerank_with_intent_subset: "set (rerank_with_intent hs i k) \<subseteq> boost_hit i ` set hs"
  using set_take_sort_key [of k hit_dist "map (boost_hit i) hs"] by (auto simp: rerank_with_intent_def)

lemma from_corpus_boost [simp]: "from_corpus corpus (boost_hit i h) = from_corpus corpus h"
  by (simp add: from_corpus_def)

subsection \<open>The store contract\<close>

subsection \<open>The request\<close>

lemma rerank_with_intent_length: "length (rerank_with_intent hs i k) \<le> k"
  by (simp add: rerank_with_intent_def)

lemma apply_type_boost_nonneg: "0 \<le> d \<Longrightarrow> 0 \<le> apply_type_boost m d i"
  by (simp add: apply_type_boost_def)

lemma retrieve_with_priority_in:
  assumes "retrieve_with_priority st q i = Inr out" "answers_in st P" "\<And>h. h \<in> P \<Longrightarrow> boost_hit i h \<in> P"
  shows "set out \<subseteq> P"
proof -
  obtain hs where "st q 15 None = Inr hs" "out = rerank_with_intent hs i 5"
    using assms(1) by (auto simp: retrieve_with_priority_def split: sum.splits)
  then show ?thesis using rerank_with_intent_subset [of hs i 5] answers_inD [OF assms(2)] assms(3) by blast
qed

lemma retrieve_two_stage:
  assumes "retrieve st order q True = Inr out" "st q 5 None = Inr s1"
    and "order (stage1_unit_ids s1) \<noteq> []"
  obtains s2 where "retrieve_stage2 st (order (stage1_unit_names s1)) (order (stage1_unit_ids s1)) q 10 = Inr s2"
    "append_location_chunks st (rerank_with_intent s2 (query_intent q) 5) (order (stage1_unit_ids s1))
       (order (stage1_unit_names s1)) 2 = Inr out"
  using assms by (auto simp: retrieve_def Let_def split: sum.splits)

lemma retrieve_cases:
  assumes "retrieve st order q b = Inr out"
  obtains (single) "retrieve_with_priority st q (query_intent q) = Inr out"
  | (two) s1 s2 where "st q 5 None = Inr s1"
      "retrieve_stage2 st (order (stage1_unit_names s1)) (order (stage1_unit_ids s1)) q 10 = Inr s2"
      "append_location_chunks st (rerank_with_intent s2 (query_intent q) 5) (order (stage1_unit_ids s1))
         (order (stage1_unit_names s1)) 2 = Inr out"
proof (cases b)
  case True
  then obtain s1 where s1: "st q 5 None = Inr s1"
    using assms by (cases "st q 5 None") (simp_all add: retrieve_def Let_def)
  show ?thesis
  proof (cases "order (stage1_unit_names s1) = [] \<and> order (stage1_unit_ids s1) = []")
    case True
    then show ?thesis using assms s1 \<open>b\<close> single by (simp add: retrieve_def Let_def)
  next
    case False
    then show ?thesis using assms s1 \<open>b\<close> two by (auto simp: retrieve_def Let_def split: sum.splits)
  qed
next
  case False
  then show ?thesis using assms single by (simp add: retrieve_def)
qed

lemma retrieve_in:
  assumes "retrieve st order q b = Inr out" "answers_in st P" "\<And>i h. h \<in> P \<Longrightarrow> boost_hit i h \<in> P"
  shows "set out \<subseteq> P"
  using assms(1)
proof (cases rule: retrieve_cases)
  case single
  then show ?thesis using retrieve_with_priority_in assms(2,3) by blast
next
  case (two s1 s2)
  have "set (rerank_with_intent s2 (query_intent q) 5) \<subseteq> P"
    using rerank_with_intent_subset retrieve_stage2_in [OF two(2) assms(2)] assms(3) by blast
  then show ?thesis using append_location_chunks_in [OF two(3) assms(2)] by blast
qed

lemma same_prefix_same_chunk:
  assumes "distinct (map (\<lambda>c. take 100 (ck_text c)) corpus)" "from_corpus corpus h" "from_corpus corpus h'"
    and "doc_key h = doc_key h'"
  shows "hit_meta h = hit_meta h'"
proof -
  obtain c c' where c: "c \<in> set corpus" "hit_doc h = ck_text c" "hit_meta h = ck_meta c"
    and c': "c' \<in> set corpus" "hit_doc h' = ck_text c'" "hit_meta h' = ck_meta c'"
    using assms(2,3) unfolding from_corpus_def by blast
  have "take 100 (ck_text c) = take 100 (ck_text c')" using assms(4) c c' by (simp add: doc_key_def)
  then have "c = c'" using assms(1) c(1) c'(1) by (simp add: distinct_map inj_on_def)
  then show ?thesis using c c' by simp
qed

lemma location_keywords_lower: "k \<in> set location_keywords \<Longrightarrow> py_lower k = k"
  by (auto simp: location_keywords_def py_lower_def lower_char_def LOU_def pystr_eval)

lemma query_or_unfiltered_length:
  "\<forall>q n w hs. st q n w = Inr hs \<longrightarrow> length hs \<le> n \<Longrightarrow> query_or_unfiltered st q n w = Inr hs \<Longrightarrow> length hs \<le> n"
  by (auto simp: query_or_unfiltered_def split: sum.splits)

lemma append_location_chunks_length:
  assumes "append_location_chunks st res ids names k = Inr out"
    and bnd: "\<forall>q n w hs. st q n w = Inr hs \<longrightarrow> length hs \<le> n"
  shows "length out \<le> length res + k * length (if ids = [] then names else ids)"
proof (rule append_location_chunks_Inr [OF assms(1)])
  fix xs qf acc
  assume a: "for_each_query qf append_locations xs (map doc_key res, res) = Inr acc" "out = snd acc"
    "xs = (if ids = [] then names else ids)"
    "qf = (if ids = [] then (\<lambda>nm. st nm k None) else (\<lambda>u. query_or_unfiltered st u k (WhereUnitLocation u)))"
  have q: "qf x = Inr hs \<Longrightarrow> length hs \<le> k" for x hs
    using a(4) bnd query_or_unfiltered_length [OF bnd] by (auto split: if_splits)
  have "length (snd acc) \<le> length (snd (map doc_key res, res)) + k * length xs"
  proof (rule for_each_query_measure [OF a(1), where f = "\<lambda>a. length (snd a)"])
    show "length (snd (append_locations b hs)) \<le> length (snd b) + k" if "qf x = Inr hs" for b x hs
      using append_locations_length [of b hs] q [OF that] by simp
  qed
  then show ?thesis using a(2,3) by simp
qed

subsection \<open>Scenario B, evaluated\<close>

abbreviation sb_store :: store where
  "sb_store \<equiv> ref_store scenario_b_corpus scenario_b_dist"

lemma scenario_b_intent: "query_intent scenario_b_query = Location"
  by (simp add: scenario_b_query_def query_intent_def is_location_query_def location_keywords_def
      py_lower_def lower_char_def pystr_eval)

lemma scenario_b_stage1:
  "sb_store scenario_b_query 5 None =
     Inr [chunk_hit scenario_b_dist scenario_b_query service_chunk, chunk_hit scenario_b_dist scenario_b_query location_chunk]"
  by (simp add: ref_store_def scenario_b_corpus_def where_sat_def chunk_hit_def hit_dist_def scenario_b_dist_def
      service_chunk_def location_chunk_def base_meta_def)

lemma scenario_b_ids:
  "stage1_unit_ids [chunk_hit scenario_b_dist q service_chunk, chunk_hit scenario_b_dist q location_chunk] = [registrar]"
  by (simp add: stage1_unit_ids_def chunk_hit_def hit_meta_def service_chunk_def location_chunk_def
      valid_unit_id_def registrar_def map_filter_def)

lemma scenario_b_stage2:
  "retrieve_stage2 sb_store names [registrar] scenario_b_query 10 =
     Inr [chunk_hit scenario_b_dist scenario_b_query service_chunk, chunk_hit scenario_b_dist scenario_b_query location_chunk]"
  by (simp add: retrieve_stage2_def query_or_unfiltered_def ref_store_def scenario_b_corpus_def where_sat_def
      chunk_hit_def hit_dist_def hit_meta_def hit_doc_def fingerprint_def scenario_b_dist_def
      service_chunk_def location_chunk_def base_meta_def pystr_eval)

lemma scenario_b_rerank:
  "rerank_with_intent [chunk_hit scenario_b_dist scenario_b_query service_chunk,
     chunk_hit scenario_b_dist scenario_b_query location_chunk] Location 5 = scenario_b_answer"
  by (simp add: scenario_b_answer_def rerank_with_intent_def boost_hit_def apply_type_boost_def chunk_hit_def
      hit_dist_def hit_meta_def hit_doc_def scenario_b_dist_def boosted_location_def service_chunk_def
      location_chunk_def base_meta_def)

lemma scenario_b_augment:
  "append_location_chunks sb_store scenario_b_answer [registrar] names 2 = Inr scenario_b_answer"
  by (simp add: scenario_b_answer_def append_location_chunks_def query_or_unfiltered_def ref_store_def
      scenario_b_corpus_def where_sat_def chunk_hit_def hit_dist_def hit_meta_def hit_doc_def doc_key_def
      scenario_b_dist_def boosted_location_def service_chunk_def location_chunk_def base_meta_def pystr_eval)

lemma scenario_b_run: "retrieve sb_store id scenario_b_query True = Inr scenario_b_answer"
  using scenario_b_intent scenario_b_stage1 scenario_b_ids scenario_b_stage2 scenario_b_rerank scenario_b_augment
  by (simp add: retrieve_def Let_def)

lemma scenario_b_dist_nonneg: "\<forall>q c. 0 \<le> scenario_b_dist q c"
  by (simp add: scenario_b_dist_def)

lemma scenario_b_contract: "store_contract scenario_b_corpus sb_store"
  by (rule ref_store_contract [OF scenario_b_dist_nonneg])

lemma scenario_b_prefixes: "distinct (map (\<lambda>c. take 100 (ck_text c)) scenario_b_corpus)"
  by (simp add: scenario_b_corpus_def service_chunk_def location_chunk_def registrar_def)

lemma scenario_b_answer_hits:
  "boosted_location \<in> set scenario_b_answer \<and> md_type (hit_meta boosted_location) = Location \<and>
   md_unit_id (hit_meta boosted_location) = Some registrar \<and> hit_dist boosted_location = 0.25"
  by (simp add: scenario_b_answer_def boosted_location_def hit_meta_def hit_dist_def location_chunk_def)

section \<open>Properties of the engine\<close>

text \<open>
  Claim C1: location coverage. Suppose the store meets its contract,
  no two corpus chunks share their first 100 characters, and the set-iteration order lists
  every element. If a unit id found in Stage 1 has a location chunk in the corpus, then
  the two-stage answer contains a location chunk of that unit.
\<close>

lemma retrieve_location_coverage:
  assumes contract: "store_contract corpus st"
    and prefixes: "distinct (map (\<lambda>c. take 100 (ck_text c)) corpus)"
    and order: "\<forall>xs. set (order xs) = set xs"
    and s1: "st q 5 None = Inr s1" and u: "u \<in> set (stage1_unit_ids s1)"
    and has_loc: "\<exists>c \<in> set corpus. md_unit_id (ck_meta c) = Some u \<and> md_type (ck_meta c) = Location"
    and out: "retrieve st order q True = Inr out"
  shows "\<exists>h \<in> set out. md_type (hit_meta h) = Location \<and> md_unit_id (hit_meta h) = Some u"
proof -
  have u': "u \<in> set (order (stage1_unit_ids s1))" using order u by simp
  then have "order (stage1_unit_ids s1) \<noteq> []" by auto
  then obtain s2 where a: "append_location_chunks st (rerank_with_intent s2 (query_intent q) 5) (order (stage1_unit_ids s1))
       (order (stage1_unit_names s1)) 2 = Inr out"
    using retrieve_two_stage [OF out s1] by blast
  obtain hs where hs: "st u 2 (Some (WhereUnitLocation u)) = Inr hs"
    and sat: "\<And>h. h \<in> set hs \<Longrightarrow> from_corpus corpus h \<and> where_sat (Some (WhereUnitLocation u)) (hit_meta h)"
    and ne: "0 < (2::nat) \<Longrightarrow> \<exists>c \<in> set corpus. where_sat (Some (WhereUnitLocation u)) (ck_meta c) \<Longrightarrow> hs \<noteq> []"
    using store_contractD [OF contract] by metis
  have "\<exists>c \<in> set corpus. where_sat (Some (WhereUnitLocation u)) (ck_meta c)"
    using has_loc by (simp add: where_sat_def)
  then have "hs \<noteq> []" using ne by simp
  then obtain h where h: "h \<in> set hs" by (meson list.set_sel(1))
  have hloc: "md_type (hit_meta h) = Location" "md_unit_id (hit_meta h) = Some u" "from_corpus corpus h"
    using sat [OF h] by (simp_all add: where_sat_def)
  have "query_or_unfiltered st u 2 (WhereUnitLocation u) = Inr hs" using hs by (simp add: query_or_unfiltered_def)
  then obtain h' where h': "h' \<in> set out" "doc_key h' = doc_key h"
    using append_location_chunks_cover [OF a u' _ h hloc(1)] by auto
  have "set out \<subseteq> {h. from_corpus corpus h}"
    by (rule retrieve_in [OF out store_contract_answers_in [OF contract]]) simp
  then have "from_corpus corpus h'" using h'(1) by blast
  then have "hit_meta h' = hit_meta h" using same_prefix_same_chunk [OF prefixes _ hloc(3) h'(2)] by blast
  then show ?thesis using h'(1) hloc by (intro bexI [of _ h']) simp_all
qed

theorem retrieve_location_coverage_witness:
  "store_contract scenario_b_corpus sb_store \<and> retrieve sb_store id scenario_b_query True = Inr scenario_b_answer \<and>
   (\<exists>h. h \<in> set scenario_b_answer \<and> md_type (hit_meta h) = Location \<and> md_unit_id (hit_meta h) = Some registrar)"
proof -
  have u: "registrar \<in> set (stage1_unit_ids [chunk_hit scenario_b_dist scenario_b_query service_chunk,
      chunk_hit scenario_b_dist scenario_b_query location_chunk])" using scenario_b_ids by simp
  have c: "\<exists>c \<in> set scenario_b_corpus. md_unit_id (ck_meta c) = Some registrar \<and> md_type (ck_meta c) = Location"
    by (simp add: scenario_b_corpus_def location_chunk_def)
  have "\<exists>h \<in> set scenario_b_answer. md_type (hit_meta h) = Location \<and> md_unit_id (hit_meta h) = Some registrar"
    using retrieve_location_coverage [OF scenario_b_contract scenario_b_prefixes _ scenario_b_stage1 u c scenario_b_run]
    by simp
  then show ?thesis using scenario_b_contract scenario_b_run by blast
qed

text \<open>
  Claim C2: the Stage-2 result has pairwise distinct fingerprints
  (url, title, first 80 characters), is sorted by ascending distance and has at most the
  requested number of hits.
\<close>

lemma retrieve_stage2_dedup_sorted:
  "retrieve_stage2 st names ids q n = Inr hs \<Longrightarrow>
     distinct (map fingerprint hs) \<and> sorted (map hit_dist hs) \<and> length hs \<le> n"
  by (erule retrieve_stage2_Inr) (auto simp: fp_inv_def distinct_take_sort_key sorted_take_sort_key)

theorem retrieve_stage2_dedup_sorted_witness:
  "retrieve_stage2 sb_store [] [registrar] scenario_b_query 10 =
     Inr [chunk_hit scenario_b_dist scenario_b_query service_chunk, chunk_hit scenario_b_dist scenario_b_query location_chunk] \<and>
   distinct (map fingerprint [chunk_hit scenario_b_dist scenario_b_query service_chunk,
     chunk_hit scenario_b_dist scenario_b_query location_chunk])"
  using scenario_b_stage2 [of "[]"] retrieve_stage2_dedup_sorted [OF scenario_b_stage2 [of "[]"]] by simp

text \<open>
  Claim C3: location augmentation keeps the reranked result
  as a prefix. It appends only location chunks whose first 100 characters match no
  document already present, and no two appended chunks share those 100 characters.
\<close>

lemma append_location_chunks_extends:
  assumes "append_location_chunks st res ids names k = Inr out"
  shows "loc_extends res out"
proof (rule append_location_chunks_Inr [OF assms])
  fix xs qf acc
  assume a: "for_each_query qf append_locations xs (map doc_key res, res) = Inr acc" "out = snd acc"
  have "dk_inv acc \<and> loc_extends res (snd acc)"
    by (rule for_each_query_inv [OF a(1)]) (simp add: dk_inv_start loc_extends_refl, rule append_locations_step)
  then show ?thesis using a(2) by simp
qed

theorem append_location_chunks_extends_witness:
  "append_location_chunks sb_store scenario_b_answer [registrar] [] 2 = Inr scenario_b_answer \<and>
   loc_extends scenario_b_answer scenario_b_answer"
  using scenario_b_augment [of "[]"] append_location_chunks_extends [OF scenario_b_augment [of "[]"]] by simp

text \<open>
  Claim C13: the location boost moves a location chunk ahead of a nearer chunk of another
  type. For a location query, a location hit whose distance is less than 0.2 above that of a
  non-location hit (at a positive distance) is in the reranked top k whenever the other
  hit is.
\<close>

theorem rerank_location_boost_ahead:
  assumes "h1 \<in> set hs" "md_type (hit_meta h1) = Location" "md_type (hit_meta h2) \<noteq> Location"
    and "0 < hit_dist h2" "hit_dist h1 < hit_dist h2 + 0.2"
    and "boost_hit Location h2 \<in> set (rerank_with_intent hs Location k)"
  shows "boost_hit Location h1 \<in> set (rerank_with_intent hs Location k)"
proof -
  have "hit_dist (boost_hit Location h1) < hit_dist (boost_hit Location h2)"
    using assms(2-5) by (simp add: apply_type_boost_def)
  moreover have "hs \<noteq> []" using assms(1) by auto
  ultimately show ?thesis
    using sorted_take_mem_less [of hit_dist "sort_key hit_dist (map (boost_hit Location) hs)"] assms(1,6)
    by (simp add: rerank_with_intent_def)
qed

theorem rerank_location_boost_ahead_witness:
  "boost_hit Location (chunk_hit scenario_b_dist scenario_b_query location_chunk) \<in>
     set (rerank_with_intent [chunk_hit scenario_b_dist scenario_b_query service_chunk,
       chunk_hit scenario_b_dist scenario_b_query location_chunk] Location 5)"
proof -
  let ?s = "chunk_hit scenario_b_dist scenario_b_query service_chunk"
  let ?l = "chunk_hit scenario_b_dist scenario_b_query location_chunk"
  have b: "boost_hit Location ?s = ?s"
    by (simp add: boost_hit_def apply_type_boost_def chunk_hit_def hit_dist_def hit_meta_def hit_doc_def
        service_chunk_def base_meta_def)
  have "boost_hit Location ?s \<in> set (rerank_with_intent [?s, ?l] Location 5)"
    unfolding b scenario_b_rerank by (simp add: scenario_b_answer_def)
  then show ?thesis
    by (rule rerank_location_boost_ahead [rotated 5])
      (simp_all add: chunk_hit_def hit_dist_def hit_meta_def scenario_b_dist_def service_chunk_def
        location_chunk_def base_meta_def)
qed

text \<open>
  For a non-negative distance, the boost stays between 0
  and the original distance. It lowers the distance only for a chunk whose type is the
  query's intent, and never for the general intent.
\<close>

lemma apply_type_boost_bounds:
  "0 \<le> d \<Longrightarrow> 0 \<le> apply_type_boost m d i \<and> apply_type_boost m d i \<le> d \<and>
     (apply_type_boost m d i < d \<longrightarrow> md_type m = i \<and> i \<noteq> General)"
  by (auto simp: apply_type_boost_def)

theorem apply_type_boost_bounds_witness:
  "0 \<le> apply_type_boost (ck_meta location_chunk) 0.45 Location \<and>
   apply_type_boost (ck_meta location_chunk) 0.45 Location \<le> 0.45"
  using apply_type_boost_bounds [of "0.45" "ck_meta location_chunk" Location] by simp

text \<open>
  A query that contains a location keyword is a
  location query, whatever phone or service keywords it also contains. Location has
  priority, and matching ignores case.
\<close>

lemma location_keyword_intent:
  "k \<in> set location_keywords \<Longrightarrow> contains k q \<Longrightarrow> query_intent q = Location"
  using contains_lower [of k q] location_keywords_lower [of k]
  by (auto simp: query_intent_def is_location_query_def list_ex_iff)

theorem location_keyword_intent_witness:
  "[0x5728, 0x54EA] \<in> set location_keywords \<and> contains [0x5728, 0x54EA] (scenario_b_query @ [0x96FB, 0x8A71]) \<and>
   query_intent (scenario_b_query @ [0x96FB, 0x8A71]) = Location"
proof -
  have k: "[0x5728, 0x54EA] \<in> set location_keywords" by (simp add: location_keywords_def)
  have c: "contains [0x5728, 0x54EA] (scenario_b_query @ [0x96FB, 0x8A71])" by (simp add: scenario_b_query_def)
  show ?thesis using k c location_keyword_intent [OF k c] by blast
qed

text \<open>Under the store contract, every returned hit carries
  the text and metadata of a corpus chunk and has a non-negative distance, boosts included.
\<close>

theorem retrieve_hits_from_corpus:
  assumes "store_contract corpus st" "retrieve st order q b = Inr out"
  shows "\<forall>h \<in> set out. from_corpus corpus h \<and> 0 \<le> hit_dist h"
proof -
  have "answers_in st {h. from_corpus corpus h \<and> 0 \<le> hit_dist h}"
    unfolding answers_in_def by (metis (mono_tags, lifting) Inr_inject mem_Collect_eq store_contractD [OF assms(1)] subsetI)
  then have "set out \<subseteq> {h. from_corpus corpus h \<and> 0 \<le> hit_dist h}"
    by (rule retrieve_in [OF assms(2)]) (simp add: apply_type_boost_nonneg)
  then show ?thesis by blast
qed

theorem retrieve_hits_from_corpus_witness:
  "from_corpus scenario_b_corpus boosted_location \<and> 0 \<le> hit_dist boosted_location"
  using retrieve_hits_from_corpus [OF scenario_b_contract scenario_b_run] scenario_b_answer_hits by blast

text \<open>The answer is not capped at top-5. When the store returns
  at most the requested number of hits, the answer has at most 5 + 2m hits. Here m counts
  the Stage-1 unit ids, or the unit names when no id was found.
\<close>

lemma retrieve_length_bound:
  assumes bnd: "\<forall>q n w hs. st q n w = Inr hs \<longrightarrow> length hs \<le> n"
    and order: "\<forall>xs. length (order xs) = length xs"
    and s1: "st q 5 None = Inr s1" and out: "retrieve st order q b = Inr out"
  shows "length out \<le> 5 + 2 * length (if stage1_unit_ids s1 = [] then stage1_unit_names s1 else stage1_unit_ids s1)"
  using out
proof (cases rule: retrieve_cases)
  case single
  then obtain hs where "out = rerank_with_intent hs (query_intent q) 5"
    by (auto simp: retrieve_with_priority_def split: sum.splits)
  then have "length out \<le> 5" using rerank_with_intent_length by blast
  then show ?thesis by linarith
next
  case (two s1' s2)
  have "s1' = s1" using two(1) s1 by simp
  then have a: "append_location_chunks st (rerank_with_intent s2 (query_intent q) 5) (order (stage1_unit_ids s1))
         (order (stage1_unit_names s1)) 2 = Inr out" using two(3) by simp
  have "length out \<le> length (rerank_with_intent s2 (query_intent q) 5) + 2 *
      length (if order (stage1_unit_ids s1) = [] then order (stage1_unit_names s1) else order (stage1_unit_ids s1))"
    using append_location_chunks_length [OF a bnd] by simp
  moreover have "length (rerank_with_intent s2 (query_intent q) 5) \<le> 5"
    by (rule rerank_with_intent_length)
  moreover have "order xs = [] \<longleftrightarrow> xs = []" for xs using order by (metis length_0_conv)
  ultimately show ?thesis using order by (simp split: if_splits)
qed

theorem retrieve_length_bound_witness:
  "length scenario_b_answer \<le> 5 + 2 * length (stage1_unit_ids [chunk_hit scenario_b_dist scenario_b_query service_chunk,
     chunk_hit scenario_b_dist scenario_b_query location_chunk])"
  using retrieve_length_bound [OF store_contract_bounded [OF scenario_b_contract] _ scenario_b_stage1 scenario_b_run]
    scenario_b_ids by simp

text \<open>When Stage 1 yields no unit name and no unit id, the
  engine does not rerank the Stage-1 hits. It discards them, issues a fresh top-15 query
  and reranks that.
\<close>

lemma retrieve_no_units_requery:
  "st q 5 None = Inr s1 \<Longrightarrow> stage1_unit_names s1 = [] \<Longrightarrow> stage1_unit_ids s1 = [] \<Longrightarrow> order [] = [] \<Longrightarrow>
   retrieve st order q True =
     (case st q 15 None of Inl e \<Rightarrow> Inl e | Inr hs \<Rightarrow> Inr (rerank_with_intent hs (query_intent q) 5))"
  by (simp add: retrieve_def retrieve_with_priority_def Let_def)

theorem retrieve_no_units_requery_witness:
  "retrieve (ref_store [] scenario_b_dist) id scenario_b_query True =
     (case ref_store [] scenario_b_dist scenario_b_query 15 None of Inl e \<Rightarrow> Inl e
      | Inr hs \<Rightarrow> Inr (rerank_with_intent hs (query_intent scenario_b_query) 5))"
proof -
  have s: "ref_store [] scenario_b_dist scenario_b_query 5 None = Inr []" by (simp add: ref_store_def)
  have "stage1_unit_names [] = []" "stage1_unit_ids [] = []"
    by (simp_all add: stage1_unit_names_def stage1_unit_ids_def map_filter_def)
  then show ?thesis
    using retrieve_no_units_requery [of "ref_store [] scenario_b_dist" scenario_b_query "[]" id, OF s] by simp
qed

text \<open>
  Claim C25: in the two-stage path, when Stage 1 succeeds and, for any one of the units it
  finds, the filtered Stage-2 query and its unfiltered retry both raise, the whole request
  raises: the failed branch is not treated as empty.
\<close>

theorem stage2_failure_aborts:
  assumes "st q 5 None = Inr s1" "u \<in> set (order (stage1_unit_ids s1))"
    and "st q 10 (Some (WhereUnit u)) = Inl e1" "st q 10 None = Inl e2"
  shows "\<exists>e. retrieve st order q True = Inl e"
proof -
  have "query_or_unfiltered st q 10 (WhereUnit u) = Inl e2"
    using assms(3,4) by (simp add: query_or_unfiltered_def)
  then have "\<exists>e. for_each_query (\<lambda>u. query_or_unfiltered st q 10 (WhereUnit u)) merge_new
      (order (stage1_unit_ids s1)) ([], []) = Inl e"
    by (intro for_each_query_raises [OF assms(2)]) simp
  then obtain e where "for_each_query (\<lambda>u. query_or_unfiltered st q 10 (WhereUnit u)) merge_new
      (order (stage1_unit_ids s1)) ([], []) = Inl e" ..
  then have "retrieve_stage2 st (order (stage1_unit_names s1)) (order (stage1_unit_ids s1)) q 10 = Inl e"
    by (simp add: retrieve_stage2_def)
  moreover have "order (stage1_unit_ids s1) \<noteq> []" using assms(2) by auto
  ultimately show ?thesis using assms(1) by (simp add: retrieve_def Let_def)
qed

theorem stage2_failure_aborts_witness:
  "\<exists>e. retrieve (\<lambda>q n w. if n = 5 then sb_store q n w else Inl StoreError) id scenario_b_query True = Inl e"
  using scenario_b_stage1 scenario_b_ids
  by (intro stage2_failure_aborts [of "\<lambda>q n w. if n = 5 then sb_store q n w else Inl StoreError" scenario_b_query
      "[chunk_hit scenario_b_dist scenario_b_query service_chunk, chunk_hit scenario_b_dist scenario_b_query location_chunk]"
      registrar id]) simp_all

text \<open>
  The single-stage path does not deduplicate. A corpus
  holding the same page twice yields an answer with two hits of the same fingerprint.
\<close>

theorem single_stage_duplicates:
  "\<exists>out. retrieve (ref_store [service_chunk, service_chunk] scenario_b_dist) id scenario_b_query False = Inr out \<and>
     \<not> distinct (map fingerprint out)"
proof -
  have r: "ref_store [service_chunk, service_chunk] scenario_b_dist scenario_b_query 15 None =
     Inr [chunk_hit scenario_b_dist scenario_b_query service_chunk, chunk_hit scenario_b_dist scenario_b_query service_chunk]"
    by (simp add: ref_store_def where_sat_def)
  have "retrieve (ref_store [service_chunk, service_chunk] scenario_b_dist) id scenario_b_query False =
     Inr [chunk_hit scenario_b_dist scenario_b_query service_chunk, chunk_hit scenario_b_dist scenario_b_query service_chunk]"
    using scenario_b_intent r
    by (simp add: retrieve_def retrieve_with_priority_def rerank_with_intent_def boost_hit_def apply_type_boost_def
      chunk_hit_def hit_dist_def hit_meta_def hit_doc_def service_chunk_def base_meta_def)
  then show ?thesis by simp
qed

end
