(* ===== verification/ChunkBuilder.thy ===== *)
theory ChunkBuilder
  imports TextCleaner OfficeExtractor UnitIdentifier ChunkModel PyRepr "HOL-Library.AList"
begin

text \<open>
  The chunk builder of \<^verbatim>\<open>src/processor.py\<close> (\<^verbatim>\<open>DataProcessor\<close>): building detection, the
  office-location map of the \<open>admin\<close> pages, the enrichment of every cleaned document with
  the locations of the offices it names, titles, the chunk-type classifier, the location
  chunks and the pipeline \<^verbatim>\<open>process\<close> that turns the loaded items into chunks. The text
  splitter (LangChain's \<^verbatim>\<open>RecursiveCharacterTextSplitter\<close>, a library) is a parameter;
  the dictionaries the code builds are association lists with Python's dict update (an
  existing key keeps its position), \<open>AList.update\<close>.
\<close>

section \<open>Data\<close>

text \<open>A loaded item (\<^verbatim>\<open>load_json_files\<close>): its title (empty when missing), url,
  department (the first directory under the data directory), and the scraped part's
  success flag and content (empty when missing).\<close>

record raw_item =
  ri_title :: pystr
  ri_url :: pystr
  ri_department :: pystr
  ri_success :: bool
  ri_content :: pystr

section \<open>Buildings\<close>

text \<open>\<^verbatim>\<open>self.building_patterns\<close> in insertion order: U+884C U+653F U+5927 U+6A13,
  U+656C U+8CE2 U+6A13, U+7E3D U+5716 U+66F8 U+9928, U+5171 U+540C U+6559 U+5B78 U+9928,
  U+79AE U+8CE2 U+6A13, U+5C55 U+66F8 U+6A13 and U+671B U+6A02 U+6A13, each with its
  English name.\<close>

definition building_patterns :: "(pystr \<times> pystr list) list" where
  "building_patterns =
     [([0x884C, 0x653F, 0x5927, LOU], [[0x884C, 0x653F, 0x5927, LOU], asc ''Administration Building'']),
      ([0x656C, 0x8CE2, LOU], [[0x656C, 0x8CE2, LOU], asc ''Jing-Xian Hall'']),
      ([0x7E3D, 0x5716, 0x66F8, 0x9928], [[0x7E3D, 0x5716, 0x66F8, 0x9928], asc ''Main Library'']),
      ([0x5171, 0x540C, 0x6559, 0x5B78, 0x9928], [[0x5171, 0x540C, 0x6559, 0x5B78, 0x9928], asc ''General Building'']),
      ([0x79AE, 0x8CE2, LOU], [[0x79AE, 0x8CE2, LOU], asc ''Lixian Hall'']),
      ([0x5C55, 0x66F8, LOU], [[0x5C55, 0x66F8, LOU], asc ''Jan Shu Hall'']),
      ([0x671B, 0x6A02, LOU], [[0x671B, 0x6A02, LOU], asc ''Hall of Joy and Hope''])]"

definition detect_building :: "pystr \<Rightarrow> pystr option" where
  "detect_building text = map_option fst (find (\<lambda>(b, ps). list_ex (\<lambda>p. contains p text) ps) building_patterns)"

text \<open>The test \<^verbatim>\<open>"## " in t or LOU in t\<close> that gates the office extraction.\<close>

definition has_floor_mark :: "pystr \<Rightarrow> bool" where
  "has_floor_mark t \<longleftrightarrow> contains (asc ''## '') t \<or> contains [LOU] t"

section \<open>The location map\<close>

text \<open>\<^verbatim>\<open>f"{building} {floor} {room}"\<close> followed by U+5BA4 (room).\<close>

definition loc_info :: "office \<Rightarrow> pystr" where
  "loc_info ofc = ofc_building ofc @ [32] @ ofc_floor ofc @ [32] @ ofc_room ofc @ [0x5BA4]"

definition add_offices :: "office list \<Rightarrow> (pystr \<times> pystr) list \<Rightarrow> (pystr \<times> pystr) list" where
  "add_offices os m = fold (\<lambda>ofc. AList.update (ofc_name_zh ofc) (loc_info ofc)) os m"

text \<open>One item of \<^verbatim>\<open>build_location_map\<close>: only \<open>admin\<close> items with content are read; the
  cleaner may raise, which ends the whole method.\<close>

definition location_map_step :: "(pystr \<times> pystr) list \<Rightarrow> raw_item \<Rightarrow> py_error + (pystr \<times> pystr) list" where
  "location_map_step m it =
     (if ri_department it = admin_dept \<and> ri_content it \<noteq> [] then
        (case clean_text_advanced (ri_content it) admin_dept of
           Inl e \<Rightarrow> Inl e
         | Inr cc \<Rightarrow>
             (case detect_building cc of
                Some b \<Rightarrow> if has_floor_mark cc then Inr (add_offices (extract_office_locations cc b) m) else Inr m
              | None \<Rightarrow> Inr m))
      else Inr m)"

fun build_location_map_from :: "(pystr \<times> pystr) list \<Rightarrow> raw_item list \<Rightarrow> py_error + (pystr \<times> pystr) list" where
  "build_location_map_from m [] = Inr m"
| "build_location_map_from m (it # its) =
     (case location_map_step m it of Inl e \<Rightarrow> Inl e | Inr m' \<Rightarrow> build_location_map_from m' its)"

definition build_location_map :: "raw_item list \<Rightarrow> py_error + (pystr \<times> pystr) list" where
  "build_location_map items = build_location_map_from [] items"




section \<open>Enrichment\<close>

text \<open>U+4F4D U+7F6E U+FF1A ("location:").\<close>

definition loc_tag :: pystr where
  "loc_tag = [0x4F4D, 0x7F6E, 0xFF1A]"

text \<open>The loop over the map: a name found in the content adds its note unless the text
  \<^verbatim>\<open>f"{office_name}LOC:"\<close> already occurs in \<^verbatim>\<open>str(added_locations)\<close>.\<close>

fun collect_locations :: "pystr \<Rightarrow> (pystr \<times> pystr) list \<Rightarrow> pystr list \<Rightarrow> pystr list" where
  "collect_locations c [] added = added"
| "collect_locations c ((nm, loc) # m) added =
     collect_locations c m
       (if contains nm c \<and> \<not> contains (nm @ loc_tag) (py_list_repr added) then added @ [nm @ loc_tag @ loc] else added)"

definition enrich_content_with_locations :: "pystr \<Rightarrow> (pystr \<times> pystr) list \<Rightarrow> pystr" where
  "enrich_content_with_locations c m =
     (if c = [] then []
      else let added = collect_locations c m [] in
        if added = [] then c
        else c @ [10, 10] @ supp_marker @ [10] @ py_join [10] (sort (remdups added)))"

section \<open>Titles and chunk types\<close>

text \<open>\<^verbatim>\<open>_extract_title\<close>: the first line that is not blank, stripped.\<close>

definition extract_title :: "pystr \<Rightarrow> pystr" where
  "extract_title content =
     (if content = [] then []
      else case find (\<lambda>l. py_strip l \<noteq> []) (split_char 10 content) of None \<Rightarrow> [] | Some l \<Rightarrow> py_strip l)"

text \<open>The classifier's keyword lists (U+96FB U+8A71, U+5206 U+6A5F, U+806F U+7D61 U+65B9
  U+5F0F, U+806F U+7D61, tel, phone; and eight service words).\<close>

definition phone_keywords :: "pystr list" where
  "phone_keywords = [[0x96FB, 0x8A71], [0x5206, 0x6A5F], [0x806F, 0x7D61, 0x65B9, 0x5F0F],
     [0x806F, 0x7D61], asc ''tel'', asc ''phone'']"

definition service_keywords :: "pystr list" where
  "service_keywords = [[0x670D, 0x52D9], [0x696D, 0x52D9], [0x8077, 0x638C], [0x8FA6, 0x7406],
     [0x7533, 0x8ACB], [0x6D41, 0x7A0B], [0x898F, 0x5B9A], [0x8981, 0x4EF6]]"

definition classify_chunk_type :: "pystr \<Rightarrow> chunk_type" where
  "classify_chunk_type text =
     (if text = [] then General
      else if list_ex (\<lambda>k. contains (py_lower k) (py_lower text)) phone_keywords then Phone
      else if list_ex (\<lambda>k. contains (py_lower k) (py_lower text)) service_keywords then Service
      else General)"

section \<open>Location chunks\<close>

text \<open>The bilingual template of \<^verbatim>\<open>_create_location_chunks\<close>: a heading U+3010 name
  U+4F4D U+7F6E U+8CC7 U+8A0A U+3011, the name, the English name, the "field: value"
  lines (location, building, floor, room number) and two sentences; then, when there is
  an English name, an English sentence.\<close>

definition location_text :: "office \<Rightarrow> pystr" where
  "location_text ofc =
     (let n = ofc_name_zh ofc; e = ofc_name_en ofc; b = ofc_building ofc; f = ofc_floor ofc; r = ofc_room ofc in
      [0x3010] @ n @ [0x4F4D, 0x7F6E, 0x8CC7, 0x8A0A, 0x3011, 10] @ n @ [10] @
      [0x82F1, 0x6587, 0x540D, 0x7A31, 0xFF1A] @ e @ [10] @
      [0x4F4D, 0x7F6E, 0xFF1A] @ b @ [32] @ f @ [32] @ r @ [0x5BA4, 10] @
      [0x5EFA, 0x7BC9, 0x7269, 0xFF1A] @ b @ [10] @
      [0x6A13, 0x5C64, 0xFF1A] @ f @ [10] @
      [0x623F, 0x9593, 0x865F, 0x78BC, 0xFF1A] @ r @ [10, 10] @
      n @ [0x4F4D, 0x65BC] @ b @ f @ [0x7684] @ r @ [0x5BA4, 0x3002, 10] @
      [0x5982, 0x9700, 0x524D, 0x5F80] @ n @ [0xFF0C, 0x8ACB, 0x81F3] @ b @ f @ [0x627E] @ r @ [0x5BA4, 0x3002] @
      (if e \<noteq> [] then [10] @ e @ asc '' is located at Room '' @ r @ asc '', '' @ f @ asc '', '' @ b @ asc ''.'' else []))"

definition location_chunk_of :: "pystr \<Rightarrow> pystr \<Rightarrow> office \<Rightarrow> chunk" where
  "location_chunk_of url dept ofc =
     \<lparr>ck_text = location_text ofc,
      ck_meta = \<lparr>md_title = ofc_name_zh ofc @ [0x4F4D, 0x7F6E], md_url = url, md_department = dept,
        md_type = Location, md_unit_name = Some (ofc_name_zh ofc), md_unit_id = Some (normalize_unit_id (ofc_name_zh ofc)),
        md_building = Some (ofc_building ofc), md_floor = Some (ofc_floor ofc), md_room = Some (ofc_room ofc)\<rparr>\<rparr>"

definition create_location_chunks :: "office list \<Rightarrow> pystr \<Rightarrow> pystr \<Rightarrow> chunk list" where
  "create_location_chunks offices url dept = map (location_chunk_of url dept) offices"

section \<open>The pipeline\<close>

text \<open>Step 3 of \<^verbatim>\<open>process\<close> for one item: skipped unless the scrape succeeded and the
  stripped content has 50 characters; otherwise cleaned (which may raise) and enriched.\<close>

definition valid_item :: "(pystr \<times> pystr) list \<Rightarrow> raw_item \<Rightarrow> py_error + (raw_item \<times> pystr) option" where
  "valid_item lm it =
     (let content = py_strip (ri_content it) in
      if \<not> ri_success it \<or> length content < 50 then Inr None
      else case clean_text_advanced content (ri_department it) of
             Inl e \<Rightarrow> Inl e
           | Inr cc \<Rightarrow> Inr (Some (it, enrich_content_with_locations cc lm)))"

fun valid_items :: "(pystr \<times> pystr) list \<Rightarrow> raw_item list \<Rightarrow> py_error + (raw_item \<times> pystr) list" where
  "valid_items lm [] = Inr []"
| "valid_items lm (it # its) =
     (case valid_item lm it of
        Inl e \<Rightarrow> Inl e
      | Inr v \<Rightarrow> (case valid_items lm its of
                    Inl e \<Rightarrow> Inl e
                  | Inr vs \<Rightarrow> Inr (case v of None \<Rightarrow> vs | Some x \<Rightarrow> x # vs)))"

text \<open>Python's \<open>a or b\<close> on optional strings: \<open>a\<close> unless it is \<open>None\<close> or empty.\<close>

definition py_or :: "pystr option \<Rightarrow> pystr option \<Rightarrow> pystr option" where
  "py_or a b = (case a of Some u \<Rightarrow> if u = [] then b else Some u | None \<Rightarrow> b)"

definition doc_title :: "raw_item \<Rightarrow> pystr \<Rightarrow> pystr" where
  "doc_title it text = (if ri_title it \<noteq> [] then ri_title it else extract_title text)"

text \<open>The metadata of the generic chunks of a document: the unit keys are set only when
  non-empty.\<close>

definition doc_metadata :: "raw_item \<Rightarrow> pystr \<Rightarrow> pystr \<Rightarrow> metadata" where
  "doc_metadata it text title =
     (let un = py_or (extract_unit_name_from_text title) (extract_unit_name_from_text text);
          uid = (case un of Some u \<Rightarrow> if u \<noteq> [] then normalize_unit_id u else [] | None \<Rightarrow> []) in
      \<lparr>md_title = title, md_url = ri_url it, md_department = ri_department it, md_type = classify_chunk_type text,
       md_unit_name = (case un of Some u \<Rightarrow> if u \<noteq> [] then Some u else None | None \<Rightarrow> None),
       md_unit_id = (if uid \<noteq> [] then Some uid else None),
       md_building = None, md_floor = None, md_room = None\<rparr>)"

text \<open>Step 5 for one document: its location chunks, when a building is named and the text
  has a floor mark and an entry dash, then one chunk per piece of the splitter, prefixed
  with U+3010 U+4F4D U+65BC U+FF1A title U+3011 and a line break.\<close>

definition doc_chunks :: "(pystr \<Rightarrow> pystr list) \<Rightarrow> raw_item \<Rightarrow> pystr \<Rightarrow> chunk list" where
  "doc_chunks splitter it text =
     (let title = doc_title it text;
          meta = doc_metadata it text title;
          locs = (case detect_building text of
                    Some b \<Rightarrow> if has_floor_mark text \<and> contains (asc ''- '') text
                             then create_location_chunks (extract_office_locations text b) (ri_url it) (ri_department it)
                             else []
                  | None \<Rightarrow> [])
      in locs @ map (\<lambda>p. \<lparr>ck_text = [0x3010, 0x4F4D, 0x65BC, 0xFF1A] @ title @ [0x3011, 10] @ p, ck_meta = meta\<rparr>)
                (splitter text))"

definition process :: "(pystr \<Rightarrow> pystr list) \<Rightarrow> raw_item list \<Rightarrow> py_error + chunk list" where
  "process splitter items =
     (case build_location_map items of
        Inl e \<Rightarrow> Inl e
      | Inr lm \<Rightarrow>
          (case valid_items lm items of
             Inl e \<Rightarrow> Inl e
           | Inr vs \<Rightarrow> Inr (concat (map (\<lambda>(it, t). doc_chunks splitter it t) vs))))"


section \<open>Test data\<close>

definition loc_consistent :: "metadata \<Rightarrow> bool" where
  "loc_consistent m \<longleftrightarrow> (md_type m = Location \<longleftrightarrow> md_building m \<noteq> None) \<and>
     (md_type m = Location \<longleftrightarrow> md_floor m \<noteq> None) \<and> (md_type m = Location \<longleftrightarrow> md_room m \<noteq> None)"

text \<open>Where an entry of the map comes from.\<close>

definition map_origin :: "raw_item list \<Rightarrow> pystr \<times> pystr \<Rightarrow> bool" where
  "map_origin items kv \<longleftrightarrow> (\<exists>it \<in> set items. ri_department it = admin_dept \<and>
     (\<exists>cc b ofc. clean_text_advanced (ri_content it) admin_dept = Inr cc \<and> detect_building cc = Some b \<and>
        ofc \<in> set (extract_office_locations cc b) \<and> kv = (ofc_name_zh ofc, loc_info ofc)))"

definition directory_text :: pystr where
  "directory_text = [0x884C, 0x653F, 0x5927, LOU] @ asc '' Administration Building offices'' @ [10] @
     asc ''## 1'' @ [LOU, 10] @ asc ''- 106 '' @ [0x8A3B, 0x518A, 0x7D44] @ asc '' (Registrar)''"

definition directory_item :: raw_item where
  "directory_item = \<lparr>ri_title = [0x8A3B, 0x518A, 0x7D44], ri_url = asc ''u'', ri_department = asc ''aca'',
     ri_success = True, ri_content = directory_text\<rparr>"

definition directory_line1 :: pystr where
  "directory_line1 = [0x884C, 0x653F, 0x5927, LOU] @ asc '' Administration Building offices''"

definition directory_entry :: pystr where
  "directory_entry = asc ''- 106 '' @ [0x8A3B, 0x518A, 0x7D44] @ asc '' (Registrar)''"

definition directory_clean :: pystr where
  "directory_clean = directory_line1 @ [10] @ asc ''## 1'' @ [LOU, 10] @ directory_entry"

definition directory_office :: office where
  "directory_office = \<lparr>ofc_building = [0x884C, 0x653F, 0x5927, LOU], ofc_floor = [0x31, LOU], ofc_room = asc ''106'',
     ofc_name_zh = [0x8A3B, 0x518A, 0x7D44], ofc_name_en = asc ''Registrar''\<rparr>"

definition directory_meta :: metadata where
  "directory_meta = \<lparr>md_title = [0x8A3B, 0x518A, 0x7D44], md_url = asc ''u'', md_department = asc ''aca'',
     md_type = General, md_unit_name = Some [0x8A3B, 0x518A, 0x7D44], md_unit_id = Some [0x8A3B, 0x518A, 0x7D44],
     md_building = None, md_floor = None, md_room = None\<rparr>"

definition directory_chunks :: "chunk list" where
  "directory_chunks =
     [location_chunk_of (asc ''u'') (asc ''aca'') directory_office,
      \<lparr>ck_text = [0x3010, 0x4F4D, 0x65BC, 0xFF1A] @ [0x8A3B, 0x518A, 0x7D44] @ [0x3011, 10] @ directory_clean,
       ck_meta = directory_meta\<rparr>]"

definition admin_item :: raw_item where
  "admin_item = directory_item\<lparr>ri_department := admin_dept\<rparr>"

definition aca_registrar :: pystr where
  "aca_registrar = [0x6559, 0x52D9, 0x8655, 0x8A3B, 0x518A, 0x7D44]"

section \<open>Lemmas\<close>

lemma classify_not_location: "classify_chunk_type t \<noteq> Location"
  by (simp add: classify_chunk_type_def)

lemma doc_chunks_cases:
  assumes "c \<in> set (doc_chunks s it t)"
  obtains (loc) ofc where "c = location_chunk_of (ri_url it) (ri_department it) ofc"
  | (gen) p where "p \<in> set (s t)" "ck_meta c = doc_metadata it t (doc_title it t)"
      "ck_text c = [0x3010, 0x4F4D, 0x65BC, 0xFF1A] @ doc_title it t @ [0x3011, 10] @ p"
  using assms by (auto simp: doc_chunks_def Let_def create_location_chunks_def split: option.splits if_splits)

lemma doc_chunks_consistent: "c \<in> set (doc_chunks s it t) \<Longrightarrow> loc_consistent (ck_meta c)"
  by (erule doc_chunks_cases)
    (simp_all add: loc_consistent_def location_chunk_of_def doc_metadata_def Let_def classify_not_location)

lemma process_Inr:
  assumes "process s items = Inr cs" "c \<in> set cs"
  obtains it t where "c \<in> set (doc_chunks s it t)"
  using assms by (auto simp: process_def split: sum.splits)

lemma location_text_mentions:
  "contains (ofc_name_zh ofc) (location_text ofc) \<and> contains (ofc_building ofc) (location_text ofc) \<and>
   contains (ofc_floor ofc) (location_text ofc) \<and> contains (ofc_room ofc) (location_text ofc)"
  unfolding location_text_def Let_def
  by (intro conjI; intro contains_prefix contains_append_left)

lemma py_or_Some: "py_or a b = Some u \<Longrightarrow> a = Some u \<or> b = Some u"
  by (auto simp: py_or_def split: option.splits if_splits)

lemma doc_metadata_unit_keys:
  "(md_unit_name (doc_metadata it t ti) \<noteq> None) = (md_unit_id (doc_metadata it t ti) \<noteq> None)"
proof (cases "py_or (extract_unit_name_from_text ti) (extract_unit_name_from_text t)")
  case (Some u)
  then have "u \<noteq> [] \<Longrightarrow> normalize_unit_id u \<noteq> []"
    using py_or_Some detected_unit_id_nonempty by metis
  then show ?thesis using Some by (simp add: doc_metadata_def Let_def)
qed (simp add: doc_metadata_def Let_def)

lemma doc_chunks_generic:
  "filter (\<lambda>c. md_type (ck_meta c) \<noteq> Location) (doc_chunks s it t) =
     map (\<lambda>p. \<lparr>ck_text = [0x3010, 0x4F4D, 0x65BC, 0xFF1A] @ doc_title it t @ [0x3011, 10] @ p,
                ck_meta = doc_metadata it t (doc_title it t)\<rparr>) (s t)"
  by (simp add: doc_chunks_def Let_def create_location_chunks_def location_chunk_of_def filter_map comp_def
      doc_metadata_def classify_not_location split: option.splits)

lemma set_update_subset: "set (AList.update k v al) \<subseteq> insert (k, v) (set al)"
  by (induction al) auto

lemma add_offices_distinct: "distinct (map fst m) \<Longrightarrow> distinct (map fst (add_offices os m))"
  unfolding add_offices_def by (induction os arbitrary: m) (simp_all add: distinct_update)

lemma add_offices_set:
  "set (add_offices os m) \<subseteq> set m \<union> {(ofc_name_zh ofc, loc_info ofc) | ofc. ofc \<in> set os}"
  unfolding add_offices_def
proof (induction os arbitrary: m)
  case (Cons ofc os)
  show ?case using Cons.IH [of "AList.update (ofc_name_zh ofc) (loc_info ofc) m"] set_update_subset by fastforce
qed simp

lemma location_map_step_inv:
  assumes "location_map_step m it = Inr m'" "distinct (map fst m)" "\<forall>kv \<in> set m. map_origin items kv"
    and "it \<in> set items"
  shows "distinct (map fst m') \<and> (\<forall>kv \<in> set m'. map_origin items kv)"
proof (cases "ri_department it = admin_dept \<and> ri_content it \<noteq> []")
  case True
  then obtain cc where cc: "clean_text_advanced (ri_content it) admin_dept = Inr cc"
    using assms(1) by (auto simp: location_map_step_def split: sum.splits)
  show ?thesis
  proof (cases "detect_building cc")
    case (Some b)
    then have "m' = m \<or> m' = add_offices (extract_office_locations cc b) m"
      using assms(1) True cc by (auto simp: location_map_step_def split: if_splits)
    moreover have "map_origin items (ofc_name_zh ofc, loc_info ofc)"
      if "ofc \<in> set (extract_office_locations cc b)" for ofc
      using that True cc Some assms(4) unfolding map_origin_def by blast
    ultimately show ?thesis
      using assms(2,3) add_offices_distinct add_offices_set [of "extract_office_locations cc b" m] by blast
  next
    case None
    then show ?thesis using assms(1-3) True cc by (simp add: location_map_step_def)
  qed
next
  case False
  then have "m' = m" using assms(1) by (simp add: location_map_step_def split: if_splits)
  then show ?thesis using assms(2,3) by simp
qed

lemma build_location_map_from_inv:
  "build_location_map_from m its = Inr m' \<Longrightarrow> set its \<subseteq> set items \<Longrightarrow> distinct (map fst m) \<Longrightarrow>
     \<forall>kv \<in> set m. map_origin items kv \<Longrightarrow> distinct (map fst m') \<and> (\<forall>kv \<in> set m'. map_origin items kv)"
proof (induction m its rule: build_location_map_from.induct)
  case (2 m it its)
  then obtain m1 where s: "location_map_step m it = Inr m1" and r: "build_location_map_from m1 its = Inr m'"
    by (auto split: sum.splits)
  have "distinct (map fst m1) \<and> (\<forall>kv \<in> set m1. map_origin items kv)"
    using location_map_step_inv [OF s] "2.prems" by simp
  then show ?case using "2.IH" [OF s r] "2.prems"(2) by simp
qed simp

lemma collect_locations_sound:
  "set added \<subseteq> S \<Longrightarrow> (\<And>nm loc. (nm, loc) \<in> set m \<Longrightarrow> contains nm c \<Longrightarrow> nm @ loc_tag @ loc \<in> S) \<Longrightarrow>
     set (collect_locations c m added) \<subseteq> S"
proof (induction m arbitrary: added)
  case (Cons p m)
  obtain nm loc where p: "p = (nm, loc)" by fastforce
  let ?a = "if contains nm c \<and> \<not> contains (nm @ loc_tag) (py_list_repr added) then added @ [nm @ loc_tag @ loc] else added"
  have "set ?a \<subseteq> S" using Cons.prems p by (simp split: if_split)
  then have "set (collect_locations c m ?a) \<subseteq> S" using Cons.IH Cons.prems(2) by simp
  then show ?case using p by simp
qed simp





lemma directory_text_clean_dept:
  assumes d: "dept_fix dept directory_text = directory_text"
  shows "clean_text_advanced directory_text dept = Inr directory_clean"
proof -
  have m: "strip_marker directory_text = directory_text"
    by (simp add: strip_marker_def directory_text_def supp_marker_def pystr_eval)
  have l: "clean_lines directory_text = [directory_line1, [0x31, LOU], directory_entry]"
    by (simp add: clean_lines_def clean_line_def directory_text_def directory_line1_def directory_entry_def
        noise_patterns_def pystr_eval)
  have r: "reformat [directory_line1, [0x31, LOU], directory_entry] =
      Inr [directory_line1, asc ''## 1'' @ [LOU], directory_entry]"
    by (simp add: is_room_def format_line_def directory_line1_def directory_entry_def pystr_eval)
  have j: "strip_marker (py_join [10] [directory_line1, asc ''## 1'' @ [LOU], directory_entry]) = directory_clean"
    by (simp add: strip_marker_def directory_clean_def directory_line1_def directory_entry_def supp_marker_def pystr_eval)
  have ne: "directory_text \<noteq> []" by (simp add: directory_text_def)
  show ?thesis
    by (simp add: clean_text_advanced_def m d l r j ne del: reformat.simps py_join.simps)
qed

lemma directory_text_clean: "clean_text_advanced directory_text (asc ''aca'') = Inr directory_clean"
  by (rule directory_text_clean_dept) (simp add: dept_fix_def admin_dept_def pystr_eval)

lemma directory_offices:
  "extract_office_locations directory_clean [0x884C, 0x653F, 0x5927, LOU] = [directory_office]"
  by (simp add: extract_office_locations_def extract_step_def LOU_def directory_clean_def directory_line1_def directory_entry_def
      directory_office_def floor_match_def floor_core_def office_match_def room_token_def en_group_def pystr_eval)

lemma directory_building: "detect_building directory_clean = Some [0x884C, 0x653F, 0x5927, LOU]"
  by (simp add: detect_building_def building_patterns_def directory_clean_def directory_line1_def pystr_eval)

lemma directory_marks: "has_floor_mark directory_clean \<and> contains (asc ''- '') directory_clean"
  by (simp add: has_floor_mark_def directory_clean_def directory_line1_def directory_entry_def pystr_eval)

lemma directory_unit: "extract_unit_name_from_text [0x8A3B, 0x518A, 0x7D44] = Some [0x8A3B, 0x518A, 0x7D44]"
  by (simp add: extract_unit_name_from_text_def lenient_patterns_def lenient_suffixes_def greedy_len_def pystr_eval upt_rec)

lemma directory_type: "classify_chunk_type directory_clean = General"
  by (simp add: classify_chunk_type_def phone_keywords_def service_keywords_def directory_clean_def
      directory_line1_def directory_entry_def py_lower_def lower_char_def pystr_eval)

lemma directory_doc_chunks: "doc_chunks (\<lambda>t. [t]) directory_item directory_clean = directory_chunks"
proof -
  have u: "normalize_unit_id [0x8A3B, 0x518A, 0x7D44] = [0x8A3B, 0x518A, 0x7D44]"
    by (simp add: normalize_unit_id_def id_strip_char_def id_strip_chars_def py_lower_def lower_char_def pystr_eval)
  show ?thesis
    using directory_building directory_marks directory_unit directory_type directory_offices u
    by (simp add: doc_chunks_def directory_chunks_def doc_title_def doc_metadata_def directory_item_def directory_meta_def
        create_location_chunks_def py_or_def Let_def)
qed

lemma directory_process: "process (\<lambda>t. [t]) [directory_item] = Inr directory_chunks"
proof -
  have b: "build_location_map [directory_item] = Inr []"
    by (simp add: build_location_map_def location_map_step_def directory_item_def admin_dept_def pystr_eval)
  have len: "\<not> length (py_strip directory_text) < 50"
    by (simp add: directory_text_def py_strip_def py_lstrip_def py_rstrip_def py_isspace_def space_runs_def in_runs_def pystr_eval)
  have v: "valid_items [] [directory_item] = Inr [(directory_item, directory_clean)]"
  proof -
    have s: "py_strip directory_text = directory_text"
      by (simp add: directory_text_def py_strip_def py_lstrip_def py_rstrip_def py_isspace_def space_runs_def in_runs_def pystr_eval)
    have e: "enrich_content_with_locations directory_clean [] = directory_clean"
      by (simp add: enrich_content_with_locations_def)
    show ?thesis using s len e directory_text_clean
      by (simp add: valid_item_def directory_item_def Let_def)
  qed
  show ?thesis using b v directory_doc_chunks by (simp add: process_def)
qed

lemma admin_item_map:
  "build_location_map [admin_item] = Inr [([0x8A3B, 0x518A, 0x7D44], loc_info directory_office)]"
proof -
  have c: "clean_text_advanced directory_text admin_dept = Inr directory_clean"
    by (rule directory_text_clean_dept) (simp add: dept_fix_def directory_text_def admin_footer_def pystr_eval)
  show ?thesis using c directory_building directory_marks directory_offices
    by (simp add: build_location_map_def location_map_step_def admin_item_def directory_item_def add_offices_def
        directory_office_def directory_text_def)
qed

lemma enrich_aca_registrar_eval:
  "enrich_content_with_locations aca_registrar [(aca_registrar, asc ''A 1''), ([0x8A3B, 0x518A, 0x7D44], asc ''B 2'')] =
     aca_registrar @ [10, 10] @ supp_marker @ [10] @ aca_registrar @ loc_tag @ asc ''A 1''"
  by (simp add: enrich_content_with_locations_def aca_registrar_def loc_tag_def py_list_repr_def py_str_repr_def
      repr_char_def py_isprintable_def pystr_eval)

section \<open>Properties of the chunk builder\<close>

text \<open>
  Claim C4: every chunk the pipeline emits is a location chunk
  exactly when it carries a building, exactly when it carries a floor, and exactly when it
  carries a room (spec, Chunk: location-typed chunks always carry building/floor/room,
  other types never do).
\<close>

theorem process_location_metadata:
  assumes "process s items = Inr cs" "c \<in> set cs"
  shows "(md_type (ck_meta c) = Location) = (md_building (ck_meta c) \<noteq> None) \<and>
    (md_type (ck_meta c) = Location) = (md_floor (ck_meta c) \<noteq> None) \<and>
    (md_type (ck_meta c) = Location) = (md_room (ck_meta c) \<noteq> None)"
  using assms doc_chunks_consistent by (metis loc_consistent_def process_Inr)

theorem process_location_metadata_witness:
  "process (\<lambda>t. [t]) [directory_item] = Inr directory_chunks \<and>
   md_type (ck_meta (location_chunk_of (asc ''u'') (asc ''aca'') directory_office)) = Location \<and>
   md_building (ck_meta (location_chunk_of (asc ''u'') (asc ''aca'') directory_office)) \<noteq> None"
proof -
  have "location_chunk_of (asc ''u'') (asc ''aca'') directory_office \<in> set directory_chunks"
    by (simp add: directory_chunks_def)
  then show ?thesis
    using process_location_metadata [OF directory_process] directory_process
    by (simp add: location_chunk_of_def)
qed

text \<open>
  Claim C5: a location chunk the pipeline emits names its
  office. Its unit id is the normalised unit name, its title is the name followed by
  U+4F4D U+7F6E, and its text mentions the name, building, floor and room recorded in
  its metadata.
\<close>

theorem process_location_chunks_describe:
  assumes "process s items = Inr cs" "c \<in> set cs" "md_type (ck_meta c) = Location"
  shows "\<exists>n b f r. md_unit_name (ck_meta c) = Some n \<and> md_unit_id (ck_meta c) = Some (normalize_unit_id n) \<and>
    md_title (ck_meta c) = n @ [0x4F4D, 0x7F6E] \<and>
    md_building (ck_meta c) = Some b \<and> md_floor (ck_meta c) = Some f \<and> md_room (ck_meta c) = Some r \<and>
    contains n (ck_text c) \<and> contains b (ck_text c) \<and> contains f (ck_text c) \<and> contains r (ck_text c)"
proof -
  obtain it t where "c \<in> set (doc_chunks s it t)" using assms(1,2) by (rule process_Inr)
  then show ?thesis
  proof (cases rule: doc_chunks_cases)
    case (loc ofc)
    then show ?thesis using location_text_mentions [of ofc] by (simp add: location_chunk_of_def)
  next
    case (gen p)
    then show ?thesis using assms(3) classify_not_location by (simp add: doc_metadata_def Let_def)
  qed
qed

theorem process_location_chunks_describe_witness:
  "\<exists>n. md_unit_name (ck_meta (location_chunk_of (asc ''u'') (asc ''aca'') directory_office)) = Some n \<and>
     md_unit_id (ck_meta (location_chunk_of (asc ''u'') (asc ''aca'') directory_office)) = Some (normalize_unit_id n) \<and>
     contains n (ck_text (location_chunk_of (asc ''u'') (asc ''aca'') directory_office))"
proof -
  have c: "location_chunk_of (asc ''u'') (asc ''aca'') directory_office \<in> set directory_chunks"
    by (simp add: directory_chunks_def)
  have t: "md_type (ck_meta (location_chunk_of (asc ''u'') (asc ''aca'') directory_office)) = Location"
    by (simp add: location_chunk_of_def)
  show ?thesis using process_location_chunks_describe [OF directory_process c t] by blast
qed

text \<open>A chunk carries a unit name exactly when it carries a unit
  id. A detected unit name always normalises to a non-empty id (spec, ChunkBuilder: every
  chunk of a document with a detected unit name carries unitName and unitId).
\<close>

theorem process_unit_keys:
  assumes "process s items = Inr cs" "c \<in> set cs"
  shows "(md_unit_name (ck_meta c) \<noteq> None) = (md_unit_id (ck_meta c) \<noteq> None)"
proof -
  obtain it t where "c \<in> set (doc_chunks s it t)" using assms by (rule process_Inr)
  then show ?thesis
    by (cases rule: doc_chunks_cases) (simp add: location_chunk_of_def, metis doc_metadata_unit_keys)
qed

theorem process_unit_keys_witness:
  "process (\<lambda>t. [t]) [directory_item] = Inr directory_chunks \<and>
   (md_unit_name (ck_meta (directory_chunks ! 1)) \<noteq> None) = (md_unit_id (ck_meta (directory_chunks ! 1)) \<noteq> None)"
proof -
  have "directory_chunks ! 1 \<in> set directory_chunks" by (simp add: directory_chunks_def)
  then show ?thesis using process_unit_keys [OF directory_process] directory_process by blast
qed

text \<open>
  Location chunks are built for a directory
  listing in any department. A non-admin document naming a building, with a floor header
  and an entry line, yields a location chunk. The spec restricts location chunks to the
  authoritative directory department.
\<close>

theorem location_chunks_any_department:
  "process (\<lambda>t. [t]) [directory_item] = Inr directory_chunks \<and> ri_department directory_item \<noteq> admin_dept \<and>
   md_type (ck_meta (hd directory_chunks)) = Location \<and> md_department (ck_meta (hd directory_chunks)) = asc ''aca''"
  using directory_process
  by (simp add: directory_item_def directory_chunks_def location_chunk_of_def admin_dept_def pystr_eval)

text \<open>The location map has pairwise distinct keys. Every entry
  maps the Chinese name of an office to that office's "building floor room" text. The
  office was extracted from the cleaned content of an admin page that names a building.
\<close>

theorem build_location_map_wf:
  "build_location_map items = Inr m \<Longrightarrow> distinct (map fst m) \<and> (\<forall>kv \<in> set m. map_origin items kv)"
  unfolding build_location_map_def by (erule build_location_map_from_inv) simp_all

theorem build_location_map_wf_witness:
  "build_location_map [admin_item] = Inr [([0x8A3B, 0x518A, 0x7D44], loc_info directory_office)] \<and>
   map_origin [admin_item] ([0x8A3B, 0x518A, 0x7D44], loc_info directory_office)"
  using build_location_map_wf [OF admin_item_map] admin_item_map by simp



text \<open>Enrichment keeps the document as a prefix. It either adds nothing
  or appends, after a blank line and the marker, a non-empty, sorted, duplicate-free list
  of notes. Each note is the name of a map office that occurs in the document, the tag
  U+4F4D U+7F6E U+FF1A, and that office's location.
\<close>

theorem enrich_shape:
  "enrich_content_with_locations c m = c \<or>
   (\<exists>notes. enrich_content_with_locations c m = c @ [10, 10] @ supp_marker @ [10] @ py_join [10] notes \<and>
      notes \<noteq> [] \<and> sorted notes \<and> distinct notes \<and>
      (\<forall>x \<in> set notes. \<exists>nm loc. (nm, loc) \<in> set m \<and> contains nm c \<and> x = nm @ loc_tag @ loc))"
proof (cases "c = [] \<or> collect_locations c m [] = []")
  case True
  then show ?thesis by (auto simp: enrich_content_with_locations_def)
next
  case False
  let ?notes = "sort (remdups (collect_locations c m []))"
  have "enrich_content_with_locations c m = c @ [10, 10] @ supp_marker @ [10] @ py_join [10] ?notes"
    using False by (simp add: enrich_content_with_locations_def)
  moreover have "?notes \<noteq> []" using False by simp
  moreover have "\<forall>x \<in> set ?notes. \<exists>nm loc. (nm, loc) \<in> set m \<and> contains nm c \<and> x = nm @ loc_tag @ loc"
    using collect_locations_sound [of "[]" "{x. \<exists>nm loc. (nm, loc) \<in> set m \<and> contains nm c \<and> x = nm @ loc_tag @ loc}" m c]
    by auto
  ultimately show ?thesis by (intro disjI2 exI [of _ ?notes]) simp
qed

theorem enrich_shape_witness:
  "enrich_content_with_locations aca_registrar [(aca_registrar, asc ''A 1''), ([0x8A3B, 0x518A, 0x7D44], asc ''B 2'')] \<noteq> aca_registrar \<and>
   (\<exists>notes. enrich_content_with_locations aca_registrar [(aca_registrar, asc ''A 1''), ([0x8A3B, 0x518A, 0x7D44], asc ''B 2'')] =
      aca_registrar @ [10, 10] @ supp_marker @ [10] @ py_join [10] notes \<and> notes \<noteq> [] \<and> sorted notes \<and> distinct notes)"
proof -
  have ne: "enrich_content_with_locations aca_registrar [(aca_registrar, asc ''A 1''), ([0x8A3B, 0x518A, 0x7D44], asc ''B 2'')] \<noteq> aca_registrar"
    by (subst enrich_aca_registrar_eval) (simp add: aca_registrar_def)
  then show ?thesis using enrich_shape [of aca_registrar "[(aca_registrar, asc ''A 1''), ([0x8A3B, 0x518A, 0x7D44], asc ''B 2'')]"] by blast
qed

text \<open>The duplicate check searches the text of the list of
  notes added so far, so an office whose name ends an earlier office's name is dropped.
  With U+6559 U+52D9 U+8655 U+8A3B U+518A U+7D44 listed before U+8A3B U+518A U+7D44, a
  document naming the first gets no note for the second, although it names it too: the
  second office's location never appears.
\<close>

theorem enrich_drops_suffix_office:
  "contains [0x8A3B, 0x518A, 0x7D44] aca_registrar \<and>
   \<not> contains ([0x8A3B, 0x518A, 0x7D44] @ loc_tag @ asc ''B 2'')
       (drop (length aca_registrar) (enrich_content_with_locations aca_registrar [(aca_registrar, asc ''A 1''), ([0x8A3B, 0x518A, 0x7D44], asc ''B 2'')]))"
  using enrich_aca_registrar_eval
  by (simp add: aca_registrar_def loc_tag_def supp_marker_def pystr_eval)


section \<open>The text of a location chunk\<close>

lemma location_text_split:
  "\<exists>a z. location_text ofc = a @ [0x4F4D, 0x7F6E, 0xFF1A] @ ofc_building ofc @ z"
  unfolding location_text_def Let_def
  by (rule exI [of _ "[0x3010] @ ofc_name_zh ofc @ [0x4F4D, 0x7F6E, 0x8CC7, 0x8A0A, 0x3011, 10] @ ofc_name_zh ofc @ [10] @
      [0x82F1, 0x6587, 0x540D, 0x7A31, 0xFF1A] @ ofc_name_en ofc @ [10]"]) simp

lemma location_text_marks:
  "contains [0x4F4D, 0x7F6E, 0xFF1A] (location_text ofc) \<and> contains (ofc_building ofc) (location_text ofc)"
proof -
  obtain a z where e: "location_text ofc = a @ [0x4F4D, 0x7F6E, 0xFF1A] @ ofc_building ofc @ z"
    using location_text_split by blast
  show ?thesis unfolding contains_iff e
    by (metis append_assoc)
qed

end
