(* ===== verification/MapService.thy ===== *)
theory MapService
  imports ChunkModel "HOL-Library.AList"
begin

text \<open>
  The campus-map service of \<^verbatim>\<open>src/map_service.py\<close> (\<^verbatim>\<open>NTUMapService\<close>): the building
  records the campus API returns, the name index built from them, the parsing of a
  building name out of a location text, the coordinate lookup with its fuzzy fallback, the
  map view of a list of buildings and the collection of the buildings named by retrieved
  documents. The HTTP request and the folium rendering are outside the model: the API
  answer is a parameter (a list of building records) and a map is its view (center, zoom,
  markers and fitted bounds). The \<open>re.sub\<close> patterns are deterministic scanners that
  give Python's result.
\<close>

section \<open>Data\<close>

text \<open>A building of the API answer: optional name, English name and uid, and the
  coordinates, \<open>0\<close> when missing (\<^verbatim>\<open>float(building.get("lat", 0))\<close>).\<close>

record building =
  bd_name :: "pystr option"
  bd_name_en :: "pystr option"
  bd_lat :: "real option"
  bd_lon :: "real option"
  bd_uid :: "pystr option"

record coords =
  co_name :: "pystr option"
  co_name_en :: "pystr option"
  co_lat :: real
  co_lon :: real
  co_uid :: "pystr option"

definition to_coords :: "building \<Rightarrow> coords" where
  "to_coords b = \<lparr>co_name = bd_name b, co_name_en = bd_name_en b,
     co_lat = (case bd_lat b of Some x \<Rightarrow> x | None \<Rightarrow> 0), co_lon = (case bd_lon b of Some x \<Rightarrow> x | None \<Rightarrow> 0),
     co_uid = bd_uid b\<rparr>"

section \<open>The two substitutions\<close>

text \<open>A match of \<^verbatim>\<open>\s*\([^)]*\)\<close> at the start of the text, as the rest after it: the
  whitespace run is greedy and giving it back cannot help (an opening parenthesis is not
  whitespace); the class stops at the first closing parenthesis.\<close>

definition paren_match :: "pystr \<Rightarrow> pystr option" where
  "paren_match t =
     (case dropWhile py_isspace t of
        c # r \<Rightarrow> if c = 40 \<and> 41 \<in> set r then Some (tl (dropWhile (\<lambda>x. x \<noteq> 41) r)) else None
      | [] \<Rightarrow> None)"

text \<open>A match of \<^verbatim>\<open>\s*\d+FLOOR.*\<close> (FLOOR is U+6A13) at the start: whitespace, a decimal
  run and the floor glyph, then everything up to the next line break, which \<open>.\<close> does not
  match. Neither run can give characters back usefully.\<close>

definition floor_tail_match :: "pystr \<Rightarrow> pystr option" where
  "floor_tail_match t =
     (let t1 = dropWhile py_isspace t; t2 = dropWhile py_isdecimal t1 in
      if takeWhile py_isdecimal t1 \<noteq> [] \<and> t2 \<noteq> [] \<and> hd t2 = LOU
      then Some (dropWhile (\<lambda>c. c \<noteq> 10) (tl t2)) else None)"

text \<open>\<^verbatim>\<open>re.sub(pattern, '', s)\<close>: delete every match, scanning left to right; after a
  match the scan resumes where it ended, elsewhere one character further.\<close>

function sub_parens :: "pystr \<Rightarrow> pystr" where
  "sub_parens [] = []"
| "sub_parens (c # s) = (case paren_match (c # s) of Some r \<Rightarrow> sub_parens r | None \<Rightarrow> c # sub_parens s)"
  by pat_completeness auto
termination
proof (relation "measure length")
  fix c s r
  assume "paren_match (c # s) = Some r"
  then obtain x r' where d: "dropWhile py_isspace (c # s) = x # r'" and r: "r = tl (dropWhile (\<lambda>x. x \<noteq> 41) r')"
    by (auto simp: paren_match_def split: list.splits if_splits)
  have "length (x # r') \<le> length (c # s)" using d by (metis length_dropWhile_le)
  moreover have "length r \<le> length r'" using r by (metis diff_le_self le_trans length_dropWhile_le length_tl)
  ultimately show "(r, c # s) \<in> measure length" by simp
qed auto

function sub_floor :: "pystr \<Rightarrow> pystr" where
  "sub_floor [] = []"
| "sub_floor (c # s) = (case floor_tail_match (c # s) of Some r \<Rightarrow> sub_floor r | None \<Rightarrow> c # sub_floor s)"
  by pat_completeness auto
termination
proof (relation "measure length")
  fix c s r
  assume m: "floor_tail_match (c # s) = Some r"
  let ?t2 = "dropWhile py_isdecimal (dropWhile py_isspace (c # s))"
  have ne: "?t2 \<noteq> []" and r: "r = dropWhile (\<lambda>c. c \<noteq> 10) (tl ?t2)"
    using m by (auto simp: floor_tail_match_def Let_def split: if_splits)
  have "length ?t2 \<le> length (c # s)" by (metis le_trans length_dropWhile_le)
  moreover have "length r < length ?t2" using r ne by (metis length_dropWhile_le length_tl diff_less le_less_trans length_greater_0_conv zero_less_one)
  ultimately show "(r, c # s) \<in> measure length" by simp
qed auto

section \<open>Names and lookup\<close>

text \<open>\<^verbatim>\<open>extract_building_from_location\<close>: cut the floor and everything after it on its
  line, strip, cut parenthesised parts, strip; \<open>None\<close> for an empty result.\<close>

definition extract_building_from_location :: "pystr \<Rightarrow> pystr option" where
  "extract_building_from_location text =
     (if text = [] then None
      else let b = py_strip (sub_parens (py_strip (sub_floor text))) in if b = [] then None else Some b)"

text \<open>\<^verbatim>\<open>_create_name_mapping\<close>: the Chinese name, its form without parentheses
  when that differs, and the English name, each mapped to the building; a dictionary
  whose later writes keep an existing key's position.\<close>

definition name_mapping_step :: "(pystr \<times> building) list \<Rightarrow> building \<Rightarrow> (pystr \<times> building) list" where
  "name_mapping_step m b =
     (let m1 = (case bd_name b of
                  Some n \<Rightarrow> if n = [] then m
                            else let base = py_strip (sub_parens n); m' = AList.update n b m in
                                 if base \<noteq> n then AList.update base b m' else m'
                | None \<Rightarrow> m) in
      case bd_name_en b of Some e \<Rightarrow> if e = [] then m1 else AList.update e b m1 | None \<Rightarrow> m1)"

definition create_name_mapping :: "building list \<Rightarrow> (pystr \<times> building) list" where
  "create_name_mapping bs = foldl name_mapping_step [] bs"

text \<open>\<^verbatim>\<open>get_building_coordinates\<close>: an exact key, else the first key (in the index's
  order) that contains the stripped name or is contained in it.\<close>

definition get_building_coordinates :: "(pystr \<times> building) list \<Rightarrow> pystr \<Rightarrow> coords option" where
  "get_building_coordinates mp name =
     (if name = [] then None
      else case map_of mp name of
             Some b \<Rightarrow> Some (to_coords b)
           | None \<Rightarrow> (let c = py_strip name in
                      map_option (\<lambda>(k, b). to_coords b) (find (\<lambda>(k, b). contains c k \<or> contains k c) mp)))"

section \<open>The map view\<close>

record map_view =
  mv_center :: "real \<times> real"
  mv_zoom :: nat
  mv_markers :: "(real \<times> real \<times> pystr option) list"
  mv_bounds :: "((real \<times> real) \<times> (real \<times> real)) option"

definition list_mean :: "real list \<Rightarrow> real" where
  "list_mean xs = sum_list xs / real (length xs)"

text \<open>\<^verbatim>\<open>create_map\<close>: the resolved buildings, the center (the first one, or the mean of
  the coordinates), zoom 15 when there are several, one marker each (position and tooltip)
  and, for several, the bounds fitted to them.\<close>

definition create_map :: "(pystr \<times> building) list \<Rightarrow> pystr list \<Rightarrow> bool \<Rightarrow> nat \<Rightarrow> map_view option" where
  "create_map mp names center_on_first zoom_start =
     (if names = [] then None
      else let cs = List.map_filter (get_building_coordinates mp) names in
        if cs = [] then None
        else let lats = map co_lat cs; lons = map co_lon cs in
          Some \<lparr>mv_center = (if center_on_first then (co_lat (hd cs), co_lon (hd cs)) else (list_mean lats, list_mean lons)),
                mv_zoom = (if 1 < length cs then 15 else zoom_start),
                mv_markers = map (\<lambda>c. (co_lat c, co_lon c, co_name c)) cs,
                mv_bounds = (if 1 < length cs then Some ((Min (set lats), Min (set lons)), (Max (set lats), Max (set lons)))
                             else None)\<rparr>)"

section \<open>Buildings named by retrieved documents\<close>

text \<open>The metadata fields \<^verbatim>\<open>extract_buildings_from_metadata\<close> reads, in its order
  (location, building, address, office, unit_name, title): a chunk's metadata has the
  building, the unit name and the title of these.\<close>

definition location_fields :: "metadata \<Rightarrow> pystr list" where
  "location_fields m =
     List.map_filter id [md_building m, md_unit_name m, Some (md_title m)]"

definition buildings_of_value :: "(pystr \<times> building) list \<Rightarrow> pystr \<Rightarrow> pystr list" where
  "buildings_of_value mp v =
     (case extract_building_from_location v of Some b \<Rightarrow> if b \<in> set (map fst mp) then [b] else [] | None \<Rightarrow> []) @
     filter (\<lambda>k. 2 < length k \<and> contains k v) (map fst mp)"

text \<open>The content test: U+4F4D U+7F6E U+FF1A, U+4F4D U+65BC or U+5730 U+9EDE U+FF1A.\<close>

definition buildings_of_content :: "(pystr \<times> building) list \<Rightarrow> pystr \<Rightarrow> pystr list" where
  "buildings_of_content mp c =
     (if contains [0x4F4D, 0x7F6E, 0xFF1A] c \<or> contains [0x4F4D, 0x65BC] c \<or> contains [0x5730, 0x9EDE, 0xFF1A] c
      then filter (\<lambda>k. contains k c \<and> 2 < length k) (map fst mp) else [])"

text \<open>A document is its content and metadata. The result is a Python set turned into a
  list, whose order the language leaves open; the model lists it without repetitions in
  the order of discovery, and the properties speak only of its elements.\<close>

definition extract_buildings_from_metadata :: "(pystr \<times> building) list \<Rightarrow> (pystr \<times> metadata) list \<Rightarrow> pystr list" where
  "extract_buildings_from_metadata mp docs =
     remdups (concat (map (\<lambda>(c, m). concat (map (buildings_of_value mp) (location_fields m)) @ buildings_of_content mp c) docs))"

section \<open>Campus data for the examples\<close>

text \<open>Two buildings of the campus answer (the administration building and the main
  library) and the index over their Chinese names.\<close>

definition admin_building :: building where
  "admin_building = \<lparr>bd_name = Some [0x884C, 0x653F, 0x5927, 0x6A13], bd_name_en = Some (asc ''Administration Building''),
     bd_lat = Some 25.0169, bd_lon = Some 121.5402, bd_uid = None\<rparr>"

definition library_building :: building where
  "library_building = \<lparr>bd_name = Some [0x7E3D, 0x5716, 0x66F8, 0x9928], bd_name_en = None,
     bd_lat = Some 25.0174, bd_lon = Some 121.5405, bd_uid = None\<rparr>"

definition campus_index :: "(pystr \<times> building) list" where
  "campus_index = [([0x884C, 0x653F, 0x5927, 0x6A13], admin_building), ([0x7E3D, 0x5716, 0x66F8, 0x9928], library_building)]"

section \<open>Proof vocabulary\<close>

text \<open>A plain building name: no whitespace, no decimal digit and no opening
  parenthesis, so neither substitution touches it.\<close>

definition plain_name :: "pystr \<Rightarrow> bool" where
  "plain_name b \<longleftrightarrow> list_all (\<lambda>c. \<not> py_isspace c \<and> \<not> py_isdecimal c \<and> c \<noteq> 40) b"

section \<open>The substitutions on plain text\<close>

lemma sub_floor_plain_prefix:
  "list_all (\<lambda>c. \<not> py_isspace c \<and> \<not> py_isdecimal c) b \<Longrightarrow> sub_floor (b @ t) = b @ sub_floor t"
  by (induction b) (simp_all add: floor_tail_match_def Let_def)

lemma sub_parens_plain: "list_all (\<lambda>c. \<not> py_isspace c \<and> c \<noteq> 40) b \<Longrightarrow> sub_parens b = b"
  by (induction b) (simp_all add: paren_match_def)

lemma ascii_digit_classes: "48 \<le> c \<Longrightarrow> c \<le> 57 \<Longrightarrow> py_isdecimal c \<and> \<not> py_isspace c"
  by (simp add: py_isdecimal_def decimal_runs_def py_isspace_def space_runs_def in_runs_def)

lemma LOU_not_decimal: "\<not> py_isdecimal LOU"
  by (simp add: py_isdecimal_def decimal_runs_def in_runs_def LOU_def)

text \<open>A floor mark \<open> d..dFLOOR\<close> followed by a line without a break is one match of
  the floor pattern, deleted whole.\<close>

lemma sub_floor_floor_tail:
  assumes "ds \<noteq> []" "list_all (\<lambda>c. 48 \<le> c \<and> c \<le> 57) ds" "10 \<notin> set r"
  shows "sub_floor ([32] @ ds @ [LOU] @ r) = []"
proof -
  have d: "list_all py_isdecimal ds" "list_all (\<lambda>c. \<not> py_isspace c) ds"
    using assms(2) ascii_digit_classes by (auto simp: list_all_iff)
  have sp: "py_isspace 32" by (simp add: py_isspace_def space_runs_def in_runs_def)
  have "dropWhile py_isspace (32 # ds @ LOU # r) = ds @ LOU # r"
    using sp d(2) assms(1) by (cases ds) (auto simp: list_all_iff)
  moreover have "takeWhile py_isdecimal (ds @ LOU # r) = ds" "dropWhile py_isdecimal (ds @ LOU # r) = LOU # r"
    using d(1) LOU_not_decimal by (simp_all add: takeWhile_append2 dropWhile_append2 list_all_iff)
  moreover have "dropWhile (\<lambda>c. c \<noteq> 10) r = []" using assms(3) by (induction r) auto
  ultimately have "floor_tail_match (32 # ds @ LOU # r) = Some []"
    using assms(1) LOU_not_decimal by (simp add: floor_tail_match_def Let_def)
  then show ?thesis by simp
qed

lemma plain_building_self: "b \<noteq> [] \<Longrightarrow> plain_name b \<Longrightarrow> extract_building_from_location b = Some b"
  using sub_floor_plain_prefix [of b "[]"] sub_parens_plain [of b] py_strip_no_space [of b]
  by (auto simp: extract_building_from_location_def plain_name_def list_all_iff list_ex_iff)

section \<open>The name index\<close>

lemma name_mapping_step_keys: "distinct (map fst m) \<Longrightarrow> distinct (map fst (name_mapping_step m b))"
  by (simp add: name_mapping_step_def Let_def distinct_update split: option.split)

lemma create_name_mapping_distinct: "distinct (map fst (create_name_mapping bs))"
proof -
  have "distinct (map fst m) \<Longrightarrow> distinct (map fst (foldl name_mapping_step m bs))" for m
    by (induction bs arbitrary: m) (simp_all add: name_mapping_step_keys)
  then show ?thesis by (simp add: create_name_mapping_def)
qed

lemma name_mapping_step_own_name:
  assumes "bd_name b = Some n" "n \<noteq> []"
  shows "map_of (name_mapping_step m b) n = Some b"
  using assms by (simp add: name_mapping_step_def Let_def update_conv' split: option.split)

section \<open>The map view\<close>

lemma list_mean_bounds:
  assumes "xs \<noteq> []"
  shows "Min (set xs) \<le> list_mean xs \<and> list_mean xs \<le> Max (set xs)"
proof -
  have n: "0 < real (length xs)" using assms by simp
  have "sum_list (map (\<lambda>_. Min (set xs)) xs) \<le> sum_list (map (\<lambda>x. x) xs)"
    by (rule sum_list_mono) (simp add: assms)
  then have lo: "real (length xs) * Min (set xs) \<le> sum_list xs" by (simp add: sum_list_triv)
  have "sum_list (map (\<lambda>x. x) xs) \<le> sum_list (map (\<lambda>_. Max (set xs)) xs)"
    by (rule sum_list_mono) (simp add: assms)
  then have hi: "sum_list xs \<le> real (length xs) * Max (set xs)" by (simp add: sum_list_triv)
  show ?thesis using lo hi n by (simp add: list_mean_def pos_le_divide_eq pos_divide_le_eq mult.commute)
qed

lemma create_map_Some:
  assumes "create_map mp names c z = Some mv"
  obtains cs where "cs = List.map_filter (get_building_coordinates mp) names" "cs \<noteq> []"
    "mv_markers mv = map (\<lambda>c. (co_lat c, co_lon c, co_name c)) cs"
    "mv_center mv = (if c then (co_lat (hd cs), co_lon (hd cs)) else (list_mean (map co_lat cs), list_mean (map co_lon cs)))"
    "mv_zoom mv = (if 1 < length cs then 15 else z)"
  using assms by (auto simp: create_map_def Let_def split: if_splits)

lemma find_contains_Nil: "list_all py_isspace name \<Longrightarrow> mp \<noteq> [] \<Longrightarrow>
    find (\<lambda>(k, b). contains (py_strip name) k \<or> contains k (py_strip name)) mp = Some (hd mp)"
proof -
  assume a: "list_all py_isspace name" "mp \<noteq> []"
  have "dropWhile py_isspace name = []" using a(1) by (induction name) auto
  then have "py_strip name = []" unfolding py_strip_def py_lstrip_def py_rstrip_def by (simp only:) simp
  then show ?thesis using a(2) by (cases mp) auto
qed

section \<open>Properties\<close>

text \<open>After \<^verbatim>\<open>_create_name_mapping\<close>, looking up the Chinese
  name of the last building listed gives that building's coordinates, whatever the
  buildings before it: the last write to a key wins, and the building's own English
  name, written after its Chinese name, cannot take the key from it.
\<close>

lemma name_mapping_lookup:
  assumes "bd_name b = Some n" "n \<noteq> []"
  shows "get_building_coordinates (create_name_mapping (bs @ [b])) n = Some (to_coords b)"
  using assms name_mapping_step_own_name [OF assms]
  by (simp add: create_name_mapping_def get_building_coordinates_def)

lemma name_mapping_lookup_witness:
  "get_building_coordinates (create_name_mapping [library_building, admin_building]) [0x884C, 0x653F, 0x5927, 0x6A13] =
     Some (to_coords admin_building)"
  using name_mapping_lookup [of admin_building "[0x884C, 0x653F, 0x5927, 0x6A13]" "[library_building]"]
  by (simp add: admin_building_def)

text \<open>
  A map centred on the mean (\<open>center_on_first = False\<close>)
  has its center inside the bounding box of its markers, in latitude and in longitude.
\<close>

lemma create_map_center_bounds:
  assumes "create_map mp names False z = Some mv"
  shows "Min (set (map fst (mv_markers mv))) \<le> fst (mv_center mv) \<and> fst (mv_center mv) \<le> Max (set (map fst (mv_markers mv))) \<and>
    Min (set (map (fst \<circ> snd) (mv_markers mv))) \<le> snd (mv_center mv) \<and>
    snd (mv_center mv) \<le> Max (set (map (fst \<circ> snd) (mv_markers mv)))"
proof (rule create_map_Some [OF assms])
  fix cs
  assume "cs \<noteq> []" "mv_markers mv = map (\<lambda>c. (co_lat c, co_lon c, co_name c)) cs"
    "mv_center mv = (if False then (co_lat (hd cs), co_lon (hd cs)) else (list_mean (map co_lat cs), list_mean (map co_lon cs)))"
  then show ?thesis
    using list_mean_bounds [of "map co_lat cs"] list_mean_bounds [of "map co_lon cs"] by (simp add: comp_def)
qed

lemma create_map_center_bounds_witness:
  "\<exists>mv. create_map campus_index [[0x884C, 0x653F, 0x5927, 0x6A13], [0x7E3D, 0x5716, 0x66F8, 0x9928]] False 16 = Some mv \<and>
     Min (set (map fst (mv_markers mv))) \<le> fst (mv_center mv) \<and> fst (mv_center mv) \<le> Max (set (map fst (mv_markers mv))) \<and>
     Min (set (map (fst \<circ> snd) (mv_markers mv))) \<le> snd (mv_center mv) \<and>
     snd (mv_center mv) \<le> Max (set (map (fst \<circ> snd) (mv_markers mv)))"
proof -
  have "create_map campus_index [[0x884C, 0x653F, 0x5927, 0x6A13], [0x7E3D, 0x5716, 0x66F8, 0x9928]] False 16 \<noteq> None"
    by (simp add: create_map_def campus_index_def get_building_coordinates_def map_filter_simps Let_def)
  then obtain mv where e: "create_map campus_index [[0x884C, 0x653F, 0x5927, 0x6A13], [0x7E3D, 0x5716, 0x66F8, 0x9928]] False 16 = Some mv"
    by blast
  show ?thesis using e create_map_center_bounds [OF e] by blast
qed

text \<open>A building name of whitespace only that is not a key
  of the index resolves to the first building of the index: the stripped name is empty,
  and the empty string is contained in every key of the fuzzy match.
\<close>

lemma blank_name_first_building:
  assumes "name \<noteq> []" "list_all py_isspace name" "map_of mp name = None" "mp \<noteq> []"
  shows "get_building_coordinates mp name = Some (to_coords (snd (hd mp)))"
  using assms find_contains_Nil [OF assms(2,4)]
  by (simp add: get_building_coordinates_def case_prod_beta)

lemma blank_name_first_building_witness:
  "get_building_coordinates campus_index [32] = Some (to_coords admin_building)"
  using blank_name_first_building [of "[32]" campus_index]
  by (simp add: campus_index_def py_isspace_def space_runs_def in_runs_def)

end
