(* ===== verification/Indexer.thy ===== *)
theory Indexer
  imports ChunkModel
begin

text \<open>
  The indexing script \<^verbatim>\<open>src/indexer.py\<close> (\<^verbatim>\<open>main\<close>): it drops an existing collection
  of the assistant's name, creates it afresh and adds the persisted chunks in batches of
  50, with ids \<^verbatim>\<open>chunk_<i>\<close>, stopping at the first batch that fails. The database is
  one optional collection (\<open>None\<close> when absent), a collection the list of its entries
  (id, document, metadata) in insertion order; \<^verbatim>\<open>collection.add\<close> is a parameter, with
  the contract the script relies on. Embedding the documents (the GPU model) is outside
  the model: it is the collection's business.
\<close>

section \<open>The collection\<close>

type_synonym entry = "pystr \<times> pystr \<times> metadata"
type_synonym collection = "entry list"
type_synonym add_fn = "collection \<Rightarrow> entry list \<Rightarrow> py_error + collection"

text \<open>What \<^verbatim>\<open>collection.add\<close> promises: a batch whose ids are new and pairwise distinct
  is stored after the entries already there. \<open>append_add\<close> meets it.\<close>

definition add_contract :: "add_fn \<Rightarrow> bool" where
  "add_contract add \<longleftrightarrow> (\<forall>c b c'. add c b = Inr c' \<longrightarrow> distinct (map fst (c @ b)) \<longrightarrow> c' = c @ b)"

definition append_add :: add_fn where
  "append_add c b = Inr (c @ b)"

section \<open>The script\<close>

definition batch_size :: nat where
  "batch_size = 50"

definition chunk_id :: "nat \<Rightarrow> pystr" where
  "chunk_id i = asc ''chunk_'' @ py_str_nat i"

text \<open>The three parallel lists \<^verbatim>\<open>documents\<close>, \<^verbatim>\<open>metadatas\<close> and \<^verbatim>\<open>ids\<close>, zipped:
  the script slices all three with the same bounds.\<close>

definition chunk_entries :: "chunk list \<Rightarrow> entry list" where
  "chunk_entries cs = map (\<lambda>(i, c). (chunk_id i, ck_text c, ck_meta c)) (zip [0..<length cs] cs)"

text \<open>\<^verbatim>\<open>range(0, total, batch_size)\<close>.\<close>

definition batch_starts :: "nat \<Rightarrow> nat list" where
  "batch_starts tot = map (\<lambda>j. batch_size * j) [0..<(tot + batch_size - 1) div batch_size]"

text \<open>The batch loop: \<^verbatim>\<open>end = min(i + batch_size, total)\<close>, one \<^verbatim>\<open>add\<close> of the
  slice, and \<^verbatim>\<open>break\<close> on its exception, which the model returns beside the collection.\<close>

fun add_batches :: "add_fn \<Rightarrow> entry list \<Rightarrow> nat list \<Rightarrow> collection \<Rightarrow> collection \<times> py_error option" where
  "add_batches add es [] c = (c, None)"
| "add_batches add es (i # is) c =
     (let e = min (i + batch_size) (length es) in
      case add c (py_slice es i e) of
        Inl err \<Rightarrow> (c, Some err)
      | Inr c' \<Rightarrow> add_batches add es is c')"

text \<open>The reset: when the listing or the deletion raises, the old collection stays;
  otherwise a collection of that name no longer exists.\<close>

definition reset_collection :: "bool \<Rightarrow> collection option \<Rightarrow> collection option" where
  "reset_collection raises db = (if raises then db else None)"

definition get_or_create :: "collection option \<Rightarrow> collection" where
  "get_or_create db = (case db of Some c \<Rightarrow> c | None \<Rightarrow> [])"

text \<open>\<^verbatim>\<open>main\<close>: nothing happens when the chunk file is missing (\<open>None\<close>).\<close>

definition index_main :: "chunk list option \<Rightarrow> bool \<Rightarrow> add_fn \<Rightarrow> collection option \<Rightarrow> collection option \<times> py_error option" where
  "index_main chunks reset_raises add db =
     (case chunks of
        None \<Rightarrow> (db, None)
      | Some cs \<Rightarrow>
          (let coll = get_or_create (reset_collection reset_raises db); es = chunk_entries cs;
               (c', err) = add_batches add es (batch_starts (length es)) coll
           in (Some c', err)))"

text \<open>The script as a whole: a missing chunks file ends it first; then the GPU embedding
  function is built, whose constructor calls \<^verbatim>\<open>sys.exit(1)\<close> when CUDA is unavailable
  (\<open>None\<close>: the process exited, before the database was opened); then \<open>index_main\<close>.\<close>

definition indexer_script ::
    "bool \<Rightarrow> chunk list option \<Rightarrow> bool \<Rightarrow> add_fn \<Rightarrow> collection option \<Rightarrow> (collection option \<times> py_error option) option" where
  "indexer_script cuda chunks reset_raises add db =
     (case chunks of None \<Rightarrow> Some (db, None) | Some cs \<Rightarrow> if cuda then Some (index_main chunks reset_raises add db) else None)"

section \<open>An example collection\<close>

text \<open>An entry left by an earlier run, under the id the next run gives its first chunk.\<close>

definition stale_entry :: entry where
  "stale_entry = (asc ''chunk_0'', asc ''old'', \<lparr>md_title = [], md_url = [], md_department = [], md_type = General,
     md_unit_name = None, md_unit_id = None, md_building = None, md_floor = None, md_room = None\<rparr>)"

section \<open>Lemmas\<close>

lemma append_add_contract: "add_contract append_add"
  by (simp add: add_contract_def append_add_def)

lemma add_contractD: "add_contract add \<Longrightarrow> add c b = Inr c' \<Longrightarrow> distinct (map fst (c @ b)) \<Longrightarrow> c' = c @ b"
  unfolding add_contract_def by blast

lemma chunk_id_inj: "chunk_id i = chunk_id j \<longleftrightarrow> i = j"
  by (simp add: chunk_id_def py_str_nat_inj)

lemma chunk_entries_ids: "map fst (chunk_entries cs) = map chunk_id [0..<length cs]"
  by (rule nth_equalityI) (simp_all add: chunk_entries_def case_prod_beta)

lemma distinct_fst_take: "distinct (map fst (c @ es)) \<Longrightarrow> distinct (map fst (c @ take n es))"
proof -
  assume d: "distinct (map fst (c @ es))"
  have "map fst (c @ take n es) = take (length c + n) (map fst (c @ es))"
    by (simp add: take_map)
  then show ?thesis using d by (simp only: distinct_take)
qed

lemma chunk_entries_distinct: "distinct (map fst (chunk_entries cs))"
  by (simp add: chunk_entries_ids distinct_map inj_on_def chunk_id_inj)

lemma length_chunk_entries [simp]: "length (chunk_entries cs) = length cs"
  by (simp add: chunk_entries_def)

lemma batch_slice_step:
  "py_slice es (batch_size * m) (min (batch_size * m + batch_size) (length es)) =
     take batch_size (drop (batch_size * m) es)"
  by (simp add: py_slice_def min_def)

lemma add_batches_prefix:
  assumes "add_contract add" "distinct (map fst (c @ es))"
  shows "add_batches add es (map (\<lambda>j. batch_size * j) [m..<m + d]) (c @ take (batch_size * m) es) = (c', err) \<Longrightarrow>
    \<exists>k\<le>d. c' = c @ take (batch_size * (m + k)) es \<and> (err = None \<longrightarrow> k = d)"
proof (induction d arbitrary: m)
  case 0
  then show ?case by simp
next
  case (Suc d)
  let ?b = "take batch_size (drop (batch_size * m) es)"
  have tk: "take (batch_size * Suc m) es = take (batch_size * m) es @ ?b"
    by (metis mult_Suc_right add.commute take_add)
  have ds: "distinct (map fst (c @ take (batch_size * Suc m) es))"
    using assms(2) by (rule distinct_fst_take)
  have up: "[m..<m + Suc d] = m # [Suc m..<Suc m + d]" by (simp add: upt_rec)
  show ?case
  proof (cases "add (c @ take (batch_size * m) es) ?b")
    case (Inl e)
    then have "c' = c @ take (batch_size * m) es" "err = Some e"
      using Suc.prems [unfolded up] by (simp_all del: upt_Suc add: Let_def batch_slice_step)
    then show ?thesis by (intro exI [of _ 0]) simp
  next
    case (Inr c2)
    have "distinct (map fst ((c @ take (batch_size * m) es) @ ?b))"
      using ds unfolding tk append_assoc .
    then have "c2 = (c @ take (batch_size * m) es) @ ?b" by (rule add_contractD [OF assms(1) Inr])
    then have "c2 = c @ take (batch_size * Suc m) es" unfolding tk by simp
    then have "add_batches add es (map (\<lambda>j. batch_size * j) [Suc m..<Suc m + d]) (c @ take (batch_size * Suc m) es) = (c', err)"
      using Suc.prems [unfolded up] Inr by (simp del: upt_Suc add: Let_def batch_slice_step)
    then obtain k where "k \<le> d" "c' = c @ take (batch_size * (Suc m + k)) es" "err = None \<longrightarrow> k = d"
      using Suc.IH by blast
    then show ?thesis by (intro exI [of _ "Suc k"]) simp
  qed
qed

lemma batch_cover: "length es \<le> batch_size * ((length es + batch_size - 1) div batch_size)"
  by (simp add: batch_size_def)

section \<open>Properties\<close>

text \<open>
  Claim C7: whatever the database held before, a run whose reset
  succeeds leaves a collection holding a prefix of the chunks, under ids
  \<^verbatim>\<open>chunk_0\<close>, \<^verbatim>\<open>chunk_1\<close>, ... in file order, and all of them when no batch failed:
  no entry of an earlier run survives.
\<close>

theorem index_main_fresh:
  assumes "add_contract add" "index_main (Some cs) False add db = (Some c', err)"
  shows "(\<exists>k. c' = take k (chunk_entries cs)) \<and> (err = None \<longrightarrow> c' = chunk_entries cs)"
proof -
  let ?es = "chunk_entries cs" and ?d = "(length cs + batch_size - 1) div batch_size"
  have h: "add_batches add ?es (map (\<lambda>j. batch_size * j) [0..<0 + ?d]) ([] @ take (batch_size * 0) ?es) = (c', err)"
    using assms(2) by (simp add: index_main_def reset_collection_def get_or_create_def batch_starts_def split: prod.splits)
  have "\<exists>k\<le>?d. c' = [] @ take (batch_size * (0 + k)) ?es \<and> (err = None \<longrightarrow> k = ?d)"
    using add_batches_prefix [OF assms(1) _ h] chunk_entries_distinct [of cs] by simp
  then obtain k where "k \<le> ?d" "c' = take (batch_size * k) ?es" "err = None \<longrightarrow> k = ?d"
    by auto
  moreover have "take (batch_size * ?d) ?es = ?es" using batch_cover [of ?es] by simp
  ultimately show ?thesis by auto
qed

theorem index_main_fresh_witness:
  "fst (index_main (Some [\<lparr>ck_text = asc ''new'', ck_meta = snd (snd stale_entry)\<rparr>]) False append_add (Some [stale_entry])) =
     Some (chunk_entries [\<lparr>ck_text = asc ''new'', ck_meta = snd (snd stale_entry)\<rparr>])"
proof -
  have e: "index_main (Some [\<lparr>ck_text = asc ''new'', ck_meta = snd (snd stale_entry)\<rparr>]) False append_add (Some [stale_entry]) =
     (Some [(chunk_id 0, asc ''new'', snd (snd stale_entry))], None)"
    by (simp add: index_main_def reset_collection_def get_or_create_def batch_starts_def batch_size_def
        chunk_entries_def append_add_def py_slice_def)
  have "[(chunk_id 0, asc ''new'', snd (snd stale_entry))] = chunk_entries [\<lparr>ck_text = asc ''new'', ck_meta = snd (snd stale_entry)\<rparr>]"
    using index_main_fresh [OF append_add_contract e] by simp
  then show ?thesis using e by simp
qed

text \<open>The slices \<^verbatim>\<open>[i:end]\<close> over \<^verbatim>\<open>range(0, total, 50)\<close>
  partition the chunks: in order they concatenate to the whole list, and each has between
  1 and 50 elements.
\<close>

theorem batches_partition:
  "concat (map (\<lambda>i. py_slice es i (min (i + batch_size) (length es))) (batch_starts (length es))) = es \<and>
   (\<forall>i\<in>set (batch_starts (length es)). 0 < length (py_slice es i (min (i + batch_size) (length es))) \<and>
      length (py_slice es i (min (i + batch_size) (length es))) \<le> batch_size)"
proof
  let ?d = "(length es + batch_size - 1) div batch_size"
  have "concat (map (\<lambda>j. py_slice es (batch_size * j) (min (batch_size * j + batch_size) (length es))) [0..<?d]) =
      take (batch_size * ?d) es"
    by (rule concat_py_slices) (simp add: batch_size_def)
  then show "concat (map (\<lambda>i. py_slice es i (min (i + batch_size) (length es))) (batch_starts (length es))) = es"
    using batch_cover [of es] by (simp add: batch_starts_def comp_def add.commute)
next
  show "\<forall>i\<in>set (batch_starts (length es)). 0 < length (py_slice es i (min (i + batch_size) (length es))) \<and>
      length (py_slice es i (min (i + batch_size) (length es))) \<le> batch_size"
  proof
    fix i assume "i \<in> set (batch_starts (length es))"
    then obtain j where i: "i = batch_size * j" "j < (length es + batch_size - 1) div batch_size"
      unfolding batch_starts_def by (auto simp: batch_size_def)
    then have "i < length es" by (simp add: batch_size_def)
    then show "0 < length (py_slice es i (min (i + batch_size) (length es))) \<and>
      length (py_slice es i (min (i + batch_size) (length es))) \<le> batch_size"
      by (simp add: py_slice_def batch_size_def min_def) arith
  qed
qed

theorem batches_partition_witness:
  "concat (map (\<lambda>i. py_slice [0..<120::nat] i (min (i + batch_size) 120)) (batch_starts 120)) = [0..<120] \<and>
   map (\<lambda>i. length (py_slice [0..<120::nat] i (min (i + batch_size) 120))) (batch_starts 120) = [50, 50, 20]"
proof
  show "concat (map (\<lambda>i. py_slice [0..<120::nat] i (min (i + batch_size) 120)) (batch_starts 120)) = [0..<120]"
    using conjunct1 [OF batches_partition [of "[0..<120::nat]"]] by simp
  show "map (\<lambda>i. length (py_slice [0..<120::nat] i (min (i + batch_size) 120))) (batch_starts 120) = [50, 50, 20]"
    by (simp add: batch_starts_def batch_size_def py_slice_def upt_rec)
qed

end
