(* ===== verification/Answer.thy ===== *)
theory Answer
  imports Retrieval MapService
begin

text \<open>
  The chat front end of \<^verbatim>\<open>src/app.py\<close> between the user and the services: the query
  rewrite over the last turns (\<^verbatim>\<open>rewrite_query_with_context\<close>), the prompt and the retry
  policy of \<^verbatim>\<open>generate_response\<close>, and \<^verbatim>\<open>handle_query\<close>, which appends the user's message,
  builds the search query from the rewritten question and the user's identity, retrieves,
  generates, collects the buildings for the map and appends the assistant's message. The two
  language-model calls are parameters: the rewrite model answers a prompt with a text or
  raises (\<open>None\<close>); the answer model's outcome of attempt \<open>a\<close> on a prompt is a text
  (\<^verbatim>\<open>_safe_get_text\<close>, which never raises), a quota error or another error, with the
  exception's text. Sleeping is recorded as the list of waits. The Streamlit widgets, the
  sidebar and the rendering of the history are not modelled.
\<close>

section \<open>Conversation\<close>

datatype role = User | Assistant

text \<open>A message of \<^verbatim>\<open>st.session_state.messages\<close>; a user message has no sources and no
  buildings (the keys are absent).\<close>

record message =
  msg_role :: role
  msg_content :: pystr
  msg_sources :: "hit list"
  msg_buildings :: "pystr list"

definition user_message :: "pystr \<Rightarrow> message" where
  "user_message q = \<lparr>msg_role = User, msg_content = q, msg_sources = [], msg_buildings = []\<rparr>"

text \<open>The speaker labels U+4F7F U+7528 U+8005 (user) and U+52A9 U+7406 (assistant).\<close>

definition role_label :: "role \<Rightarrow> pystr" where
  "role_label r = (if r = User then [0x4F7F, 0x7528, 0x8005] else [0x52A9, 0x7406])"

text \<open>The rewrite prompt: its fixed instructions, the dialogue and the latest question.\<close>

definition rewrite_instructions :: pystr where
  "rewrite_instructions = [0x8ACB, 0x5C07, 0x4F7F, 0x7528, 0x8005, 0x7684, 0x554F, 0x984C, 0x6539, 0x5BEB, 0x70BA, 42, 42,
     0x5B8C, 0x6574, 0x3001, 0x53EF, 0x7368, 0x7ACB, 0x6AA2, 0x7D22, 42, 42, 0x7684, 0x67E5, 0x8A62, 0x53E5, 0x3002, 10,
     0x8981, 0x6C42, 0xFF1A, 10, 49, 46, 32, 0x5FC5, 0x9808, 0x7D50, 0x5408, 0x6700, 0x8FD1, 0x5C0D, 0x8A71, 0x4E0A, 0x4E0B,
     0x6587, 0xFF08, 0x5305, 0x542B, 0x52A9, 0x7406, 0x56DE, 0x7B54, 0xFF09, 0xFF0C, 0x88DC, 0x5168, 0x4EE3, 0x8A5E, 0x8207,
     0x55AE, 0x4F4D, 0x540D, 0x7A31, 0x3002, 10, 50, 46, 32, 0x4E0D, 0x8981, 0x52A0, 0x5165, 0x5C0D, 0x8A71, 0x4E2D, 0x4E0D,
     0x5B58, 0x5728, 0x7684, 0x65B0, 0x8CC7, 0x8A0A, 0x3002, 10, 51, 46, 32, 0x53EA, 0x8F38, 0x51FA, 0x6539, 0x5BEB, 0x5F8C,
     0x7684, 0x67E5, 0x8A62, 0x53E5, 0xFF0C, 0x52FF, 0x52A0, 0x8A3B, 0x89E3, 0x3002, 10, 10, 0x3010, 0x6700, 0x8FD1, 0x5C0D,
     0x8A71, 0x3011, 10]"

definition rewrite_prompt :: "pystr \<Rightarrow> pystr \<Rightarrow> pystr" where
  "rewrite_prompt dialogue_text current_query =
     rewrite_instructions @ dialogue_text @
     [10, 10, 0x3010, 0x4F7F, 0x7528, 0x8005, 0x6700, 0x65B0, 0x554F, 0x984C, 0x3011, 10] @ current_query @ [10]"

text \<open>\<^verbatim>\<open>rewrite_query_with_context\<close>: without a key the question is kept; otherwise the
  last six messages become the dialogue, and the model's stripped answer replaces the
  question unless it is empty or the call raised.\<close>

definition rewrite_query_with_context ::
    "pystr \<Rightarrow> (pystr \<Rightarrow> pystr option) \<Rightarrow> message list \<Rightarrow> pystr \<Rightarrow> pystr" where
  "rewrite_query_with_context api_key llm messages current_query =
     (if api_key = [] then current_query
      else let recent = drop (length messages - 6) messages;
               dialogue = map (\<lambda>m. role_label (msg_role m) @ asc '': '' @ msg_content m) recent;
               dialogue_text = py_strip (py_join [10] dialogue)
           in case llm (rewrite_prompt dialogue_text current_query) of
                None \<Rightarrow> current_query
              | Some t \<Rightarrow> (let r = py_strip t in if r = [] then current_query else r))"

section \<open>The prompt of the answer\<close>

text \<open>\<^verbatim>\<open>meta.get(key, '')\<close> on an optional metadata field.\<close>

definition md_str :: "pystr option \<Rightarrow> pystr" where
  "md_str x = (case x of Some s \<Rightarrow> s | None \<Rightarrow> [])"

text \<open>One location line of a hit's metadata: for a location chunk,
  \<open>- UNIT: building floor roomROOM\<close> stripped (U+FF1A the colon, U+5BA4 the room glyph),
  the unit being the unit name or, when it is missing or empty, the title.\<close>

definition location_line :: "metadata \<Rightarrow> pystr option" where
  "location_line m =
     (if md_type m \<noteq> Location then None
      else let lt = py_strip (md_str (md_building m) @ [32] @ md_str (md_floor m) @ [32] @ md_str (md_room m) @ [0x5BA4]);
               unit = (case md_unit_name m of Some u \<Rightarrow> if u \<noteq> [] then u else md_title m | None \<Rightarrow> md_title m)
           in if lt = [] then None
              else Some (if unit \<noteq> [] then asc ''- '' @ unit @ [0xFF1A] @ lt else asc ''- '' @ lt))"

text \<open>The loop over the hits' metadata with its \<^verbatim>\<open>seen_locations\<close> set.\<close>

fun location_lines_loop :: "metadata list \<Rightarrow> pystr set \<Rightarrow> pystr list \<Rightarrow> pystr list" where
  "location_lines_loop [] seen ls = ls"
| "location_lines_loop (m # ms) seen ls =
     (case location_line m of
        None \<Rightarrow> location_lines_loop ms seen ls
      | Some l \<Rightarrow> if l \<notin> seen then location_lines_loop ms (insert l seen) (ls @ [l]) else location_lines_loop ms seen ls)"

definition location_lines :: "metadata list \<Rightarrow> pystr list" where
  "location_lines metas = location_lines_loop metas {} []"

text \<open>One source of the context: \<open>\n--- SOURCE i: [title](url) ---\npreview\n\<close>, the preview
  being the first 500 characters and an ellipsis for a longer document.\<close>

definition doc_preview :: "pystr \<Rightarrow> pystr" where
  "doc_preview d = (if 500 < length d then take 500 d @ asc ''...'' else d)"

definition source_entry :: "nat \<Rightarrow> hit \<Rightarrow> pystr" where
  "source_entry idx h =
     [10, 45, 45, 45, 32, 0x8CC7, 0x6599, 0x4F86, 0x6E90, 32] @ py_str_nat (idx + 1) @ asc '': ['' @
     md_title (hit_meta h) @ asc '']('' @ md_url (hit_meta h) @ asc '') ---'' @ [10] @ doc_preview (hit_doc h) @ [10]"

definition context_text :: "hit list \<Rightarrow> pystr" where
  "context_text hits = concat (map (\<lambda>(i, h). source_entry i h) (zip [0..<length hits] hits))"

definition location_hint :: "pystr list \<Rightarrow> pystr" where
  "location_hint ls =
     (if ls = [] then []
      else [0x3010, 0x8FA6, 0x7406, 0x5730, 0x9EDE, 0xFF08, 0x82E5, 0x9069, 0x7528, 0xFF09, 0x3011, 10] @
           py_join [10] ls @ [10, 10])"

definition identity_instruction :: "pystr \<Rightarrow> pystr" where
  "identity_instruction ui =
     (if ui = [] then []
      else [10, 0x3010, 0x4F7F, 0x7528, 0x8005, 0x8EAB, 0x5206, 0x8CC7, 0x8A0A, 0x3011, 10] @ ui @
        [10, 0x8ACB, 0x52D9, 0x5FC5, 0x6839, 0x64DA, 0x4E0A, 0x8FF0, 0x4F7F, 0x7528, 0x8005, 0x8EAB, 0x5206, 0xFF08, 0x5B78,
         0x9662, 47, 0x5B78, 0x5236, 0xFF09, 0xFF0C, 0x512A, 0x5148, 0x63D0, 0x4F9B, 0x9069, 0x7528, 0x7684, 0x898F, 0x5B9A,
         0x6216, 0x6D41, 0x7A0B, 0x3002, 0x82E5, 0x4E0D, 0x540C, 0x8EAB, 0x5206, 0x6709, 0x4E0D, 0x540C, 0x898F, 0x5B9A,
         0xFF0C, 0x8ACB, 0x660E, 0x78BA, 0x6307, 0x51FA, 0x3002, 10])"

text \<open>The answer rules: the assistant's role, answer only from the references, list the
  place of service first, use bullet points, stay friendly, answer in Traditional Chinese.\<close>

definition answer_rules :: pystr where
  "answer_rules = [0x4F60, 0x662F, 0x4E00, 0x500B, 0x5C08, 0x696D, 0x7684, 0x300C, 0x53F0, 0x5927, 0x884C, 0x653F,
     0x5C0F, 0x52A9, 0x624B, 0x300D, 0x3002, 0x8ACB, 0x6839, 0x64DA, 0x4EE5, 0x4E0B, 0x63D0, 0x4F9B, 0x7684, 0x3010, 0x53C3,
     0x8003, 0x8CC7, 0x6599, 0x3011, 0x4F86, 0x56DE, 0x7B54, 0x4F7F, 0x7528, 0x8005, 0x7684, 0x554F, 0x984C, 0x3002, 10, 10,
     0x3010, 0x56DE, 0x7B54, 0x5B88, 0x5247, 0x3011, 10, 49, 46, 32, 0x4F60, 0x7684, 0x56DE, 0x7B54, 0x5FC5, 0x9808, 42, 42,
     0x56B4, 0x683C, 0x57FA, 0x65BC, 42, 42, 0x63D0, 0x4F9B, 0x7684, 0x53C3, 0x8003, 0x8CC7, 0x6599, 0x3002, 0x5982, 0x679C,
     0x53C3, 0x8003, 0x8CC7, 0x6599, 0x6C92, 0x6709, 0x63D0, 0x53CA, 0xFF0C, 0x8ACB, 0x76F4, 0x63A5, 0x8AAA, 0x300C, 0x62B1,
     0x6B49, 0xFF0C, 0x76EE, 0x524D, 0x7684, 0x8CC7, 0x6599, 0x5EAB, 0x4E2D, 0x6C92, 0x6709, 0x76F8, 0x95DC, 0x8CC7, 0x8A0A,
     0x300D, 0x3002, 10, 50, 46, 32, 0x82E5, 0x53C3, 0x8003, 0x8CC7, 0x6599, 0x4E2D, 0x6709, 0x8FA6, 0x7406, 0x5730, 0x9EDE,
     0x8CC7, 0x8A0A, 0xFF0C, 0x8ACB, 0x5728, 0x56DE, 0x7B54, 0x958B, 0x982D, 0x4EE5, 0x300C, 0x8FA6, 0x7406, 0x5730, 0x9EDE,
     0xFF1A, 0x300D, 0x5217, 0x51FA, 0xFF08, 0x53EF, 0x591A, 0x7B46, 0xFF09, 0x3002, 10, 51, 46, 32, 0x56DE, 0x7B54, 0x8ACB,
     0x689D, 0x7406, 0x5206, 0x660E, 0xFF0C, 0x4F7F, 0x7528, 0x9EDE, 0x5217, 0x5F0F, 0x6574, 0x7406, 0x91CD, 0x9EDE, 0x3002,
     10, 52, 46, 32, 0x8A9E, 0x6C23, 0x8ACB, 0x4FDD, 0x6301, 0x89AA, 0x5207, 0x3001, 0x5C08, 0x696D, 0x3002, 10, 53, 46, 32,
     0x8ACB, 0x4F7F, 0x7528, 0x7E41, 0x9AD4, 0x4E2D, 0x6587, 0x56DE, 0x7B54, 0x3002, 10]"

definition answer_prompt :: "pystr \<Rightarrow> hit list \<Rightarrow> pystr \<Rightarrow> pystr" where
  "answer_prompt query hits ui =
     answer_rules @ identity_instruction ui @ [10, 10, 0x3010, 0x53C3, 0x8003, 0x8CC7, 0x6599, 0x3011, 10] @
     location_hint (location_lines (map hit_meta hits)) @ [10] @ context_text hits @
     [10, 10, 0x3010, 0x4F7F, 0x7528, 0x8005, 0x554F, 0x984C, 0x3011, 10] @ query @ [10]"

section \<open>Generation with retries\<close>

datatype gen_outcome = GenText pystr | GenQuota pystr | GenFail pystr

definition max_retries :: nat where
  "max_retries = 3"

definition retry_delay :: nat where
  "retry_delay = 5"

text \<open>The block put before a generated answer: U+8FA6 U+7406 U+5730 U+9EDE U+FF1A
  (place of service) and the location lines.\<close>

definition location_block :: "pystr list \<Rightarrow> pystr" where
  "location_block ls = [0x8FA6, 0x7406, 0x5730, 0x9EDE, 0xFF1A, 10] @ py_join [10] ls @ [10, 10]"

definition quota_message :: "pystr \<Rightarrow> pystr" where
  "quota_message e =
     [0x62B1, 0x6B49, 0xFF0C, 0x8ACB, 0x6C42, 0x6B21, 0x6578, 0x5DF2, 0x9054, 0x4E0A, 0x9650, 32, 40] @ e @
     [41, 0x3002, 0x8ACB, 0x7A0D, 0x5F8C, 0x518D, 0x8A66, 0x6216, 0x6AA2, 0x67E5, 0x60A8, 0x7684, 32, 65, 80, 73, 32, 75,
      101, 121, 32, 0x914D, 0x984D, 0x3002]"

definition failure_message :: "pystr \<Rightarrow> pystr" where
  "failure_message e =
     [0x62B1, 0x6B49, 0xFF0C, 0x7CFB, 0x7D71, 0x9047, 0x5230, 0x554F, 0x984C, 0xFF1A, 0x751F, 0x6210, 0x56DE, 0x7B54,
      0x6642, 0x767C, 0x751F, 0x932F, 0x8AA4, 58, 32] @ e @
     [10, 10, 0x8ACB, 0x7A0D, 0x5F8C, 0x518D, 0x8A66, 0x6216, 0x806F, 0x7E6B, 0x7BA1, 0x7406, 0x54E1, 0x3002]"

definition empty_answer_message :: pystr where
  "empty_answer_message = [0x62B1, 0x6B49, 0xFF0C, 65, 73, 32, 0x6A21, 0x578B, 0x672A, 0x80FD, 0x751F, 0x6210, 0x56DE,
     0x7B54, 0x3002, 0x8ACB, 0x5617, 0x8A66, 0x91CD, 0x65B0, 0x63D0, 0x554F, 0x6216, 0x7C21, 0x5316, 0x554F, 0x984C, 0x3002]"

text \<open>The two texts asking for an API key: \<^verbatim>\<open>generate_response\<close>'s ends with a full stop,
  \<^verbatim>\<open>handle_query\<close>'s does not.\<close>

definition no_key_message :: pystr where
  "no_key_message = [0x26A0, 0xFE0F, 32, 0x8ACB, 0x5148, 0x5728, 0x5074, 0x908A, 0x6B04, 0x8F38, 0x5165, 32] @
     asc ''Gemini API Key'' @ [32, 0x4EE5, 0x555F, 0x7528, 32, 65, 73, 32, 0x56DE, 0x7B54, 0x529F, 0x80FD, 0x3002]"

definition no_key_notice :: pystr where
  "no_key_notice = [0x26A0, 0xFE0F, 32, 0x8ACB, 0x5148, 0x5728, 0x5074, 0x908A, 0x6B04, 0x8F38, 0x5165, 32] @
     asc ''Gemini API Key'' @ [32, 0x4EE5, 0x555F, 0x7528, 32, 65, 73, 32, 0x56DE, 0x7B54, 0x529F, 0x80FD]"

text \<open>The retry loop over \<^verbatim>\<open>range(max_retries)\<close>: a non-empty text is returned, behind
  the location block when there are location lines; an empty text breaks out to the final
  message; a quota error waits \<open>retry_delay * 2 ^ attempt\<close> seconds and retries, except
  on the last attempt; any other error returns at once. The waits are returned beside the
  answer.\<close>

fun retry_loop :: "(nat \<Rightarrow> gen_outcome) \<Rightarrow> pystr list \<Rightarrow> nat list \<Rightarrow> nat list \<Rightarrow> pystr \<times> nat list" where
  "retry_loop gen ls [] waits = (empty_answer_message, waits)"
| "retry_loop gen ls (a # as) waits =
     (case gen a of
        GenText t \<Rightarrow>
          if t \<noteq> [] then ((if ls \<noteq> [] then location_block ls @ t else t), waits)
          else (empty_answer_message, waits)
      | GenQuota e \<Rightarrow>
          if a < max_retries - 1 then retry_loop gen ls as (waits @ [retry_delay * 2 ^ a])
          else (quota_message e, waits)
      | GenFail e \<Rightarrow> (failure_message e, waits))"

text \<open>\<^verbatim>\<open>generate_response\<close>: the answer, the waits and the sources (the hits, unchanged).
  The model \<open>gen\<close> receives the prompt.\<close>

definition generate_response ::
    "pystr \<Rightarrow> (pystr \<Rightarrow> nat \<Rightarrow> gen_outcome) \<Rightarrow> pystr \<Rightarrow> hit list \<Rightarrow> pystr \<Rightarrow> pystr \<times> nat list \<times> hit list" where
  "generate_response api_key gen query hits user_identity =
     (let ls = location_lines (map hit_meta hits); prompt = answer_prompt query hits user_identity in
      if api_key = [] then (no_key_message, [], hits)
      else let (answer, waits) = retry_loop (gen prompt) ls [0..<max_retries] [] in (answer, waits, hits))"

section \<open>Handling a question\<close>

text \<open>The services \<^verbatim>\<open>handle_query\<close> uses: the engine (absent when its initialisation
  failed) with the order in which it lists a set, the campus name index, the API key and
  the two models.\<close>

record app_env =
  env_engine :: "store option"
  env_order :: "pystr list \<Rightarrow> pystr list"
  env_index :: "(pystr \<times> building) list"
  env_api_key :: pystr
  env_llm :: "pystr \<Rightarrow> pystr option"
  env_gen :: "pystr \<Rightarrow> nat \<Rightarrow> gen_outcome"

text \<open>The two colleges of the identity settings; only the medical one (U+91AB U+5B78
  U+9662 / public health) changes the search query.\<close>

definition medical_college :: pystr where
  "medical_college = [0x91AB, 0x5B78, 0x9662, 47, 0x516C, 0x5171, 0x885B, 0x751F, 0x5B78, 0x9662]"

definition degree_options :: "pystr list" where
  "degree_options = [[0x5B78, 0x58EB, 0x73ED], [0x78A9, 0x58EB, 0x73ED], [0x535A, 0x58EB, 0x73ED]]"

definition context_suffix :: "pystr \<Rightarrow> pystr \<Rightarrow> pystr" where
  "context_suffix college degree =
     (if college = medical_college
      then [32, 40, 0x91AB, 0x5B78, 0x9662, 47, 0x516C, 0x885B, 0x5B78, 0x9662, 0x898F, 0x5B9A, 41] else []) @
     asc '' ('' @ degree @ asc '')''"

definition identity_string :: "pystr \<Rightarrow> pystr \<Rightarrow> pystr" where
  "identity_string college degree = asc ''- '' @ [0x5B78, 0x9662, 0xFF1A] @ college @ [10] @ asc ''- '' @
     [0x5B78, 0x5236, 0xFF1A] @ degree"

definition final_search_query :: "pystr \<Rightarrow> pystr \<Rightarrow> pystr \<Rightarrow> pystr" where
  "final_search_query rewritten college degree = rewritten @ [32] @ context_suffix college degree"

text \<open>\<^verbatim>\<open>handle_query\<close>: the new message list and the outcome, \<open>Inr None\<close> when there is
  no engine, \<open>Inl\<close> the exception retrieval raised (it leaves the handler; the user's
  message is already stored), otherwise the answer, the buildings and the map view.\<close>

definition handle_query ::
    "app_env \<Rightarrow> pystr \<Rightarrow> pystr \<Rightarrow> message list \<Rightarrow> pystr \<Rightarrow>
     message list \<times> (py_error + (pystr \<times> pystr list \<times> map_view option) option)" where
  "handle_query env college degree messages query_text =
     (let msgs = messages @ [user_message query_text] in
      case env_engine env of
        None \<Rightarrow> (msgs, Inr None)
      | Some st \<Rightarrow>
          (let rewritten = rewrite_query_with_context (env_api_key env) (env_llm env) msgs query_text;
               final = final_search_query rewritten college degree
           in case retrieve st (env_order env) final True of
                Inl e \<Rightarrow> (msgs, Inl e)
              | Inr results \<Rightarrow>
                  (let (answer, sources) =
                         (if env_api_key env \<noteq> []
                          then (let (a, w, s) = generate_response (env_api_key env) (env_gen env) query_text results
                                                  (identity_string college degree) in (a, s))
                          else (no_key_notice, results));
                       bs = extract_buildings_from_metadata (env_index env) (map (\<lambda>h. (hit_doc h, hit_meta h)) sources);
                       mv = (if bs \<noteq> [] then create_map (env_index env) bs True 16 else None)
                   in (msgs @ [\<lparr>msg_role = Assistant, msg_content = answer, msg_sources = sources, msg_buildings = bs\<rparr>],
                       Inr (Some (answer, bs, mv))))))"

section \<open>Lemmas\<close>

lemma location_lines_loop_first:
  "location_lines_loop ms (set ys) (rev (remdups (rev ys))) = rev (remdups (rev (ys @ List.map_filter location_line ms)))"
proof (induction ms arbitrary: ys)
  case Nil
  then show ?case by simp
next
  case (Cons m ms)
  show ?case
  proof (cases "location_line m")
    case None
    then show ?thesis using Cons.IH [of ys] by simp
  next
    case (Some l)
    show ?thesis
    proof (cases "l \<in> set ys")
      case True
      then show ?thesis using Some Cons.IH [of ys] by (simp add: remdups_append_mem)
    next
      case False
      have "set (ys @ [l]) = insert l (set ys)" by simp
      then show ?thesis using Some False Cons.IH [of "ys @ [l]"]
        by simp
    qed
  qed
qed

text \<open>
  Claim C12: the location hints of \<^verbatim>\<open>generate_response\<close>, built with
  a \<^verbatim>\<open>seen_locations\<close> set, are the location lines of the hits in order with every
  repetition after the first dropped.
\<close>

theorem location_lines_first_occurrences:
  "location_lines metas = rev (remdups (rev (List.map_filter location_line metas)))"
  using location_lines_loop_first [of metas "[]"] by (simp add: location_lines_def)

lemma upt_max_retries: "[0..<max_retries] = [0, 1, 2]"
  by (simp add: max_retries_def upt_rec)

text \<open>
  Claim C11: whatever the model does, the retry loop sleeps only between attempts,
  with exponential backoff: the waits are \<open>5, 10, ...\<close> for fewer than \<^verbatim>\<open>max_retries\<close>
  attempts, so a request sleeps at most 15 seconds in total.
\<close>

theorem retry_waits_backoff:
  "\<exists>k<max_retries. snd (retry_loop g ls [0..<max_retries] []) = map (\<lambda>a. retry_delay * 2 ^ a) [0..<k]"
proof -
  have "snd (retry_loop g ls [0, 1, 2] []) \<in> {[], [5], [5, 10]}"
    by (simp add: max_retries_def retry_delay_def split: gen_outcome.split)
  then consider "snd (retry_loop g ls [0, 1, 2] []) = []" | "snd (retry_loop g ls [0, 1, 2] []) = [5]"
    | "snd (retry_loop g ls [0, 1, 2] []) = [5, 10]" by blast
  then show ?thesis
  proof cases
    case 1 then show ?thesis by (intro exI [of _ 0]) (simp only: upt_max_retries, simp add: max_retries_def)
  next
    case 2 then show ?thesis
      by (intro exI [of _ 1]) (simp only: upt_max_retries, simp add: max_retries_def retry_delay_def)
  next
    case 3 then show ?thesis
      by (intro exI [of _ 2]) (simp only: upt_max_retries, simp add: max_retries_def retry_delay_def upt_rec)
  qed
qed

lemma retry_quota_exhausted:
  assumes "g 0 = GenQuota e0" "g 1 = GenQuota e1" "g 2 = GenQuota e2"
  shows "retry_loop g ls [0..<max_retries] [] = (quota_message e2, [retry_delay, 2 * retry_delay])"
  using assms unfolding upt_max_retries by (simp add: max_retries_def retry_delay_def)

text \<open>
  Claim C10: liveness of the retry policy: if the quota errors stop before the
  last attempt and the model then returns a non-empty text, that text is the answer, behind
  the location block when there are location lines.
\<close>

theorem retry_first_text:
  assumes "j < max_retries" "\<forall>a<j. \<exists>e. g a = GenQuota e" "g j = GenText t" "t \<noteq> []"
  shows "fst (retry_loop g ls [0..<max_retries] []) = (if ls \<noteq> [] then location_block ls @ t else t)"
proof -
  have "j = 0 \<or> j = 1 \<or> j = 2" using assms(1) by (auto simp: max_retries_def)
  then show ?thesis
  proof (elim disjE)
    assume "j = 0" then show ?thesis using assms(3,4) unfolding upt_max_retries by simp
  next
    assume j: "j = 1"
    obtain e where "g 0 = GenQuota e" using assms(2) j by blast
    then show ?thesis using assms(3,4) j unfolding upt_max_retries by (simp add: max_retries_def)
  next
    assume j: "j = 2"
    obtain e e' where "g 0 = GenQuota e" "g 1 = GenQuota e'" using assms(2) j by fastforce
    then show ?thesis using assms(3,4) j unfolding upt_max_retries by (simp add: max_retries_def)
  qed
qed

lemma keywords_no_space:
  "\<forall>k\<in>set location_keywords. 32 \<notin> set k" "\<forall>k\<in>set rag_phone_keywords. 32 \<notin> set (py_lower k)"
  "\<forall>k\<in>set rag_service_keywords. 32 \<notin> set (py_lower k)"
  by (simp_all add: location_keywords_def rag_phone_keywords_def rag_service_keywords_def py_lower_def lower_char_def
      LOU_def pystr_eval)

lemma context_suffix_keywords:
  assumes "degree \<in> set degree_options"
  shows "\<not> list_ex (\<lambda>k. contains k (py_lower (context_suffix college degree))) location_keywords \<and>
    \<not> list_ex (\<lambda>k. contains (py_lower k) (py_lower (context_suffix college degree))) rag_phone_keywords \<and>
    (list_ex (\<lambda>k. contains (py_lower k) (py_lower (context_suffix college degree))) rag_service_keywords \<longleftrightarrow>
     college = medical_college)"
  using assms
  by (cases "college = medical_college")
     (auto simp: degree_options_def context_suffix_def location_keywords_def rag_phone_keywords_def
      rag_service_keywords_def py_lower_def lower_char_def LOU_def starts_with_def pystr_eval)

text \<open>
  Claim C8: the identity suffix \<^verbatim>\<open>handle_query\<close> appends to the
  rewritten question never changes a location or phone intent, and leaves a general or
  service intent unchanged for the other colleges; for the medical college, whose suffix
  contains the service keyword U+898F U+5B9A (regulation), every general question is
  classified as a service question.
\<close>

theorem final_query_intent:
  assumes "degree \<in> set degree_options"
  shows "query_intent (final_search_query r college degree) =
    (if college = medical_college \<and> query_intent r = General then Service else query_intent r)"
proof -
  let ?s = "context_suffix college degree"
  have loc: "is_location_query (r @ [32] @ ?s) \<longleftrightarrow> is_location_query r"
    using keywords_no_space(1) context_suffix_keywords [OF assms, where college = college]
    by (auto simp: is_location_query_def contains_sep_append list_ex_iff)
  have ph: "list_ex (\<lambda>k. contains (py_lower k) (py_lower (r @ [32] @ ?s))) rag_phone_keywords \<longleftrightarrow>
      list_ex (\<lambda>k. contains (py_lower k) (py_lower r)) rag_phone_keywords"
    using keywords_no_space(2) context_suffix_keywords [OF assms, where college = college]
    by (auto simp: contains_sep_append list_ex_iff)
  have sv: "list_ex (\<lambda>k. contains (py_lower k) (py_lower (r @ [32] @ ?s))) rag_service_keywords \<longleftrightarrow>
      list_ex (\<lambda>k. contains (py_lower k) (py_lower r)) rag_service_keywords \<or> college = medical_college"
    using keywords_no_space(3) context_suffix_keywords [OF assms, where college = college]
    by (auto simp: contains_sep_append list_ex_iff)
  show ?thesis
    unfolding final_search_query_def query_intent_def loc ph sv by auto
qed

theorem final_query_intent_witness:
  "query_intent (final_search_query [0x7E3D, 0x5716, 0x66F8, 0x9928, 0x958B, 0x653E, 0x6642, 0x9593, 0x70BA, 0x4F55]
      medical_college [0x5B78, 0x58EB, 0x73ED]) = Service"
proof -
  have "query_intent [0x7E3D, 0x5716, 0x66F8, 0x9928, 0x958B, 0x653E, 0x6642, 0x9593, 0x70BA, 0x4F55] = General"
    by (simp add: query_intent_def is_location_query_def location_keywords_def rag_phone_keywords_def
        rag_service_keywords_def py_lower_def lower_char_def LOU_def starts_with_def pystr_eval)
  then show ?thesis
    using final_query_intent [of "[0x5B78, 0x58EB, 0x73ED]" "[0x7E3D, 0x5716, 0x66F8, 0x9928, 0x958B, 0x653E, 0x6642, 0x9593, 0x70BA, 0x4F55]"
        medical_college]
    by (simp add: degree_options_def)
qed

text \<open>
  Claim C9: one call of \<^verbatim>\<open>handle_query\<close> appends the user's message and,
  exactly when it produces an answer, one assistant message carrying that answer and the
  buildings; when retrieval raises or there is no engine the user's message stays without
  an answer.
\<close>

theorem handle_query_turn:
  "\<exists>tail. fst (handle_query env college degree msgs q) = msgs @ user_message q # tail \<and>
     (case snd (handle_query env college degree msgs q) of
        Inr (Some (a, bs, mv)) \<Rightarrow> \<exists>src. tail = [\<lparr>msg_role = Assistant, msg_content = a, msg_sources = src, msg_buildings = bs\<rparr>]
      | _ \<Rightarrow> tail = [])"
  by (auto simp: handle_query_def Let_def split: option.split sum.split prod.split)

lemma location_lines_set: "set (location_lines metas) = set (List.map_filter location_line metas)"
  using location_lines_loop_first [of metas "[]"] by (simp add: location_lines_def)

lemma location_line_in_lines:
  "m \<in> set metas \<Longrightarrow> location_line m = Some l \<Longrightarrow> l \<in> set (location_lines metas)"
  by (force simp: location_lines_set map_filter_def)

theorem generate_location_first:
  assumes "api_key \<noteq> []" "gen (answer_prompt q hits ui) 0 = GenText t" "t \<noteq> []"
    and "h \<in> set hits" "location_line (hit_meta h) = Some l"
  shows "\<exists>ls. fst (generate_response api_key gen q hits ui) = location_block ls @ t \<and> l \<in> set ls"
proof -
  let ?ls = "location_lines (map hit_meta hits)"
  have l: "l \<in> set ?ls" using location_line_in_lines [of "hit_meta h" "map hit_meta hits" l] assms(4,5) by simp
  have "fst (retry_loop (gen (answer_prompt q hits ui)) ?ls [0..<max_retries] []) = location_block ?ls @ t"
    using assms(2,3) l unfolding upt_max_retries by auto
  then show ?thesis using assms(1) l by (auto simp: generate_response_def Let_def split: prod.split)
qed

theorem retry_waits_backoff_witness:
  "\<exists>k<max_retries. snd (retry_loop (\<lambda>a. GenQuota []) [] [0..<max_retries] []) = map (\<lambda>a. retry_delay * 2 ^ a) [0..<k]"
  by (rule retry_waits_backoff)

theorem retry_first_text_witness:
  "fst (retry_loop (\<lambda>a. if a = 0 then GenQuota [] else GenText (asc ''ok'')) [] [0..<max_retries] []) = asc ''ok''"
proof -
  have "fst (retry_loop (\<lambda>a. if a = 0 then GenQuota [] else GenText (asc ''ok'')) [] [0..<max_retries] []) =
      (if ([] :: pystr list) \<noteq> [] then location_block [] @ asc ''ok'' else asc ''ok'')"
    by (rule retry_first_text [where j = 1 and g = "\<lambda>a. if a = 0 then GenQuota [] else GenText (asc ''ok'')"
        and t = "asc ''ok''" and ls = "[]"]) (simp_all add: max_retries_def asc_def)
  then show ?thesis by simp
qed

end
