(* ===== verification/ScraperBase.thy ===== *)
theory ScraperBase
  imports Prelude "HOL-Library.AList"
begin

text \<open>
  The scraper framework of \<^verbatim>\<open>src/scrapers/base.py\<close> (\<^verbatim>\<open>BaseScraper\<close>): whitespace
  normalisation, the choice of a page's main text, the description from the meta tags, the
  two-fetcher strategy of \<^verbatim>\<open>scrape_single\<close>, the loop of \<^verbatim>\<open>run\<close> and the JSON and CSV
  output of \<^verbatim>\<open>_save_data\<close>. The network and the HTML parser are outside the model: a
  fetched page is the record of what the code asks BeautifulSoup for (the meta
  descriptions, the texts of the elements each priority selector matches once the noise
  elements are removed, and the class lists and texts of the divs), and a fetcher is a
  function from a URL to a result. The side effects of a run are an explicit list of
  events: the pages fetched and the files written, in order.
\<close>

section \<open>Results and items\<close>

text \<open>The dictionary a fetch returns. Every producer sets \<open>_length\<close> to the length of the
  content on success and to 0 on failure, so it is a derived value; a key a failure
  does not set reads as the empty string wherever the code reads it (\<open>.get(k, "")\<close>).\<close>

record fetch_result =
  fr_success :: bool
  fr_description :: pystr
  fr_content :: pystr
  fr_url :: pystr
  fr_error :: pystr

definition fr_length :: "fetch_result \<Rightarrow> nat" where
  "fr_length r = (if fr_success r then length (fr_content r) else 0)"

definition fail_result :: "pystr \<Rightarrow> fetch_result" where
  "fail_result e = \<lparr>fr_success = False, fr_description = [], fr_content = [], fr_url = [], fr_error = e\<rparr>"

text \<open>The values of a link dictionary (titles and URLs, the library's node numbers), and a
  link item: its keys in insertion order. The \<open>scraped\<close> key, always set last, is kept
  beside the item.\<close>

datatype pyfield = FStr pystr | FInt int | FBool bool

type_synonym link_item = "(pystr \<times> pyfield) list"

definition item_url :: "link_item \<Rightarrow> pystr" where
  "item_url it = (case map_of it (asc ''url'') of Some (FStr u) \<Rightarrow> u | _ \<Rightarrow> [])"

section \<open>Text of a page\<close>

text \<open>\<^verbatim>\<open>clean_text\<close>: \<^verbatim>\<open>" ".join(text.split())\<close>.\<close>

definition clean_text :: "pystr \<Rightarrow> pystr" where
  "clean_text t = py_join [32] (py_split t)"

text \<open>What \<^verbatim>\<open>extract_with_requests\<close> and \<^verbatim>\<open>pick_main_text_from_soup\<close> read from a
  parsed page: the \<open>content\<close> attribute of the description and Open Graph description meta
  tags (\<open>None\<close> when the tag or the attribute is missing), for each selector of
  \<^verbatim>\<open>candidates_priority\<close> the texts (\<^verbatim>\<open>get_text(separator=" ", strip=True)\<close>) of the
  elements it selects, and every div's class list and text, in document order.\<close>

record html_page =
  hp_meta_description :: "pystr option"
  hp_og_description :: "pystr option"
  hp_candidates :: "pystr list list"
  hp_divs :: "(pystr list \<times> pystr) list"

text \<open>\<^verbatim>\<open>50 < len(text) < 30000\<close>.\<close>

definition in_range :: "pystr \<Rightarrow> bool" where
  "in_range x \<longleftrightarrow> 50 < length x \<and> length x < 30000"

text \<open>The loop shared by both searches of \<^verbatim>\<open>pick_main_text_from_soup\<close>: clean each text
  and keep it when it has between 51 and 29999 characters and is strictly longer than the
  best so far.\<close>

fun longest_in_range :: "pystr \<Rightarrow> pystr list \<Rightarrow> pystr" where
  "longest_in_range best [] = best"
| "longest_in_range best (t # ts) =
     (let x = clean_text t in
      longest_in_range (if in_range x \<and> length best < length x then x else best) ts)"

text \<open>The reference the search loop implements: the first of the longest texts.\<close>

definition first_longest :: "pystr list \<Rightarrow> pystr" where
  "first_longest C = (if C = [] then [] else hd (filter (\<lambda>x. length x = Max (set (map length C))) C))"

definition noise_words :: "pystr list" where
  "noise_words = map asc [''nav'', ''menu'', ''header'', ''footer'', ''breadcrumb'', ''sidebar'', ''noprint'',
     ''button'', ''hidden'']"

definition div_skipped :: "pystr list \<Rightarrow> bool" where
  "div_skipped cls \<longleftrightarrow> list_ex (\<lambda>w. contains w (py_lower (py_join [32] cls))) noise_words"

definition pick_main_text :: "pystr list list \<Rightarrow> (pystr list \<times> pystr) list \<Rightarrow> pystr" where
  "pick_main_text cands divs =
     (let best = longest_in_range [] (concat cands) in
      if best \<noteq> [] then best
      else longest_in_range [] (map snd (filter (\<lambda>(cls, t). \<not> div_skipped cls) divs)))"

text \<open>The description: the stripped \<open>content\<close> of the description tag when it is
  non-empty, else that of the Open Graph tag.\<close>

definition meta_content :: "pystr option \<Rightarrow> pystr" where
  "meta_content m = (case m of Some c \<Rightarrow> if c \<noteq> [] then py_strip c else [] | None \<Rightarrow> [])"

definition page_description :: "html_page \<Rightarrow> pystr" where
  "page_description p =
     (let d = meta_content (hp_meta_description p) in
      if d \<noteq> [] then d else meta_content (hp_og_description p))"

text \<open>\<^verbatim>\<open>extract_with_requests\<close>: the request (an error message when it raises) and the
  result dictionary.\<close>

definition extract_with_requests :: "(pystr \<Rightarrow> pystr + html_page) \<Rightarrow> pystr \<Rightarrow> fetch_result" where
  "extract_with_requests get url =
     (case get url of
        Inl e \<Rightarrow> fail_result e
      | Inr p \<Rightarrow> \<lparr>fr_success = True, fr_description = page_description p,
                 fr_content = pick_main_text (hp_candidates p) (hp_divs p), fr_url = url, fr_error = []\<rparr>)"

text \<open>\<^verbatim>\<open>extract_with_playwright\<close>: \<open>installed\<close> is whether Playwright was imported; \<open>visit\<close>
  gives, for a URL, an exception of the browser (\<open>Inl\<close>), a failed navigation
  (\<open>Inr (Inl e)\<close>), or the page after the script has removed the noise elements. The
  description is always empty.\<close>

definition extract_with_playwright ::
    "bool \<Rightarrow> (pystr \<Rightarrow> pystr + pystr + html_page) \<Rightarrow> pystr \<Rightarrow> fetch_result" where
  "extract_with_playwright installed visit url =
     (if \<not> installed then fail_result (asc ''Playwright not installed'')
      else case visit url of
        Inl e \<Rightarrow> fail_result e
      | Inr (Inl e) \<Rightarrow> fail_result (asc ''Navigation failed: '' @ e)
      | Inr (Inr p) \<Rightarrow> \<lparr>fr_success = True, fr_description = [],
                        fr_content = pick_main_text (hp_candidates p) (hp_divs p), fr_url = url, fr_error = []\<rparr>)"

section \<open>One page, two fetchers\<close>

datatype fetcher = Requests | Playwright

text \<open>\<^verbatim>\<open>result["success"] and result["_length"] >= 50\<close>.\<close>

definition good_result :: "fetch_result \<Rightarrow> bool" where
  "good_result r \<longleftrightarrow> fr_success r \<and> 50 \<le> fr_length r"

text \<open>\<^verbatim>\<open>scrape_single\<close>: the static fetch first; the browser only when that did not give
  a successful result of 50 characters; then the browser's result if it has 50, else the
  longer of the two by \<open>_length\<close>, the static one on a tie. The fetchers used are returned
  in the order they ran.\<close>

definition scrape_single ::
    "(pystr \<Rightarrow> fetch_result) \<Rightarrow> (pystr \<Rightarrow> fetch_result) \<Rightarrow> pystr \<Rightarrow> fetch_result \<times> fetcher list" where
  "scrape_single req play url =
     (let r = req url in
      if good_result r then (r, [Requests])
      else let p = play url in
        if good_result p then (p, [Requests, Playwright])
        else if fr_length r < fr_length p then (p, [Requests, Playwright])
        else (r, [Requests, Playwright]))"

section \<open>Output files\<close>

text \<open>The effects of a run, in order: a page fetched by one of the fetchers, or a file
  written. A JSON file holds the items with their results; a CSV file its header and the
  rows written, each cell a value or the empty default (\<open>None\<close>).\<close>

datatype file_out =
    JsonFile pystr "(link_item \<times> fetch_result option) list"
  | CsvFile pystr "pystr list" "pyfield option list list"

datatype event = Fetch fetcher pystr | Write file_out

text \<open>The flattening of \<^verbatim>\<open>_save_data\<close>: an item with a result gets the result's
  description, content and success, at the positions a dictionary assignment gives them.\<close>

definition flatten_item :: "link_item \<times> fetch_result option \<Rightarrow> link_item" where
  "flatten_item x =
     (case x of
        (it, None) \<Rightarrow> it
      | (it, Some r) \<Rightarrow>
          AList.update (asc ''success'') (FBool (fr_success r))
            (AList.update (asc ''content'') (FStr (fr_content r))
              (AList.update (asc ''description'') (FStr (fr_description r)) it)))"

text \<open>\<^verbatim>\<open>csv.DictWriter(f, fieldnames=keys)\<close> with \<^verbatim>\<open>writeheader\<close> and \<^verbatim>\<open>writerows\<close>: the
  rows are written one by one until the first with a key outside the field names, which
  raises \<open>ValueError\<close>; a missing key is written as the empty default.\<close>

definition row_cells :: "pystr list \<Rightarrow> link_item \<Rightarrow> pyfield option list" where
  "row_cells fnames r = map (map_of r) fnames"

definition write_csv :: "pystr \<Rightarrow> pystr list \<Rightarrow> link_item list \<Rightarrow> file_out \<times> py_error option" where
  "write_csv path fnames rows =
     (let ok = takeWhile (\<lambda>r. set (map fst r) \<subseteq> set fnames) rows in
      (CsvFile path fnames (map (row_cells fnames) ok),
       if length ok < length rows then Some ValueError else None))"

text \<open>\<^verbatim>\<open>_save_data\<close>: the JSON file, then, for non-empty data, the CSV file whose field
  names are the keys of the first flattened item.\<close>

definition save_data ::
    "pystr \<Rightarrow> (link_item \<times> fetch_result option) list \<Rightarrow> pystr \<Rightarrow> event list \<times> py_error option" where
  "save_data base data name =
     (let js = Write (JsonFile (base @ [47] @ name @ asc ''.json'') data) in
      if data = [] then ([js], None)
      else let flat = map flatten_item data;
               (csv, err) = write_csv (base @ [47] @ name @ asc ''.csv'') (map fst (hd flat)) flat
           in ([js, Write csv], err))"

section \<open>The run\<close>

text \<open>The result of an item without a URL.\<close>

definition no_url_result :: fetch_result where
  "no_url_result = fail_result (asc ''No URL provided'')"

text \<open>\<^verbatim>\<open>if max_items: links = links[:max_items]\<close>: \<open>None\<close> and \<open>0\<close> keep every link; the
  command line passes any integer, and a negative one drops links from the end.\<close>

definition limit_links :: "int option \<Rightarrow> 'a list \<Rightarrow> 'a list" where
  "limit_links max_items links = (case max_items of Some n \<Rightarrow> if n \<noteq> 0 then py_prefix n links else links | None \<Rightarrow> links)"

text \<open>One item of the loop: its result and the fetches it made.\<close>

definition scrape_item ::
    "(pystr \<Rightarrow> fetch_result) \<Rightarrow> (pystr \<Rightarrow> fetch_result) \<Rightarrow> link_item \<Rightarrow> fetch_result \<times> event list" where
  "scrape_item req play it =
     (let url = item_url it in
      if url = [] then (no_url_result, [])
      else let (r, fs) = scrape_single req play url in (r, map (\<lambda>f. Fetch f url) fs))"

text \<open>\<^verbatim>\<open>BaseScraper.run\<close> for a department whose output directory is \<open>base\<close>: the links
  (\<open>Inl\<close> when \<^verbatim>\<open>fetch_links\<close> raised, which ends the run quietly), saved at once; an
  exception of a save leaves the run. The result is the events and that exception.\<close>

definition base_run ::
    "pystr \<Rightarrow> pystr \<Rightarrow> pystr + link_item list \<Rightarrow> (pystr \<Rightarrow> fetch_result) \<Rightarrow> (pystr \<Rightarrow> fetch_result) \<Rightarrow>
     int option \<Rightarrow> event list \<times> py_error option" where
  "base_run dept base links0 req play max_items =
     (case links0 of
        Inl e \<Rightarrow> ([], None)
      | Inr links \<Rightarrow>
          (let (ev1, e1) = save_data base (map (\<lambda>l. (l, None)) links) (dept @ asc ''.service_link'') in
           if e1 \<noteq> None then (ev1, e1)
           else let items = limit_links max_items links;
                    scraped = map (scrape_item req play) items;
                    (ev2, e2) = save_data base (map (\<lambda>(it, x). (it, Some (fst x))) (zip items scraped))
                                  (dept @ asc ''.information'')
                in (ev1 @ concat (map snd scraped) @ ev2, e2)))"

section \<open>Sample inputs\<close>

definition sample_page :: fetch_result where
  "sample_page = \<lparr>fr_success = True, fr_description = [], fr_content = replicate 60 97, fr_url = [], fr_error = []\<rparr>"

section \<open>Properties of the text of a page\<close>

lemma clean_text_words: "py_split (clean_text t) = py_split t"
  unfolding clean_text_def using py_split_words [of _ t] by (intro py_split_join) blast

lemma clean_text_idem: "clean_text (clean_text t) = clean_text t"
  by (simp add: clean_text_def clean_text_words [unfolded clean_text_def])

text \<open>The search loop ends with the best it started from, when no cleaned text in range is
  longer, or else with the first of the longest cleaned texts in range.\<close>

lemma longest_in_range_spec:
  "let r = longest_in_range b ts; C = filter in_range (map clean_text ts) in
   (r = b \<and> (\<forall>x\<in>set C. length x \<le> length b)) \<or>
   (r \<in> set C \<and> length b < length r \<and> (\<forall>x\<in>set C. length x \<le> length r) \<and>
    find (\<lambda>x. length r \<le> length x) C = Some r)"
proof (induction ts arbitrary: b)
  case Nil
  then show ?case by simp
next
  case (Cons t ts)
  let ?x = "clean_text t"
  show ?case
  proof (cases "in_range ?x \<and> length b < length ?x")
    case True
    then have e: "longest_in_range b (t # ts) = longest_in_range ?x ts" by simp
    from Cons.IH [of ?x] show ?thesis using True unfolding e Let_def by auto
  next
    case False
    then have e: "longest_in_range b (t # ts) = longest_in_range b ts" by auto
    from Cons.IH [of b] show ?thesis using False unfolding e Let_def by auto
  qed
qed

lemma find_hd_filter: "find P xs = Some r \<Longrightarrow> hd (filter P xs) = r"
  by (induction xs) (auto split: if_splits)

lemma first_longest_eq:
  assumes "r \<in> set C" "\<forall>x\<in>set C. length x \<le> length r" "find (\<lambda>x. length r \<le> length x) C = Some r"
  shows "first_longest C = r"
proof -
  have M: "Max (length ` set C) = length r"
    using assms(1,2) by (intro Max_eqI) auto
  have "filter (\<lambda>x. length x = length r) C = filter (\<lambda>x. length r \<le> length x) C"
    using assms(2) by (intro filter_cong) auto
  then show ?thesis using assms(1) find_hd_filter [OF assms(3)] by (auto simp: first_longest_def M)
qed

lemma longest_in_range_first_longest:
  "longest_in_range [] ts = first_longest (filter in_range (map clean_text ts))"
proof -
  let ?C = "filter in_range (map clean_text ts)"
  have ne: "x \<in> set ?C \<Longrightarrow> x \<noteq> []" for x by (auto simp: in_range_def)
  from longest_in_range_spec [of "[]" ts, unfolded Let_def] show ?thesis
  proof (elim disjE conjE)
    assume "longest_in_range [] ts = []" "\<forall>x\<in>set ?C. length x \<le> length ([]::pystr)"
    then show ?thesis using ne by (auto simp: first_longest_def)
  next
    assume "longest_in_range [] ts \<in> set ?C" "length ([]::pystr) < length (longest_in_range [] ts)"
      "\<forall>x\<in>set ?C. length x \<le> length (longest_in_range [] ts)"
      "find (\<lambda>x. length (longest_in_range [] ts) \<le> length x) ?C = Some (longest_in_range [] ts)"
    then show ?thesis by (metis first_longest_eq)
  qed
qed

text \<open>Claim C14: \<^verbatim>\<open>pick_main_text_from_soup\<close> returns the first of
  the longest whitespace-normalised texts of 51 to 29999 characters among the priority
  selectors' elements; when there is none, the first of the longest such texts among the
  divs whose classes name no navigation or layout element; else the empty string.\<close>

theorem pick_main_text_refines:
  "pick_main_text cands divs =
     (let c = first_longest (filter in_range (map clean_text (concat cands))) in
      if c \<noteq> [] then c
      else first_longest (filter in_range (map clean_text (map snd (filter (\<lambda>(cls, t). \<not> div_skipped cls) divs)))))"
  unfolding pick_main_text_def longest_in_range_first_longest ..

section \<open>Properties of the fetch strategy\<close>

lemma scrape_single_cases:
  "scrape_single req play url =
     (if good_result (req url) then (req url, [Requests])
      else if good_result (play url) then (play url, [Requests, Playwright])
      else if fr_length (req url) < fr_length (play url) then (play url, [Requests, Playwright])
      else (req url, [Requests, Playwright]))"
  by (simp add: scrape_single_def Let_def)

text \<open>Claim C15: \<^verbatim>\<open>scrape_single\<close> runs the browser exactly when the
  static fetch gave no successful result of 50 characters; it returns one of the two
  results, a good one whenever either fetcher gave one, and otherwise the one with the
  longer content.\<close>

theorem scrape_single_strategy:
  "(snd (scrape_single req play url) = [Requests] \<longleftrightarrow> good_result (req url)) \<and>
   fst (scrape_single req play url) \<in> {req url, play url} \<and>
   (good_result (req url) \<or> good_result (play url) \<longrightarrow> good_result (fst (scrape_single req play url))) \<and>
   (\<not> good_result (req url) \<and> \<not> good_result (play url) \<longrightarrow>
      fr_length (fst (scrape_single req play url)) = max (fr_length (req url)) (fr_length (play url)))"
  by (simp add: scrape_single_cases)

section \<open>Properties of the output\<close>

lemma write_csv_error:
  "snd (write_csv path fs rows) = Some ValueError \<longleftrightarrow> (\<exists>r\<in>set rows. \<not> set (map fst r) \<subseteq> set fs)"
proof -
  have "length (takeWhile P rows) < length rows \<longleftrightarrow> (\<exists>r\<in>set rows. \<not> P r)" for P
    by (induction rows) auto
  then show ?thesis by (simp add: write_csv_def Let_def)
qed

text \<open>\<^verbatim>\<open>_save_data\<close> on non-empty data writes the JSON file
  first and then the CSV file, and raises \<open>ValueError\<close> exactly when some flattened item
  has a key the first item does not have.\<close>

theorem save_data_csv_error:
  assumes "save_data base data name = (evs, err)" "data \<noteq> []"
  shows "hd evs = Write (JsonFile (base @ [47] @ name @ asc ''.json'') data) \<and> length evs = 2 \<and>
    (err = Some ValueError \<longleftrightarrow>
       (\<exists>r\<in>set (map flatten_item data). \<not> set (map fst r) \<subseteq> set (map fst (flatten_item (hd data)))))"
  using assms write_csv_error [of "base @ [47] @ name @ asc ''.csv''" "map fst (flatten_item (hd data))" "map flatten_item data"]
  by (auto simp: save_data_def Let_def hd_map split: prod.splits)

lemma save_data_hd: "hd (fst (save_data base data name)) = Write (JsonFile (base @ [47] @ name @ asc ''.json'') data)"
  by (simp add: save_data_def Let_def split: prod.splits)

lemma save_data_hd_mem: "hd (fst (save_data base data name)) \<in> set (fst (save_data base data name))"
  by (simp add: save_data_def Let_def split: prod.splits)

section \<open>Properties of the run\<close>

lemma base_run_Inr:
  "base_run dept base (Inr links) req play m =
     (let (ev1, e1) = save_data base (map (\<lambda>l. (l, None)) links) (dept @ asc ''.service_link'') in
      if e1 \<noteq> None then (ev1, e1)
      else let items = limit_links m links; scraped = map (scrape_item req play) items;
               (ev2, e2) = save_data base (map (\<lambda>(it, x). (it, Some (fst x))) (zip items scraped)) (dept @ asc ''.information'')
           in (ev1 @ concat (map snd scraped) @ ev2, e2))"
  by (simp add: base_run_def)

text \<open>A run whose links were fetched starts by writing the
  link files, and ends there, with that exception, when writing them raised.\<close>

theorem base_run_links_first:
  assumes "base_run dept base (Inr links) req play m = (evs, err)"
  shows "\<exists>rest. evs = fst (save_data base (map (\<lambda>l. (l, None)) links) (dept @ asc ''.service_link'')) @ rest \<and>
    (snd (save_data base (map (\<lambda>l. (l, None)) links) (dept @ asc ''.service_link'')) \<noteq> None \<longrightarrow> rest = [] \<and>
       err = snd (save_data base (map (\<lambda>l. (l, None)) links) (dept @ asc ''.service_link'')))"
  using assms by (auto simp: base_run_Inr Let_def split: prod.splits if_splits)

lemma map_zip_scrape:
  "map (\<lambda>(it, x). (it, Some (fst x))) (zip items (map (scrape_item req play) items)) =
   map (\<lambda>it. (it, Some (fst (scrape_item req play it)))) items"
  by (induction items) auto

text \<open>When the link files were written, the run writes the
  information file of the department with every limited item paired with its result.\<close>

theorem base_run_information:
  assumes "base_run dept base (Inr links) req play m = (evs, err)"
    and "snd (save_data base (map (\<lambda>l. (l, None)) links) (dept @ asc ''.service_link'')) = None"
  shows "Write (JsonFile (base @ [47] @ dept @ asc ''.information'' @ asc ''.json'')
      (map (\<lambda>it. (it, Some (fst (scrape_item req play it)))) (limit_links m links))) \<in> set evs"
proof -
  let ?d = "map (\<lambda>it. (it, Some (fst (scrape_item req play it)))) (limit_links m links)"
  show ?thesis
    using assms save_data_hd_mem [of base ?d "dept @ asc ''.information''"] save_data_hd [of base ?d "dept @ asc ''.information''"]
    by (auto simp: base_run_Inr Let_def map_zip_scrape split: prod.splits)
qed

lemma limit_links_zero: "limit_links (Some 0) xs = limit_links None xs"
  by (simp add: limit_links_def)

text \<open>\<^verbatim>\<open>--limit 0\<close> gives the same run as no limit:
  every link is scraped.\<close>

theorem limit_zero_scrapes_all: "base_run dept base links0 req play (Some 0) = base_run dept base links0 req play None"
  unfolding base_run_def limit_links_zero ..

section \<open>Runs whose items share their keys\<close>

lemma keys_flatten_Some:
  "fst ` set (flatten_item (l, Some r)) = fst ` set l \<union> {asc ''description'', asc ''content'', asc ''success''}"
  by (auto simp: flatten_item_def dom_update)

lemma write_csv_None:
  "\<forall>r\<in>set rows. set (map fst r) \<subseteq> set fs \<Longrightarrow> snd (write_csv path fs rows) = None"
  by (simp add: write_csv_def Let_def takeWhile_eq_all_conv [THEN iffD2])

lemma limit_links_subset: "set (limit_links m xs) \<subseteq> set xs"
  by (auto simp: limit_links_def py_prefix_def split: option.splits dest: in_set_takeD)

lemma save_data_uniform:
  assumes "\<forall>x\<in>set data. set (map fst (flatten_item x)) = K"
  shows "snd (save_data base data name) = None"
proof (cases "data = []")
  case True
  then show ?thesis by (simp add: save_data_def)
next
  case False
  then have "hd data \<in> set data" by simp
  then have "\<forall>r\<in>set (map flatten_item data). set (map fst r) \<subseteq> set (map fst (flatten_item (hd data)))"
    using assms by auto
  then show ?thesis
    using False write_csv_None [of "map flatten_item data" "map fst (flatten_item (hd data))" "base @ [47] @ name @ asc ''.csv''"]
    by (auto simp: save_data_def Let_def hd_map split: prod.splits)
qed

lemma base_run_uniform:
  assumes "\<forall>l\<in>set links. set (map fst l) = K"
  shows "snd (base_run dept base (Inr links) req play m) = None"
proof -
  have "snd (save_data base (map (\<lambda>l. (l, None)) links) (dept @ asc ''.service_link'')) = None"
    using assms by (intro save_data_uniform [where K = K]) (auto simp: flatten_item_def)
  moreover have "set (map fst (flatten_item (it, Some r))) = K \<union> {asc ''description'', asc ''content'', asc ''success''}"
    if "it \<in> set links" for it r
    using assms that by (simp add: keys_flatten_Some)
  then have "snd (save_data base (map (\<lambda>it. (it, Some (fst (scrape_item req play it)))) (limit_links m links))
      (dept @ asc ''.information'')) = None"
    using limit_links_subset [of m links]
    by (intro save_data_uniform [where K = "K \<union> {asc ''description'', asc ''content'', asc ''success''}"]) auto
  ultimately show ?thesis
    by (auto simp: base_run_Inr Let_def map_zip_scrape split: prod.splits)
qed


lemma base_run_Inl: "snd (base_run dept base (Inl e) req play m) = None"
  by (simp add: base_run_def)

section \<open>Instances\<close>

lemma scrape_single_strategy_witness:
  "good_result (fst (scrape_single (\<lambda>u. fail_result (asc ''timeout'')) (\<lambda>u. sample_page) (asc ''u'')))"
  by (rule scrape_single_strategy [THEN conjunct2, THEN conjunct2, THEN conjunct1, rule_format])
    (simp add: good_result_def fr_length_def sample_page_def)

lemma save_data_csv_error_witness:
  "snd (save_data [] [([(asc ''url'', FStr [])], Some sample_page), ([(asc ''title'', FStr [])], None)] (asc ''x'')) =
     Some ValueError"
  using save_data_csv_error [where base = "[]" and name = "asc ''x''"
      and data = "[([(asc ''url'', FStr [])], Some sample_page), ([(asc ''title'', FStr [])], None)]", OF prod.collapse [symmetric]]
  by (simp add: flatten_item_def pystr_eval)

lemma base_run_links_first_witness:
  "\<exists>rest. fst (base_run (asc ''d'') [] (Inr []) (\<lambda>u. sample_page) (\<lambda>u. sample_page) None) =
     [Write (JsonFile ([47] @ asc ''d'' @ asc ''.service_link'' @ asc ''.json'') [])] @ rest"
  using base_run_links_first [where dept = "asc ''d''" and base = "[]" and links = "[]" and req = "\<lambda>u. sample_page"
      and play = "\<lambda>u. sample_page" and m = None, OF prod.collapse [symmetric]]
  by (simp add: save_data_def)

lemma base_run_information_witness:
  "Write (JsonFile ([47] @ asc ''d'' @ asc ''.information'' @ asc ''.json'') [([(asc ''url'', FStr (asc ''u''))], Some sample_page)])
     \<in> set (fst (base_run (asc ''d'') [] (Inr [[(asc ''url'', FStr (asc ''u''))]]) (\<lambda>u. sample_page) (\<lambda>u. sample_page) None))"
  using base_run_information [where dept = "asc ''d''" and base = "[]" and links = "[[(asc ''url'', FStr (asc ''u''))]]"
      and req = "\<lambda>u. sample_page" and play = "\<lambda>u. sample_page" and m = None, OF prod.collapse [symmetric]]
  by (simp add: save_data_def write_csv_def Let_def flatten_item_def scrape_item_def item_url_def
      scrape_single_def good_result_def fr_length_def sample_page_def limit_links_def pystr_eval)

end
