(* ===== verification/LibScraper.thy ===== *)
theory LibScraper
  imports ScraperBase "HOL-Library.Multiset"
begin

text \<open>
  The library scraper of \<^verbatim>\<open>src/scrapers/lib.py\<close> (\<^verbatim>\<open>LibScraper\<close>): the node range and the
  internal links of node 115, the split of a page into blocks, and the removal of the blocks
  that occur more than once across the scraped pages (a \<^verbatim>\<open>Counter\<close>, here a multiset).
  \<^verbatim>\<open>urllib.parse.urlparse\<close> is modelled after CPython's \<^verbatim>\<open>urlsplit\<close> and
  \<^verbatim>\<open>_splitparams\<close>; its two checks of a network location that need the IP address
  grammar or the Unicode normalisation tables are a parameter \<open>ok\<close>, and
  \<^verbatim>\<open>urljoin\<close> is a parameter that may raise.
\<close>

section \<open>URL parsing\<close>

record parse_result =
  pr_scheme :: pystr
  pr_netloc :: pystr
  pr_path :: pystr
  pr_params :: pystr
  pr_query :: pystr
  pr_fragment :: pystr

definition is_ascii_alpha :: "uchar \<Rightarrow> bool" where
  "is_ascii_alpha c \<longleftrightarrow> (65 \<le> c \<and> c \<le> 90) \<or> (97 \<le> c \<and> c \<le> 122)"

definition scheme_char :: "uchar \<Rightarrow> bool" where
  "scheme_char c \<longleftrightarrow> is_ascii_alpha c \<or> (48 \<le> c \<and> c \<le> 57) \<or> c \<in> {43, 45, 46}"

text \<open>\<^verbatim>\<open>s.split(c, 1)\<close> when \<open>c\<close> occurs in \<open>s\<close>, and the part before the first
  occurrence of one of several characters with the rest.\<close>

definition split_once :: "uchar \<Rightarrow> pystr \<Rightarrow> pystr \<times> pystr" where
  "split_once c s = (takeWhile (\<lambda>x. x \<noteq> c) s, drop 1 (dropWhile (\<lambda>x. x \<noteq> c) s))"

definition split_at_any :: "uchar list \<Rightarrow> pystr \<Rightarrow> pystr \<times> pystr" where
  "split_at_any cs s = (takeWhile (\<lambda>x. x \<notin> set cs) s, dropWhile (\<lambda>x. x \<notin> set cs) s)"

text \<open>The scheme: the part before the first colon when it is non-empty, starts with an
  ASCII letter and has only scheme characters, lowered.\<close>

definition split_scheme :: "pystr \<Rightarrow> pystr \<times> pystr" where
  "split_scheme url =
     (let pre = takeWhile (\<lambda>c. c \<noteq> 58) url in
      if 58 \<in> set url \<and> pre \<noteq> [] \<and> is_ascii_alpha (hd pre) \<and> list_all scheme_char pre
      then (py_lower pre, snd (split_once 58 url)) else ([], url))"

text \<open>The validity of a network location: unbalanced brackets raise; a location with
  brackets or with non-ASCII characters is checked by \<open>ok\<close>.\<close>

definition netloc_valid :: "(pystr \<Rightarrow> bool) \<Rightarrow> pystr \<Rightarrow> bool" where
  "netloc_valid ok n \<longleftrightarrow>
     (91 \<in> set n \<longleftrightarrow> 93 \<in> set n) \<and> (91 \<in> set n \<or> \<not> list_all (\<lambda>c. c < 128) n \<longrightarrow> ok n)"

text \<open>\<^verbatim>\<open>urlsplit(url)\<close>: leading C0 controls and spaces stripped, tabs and line breaks
  removed, then the scheme, the network location after \<^verbatim>\<open>//\<close>, the fragment and the
  query; the path is what is left.\<close>

definition url_split :: "(pystr \<Rightarrow> bool) \<Rightarrow> pystr \<Rightarrow> py_error + parse_result" where
  "url_split ok url0 =
     (let url1 = filter (\<lambda>c. c \<notin> {9, 10, 13}) (dropWhile (\<lambda>c. c \<le> 32) url0);
          (scheme, url2) = split_scheme url1;
          (netloc, url3) = (if take 2 url2 = [47, 47] then split_at_any [47, 63, 35] (drop 2 url2) else ([], url2));
          (url4, fragment) = (if 35 \<in> set url3 then split_once 35 url3 else (url3, []));
          (path, query) = (if 63 \<in> set url4 then split_once 63 url4 else (url4, []))
      in if netloc_valid ok netloc
         then Inr \<lparr>pr_scheme = scheme, pr_netloc = netloc, pr_path = path, pr_params = [],
                   pr_query = query, pr_fragment = fragment\<rparr>
         else Inl ValueError)"

definition uses_params :: "pystr list" where
  "uses_params = map asc ['''', ''ftp'', ''hdl'', ''prospero'', ''http'', ''imap'', ''https'', ''shttp'', ''rtsp'',
     ''rtsps'', ''rtspu'', ''sip'', ''sips'', ''mms'', ''sftp'', ''tel'']"

text \<open>\<^verbatim>\<open>_splitparams\<close>: the parameters start at the first semicolon of the last path
  segment (of the whole path when it has no slash).\<close>

definition split_params :: "pystr \<Rightarrow> pystr \<times> pystr" where
  "split_params u =
     (let tl_seg = rev (takeWhile (\<lambda>c. c \<noteq> 47) (rev u)); hd_part = take (length u - length tl_seg) u in
      if 59 \<in> set tl_seg then (hd_part @ fst (split_once 59 tl_seg), snd (split_once 59 tl_seg))
      else (u, []))"

definition url_parse :: "(pystr \<Rightarrow> bool) \<Rightarrow> pystr \<Rightarrow> py_error + parse_result" where
  "url_parse ok url =
     (case url_split ok url of
        Inl e \<Rightarrow> Inl e
      | Inr r \<Rightarrow>
          if pr_scheme r \<in> set uses_params \<and> 59 \<in> set (pr_path r)
          then Inr (r\<lparr>pr_path := fst (split_params (pr_path r)), pr_params := snd (split_params (pr_path r))\<rparr>)
          else Inr r)"

text \<open>\<^verbatim>\<open>f"{parsed.scheme}://{parsed.netloc}{parsed.path}"\<close>: the URL without its
  parameters, query and fragment.\<close>

definition clean_url :: "parse_result \<Rightarrow> pystr" where
  "clean_url p = pr_scheme p @ asc ''://'' @ pr_netloc p @ pr_path p"

section \<open>Links\<close>

definition lib_domain :: pystr where
  "lib_domain = asc ''www.lib.ntu.edu.tw''"

definition node_115_url :: pystr where
  "node_115_url = asc ''https://www.lib.ntu.edu.tw/node/115''"

definition node_url :: "nat \<Rightarrow> pystr" where
  "node_url idx = asc ''https://www.lib.ntu.edu.tw/node/'' @ py_str_nat idx"

text \<open>The item of a node of the range \<open>100..200\<close>.\<close>

definition node_item :: "nat \<Rightarrow> link_item" where
  "node_item idx =
     [(asc ''no'', FInt (int idx)), (asc ''url'', FStr (node_url idx)),
      (asc ''title'', FStr (asc ''Node '' @ py_str_nat idx)), (asc ''source'', FStr (asc ''node_range''))]"

definition node115_link :: "pystr \<Rightarrow> pystr \<Rightarrow> link_item" where
  "node115_link url text =
     [(asc ''title'', FStr (if text \<noteq> [] then text else asc ''No Title'')), (asc ''url'', FStr url),
      (asc ''source'', FStr (asc ''node_115''))]"

text \<open>The loop of \<^verbatim>\<open>fetch_links_from_node_115\<close> over the anchors with an \<open>href\<close>, in
  document order, each the \<open>href\<close> and the stripped text; \<open>seen\<close> is \<^verbatim>\<open>seen_urls\<close>.
  An exception of \<^verbatim>\<open>urljoin\<close> or \<^verbatim>\<open>urlparse\<close> is \<open>Inl\<close>.\<close>

fun node115_scan ::
    "(pystr \<Rightarrow> bool) \<Rightarrow> (pystr \<Rightarrow> py_error + pystr) \<Rightarrow> pystr list \<Rightarrow> (pystr \<times> pystr) list \<Rightarrow>
     py_error + link_item list" where
  "node115_scan ok join seen [] = Inr []"
| "node115_scan ok join seen ((href, text) # rest) =
     (case join href of
        Inl e \<Rightarrow> Inl e
      | Inr full \<Rightarrow>
          if contains lib_domain full then
            (case url_parse ok full of
               Inl e \<Rightarrow> Inl e
             | Inr p \<Rightarrow>
                 let c = clean_url p in
                 if c \<notin> set seen \<and> c \<noteq> node_115_url
                 then (case node115_scan ok join (c # seen) rest of
                         Inl e \<Rightarrow> Inl e
                       | Inr ls \<Rightarrow> Inr (node115_link c text # ls))
                 else node115_scan ok join seen rest)
          else node115_scan ok join seen rest)"

text \<open>\<^verbatim>\<open>fetch_links_from_node_115\<close>: the anchors of node 115 (\<open>Inl\<close> when the request
  raised); any exception gives no link at all.\<close>

definition fetch_links_from_node_115 ::
    "(pystr \<Rightarrow> pystr + (pystr \<times> pystr) list) \<Rightarrow> (pystr \<Rightarrow> bool) \<Rightarrow> (pystr \<Rightarrow> py_error + pystr) \<Rightarrow> link_item list" where
  "fetch_links_from_node_115 get ok join =
     (case get node_115_url of
        Inl e \<Rightarrow> []
      | Inr anchors \<Rightarrow> (case node115_scan ok join [] anchors of Inl e \<Rightarrow> [] | Inr ls \<Rightarrow> ls))"

definition lib_fetch_links ::
    "(pystr \<Rightarrow> pystr + (pystr \<times> pystr) list) \<Rightarrow> (pystr \<Rightarrow> bool) \<Rightarrow> (pystr \<Rightarrow> py_error + pystr) \<Rightarrow> link_item list" where
  "lib_fetch_links get ok join = map node_item [100..<201] @ fetch_links_from_node_115 get ok join"

section \<open>Blocks\<close>

text \<open>The class \<open>[...]\<close> of the pattern: the ideographic full stop (U+3002), the full-width
  exclamation and question marks (U+FF01, U+FF1F), and \<open>!\<close> and \<open>?\<close>.\<close>

definition sentence_ends :: "uchar list" where
  "sentence_ends = [0x3002, 0xFF01, 0xFF1F, 33, 63]"

text \<open>\<^verbatim>\<open>re.split(r"(?<=[...])\s+|\n+", text)\<close>, with the class above, as a
  left-to-right scan: \<open>prev\<close> is the character before the position (what the look-behind reads), \<open>acc\<close> the piece since the last
  separator. A whitespace run after a sentence end is a separator (the first alternative
  wins, and \<open>\s+\<close> takes the whole run), as is a run of newlines.\<close>

function split_scan :: "uchar option \<Rightarrow> pystr \<Rightarrow> pystr \<Rightarrow> pystr list" where
  "split_scan prev acc [] = [acc]"
| "split_scan prev acc (c # s) =
     (if (case prev of Some p \<Rightarrow> p \<in> set sentence_ends | None \<Rightarrow> False) \<and> py_isspace c
      then acc # split_scan (Some (last (takeWhile py_isspace (c # s)))) [] (dropWhile py_isspace (c # s))
      else if c = 10
      then acc # split_scan (Some 10) [] (dropWhile (\<lambda>x. x = 10) (c # s))
      else split_scan (Some c) (acc @ [c]) s)"
  by pat_completeness auto
termination
  by (relation "measure (\<lambda>(p, a, s). length s)") (auto simp: less_Suc_eq_le length_dropWhile_le)

text \<open>\<^verbatim>\<open>split_blocks\<close>: the stripped non-blank parts.\<close>

definition split_blocks :: "pystr \<Rightarrow> pystr list" where
  "split_blocks text =
     (if text = [] then [] else filter (\<lambda>p. p \<noteq> []) (map py_strip (split_scan None [] text)))"

section \<open>Unique content\<close>

text \<open>The blocks of a scraped result (\<^verbatim>\<open>scraped.get("content", "")\<close>).\<close>

definition blocks_of :: "fetch_result \<Rightarrow> pystr list" where
  "blocks_of r = split_blocks (fr_content r)"

text \<open>\<^verbatim>\<open>block_counter\<close>: every block of at least 8 characters of every result, counted
  with its multiplicity.\<close>

definition block_counter :: "(link_item \<times> fetch_result) list \<Rightarrow> pystr multiset" where
  "block_counter rs = mset (concat (map (\<lambda>(it, r). filter (\<lambda>b. 8 \<le> length b) (blocks_of r)) rs))"

definition unique_blocks :: "pystr multiset \<Rightarrow> fetch_result \<Rightarrow> pystr list" where
  "unique_blocks cnt r = filter (\<lambda>b. 8 \<le> length b \<and> count cnt b = 1) (blocks_of r)"

text \<open>The second loop of \<^verbatim>\<open>run\<close>: each item with its result, whose content becomes the
  unique text when that is non-empty, and the unique text (\<^verbatim>\<open>content_unique\<close>).\<close>

definition lib_unique :: "(link_item \<times> fetch_result) list \<Rightarrow> (link_item \<times> fetch_result \<times> pystr) list" where
  "lib_unique rs =
     (let cnt = block_counter rs in
      map (\<lambda>(it, r). let u = py_join [10] (unique_blocks cnt r) in
                       (it, if u \<noteq> [] then r\<lparr>fr_content := u\<rparr> else r, u)) rs)"

text \<open>\<^verbatim>\<open>LibScraper.run\<close>: the links limited first and then saved, every item scraped
  (without the empty-URL check of the base loop), the unique content, and the information
  file. The \<^verbatim>\<open>content_unique\<close> key of the JSON file is the third component of the
  returned items.\<close>

definition lib_run ::
    "pystr \<Rightarrow> link_item list \<Rightarrow> (pystr \<Rightarrow> fetch_result) \<Rightarrow> (pystr \<Rightarrow> fetch_result) \<Rightarrow> int option \<Rightarrow>
     event list \<times> py_error option \<times> (link_item \<times> fetch_result \<times> pystr) list" where
  "lib_run base links0 req play max_items =
     (let links = limit_links max_items links0;
          (ev1, e1) = save_data base (map (\<lambda>l. (l, None)) links) (asc ''lib.service_link'')
      in if e1 \<noteq> None then (ev1, e1, [])
         else let scraped = map (\<lambda>it. scrape_single req play (item_url it)) links;
                  final = lib_unique (zip links (map fst scraped));
                  (ev2, e2) = save_data base (map (\<lambda>(it, r, u). (it, Some r)) final) (asc ''lib.information'')
              in (ev1 @ concat (map2 (\<lambda>it x. map (\<lambda>f. Fetch f (item_url it)) (snd x)) links scraped) @ ev2,
                  e2, final))"

section \<open>Sample inputs\<close>

definition lib_page :: "pystr \<Rightarrow> fetch_result" where
  "lib_page c = \<lparr>fr_success = True, fr_description = [], fr_content = c, fr_url = [], fr_error = []\<rparr>"

definition lib_join :: "pystr \<Rightarrow> py_error + pystr" where
  "lib_join h = Inr (asc ''https://www.lib.ntu.edu.tw'' @ h)"

definition lib_sample :: "(link_item \<times> fetch_result) list" where
  "lib_sample = [([], lib_page (asc ''Open daily! Welcome here!'')), ([], lib_page (asc ''Welcome here!''))]"

section \<open>Properties\<close>

lemma sum_list_two_le:
  fixes g :: "'a \<Rightarrow> nat"
  assumes "i < length xs" "j < length xs" "i \<noteq> j"
  shows "g (xs ! i) + g (xs ! j) \<le> sum_list (map g xs)"
  using assms
proof (induction xs arbitrary: i j)
  case Nil
  then show ?case by simp
next
  case (Cons x xs)
  show ?case
  proof (cases i)
    case 0
    then obtain j' where "j = Suc j'" "j' < length xs" using Cons.prems by (cases j) auto
    then show ?thesis using 0 elem_le_sum_list [of j' "map g xs"] by simp
  next
    case (Suc i')
    show ?thesis
    proof (cases j)
      case 0
      then show ?thesis using Suc Cons.prems elem_le_sum_list [of i' "map g xs"] by simp
    next
      case (Suc j')
      then show ?thesis using \<open>i = Suc i'\<close> Cons.prems Cons.IH [of i' j'] by simp
    qed
  qed
qed

lemma sum_list_single:
  fixes g :: "'a \<Rightarrow> nat"
  assumes "k < length xs" "\<forall>j<length xs. j \<noteq> k \<longrightarrow> g (xs ! j) = 0"
  shows "sum_list (map g xs) = g (xs ! k)"
  using assms
proof (induction xs arbitrary: k)
  case Nil
  then show ?case by simp
next
  case (Cons x xs)
  show ?case
  proof (cases k)
    case 0
    have "\<forall>y\<in>set xs. g y = 0" using Cons.prems(2) 0 by (metis Suc_less_eq in_set_conv_nth length_Cons nat.distinct(1) nth_Cons_Suc)
    then have "sum_list (map g xs) = 0" by (induction xs) auto
    then show ?thesis using 0 by simp
  next
    case (Suc k')
    have "g x = 0" using Cons.prems(2) Suc by force
    moreover have "sum_list (map g xs) = g (xs ! k')"
      using Cons.prems Suc by (intro Cons.IH) auto
    ultimately show ?thesis using Suc by simp
  qed
qed

lemma block_counter_Cons:
  "block_counter (x # rs) = filter_mset (\<lambda>b. 8 \<le> length b) (mset (blocks_of (snd x))) + block_counter rs"
  by (cases x) (simp add: block_counter_def mset_filter)

lemma count_block_counter:
  "8 \<le> length b \<Longrightarrow> count (block_counter rs) b = sum_list (map (\<lambda>x. count (mset (blocks_of (snd x))) b) rs)"
  by (induction rs) (simp_all add: block_counter_Cons, simp add: block_counter_def)

lemma unique_block_once:
  assumes "k < length rs" "b \<in> set (unique_blocks (block_counter rs) (snd (rs ! k)))"
  shows "8 \<le> length b \<and> count (mset (blocks_of (snd (rs ! k)))) b = 1 \<and>
    (\<forall>j<length rs. j \<noteq> k \<longrightarrow> b \<notin> set (blocks_of (snd (rs ! j))))"
proof -
  let ?g = "\<lambda>x. count (mset (blocks_of (snd x))) b"
  have b8: "8 \<le> length b" and c1: "sum_list (map ?g rs) = 1" and bk: "b \<in> set (blocks_of (snd (rs ! k)))"
    using assms(2) by (auto simp: unique_blocks_def count_block_counter)
  have le: "?g (rs ! k) \<le> 1" using c1 elem_le_sum_list [of k "map ?g rs"] assms(1) by simp
  have pk: "?g (rs ! k) \<noteq> 0" using bk by (metis count_mset_0_iff)
  have nj: "b \<notin> set (blocks_of (snd (rs ! j)))" if "j < length rs" "j \<noteq> k" for j
  proof
    assume "b \<in> set (blocks_of (snd (rs ! j)))"
    then have "?g (rs ! j) \<noteq> 0" by (metis count_mset_0_iff)
    with pk sum_list_two_le [OF assms(1) that(1) that(2)[symmetric], of ?g] c1 show False by linarith
  qed
  from le pk have "?g (rs ! k) = 1" by linarith
  then show ?thesis using b8 nj by blast
qed

text \<open>Claim C16: after the boilerplate step of \<^verbatim>\<open>LibScraper.run\<close>, a
  block of a page is kept exactly when it has at least 8 characters, occurs once on that page
  and occurs on no other scraped page.\<close>

theorem lib_unique_blocks_iff:
  assumes "k < length rs"
  shows "b \<in> set (unique_blocks (block_counter rs) (snd (rs ! k))) \<longleftrightarrow>
    8 \<le> length b \<and> count (mset (blocks_of (snd (rs ! k)))) b = 1 \<and>
    (\<forall>j<length rs. j \<noteq> k \<longrightarrow> b \<notin> set (blocks_of (snd (rs ! j))))"
proof
  assume "b \<in> set (unique_blocks (block_counter rs) (snd (rs ! k)))"
  then show "8 \<le> length b \<and> count (mset (blocks_of (snd (rs ! k)))) b = 1 \<and>
    (\<forall>j<length rs. j \<noteq> k \<longrightarrow> b \<notin> set (blocks_of (snd (rs ! j))))"
    using unique_block_once [OF assms] by blast
next
  let ?g = "\<lambda>x. count (mset (blocks_of (snd x))) b"
  assume r: "8 \<le> length b \<and> ?g (rs ! k) = 1 \<and> (\<forall>j<length rs. j \<noteq> k \<longrightarrow> b \<notin> set (blocks_of (snd (rs ! j))))"
  then have "sum_list (map ?g rs) = 1"
    using sum_list_single [OF assms, of ?g] by (simp add: count_eq_zero_iff)
  moreover have "b \<in> set (blocks_of (snd (rs ! k)))" using r by (metis count_mset_0_iff zero_neq_one)
  ultimately show "b \<in> set (unique_blocks (block_counter rs) (snd (rs ! k)))"
    using r by (simp add: unique_blocks_def count_block_counter)
qed

lemma unique_blocks_dup_Nil:
  assumes "i < length rs" "j < length rs" "i \<noteq> j" "fr_content (snd (rs ! i)) = fr_content (snd (rs ! j))"
  shows "unique_blocks (block_counter rs) (snd (rs ! i)) = []"
proof -
  have "b \<notin> set (unique_blocks (block_counter rs) (snd (rs ! i)))" for b
  proof
    assume u: "b \<in> set (unique_blocks (block_counter rs) (snd (rs ! i)))"
    then have "b \<in> set (blocks_of (snd (rs ! j)))" using assms(4) by (simp add: unique_blocks_def blocks_of_def)
    with unique_block_once [OF assms(1) u] assms(2,3) show False by blast
  qed
  then show ?thesis by (metis last_in_set)
qed


lemma lib_unique_nth:
  "i < length rs \<Longrightarrow> lib_unique rs ! i =
     (let u = py_join [10] (unique_blocks (block_counter rs) (snd (rs ! i))) in
      (fst (rs ! i), if u \<noteq> [] then (snd (rs ! i))\<lparr>fr_content := u\<rparr> else snd (rs ! i), u))"
  unfolding lib_unique_def Let_def by (simp add: case_prod_beta)

text \<open>Two scraped pages with the same content (the same
  URL fetched twice) keep their whole content and get an empty \<^verbatim>\<open>content_unique\<close>: the
  boilerplate filter does nothing for them.\<close>

theorem lib_duplicate_pages_unfiltered:
  assumes "i < length rs" "j < length rs" "i \<noteq> j" "fr_content (snd (rs ! i)) = fr_content (snd (rs ! j))"
  shows "lib_unique rs ! i = (fst (rs ! i), snd (rs ! i), [])"
  using lib_unique_nth [OF assms(1)] unique_blocks_dup_Nil [OF assms] by simp

lemma item_url_node115_link [simp]: "item_url (node115_link c t) = c"
  by (simp add: item_url_def node115_link_def pystr_eval)


lemma node115_scan_inv:
  "node115_scan ok join seen rest = Inr ls \<Longrightarrow>
   distinct (map item_url ls) \<and> (\<forall>u\<in>set (map item_url ls). u \<notin> set seen \<and> u \<noteq> node_115_url)"
proof (induction rest arbitrary: seen ls)
  case Nil
  then show ?case by simp
next
  case (Cons a rest)
  obtain href0 txt0 where a: "a = (href0, txt0)" by fastforce
  show ?case
    using Cons.prems Cons.IH unfolding a
    by (fastforce simp: Let_def split: sum.splits if_splits)
qed


text \<open>The links taken from node 115 have pairwise different
  URLs, none of them node 115 itself.\<close>

theorem lib_node115_links_distinct:
  "distinct (map item_url (fetch_links_from_node_115 get ok join)) \<and>
   node_115_url \<notin> set (map item_url (fetch_links_from_node_115 get ok join))"
proof -
  have "distinct (map item_url ls) \<and> node_115_url \<notin> set (map item_url ls)"
    if "node115_scan ok join [] a = Inr ls" for a ls
    using node115_scan_inv [OF that] by auto
  then show ?thesis by (auto simp: fetch_links_from_node_115_def split: sum.splits)
qed

lemma node115_scan_Inl:
  "(h, t) \<in> set rest \<Longrightarrow> join h = Inl e \<or> (join h = Inr f \<and> contains lib_domain f \<and> url_parse ok f = Inl e') \<Longrightarrow>
   \<exists>e''. node115_scan ok join seen rest = Inl e''"
proof (induction rest arbitrary: seen)
  case Nil
  then show ?case by simp
next
  case (Cons a rest)
  obtain href0 txt0 where a: "a = (href0, txt0)" by fastforce
  show ?case
  proof (cases "(h, t) = a")
    case True
    then show ?thesis using Cons.prems(2) a by (auto simp: Let_def split: sum.splits)
  next
    case False
    then have ex: "\<exists>e''. node115_scan ok join s rest = Inl e''" for s using Cons by auto
    then have "node115_scan ok join s rest \<noteq> Inr x" for s x by (metis sum.distinct(1))
    then show ?thesis using a ex by (auto simp: Let_def split: sum.splits)
  qed
qed

text \<open>Claim C19: one anchor of node 115 whose URL cannot be joined, or
  whose library URL cannot be parsed, makes \<^verbatim>\<open>fetch_links_from_node_115\<close> return no
  link at all.\<close>

theorem lib_node115_error_drops_all:
  assumes "get node_115_url = Inr anchors" "(h, t) \<in> set anchors"
    and "join h = Inl e \<or> (join h = Inr f \<and> contains lib_domain f \<and> url_parse ok f = Inl e')"
  shows "fetch_links_from_node_115 get ok join = []"
proof -
  have "\<exists>e''. node115_scan ok join [] anchors = Inl e''"
    using assms(2,3) by (rule node115_scan_Inl)
  then show ?thesis using assms(1) by (auto simp: fetch_links_from_node_115_def)
qed

text \<open>When node 115 links to a node of the range 100 to 200,
  \<^verbatim>\<open>fetch_links\<close> lists that URL twice: the two sources are not deduplicated.\<close>

theorem lib_fetch_links_duplicates:
  assumes "100 \<le> n" "n \<le> 200" "node_url n \<in> set (map item_url (fetch_links_from_node_115 get ok join))"
  shows "\<not> distinct (map item_url (lib_fetch_links get ok join))"
proof -
  have "item_url (node_item n) = node_url n"
    by (simp add: node_item_def item_url_def pystr_eval)
  then have "node_url n \<in> item_url ` node_item ` {100..<201}" using assms(1,2) by force
  then have "node_url n \<in> set (map item_url (map node_item [100..<201]))"
    unfolding set_map set_upt .
  then show ?thesis using assms(3)
    unfolding lib_fetch_links_def map_append distinct_append by blast
qed

text \<open>The domain test is a substring test on the whole URL: an external page whose query
  names the library's domain is kept, as a link to the external site.\<close>

lemma lib_external_link_kept:
  "fetch_links_from_node_115 (\<lambda>u. Inr [(asc ''https://example.com/?u=www.lib.ntu.edu.tw'', asc ''Ext'')]) (\<lambda>n. True) Inr =
     [node115_link (asc ''https://example.com/'') (asc ''Ext'')]"
  by (simp add: fetch_links_from_node_115_def lib_domain_def url_parse_def url_split_def split_scheme_def
      split_once_def split_at_any_def netloc_valid_def is_ascii_alpha_def scheme_char_def py_lower_def lower_char_def
      uses_params_def clean_url_def node_115_url_def pystr_eval)

section \<open>Instances\<close>

lemma lib_unique_blocks_iff_witness:
  "asc ''Open daily!'' \<in> set (unique_blocks (block_counter lib_sample) (snd (lib_sample ! 0)))"
  by (rule iffD2 [OF lib_unique_blocks_iff])
    (simp_all add: lib_sample_def blocks_of_def lib_page_def split_blocks_def  sentence_ends_def py_isspace_def less_Suc_eq pystr_eval)

lemma lib_duplicate_pages_unfiltered_witness:
  "lib_unique [([], lib_page (asc ''Welcome here!'')), ([], lib_page (asc ''Welcome here!''))] ! 0 =
     ([], lib_page (asc ''Welcome here!''), [])"
  using lib_duplicate_pages_unfiltered [of 0 "[([], lib_page (asc ''Welcome here!'')), ([], lib_page (asc ''Welcome here!''))]" 1]
  by simp

lemma lib_node115_error_drops_all_witness:
  "fetch_links_from_node_115 (\<lambda>u. Inr [(asc ''/node/120'', asc ''Hours''), (asc ''[x'', [])]) (\<lambda>n. True) lib_join = []"
  apply (rule lib_node115_error_drops_all [where h = "asc ''[x''" and t = "[]" and f = "asc ''https://www.lib.ntu.edu.tw[x''"
      and e' = ValueError and anchors = "[(asc ''/node/120'', asc ''Hours''), (asc ''[x'', [])]"])
    apply simp
   apply simp
  apply (simp add: lib_join_def lib_domain_def url_parse_def url_split_def split_scheme_def split_once_def
      split_at_any_def netloc_valid_def is_ascii_alpha_def scheme_char_def py_lower_def lower_char_def pystr_eval)
  done

lemma lib_fetch_links_duplicates_witness:
  "\<not> distinct (map item_url (lib_fetch_links (\<lambda>u. Inr [(asc ''/node/120'', asc ''Hours'')]) (\<lambda>n. True) lib_join))"
  by (rule lib_fetch_links_duplicates [where n = 120])
    (simp_all add: fetch_links_from_node_115_def lib_join_def lib_domain_def url_parse_def url_split_def
      split_scheme_def split_once_def split_at_any_def netloc_valid_def is_ascii_alpha_def scheme_char_def
      py_lower_def lower_char_def uses_params_def clean_url_def node_115_url_def node_url_def py_str_nat.simps pystr_eval)

end
