(* ===== verification/SiteScrapers.thy ===== *)
theory SiteScrapers
  imports ScraperBase
begin

text \<open>
  The link discovery of the Academic Affairs (\<^verbatim>\<open>src/scrapers/aca.py\<close>), Student Affairs
  (\<^verbatim>\<open>src/scrapers/osa.py\<close>) and General Affairs (\<^verbatim>\<open>src/scrapers/oga.py\<close>) scrapers, which
  all run through \<^verbatim>\<open>BaseScraper.run\<close> (\<open>base_run\<close>). A browser visit and an HTTP request
  are parameters returning what the code reads from the page or an exception message;
  \<^verbatim>\<open>urljoin\<close> is a parameter that may raise.
\<close>

section \<open>Academic Affairs\<close>

definition aca_listing_pages :: "pystr list" where
  "aca_listing_pages = map asc
     [''https://www.aca.ntu.edu.tw/w/aca/FolksonomyCurrentStudent?folksonomyTypeId=21082908254338056&index=1'',
      ''https://www.aca.ntu.edu.tw/w/aca/FolksonomyCurrentStudent?folksonomyTypeId=21082908254338056&index=2'']"

definition aca_root :: pystr where
  "aca_root = asc ''https://www.aca.ntu.edu.tw''"

text \<open>The full URL of an \<open>href\<close>; \<open>join\<close> is \<^verbatim>\<open>urljoin("https://www.aca.ntu.edu.tw/w/aca/", .)\<close>.\<close>

definition aca_full_url :: "(pystr \<Rightarrow> py_error + pystr) \<Rightarrow> pystr \<Rightarrow> py_error + pystr" where
  "aca_full_url join href =
     (if starts_with href [47] then Inr (aca_root @ href)
      else if starts_with href (asc ''http'') then Inr href
      else join href)"

definition aca_link :: "pystr \<Rightarrow> pystr \<Rightarrow> link_item" where
  "aca_link title url = [(asc ''title'', FStr title), (asc ''url'', FStr url), (asc ''category'', FStr (asc ''Bachelor''))]"

text \<open>The items of one listing page: each the trimmed text of an \<^verbatim>\<open>a.title\<close> anchor and its
  \<open>href\<close> attribute (\<open>None\<close> for \<^verbatim>\<open>null\<close>). An exception of \<^verbatim>\<open>urljoin\<close> leaves the page
  with the links found before it.\<close>

fun aca_page_links :: "(pystr \<Rightarrow> py_error + pystr) \<Rightarrow> (pystr \<times> pystr option) list \<Rightarrow> link_item list" where
  "aca_page_links join [] = []"
| "aca_page_links join ((title, href) # rest) =
     (case href of
        None \<Rightarrow> aca_page_links join rest
      | Some h \<Rightarrow>
          if title = [] \<or> h = [] then aca_page_links join rest
          else (case aca_full_url join h of
                  Inl e \<Rightarrow> []
                | Inr u \<Rightarrow> aca_link title u # aca_page_links join rest))"

text \<open>The final loop: the first link of each URL, in order; \<open>seen\<close> is \<^verbatim>\<open>seen_urls\<close>.\<close>

fun dedup_url :: "pystr list \<Rightarrow> link_item list \<Rightarrow> link_item list" where
  "dedup_url seen [] = []"
| "dedup_url seen (l # ls) =
     (if item_url l \<in> set seen then dedup_url seen ls else l # dedup_url (item_url l # seen) ls)"

text \<open>The visit of one listing page inside the \<^verbatim>\<open>try\<close>: \<^verbatim>\<open>browser.new_page()\<close> raises,
  a later step raises (the page is open), or the page's items.\<close>

datatype aca_visit = NewPageFails pystr | VisitFails pystr | Listing "(pystr \<times> pystr option) list"

text \<open>The loop over the listing pages. A failed visit is caught and its page gives no links;
  but the \<^verbatim>\<open>finally\<close> clause calls \<^verbatim>\<open>page.close()\<close>, and when \<^verbatim>\<open>new_page()\<close> raised before
  any page was opened, the name \<^verbatim>\<open>page\<close> is unbound and the clause raises
  \<^verbatim>\<open>UnboundLocalError\<close>, which leaves \<^verbatim>\<open>fetch_links\<close>; once a page was opened, the
  clause closes the previous one again. \<open>opened\<close> says whether \<^verbatim>\<open>page\<close> is bound.\<close>

fun aca_scan ::
    "(pystr \<Rightarrow> aca_visit) \<Rightarrow> (pystr \<Rightarrow> py_error + pystr) \<Rightarrow> bool \<Rightarrow> pystr list \<Rightarrow> pystr + link_item list" where
  "aca_scan visit join opened [] = Inr []"
| "aca_scan visit join opened (p # ps) =
     (case visit p of
        NewPageFails e \<Rightarrow> if opened then aca_scan visit join opened ps else Inl (asc ''UnboundLocalError'')
      | VisitFails e \<Rightarrow> aca_scan visit join True ps
      | Listing items \<Rightarrow>
          (case aca_scan visit join True ps of Inl e \<Rightarrow> Inl e | Inr ls \<Rightarrow> Inr (aca_page_links join items @ ls)))"

text \<open>\<^verbatim>\<open>ACAScraper.fetch_links\<close>. \<open>pw\<close> is \<open>None\<close> when Playwright is not installed, and
  otherwise the launch of the browser (\<open>Inl\<close> when it raises, which leaves
  \<^verbatim>\<open>fetch_links\<close>); \<open>visit\<close> gives the visit of each listing page.\<close>

definition aca_fetch_links ::
    "(pystr + unit) option \<Rightarrow> (pystr \<Rightarrow> aca_visit) \<Rightarrow> (pystr \<Rightarrow> py_error + pystr) \<Rightarrow> pystr + link_item list" where
  "aca_fetch_links pw visit join =
     (case pw of
        None \<Rightarrow> Inr []
      | Some (Inl e) \<Rightarrow> Inl e
      | Some (Inr u) \<Rightarrow>
          (case aca_scan visit join False aca_listing_pages of Inl e \<Rightarrow> Inl e | Inr ls \<Rightarrow> Inr (dedup_url [] ls)))"

text \<open>The condition of the reference: the URL of the \<open>i\<close>-th link is neither seen nor the URL
  of an earlier link.\<close>

definition first_pred :: "pystr list \<Rightarrow> link_item list \<Rightarrow> nat \<Rightarrow> bool" where
  "first_pred seen xs i \<longleftrightarrow> item_url (xs ! i) \<notin> set seen \<union> set (map item_url (take i xs))"

text \<open>The reference of the deduplication: the links whose URL no earlier link has.\<close>

definition first_by_url :: "link_item list \<Rightarrow> link_item list" where
  "first_by_url xs = map (\<lambda>i. xs ! i) (filter (\<lambda>i. item_url (xs ! i) \<notin> set (map item_url (take i xs))) [0..<length xs])"

section \<open>Student Affairs\<close>

definition osa_categories :: "pystr list" where
  "osa_categories = map asc
     [''financialaid'', ''campuslife'', ''healthcare'', ''accommodation'', ''activity'', ''careers'', ''others'']"

definition osa_url :: "pystr \<Rightarrow> pystr" where
  "osa_url cat = asc ''https://osa.ntu.edu.tw/services/'' @ cat"

text \<open>A table cell as \<^verbatim>\<open>_parse_tables\<close> reads it: its stripped text and its first anchor
  (\<open>None\<close> without one; \<open>Some None\<close> for an anchor without \<open>href\<close>).\<close>

record osa_cell =
  cell_text :: pystr
  cell_anchor :: "pystr option option"

definition osa_row_item :: "pystr \<Rightarrow> pystr \<Rightarrow> pystr \<Rightarrow> pystr \<Rightarrow> link_item" where
  "osa_row_item cat name unit href =
     [(asc ''category'', FStr cat), (asc ''title'', FStr name), (asc ''unit'', FStr unit), (asc ''url'', FStr href)]"

text \<open>One row: skipped with fewer than two cells; the link is the first cell's first anchor,
  or the second cell's when the first has none (a tag is always true); its \<open>href\<close> joined to
  the page URL when non-empty; skipped when name, unit and URL are all empty.\<close>

definition osa_row ::
    "(pystr \<Rightarrow> pystr \<Rightarrow> py_error + pystr) \<Rightarrow> pystr \<Rightarrow> pystr \<Rightarrow> osa_cell list \<Rightarrow> py_error + link_item list" where
  "osa_row join page_url cat cells =
     (if length cells < 2 then Inr []
      else let name = cell_text (cells ! 0); unit = cell_text (cells ! 1);
               link = (case cell_anchor (cells ! 0) of Some l \<Rightarrow> Some l | None \<Rightarrow> cell_anchor (cells ! 1))
           in case (case link of Some (Some h) \<Rightarrow> if h \<noteq> [] then join page_url h else Inr [] | _ \<Rightarrow> Inr []) of
                Inl e \<Rightarrow> Inl e
              | Inr href \<Rightarrow> if name = [] \<and> unit = [] \<and> href = [] then Inr [] else Inr [osa_row_item cat name unit href])"

text \<open>A loop that collects the rows of each element and stops at the first exception.\<close>

fun seq_concat :: "('a \<Rightarrow> 'e + 'b list) \<Rightarrow> 'a list \<Rightarrow> 'e + 'b list" where
  "seq_concat f [] = Inr []"
| "seq_concat f (x # xs) =
     (case f x of
        Inl e \<Rightarrow> Inl e
      | Inr ys \<Rightarrow> (case seq_concat f xs of Inl e \<Rightarrow> Inl e | Inr zs \<Rightarrow> Inr (ys @ zs)))"

text \<open>\<^verbatim>\<open>_parse_tables\<close>: every table given as its rows (the \<open>tr\<close> elements it contains),
  each as its cells; the first row of each table is skipped.\<close>

definition osa_parse_tables ::
    "(pystr \<Rightarrow> pystr \<Rightarrow> py_error + pystr) \<Rightarrow> pystr \<Rightarrow> pystr \<Rightarrow> osa_cell list list list \<Rightarrow> py_error + link_item list" where
  "osa_parse_tables join page_url cat tables =
     seq_concat (\<lambda>trs. seq_concat (osa_row join page_url cat) (tl trs)) tables"

text \<open>\<^verbatim>\<open>OSAScraper.fetch_links\<close>: each category page requested (\<open>Inl\<close> when the request
  raised); an exception of a category loses that category's rows only.\<close>

definition osa_fetch_links ::
    "(pystr \<Rightarrow> pystr + osa_cell list list list) \<Rightarrow> (pystr \<Rightarrow> pystr \<Rightarrow> py_error + pystr) \<Rightarrow> link_item list" where
  "osa_fetch_links get join =
     concat (map (\<lambda>cat. case get (osa_url cat) of
                          Inl e \<Rightarrow> []
                        | Inr tables \<Rightarrow> (case osa_parse_tables join (osa_url cat) cat tables of Inl e \<Rightarrow> [] | Inr rows \<Rightarrow> rows))
                 osa_categories)"

section \<open>General Affairs\<close>

definition oga_links :: "link_item list" where
  "oga_links =
     [[(asc ''title'', FStr (asc ''FAQ list (faq=131)'')),
       (asc ''url'', FStr (asc ''https://ga.ntu.edu.tw/property/main_ch/faqList.aspx?faq=131&uid=233&pid=233''))],
      [(asc ''title'', FStr (asc ''Document detail 29761'')),
       (asc ''url'', FStr (asc ''https://ga.ntu.edu.tw/property/main_ch/docDetail.aspx?uid=335&pid=335&docid=29761&check=0''))],
      [(asc ''title'', FStr [0x672C, 0x7D44, 0x4ECB, 0x7D39]),
       (asc ''url'', FStr (asc ''https://ga.ntu.edu.tw/property/main_ch/docDetail/331/229/242/%e6%9c%ac%e7%b5%84%e4%bb%8b%e7%b4%b9''))]]"

section \<open>Sample inputs\<close>

definition aca_sample_visit :: "pystr \<Rightarrow> aca_visit" where
  "aca_sample_visit p = Listing [(asc ''Rules'', Some (asc ''/w/aca/rules'')), ([], Some (asc ''/x''))]"

definition osa_sample_cells :: "osa_cell list" where
  "osa_sample_cells = [\<lparr>cell_text = asc ''Loans'', cell_anchor = Some None\<rparr>,
     \<lparr>cell_text = asc ''Office'', cell_anchor = Some (Some (asc ''/loans''))\<rparr>]"

definition osa_sample_get :: "pystr \<Rightarrow> pystr + osa_cell list list list" where
  "osa_sample_get u = Inr [[[], osa_sample_cells]]"

section \<open>Properties\<close>

lemma first_pred_Suc: "first_pred seen (x # xs) (Suc i) = first_pred (item_url x # seen) xs i"
  by (auto simp: first_pred_def)

lemma dedup_url_nth:
  "dedup_url seen xs = map (\<lambda>i. xs ! i) (filter (first_pred seen xs) [0..<length xs])"
proof (induction xs arbitrary: seen)
  case Nil
  then show ?case by simp
next
  case (Cons x xs)
  have u: "[0..<length (x # xs)] = 0 # map Suc [0..<length xs]"
    by (simp only: length_Cons upt_conv_Cons [OF zero_less_Suc] map_Suc_upt)
  have step: "map (\<lambda>i. (x # xs) ! i) (filter (first_pred seen (x # xs)) (map Suc [0..<length xs])) =
      map (\<lambda>i. xs ! i) (filter (first_pred (item_url x # seen) xs) [0..<length xs])"
    by (simp add: filter_map comp_def first_pred_Suc)
  have p0: "first_pred seen (x # xs) 0 \<longleftrightarrow> item_url x \<notin> set seen"
    by (simp add: first_pred_def)
  show ?case
  proof (cases "item_url x \<in> set seen")
    case True
    then have "first_pred (item_url x # seen) xs = first_pred seen xs"
      by (intro ext) (auto simp: first_pred_def)
    then show ?thesis using True Cons.IH [of seen] step p0 unfolding u by simp
  next
    case False
    then show ?thesis using Cons.IH [of "item_url x # seen"] step p0 unfolding u by simp
  qed
qed

text \<open>Claim C20: the \<^verbatim>\<open>seen_urls\<close> loop of
  \<^verbatim>\<open>ACAScraper.fetch_links\<close> keeps exactly the links whose URL no earlier link has, in
  their order.\<close>

theorem dedup_url_first_by_url: "dedup_url [] xs = first_by_url xs"
  proof -
  have "first_pred [] xs = (\<lambda>i. item_url (xs ! i) \<notin> set (map item_url (take i xs)))"
    by (intro ext) (simp add: first_pred_def)
  then show ?thesis by (simp add: dedup_url_nth first_by_url_def)
qed

lemma dedup_url_inv:
  "distinct (map item_url (dedup_url seen xs)) \<and> set (dedup_url seen xs) \<subseteq> set xs \<and>
   (\<forall>l\<in>set (dedup_url seen xs). item_url l \<notin> set seen)"
proof (induction xs arbitrary: seen)
  case Nil
  then show ?case by simp
next
  case (Cons x xs)
  show ?case
  proof (cases "item_url x \<in> set seen")
    case True
    then show ?thesis using Cons.IH [of seen] by auto
  next
    case False
    have "item_url x \<notin> set (map item_url (dedup_url (item_url x # seen) xs))"
      using Cons.IH [of "item_url x # seen"] by auto
    then show ?thesis using False Cons.IH [of "item_url x # seen"] by auto
  qed
qed

lemma aca_page_links_titled: "l \<in> set (aca_page_links join items) \<Longrightarrow> \<exists>t u. l = aca_link t u \<and> t \<noteq> []"
  by (induction join items rule: aca_page_links.induct) (auto split: option.splits sum.splits if_splits)

lemma item_url_aca_link [simp]: "item_url (aca_link t u) = u"
  by (simp add: item_url_def aca_link_def pystr_eval)

lemma aca_scan_titled:
  "aca_scan visit join opened ps = Inr ls \<Longrightarrow> l \<in> set ls \<Longrightarrow> \<exists>t u. l = aca_link t u \<and> t \<noteq> []"
proof (induction visit join opened ps arbitrary: ls rule: aca_scan.induct)
  case (2 visit join opened p ps)
  then show ?case
    using aca_page_links_titled by (cases "visit p") (auto split: if_splits sum.splits)
qed simp

lemma aca_fetch_links_titled:
  assumes "aca_fetch_links pw visit join = Inr ls" "l \<in> set ls"
  shows "\<exists>t u. l = aca_link t u \<and> t \<noteq> []"
proof -
  have "\<exists>ls0. aca_scan visit join False aca_listing_pages = Inr ls0 \<and> ls = dedup_url [] ls0"
    using assms by (auto simp: aca_fetch_links_def split: option.splits sum.splits)
  then obtain ls0 where s: "aca_scan visit join False aca_listing_pages = Inr ls0" and d: "ls = dedup_url [] ls0"
    by blast
  have "l \<in> set ls0" using dedup_url_inv [of "[]" ls0] assms(2) d by blast
  then show ?thesis using aca_scan_titled [OF s] by blast
qed

text \<open>Claim C21: the links \<^verbatim>\<open>ACAScraper.fetch_links\<close> returns have
  pairwise different URLs, and each is a Bachelor link with a non-empty title.\<close>

theorem aca_links_distinct_titled:
  assumes "aca_fetch_links pw visit join = Inr ls"
  shows "distinct (map item_url ls) \<and> (\<forall>l\<in>set ls. \<exists>t u. l = aca_link t u \<and> t \<noteq> [])"
proof -
  have "distinct (map item_url ls)"
    using assms dedup_url_inv by (auto simp: aca_fetch_links_def split: option.splits sum.splits)
  then show ?thesis using aca_fetch_links_titled [OF assms] by blast
qed

text \<open>Claim C36: when \<^verbatim>\<open>browser.new_page()\<close> raises on the first listing page,
  \<^verbatim>\<open>fetch_links\<close> does not report the page as failed and go on: its \<^verbatim>\<open>finally\<close>
  clause reads the unbound \<^verbatim>\<open>page\<close>, and \<^verbatim>\<open>UnboundLocalError\<close> leaves the method,
  whatever the other pages would give.\<close>

theorem aca_first_new_page_unbound:
  assumes "aca_listing_pages = p # ps" "visit p = NewPageFails e"
  shows "aca_fetch_links (Some (Inr ())) visit join = Inl (asc ''UnboundLocalError'')"
  unfolding aca_fetch_links_def assms(1) using assms(2) by simp

lemma seq_concat_Inr:
  "seq_concat f xs = Inr ys \<Longrightarrow> y \<in> set ys \<Longrightarrow> \<exists>x\<in>set xs. \<exists>zs. f x = Inr zs \<and> y \<in> set zs"
  by (induction xs arbitrary: ys) (auto split: sum.splits)

lemma osa_row_shape:
  assumes "osa_row join page_url cat cells = Inr rs" "r \<in> set rs"
  shows "\<exists>name unit href. r = osa_row_item cat name unit href \<and> (name \<noteq> [] \<or> unit \<noteq> [] \<or> href \<noteq> [])"
proof -
  let ?n = "cell_text (cells ! 0)" and ?u = "cell_text (cells ! 1)"
  let ?l = "case cell_anchor (cells ! 0) of Some l \<Rightarrow> Some l | None \<Rightarrow> cell_anchor (cells ! 1)"
  let ?h = "case ?l of Some (Some h) \<Rightarrow> if h \<noteq> [] then join page_url h else Inr [] | _ \<Rightarrow> Inr []"
  have "2 \<le> length cells" using assms by (auto simp: osa_row_def split: if_splits)
  then obtain href where h: "?h = Inr href" and rs: "rs = (if ?n = [] \<and> ?u = [] \<and> href = [] then [] else [osa_row_item cat ?n ?u href])"
    using assms(1) unfolding osa_row_def Let_def by (auto split: sum.splits if_splits)
  then show ?thesis using assms(2) by (auto split: if_splits)
qed

lemma osa_fetch_links_shape:
  assumes "r \<in> set (osa_fetch_links get join)"
  shows "\<exists>cat\<in>set osa_categories. \<exists>name unit href.
    r = osa_row_item cat name unit href \<and> (name \<noteq> [] \<or> unit \<noteq> [] \<or> href \<noteq> [])"
proof -
  from assms obtain cat where c: "cat \<in> set osa_categories"
    and r0: "r \<in> set (case get (osa_url cat) of Inl e \<Rightarrow> []
                 | Inr tables \<Rightarrow> (case osa_parse_tables join (osa_url cat) cat tables of Inl e \<Rightarrow> [] | Inr rows \<Rightarrow> rows))"
    unfolding osa_fetch_links_def set_concat set_map by blast
  then obtain tables rows where p: "osa_parse_tables join (osa_url cat) cat tables = Inr rows" and r: "r \<in> set rows"
    by (auto split: sum.split_asm) metis
  from seq_concat_Inr [OF p [unfolded osa_parse_tables_def] r] obtain trs zs
    where "seq_concat (osa_row join (osa_url cat) cat) (tl trs) = Inr zs" "r \<in> set zs" by blast
  from seq_concat_Inr [OF this] obtain cells rs where "osa_row join (osa_url cat) cat cells = Inr rs" "r \<in> set rs"
    by blast
  from osa_row_shape [OF this] c show ?thesis by blast
qed


text \<open>Every row \<^verbatim>\<open>OSAScraper.fetch_links\<close> returns belongs to one of the
  seven service categories, has the keys category, title, unit and url, and has a non-empty
  title, unit or URL.\<close>

theorem osa_rows_shape:
  assumes "r \<in> set (osa_fetch_links get join)"
  shows "\<exists>cat\<in>set osa_categories. \<exists>name unit href.
    r = osa_row_item cat name unit href \<and> (name \<noteq> [] \<or> unit \<noteq> [] \<or> href \<noteq> [])"
  using assms by (rule osa_fetch_links_shape)

text \<open>In \<^verbatim>\<open>_parse_tables\<close>, an anchor without
  \<open>href\<close> in the first cell hides the link of the second cell: the row gets an empty URL.\<close>

theorem osa_first_anchor_wins:
  assumes "cell_anchor c0 = Some None" "cell_text c0 \<noteq> []"
  shows "osa_row join page_url cat [c0, c1] = Inr [osa_row_item cat (cell_text c0) (cell_text c1) []]"
  using assms by (simp add: osa_row_def)

text \<open>Claim C18: the runs of the Academic, Student and General Affairs
  scrapers never raise from the CSV writer: all their items have the same keys.\<close>

theorem scrapers_no_csv_error:
  "snd (base_run (asc ''aca'') base (aca_fetch_links pw visit join) req play m) = None \<and>
   snd (base_run (asc ''osa'') base (Inr (osa_fetch_links get join')) req play m) = None \<and>
   snd (base_run (asc ''oga'') base (Inr oga_links) req play m) = None"
proof (intro conjI)
  show "snd (base_run (asc ''aca'') base (aca_fetch_links pw visit join) req play m) = None"
  proof (cases "aca_fetch_links pw visit join")
    case (Inl e)
    then show ?thesis by (simp add: base_run_Inl)
  next
    case (Inr ls)
    have "\<forall>l\<in>set ls. set (map fst l) = set (map fst (aca_link [] []))"
      using aca_fetch_links_titled [OF Inr] by (fastforce simp: aca_link_def)
    then show ?thesis unfolding Inr by (rule base_run_uniform)
  qed
  have "\<forall>r\<in>set (osa_fetch_links get join'). set (map fst r) = set (map fst (osa_row_item [] [] [] []))"
    using osa_fetch_links_shape by (fastforce simp: osa_row_item_def)
  then show "snd (base_run (asc ''osa'') base (Inr (osa_fetch_links get join')) req play m) = None"
    by (rule base_run_uniform)
  have "\<forall>l\<in>set oga_links. set (map fst l) = {asc ''title'', asc ''url''}"
    by (simp add: oga_links_def)
  then show "snd (base_run (asc ''oga'') base (Inr oga_links) req play m) = None"
    by (rule base_run_uniform)
qed

section \<open>Instances\<close>

lemma aca_links_distinct_titled_witness:
  "\<exists>ls. aca_fetch_links (Some (Inr ())) aca_sample_visit Inr = Inr ls \<and> distinct (map item_url ls) \<and> ls \<noteq> []"
proof -
  have e: "aca_fetch_links (Some (Inr ())) aca_sample_visit Inr = Inr [aca_link (asc ''Rules'') (aca_root @ asc ''/w/aca/rules'')]"
    by (simp add: aca_fetch_links_def aca_sample_visit_def aca_listing_pages_def aca_full_url_def starts_with_def pystr_eval)
  show ?thesis using aca_links_distinct_titled [OF e] e by simp
qed

lemma aca_first_new_page_unbound_witness:
  "aca_fetch_links (Some (Inr ())) (\<lambda>p. NewPageFails (asc ''closed'')) Inr = Inl (asc ''UnboundLocalError'')"
  by (rule aca_first_new_page_unbound [where p = "hd aca_listing_pages" and ps = "tl aca_listing_pages"])
    (simp_all add: aca_listing_pages_def)

lemma osa_rows_shape_witness:
  "\<exists>cat\<in>set osa_categories. \<exists>name unit href.
     osa_row_item (asc ''careers'') (asc ''Loans'') (asc ''Office'') [] = osa_row_item cat name unit href \<and>
     (name \<noteq> [] \<or> unit \<noteq> [] \<or> href \<noteq> [])"
  by (rule osa_rows_shape [where get = osa_sample_get and join = "\<lambda>p h. Inr h"])
    (simp add: osa_fetch_links_def osa_sample_get_def osa_parse_tables_def osa_row_def osa_sample_cells_def
      osa_categories_def Let_def pystr_eval)

lemma osa_first_anchor_wins_witness:
  "osa_row (\<lambda>p h. Inr h) (osa_url (asc ''careers'')) (asc ''careers'') osa_sample_cells =
     Inr [osa_row_item (asc ''careers'') (asc ''Loans'') (asc ''Office'') []]"
  unfolding osa_sample_cells_def by (subst osa_first_anchor_wins) (simp_all add: pystr_eval)

end
