(* ===== verification/AdminScraper.thy ===== *)
theory AdminScraper
  imports ScraperBase "HOL-Library.Multiset"
begin

text \<open>
  The administration directory scraper of \<^verbatim>\<open>src/scrapers/admin.py\<close> (\<^verbatim>\<open>AdminScraper\<close>),
  which overrides \<^verbatim>\<open>extract_with_requests\<close> and \<^verbatim>\<open>run\<close>. Its extraction mutates the parsed
  page, so the page is modelled as a tree: elements with their name, attributes and children,
  and text nodes. \<^verbatim>\<open>container.append(section)\<close> moves a section out of the page into the
  new wrapper, and \<^verbatim>\<open>decompose\<close> removes elements from the tree they are in; the later
  searches of \<^verbatim>\<open>soup\<close> see the page after these changes.
\<close>

section \<open>Pages as trees\<close>

datatype dom = Elem pystr "(pystr \<times> pystr) list" "dom list" | Txt pystr

definition is_tag :: "pystr \<Rightarrow> dom \<Rightarrow> bool" where
  "is_tag t n = (case n of Elem t' a cs \<Rightarrow> t' = t | Txt s \<Rightarrow> False)"

definition attr :: "pystr \<Rightarrow> dom \<Rightarrow> pystr option" where
  "attr k n = (case n of Elem t a cs \<Rightarrow> map_of a k | Txt s \<Rightarrow> None)"

text \<open>\<^verbatim>\<open>class_="c"\<close>: \<open>c\<close> is one of the whitespace-separated classes.\<close>

definition has_class :: "pystr \<Rightarrow> dom \<Rightarrow> bool" where
  "has_class c n = (case attr (asc ''class'') n of Some v \<Rightarrow> c \<in> set (py_split v) | None \<Rightarrow> False)"

text \<open>\<^verbatim>\<open>find_all\<close>: the matching elements of a forest in document order, nested ones
  included; \<^verbatim>\<open>find\<close>: the first of them.\<close>

fun find_all :: "(dom \<Rightarrow> bool) \<Rightarrow> dom list \<Rightarrow> dom list" where
  "find_all P [] = []"
| "find_all P (Txt s # ns) = (if P (Txt s) then [Txt s] else []) @ find_all P ns"
| "find_all P (Elem t a cs # ns) = (if P (Elem t a cs) then [Elem t a cs] else []) @ find_all P cs @ find_all P ns"

definition find_first :: "(dom \<Rightarrow> bool) \<Rightarrow> dom list \<Rightarrow> dom option" where
  "find_first P ns = (case find_all P ns of [] \<Rightarrow> None | n # _ \<Rightarrow> Some n)"

text \<open>The forest without the matching elements (each removed with its subtree).\<close>

fun excise :: "(dom \<Rightarrow> bool) \<Rightarrow> dom list \<Rightarrow> dom list" where
  "excise P [] = []"
| "excise P (Txt s # ns) = (if P (Txt s) then [] else [Txt s]) @ excise P ns"
| "excise P (Elem t a cs # ns) = (if P (Elem t a cs) then [] else [Elem t a (excise P cs)]) @ excise P ns"

text \<open>A node with its matching descendants removed.\<close>

definition strip_nested :: "(dom \<Rightarrow> bool) \<Rightarrow> dom \<Rightarrow> dom" where
  "strip_nested P n = (case n of Elem t a cs \<Rightarrow> Elem t a (excise P cs) | Txt s \<Rightarrow> Txt s)"

text \<open>The forest with \<open>f\<close> applied to the first matching element in document order, and
  whether there was one.\<close>

fun at_first :: "(dom \<Rightarrow> bool) \<Rightarrow> (dom \<Rightarrow> dom) \<Rightarrow> dom list \<Rightarrow> dom list \<times> bool" where
  "at_first P f [] = ([], False)"
| "at_first P f (Txt s # ns) =
     (if P (Txt s) then (f (Txt s) # ns, True) else let (ns', b) = at_first P f ns in (Txt s # ns', b))"
| "at_first P f (Elem t a cs # ns) =
     (if P (Elem t a cs) then (f (Elem t a cs) # ns, True)
      else let (cs', b) = at_first P f cs in
           if b then (Elem t a cs' # ns, True)
           else let (ns', b') = at_first P f ns in (Elem t a cs # ns', b'))"

text \<open>Every text node of a forest in document order, and the ones \<^verbatim>\<open>get_text\<close> reads: not
  those inside \<open>script\<close>, \<open>style\<close> or \<open>template\<close>.\<close>

fun all_strings :: "dom list \<Rightarrow> pystr list" where
  "all_strings [] = []"
| "all_strings (Txt s # ns) = s # all_strings ns"
| "all_strings (Elem t a cs # ns) = all_strings cs @ all_strings ns"

fun text_strings :: "dom list \<Rightarrow> pystr list" where
  "text_strings [] = []"
| "text_strings (Txt s # ns) = s # text_strings ns"
| "text_strings (Elem t a cs # ns) =
     (if t \<in> set (map asc [''script'', ''style'', ''template'']) then [] else text_strings cs) @ text_strings ns"

text \<open>\<^verbatim>\<open>n.get_text(separator=sep, strip=True)\<close> of an element.\<close>

definition el_text :: "pystr \<Rightarrow> dom \<Rightarrow> pystr" where
  "el_text sep n =
     py_join sep (filter (\<lambda>s. s \<noteq> []) (map py_strip (text_strings (case n of Elem t a cs \<Rightarrow> cs | Txt s \<Rightarrow> [n]))))"

section \<open>The extraction\<close>

definition is_maincontent :: "dom \<Rightarrow> bool" where
  "is_maincontent n \<longleftrightarrow> is_tag (asc ''section'') n \<and> has_class (asc ''maincontent'') n"

definition is_div_container :: "dom \<Rightarrow> bool" where
  "is_div_container n \<longleftrightarrow> is_tag (asc ''div'') n \<and> has_class (asc ''container'') n"

definition is_noise :: "dom \<Rightarrow> bool" where
  "is_noise n \<longleftrightarrow> (\<exists>t\<in>set (map asc [''script'', ''style'', ''nav'', ''header'', ''footer'']). is_tag t n)"

text \<open>\<^verbatim>\<open>for tag in container([...]): tag.decompose()\<close>: the noise elements below the
  container removed.\<close>

definition remove_noise :: "dom \<Rightarrow> dom" where
  "remove_noise n = strip_nested is_noise n"

text \<open>The container after the noise is removed, and the page as the later searches see it.
  With \<^verbatim>\<open>section.maincontent\<close> elements, each is moved into a new \<open>div\<close> in document order,
  so a nested section ends up after its ancestor, which loses it; the page keeps none of them.
  Otherwise the first \<^verbatim>\<open>div.container\<close>, or else the first \<open>body\<close>, is cleaned in place.\<close>

definition admin_container :: "dom list \<Rightarrow> (dom \<times> dom list) option" where
  "admin_container doc =
     (let secs = find_all is_maincontent doc in
      if secs \<noteq> [] then Some (remove_noise (Elem (asc ''div'') [] (map (strip_nested is_maincontent) secs)),
                             excise is_maincontent doc)
      else case find_first is_div_container doc of
             Some c \<Rightarrow> Some (remove_noise c, fst (at_first is_div_container remove_noise doc))
           | None \<Rightarrow> (case find_first (is_tag (asc ''body'')) doc of
                        Some b \<Rightarrow> Some (remove_noise b, fst (at_first (is_tag (asc ''body'')) remove_noise doc))
                      | None \<Rightarrow> None))"

definition is_meta_description :: "dom \<Rightarrow> bool" where
  "is_meta_description n \<longleftrightarrow> is_tag (asc ''meta'') n \<and> attr (asc ''name'') n = Some (asc ''description'')"

text \<open>\<^verbatim>\<open>AdminScraper.extract_with_requests\<close>: \<open>get\<close> gives the parsed page or the
  exception message.\<close>

definition admin_extract :: "(pystr \<Rightarrow> pystr + dom list) \<Rightarrow> pystr \<Rightarrow> fetch_result" where
  "admin_extract get url =
     (case get url of
        Inl e \<Rightarrow> fail_result e
      | Inr doc \<Rightarrow>
          (case admin_container doc of
             None \<Rightarrow> fail_result (asc ''No content container found'')
           | Some (c, soup) \<Rightarrow>
               let title = (case find_first (is_tag (asc ''h1'')) soup of
                              Some h \<Rightarrow> [asc ''# '' @ el_text [] h] | None \<Rightarrow> []);
                   content = py_join [10, 10] (title @ [el_text [10] c]);
                   desc = (case find_first is_meta_description soup of
                             Some m \<Rightarrow> py_strip (case attr (asc ''content'') m of Some v \<Rightarrow> v | None \<Rightarrow> [])
                           | None \<Rightarrow> [])
               in \<lparr>fr_success = True, fr_description = desc, fr_content = content, fr_url = url, fr_error = []\<rparr>))"

section \<open>The run\<close>

definition admin_pages :: "pystr list" where
  "admin_pages = map (\<lambda>p. asc ''https://homepage.ntu.edu.tw/~ntuga/admin/'' @ asc p)
     [''index.html'', ''jinxian.html'', ''lixian.html'', ''others.html'']"

text \<open>\<^verbatim>\<open>AdminScraper.run\<close>: every page requested, the successful ones kept as an item
  with its URL and result, and saved; \<open>max_items\<close> is ignored. The result is the events,
  the exception of the save, and the returned results. Unlike the items of
  \<^verbatim>\<open>scrape_single\<close>, which pops it, a saved admin result keeps its \<^verbatim>\<open>_length\<close> key
  (admin.py 87); the record does not represent which keys a dict carries, so that extra key,
  whose value is \<open>fr_length\<close> of the result, is not modelled.\<close>

definition admin_run ::
    "pystr \<Rightarrow> (pystr \<Rightarrow> pystr + dom list) \<Rightarrow> event list \<times> py_error option \<times> (pystr \<times> fetch_result) list" where
  "admin_run base get =
     (let results = filter (\<lambda>(u, r). fr_success r) (map (\<lambda>u. (u, admin_extract get u)) admin_pages);
          (evs, err) = save_data base (map (\<lambda>(u, r). ([(asc ''url'', FStr u)], Some r)) results) (asc ''admin.information'')
      in (map (Fetch Requests) admin_pages @ evs, err, results))"

section \<open>Sample inputs\<close>

definition admin_sample :: "dom list" where
  "admin_sample = [Elem (asc ''html'') [] [Elem (asc ''body'') [] [
     Elem (asc ''section'') [(asc ''class'', asc ''maincontent'')]
       [Elem (asc ''h1'') [] [Txt (asc ''Admin Building'')], Txt (asc '' Room 101 '')]]]]"

section \<open>Properties\<close>

lemma all_strings_append [simp]: "all_strings (xs @ ys) = all_strings xs @ all_strings ys"
  by (induction xs rule: all_strings.induct) auto

lemma strip_nested_simps [simp]:
  "strip_nested P (Elem t a cs) = Elem t a (excise P cs)" "strip_nested P (Txt s) = Txt s"
  by (simp_all add: strip_nested_def)

lemma move_conserves_strings:
  "mset (all_strings (map (strip_nested P) (find_all P ns))) + mset (all_strings (excise P ns)) = mset (all_strings ns)"
proof (induction P ns rule: find_all.induct)
  case (1 P)
  then show ?case by simp
next
  case (2 P s ns)
  then show ?case by simp
next
  case (3 P t a cs ns)
  show ?case
    by (cases "P (Elem t a cs)") (simp_all add: "3.IH"(1)[symmetric] "3.IH"(2)[symmetric] ac_simps)
qed


lemma admin_extract_doc:
  assumes "get url = Inr doc" "admin_container doc = Some (c, soup)"
  shows "fr_success (admin_extract get url) \<and>
    fr_content (admin_extract get url) =
      py_join [10, 10] ((case find_first (is_tag (asc ''h1'')) soup of Some h \<Rightarrow> [asc ''# '' @ el_text [] h] | None \<Rightarrow> [])
                        @ [el_text [10] c])"
  using assms by (simp add: admin_extract_def Let_def)

text \<open>Claim C17: when every \<open>h1\<close> of a page is inside its
  \<^verbatim>\<open>section.maincontent\<close> elements, the content has no title line: the moved sections are
  no longer in \<^verbatim>\<open>soup\<close> when \<^verbatim>\<open>soup.find("h1")\<close> runs.\<close>

theorem admin_title_outside_sections:
  assumes "get url = Inr doc" "find_all is_maincontent doc \<noteq> []"
    and "find_all (is_tag (asc ''h1'')) (excise is_maincontent doc) = []"
  shows "fr_content (admin_extract get url) =
    el_text [10] (remove_noise (Elem (asc ''div'') [] (map (strip_nested is_maincontent) (find_all is_maincontent doc))))"
proof -
  have "admin_container doc =
      Some (remove_noise (Elem (asc ''div'') [] (map (strip_nested is_maincontent) (find_all is_maincontent doc))),
            excise is_maincontent doc)"
    using assms(2) by (simp add: admin_container_def)
  from admin_extract_doc [where get = get and url = url and doc = doc and c = "remove_noise (Elem (asc ''div'') [] (map (strip_nested is_maincontent) (find_all is_maincontent doc)))"
      and soup = "excise is_maincontent doc", OF assms(1) this] assms(3)
  show ?thesis by (simp add: find_first_def)
qed

lemma admin_extract_success:
  "fr_success (admin_extract get u) \<longleftrightarrow> (\<exists>doc. get u = Inr doc \<and> admin_container doc \<noteq> None)"
  by (auto simp: admin_extract_def Let_def fail_result_def split: sum.splits option.splits)

section \<open>Instances\<close>

lemma admin_title_outside_sections_witness:
  "fr_content (admin_extract (\<lambda>u. Inr admin_sample) (asc ''u'')) = asc ''Admin Building'' @ [10] @ asc ''Room 101''"
  by (subst admin_title_outside_sections [where doc = admin_sample])
    (simp_all add: admin_sample_def is_maincontent_def is_tag_def has_class_def attr_def py_split_def el_text_def
      remove_noise_def is_noise_def pystr_eval)

end
