(* ===== verification/AppSession.thy ===== *)
theory AppSession
  imports Answer
begin

text \<open>
  The Streamlit script of \<^verbatim>\<open>src/app.py\<close> as a state machine, and the script
  \<^verbatim>\<open>src/list_models.py\<close>. Streamlit runs the whole script again after every interaction;
  what survives a run is \<^verbatim>\<open>st.session_state\<close>. A run is modelled by \<open>run_script\<close>: the
  interaction that caused it, the sidebar's updates of the session, the pending quick
  question, the display of the history (with its maps when the toggle is on), and the chat
  input, each query going through \<open>handle_query\<close> of the \<open>Answer\<close> theory. A run returns
  the new session, what the main area displayed in order, and the exception that ended it,
  if any. The sidebar's key banner and model listing are \<open>sidebar_view\<close>; the Gemini
  client it lists the models with is a parameter. The session after the first run (the history initialised,
  nothing pending) is the start of \<open>reachable\<close>, the reflexive-transitive closure of one
  run.
\<close>

section \<open>Session and runs\<close>

text \<open>The keys of \<^verbatim>\<open>st.session_state\<close> the script reads and writes: the history, the
  pending quick question, the API key, the two identity widgets and the history-maps toggle
  (a widget without a key, whose value Streamlit keeps between runs).\<close>

record session =
  ss_messages :: "message list"
  ss_pending :: "pystr option"
  ss_api_key :: pystr
  ss_college :: pystr
  ss_degree :: pystr
  ss_show_maps :: bool

text \<open>The four quick-question buttons of the sidebar and the questions they set.\<close>

datatype quick = StopCourse | Insurance | Transcript | LibraryHours

definition quick_text :: "quick \<Rightarrow> pystr" where
  "quick_text b = (case b of
      StopCourse \<Rightarrow> [0x5982, 0x4F55, 0x8FA6, 0x7406, 0x505C, 0x4FEE, 0x8AB2, 0x7A0B, 0xFF1F]
    | Insurance \<Rightarrow> [0x5982, 0x4F55, 0x7533, 0x8ACB, 0x5B78, 0x751F, 0x5718, 0x9AD4, 0x4FDD, 0x96AA, 0x7406, 0x8CE0, 0xFF1F]
    | Transcript \<Rightarrow> [0x5982, 0x4F55, 0x7533, 0x8ACB, 0x4E2D, 0x6587, 0x6210, 0x7E3E, 0x55AE, 0xFF1F]
    | LibraryHours \<Rightarrow> [0x7E3D, 0x5716, 0x66F8, 0x9928, 0x958B, 0x653E, 0x6642, 0x9593, 0x70BA, 0x4F55, 0xFF1F])"

text \<open>The interaction that starts a run: none (a plain rerun), confirming the API key dialog
  (which calls \<^verbatim>\<open>st.rerun()\<close>), a quick-question button, a chat submission, the clear
  button (\<^verbatim>\<open>st.experimental_rerun()\<close> right after clearing), an identity widget, the
  history-maps toggle, or the button that lists the available models.\<close>

datatype ui_event = Rerun | SetKey pystr | Quick quick | Chat pystr | ClearHistory | SetCollege pystr
  | SetDegree pystr | ShowMaps bool | ListModels

text \<open>What the main area displays, in order: a chat bubble with its markdown, a map, the
  notice that the buildings' coordinates are incomplete, the caption listing the buildings,
  the notice that history maps are hidden, and the expander listing the sources (their title,
  URL and department).\<close>

datatype bubble = Bubble role pystr | MapView map_view | MapMissing | BuildingsCaption "pystr list"
  | MapHidden | Sources "hit list"

text \<open>\<^verbatim>\<open>handle_query\<close> reads the API key from the session.\<close>

definition with_key :: "app_env \<Rightarrow> session \<Rightarrow> app_env" where
  "with_key env s = env\<lparr>env_api_key := ss_api_key s\<rparr>"

text \<open>What \<^verbatim>\<open>handle_query\<close> displays for a query: the user's bubble, then the assistant's
  bubble, which is opened before the engine is fetched (app.py 303) and so stays empty when
  there is no engine or the query raises; for an answer, its text, the map of the buildings
  found (or the notice), and the sources stored with the answer.\<close>

definition answer_map :: "pystr list \<Rightarrow> map_view option \<Rightarrow> bubble list" where
  "answer_map bs mv = (if bs = [] then [] else case mv of Some v \<Rightarrow> [MapView v, BuildingsCaption bs] | None \<Rightarrow> [MapMissing])"

definition query_bubbles ::
    "pystr \<Rightarrow> message list \<Rightarrow> py_error + (pystr \<times> pystr list \<times> map_view option) option \<Rightarrow> bubble list" where
  "query_bubbles q msgs out = Bubble User q #
     (case out of Inr (Some (a, bs, mv)) \<Rightarrow> Bubble Assistant a # answer_map bs mv @ [Sources (msg_sources (last msgs))]
      | _ \<Rightarrow> [Bubble Assistant []])"

text \<open>One message of the history loop: its bubble; its buildings' caption and either their
  map (centered on the first, when the toggle is on and \<^verbatim>\<open>create_map\<close> gives one) or the
  notice that maps are hidden; the sources of an assistant message (only those have the key).\<close>

definition history_view :: "(pystr \<times> building) list \<Rightarrow> bool \<Rightarrow> message \<Rightarrow> bubble list" where
  "history_view idx maps_on m =
     Bubble (msg_role m) (msg_content m) #
     (if msg_buildings m \<noteq> [] then
        BuildingsCaption (msg_buildings m) #
        (if maps_on then (case create_map idx (msg_buildings m) True 16 of Some v \<Rightarrow> [MapView v] | None \<Rightarrow> []) else [MapHidden])
      else []) @
     (if msg_role m = Assistant then [Sources (msg_sources m)] else [])"

definition history_bubbles :: "(pystr \<times> building) list \<Rightarrow> bool \<Rightarrow> message list \<Rightarrow> bubble list" where
  "history_bubbles idx maps_on msgs = concat (map (history_view idx maps_on) msgs)"

text \<open>One call of \<^verbatim>\<open>handle_query\<close> within a run: the session with the new history, the
  bubbles, and the exception that leaves the script.\<close>

definition run_handle :: "app_env \<Rightarrow> session \<Rightarrow> pystr \<Rightarrow> session \<times> bubble list \<times> py_error option" where
  "run_handle env s q =
     (let (msgs, out) = handle_query (with_key env s) (ss_college s) (ss_degree s) (ss_messages s) q in
      (s\<lparr>ss_messages := msgs\<rparr>, query_bubbles q msgs out, case out of Inl e \<Rightarrow> Some e | Inr x \<Rightarrow> None))"

text \<open>The main area: a non-empty pending question is handled and then reset (an exception
  leaves it set), the history is displayed, and a non-empty chat submission is handled.\<close>

definition main_run :: "app_env \<Rightarrow> session \<Rightarrow> pystr option \<Rightarrow> session \<times> bubble list \<times> py_error option" where
  "main_run env s chat =
     (let (s1, b1, e1) =
        (case ss_pending s of
           Some q \<Rightarrow> if q \<noteq> [] then (let (s', b, e) = run_handle env s q in
                                      (if e = None then s'\<lparr>ss_pending := None\<rparr> else s', b, e))
                    else (s, [], None)
         | None \<Rightarrow> (s, [], None))
      in if e1 \<noteq> None then (s1, b1, e1)
         else let b2 = history_bubbles (env_index env) (ss_show_maps s1) (ss_messages s1) in
              (case chat of
                 Some p \<Rightarrow> if p \<noteq> [] then (let (s3, b3, e3) = run_handle env s1 p in (s3, b1 @ b2 @ b3, e3))
                           else (s1, b1 @ b2, None)
               | None \<Rightarrow> (s1, b1 @ b2, None)))"

text \<open>A run of the script for an interaction: the sidebar's update of the session, then
  the main area.\<close>

definition run_script :: "app_env \<Rightarrow> session \<Rightarrow> ui_event \<Rightarrow> session \<times> bubble list \<times> py_error option" where
  "run_script env s ev =
     (case ev of
        Rerun \<Rightarrow> main_run env s None
      | SetKey k \<Rightarrow> main_run env (s\<lparr>ss_api_key := k\<rparr>) None
      | Quick b \<Rightarrow> main_run env (s\<lparr>ss_pending := Some (quick_text b)\<rparr>) None
      | Chat p \<Rightarrow> main_run env s (Some p)
      | ClearHistory \<Rightarrow> main_run env (s\<lparr>ss_messages := []\<rparr>) None
      | SetCollege c \<Rightarrow> main_run env (s\<lparr>ss_college := c\<rparr>) None
      | SetDegree d \<Rightarrow> main_run env (s\<lparr>ss_degree := d\<rparr>) None
      | ShowMaps b \<Rightarrow> main_run env (s\<lparr>ss_show_maps := b\<rparr>) None
      | ListModels \<Rightarrow> main_run env s None)"

section \<open>The sidebar's model listing\<close>

text \<open>A model of the catalog as \<^verbatim>\<open>genai.list_models()\<close> yields it: its name and the
  generation methods it supports. The client is a parameter: \<^verbatim>\<open>genai.configure\<close> with a key,
  which may raise, and \<^verbatim>\<open>genai.list_models()\<close>, a lazy iterator given as the models it
  yields before it ends and the exception that ends it (\<open>None\<close> when it completes).\<close>

type_synonym model_info = "pystr \<times> pystr list"

record genai =
  ga_configure :: "pystr \<Rightarrow> py_error option"
  ga_list_models :: "pystr \<Rightarrow> model_info list \<times> py_error option"

definition generate_content :: pystr where
  "generate_content = asc ''generateContent''"

text \<open>The sidebar's list comprehension
  \<^verbatim>\<open>[m.name for m in genai.list_models() if 'generateContent' in m.supported_generation_methods]\<close>.\<close>

definition content_models :: "model_info list \<Rightarrow> pystr list" where
  "content_models ms = [fst m. m \<leftarrow> ms, generate_content \<in> set (snd m)]"

text \<open>What the sidebar shows after the key banner: for the listing button, an error without a
  key, or when configuring or the iteration raises (the comprehension is built before anything
  is shown, so a failure part-way shows nothing of it), otherwise the names of the models that
  can generate content.\<close>

datatype sidebar_item = KeyBanner bool | NoKeyError | ListError | ModelNames "pystr list"

definition sidebar_view :: "genai \<Rightarrow> session \<Rightarrow> ui_event \<Rightarrow> sidebar_item list" where
  "sidebar_view ga s ev =
     (let key = (case ev of SetKey k \<Rightarrow> k | _ \<Rightarrow> ss_api_key s) in
      KeyBanner (key \<noteq> []) #
      (if ev = ListModels then
         [if key = [] then NoKeyError
          else case ga_configure ga key of
                 Some e \<Rightarrow> ListError
               | None \<Rightarrow> (case ga_list_models ga key of (ms, None) \<Rightarrow> ModelNames (content_models ms) | (ms, Some e) \<Rightarrow> ListError)]
       else []))"

text \<open>\<^verbatim>\<open>src/list_models.py\<close>: the key from the configuration (the environment variable,
  empty when unset), then, when it is empty, the environment variable again (\<open>None\<close> when
  unset). \<^verbatim>\<open>genai.configure\<close> runs outside the \<^verbatim>\<open>try\<close>, so its exception ends the script;
  then the header is printed and the loop prints each model that can generate content as the
  iterator yields it, until the iterator ends or raises. The result is the lines printed and
  the exception that ends the script.\<close>

datatype list_output = NoKeyFound | AvailableModels | ModelLine pystr | ListingError

definition config_api_key :: "pystr option \<Rightarrow> pystr" where
  "config_api_key getenv = (case getenv of Some k \<Rightarrow> k | None \<Rightarrow> [])"

primrec print_models :: "model_info list \<Rightarrow> list_output list" where
  "print_models [] = []"
| "print_models (m # ms) = (if generate_content \<in> set (snd m) then [ModelLine (fst m)] else []) @ print_models ms"

definition list_models_script :: "pystr option \<Rightarrow> genai \<Rightarrow> list_output list \<times> py_error option" where
  "list_models_script getenv ga =
     (let k0 = config_api_key getenv;
          k = (if k0 = [] then getenv else Some k0)
      in case k of
           None \<Rightarrow> ([NoKeyFound], None)
         | Some key \<Rightarrow>
             if key = [] then ([NoKeyFound], None)
             else (case ga_configure ga key of
                     Some e \<Rightarrow> ([], Some e)
                   | None \<Rightarrow> (let (ms, err) = ga_list_models ga key in
                               (AvailableModels # print_models ms @ (case err of Some e \<Rightarrow> [ListingError] | None \<Rightarrow> []),
                                None))))"

text \<open>The session after the first run of a fresh session: the key from the configuration,
  the first college and degree options, an empty history, nothing pending, maps hidden.\<close>

definition initial_session :: "pystr \<Rightarrow> session" where
  "initial_session key = \<lparr>ss_messages = [], ss_pending = None, ss_api_key = key,
     ss_college = [0x5176, 0x4ED6, 0x5B78, 0x9662, 32, 40, 0x4E00, 0x822C, 41], ss_degree = hd degree_options,
     ss_show_maps = False\<rparr>"

text \<open>The sessions a sequence of interactions can lead to.\<close>

inductive reachable :: "app_env \<Rightarrow> session \<Rightarrow> session \<Rightarrow> bool" for env s0 where
  start: "reachable env s0 s0"
| run: "reachable env s0 s \<Longrightarrow> reachable env s0 (fst (run_script env s ev))"

text \<open>Every assistant message of the history answers the user message right before it.\<close>

definition turns_ok :: "message list \<Rightarrow> bool" where
  "turns_ok msgs \<longleftrightarrow> (\<forall>i<length msgs. msg_role (msgs ! i) = Assistant \<longrightarrow> 0 < i \<and> msg_role (msgs ! (i - 1)) = User)"

text \<open>The chat bubbles among the displayed items, and the maps.\<close>

definition chat_bubbles :: "bubble list \<Rightarrow> bubble list" where
  "chat_bubbles bs = filter (\<lambda>b. case b of Bubble r t \<Rightarrow> True | _ \<Rightarrow> False) bs"

definition map_count :: "bubble list \<Rightarrow> nat" where
  "map_count bs = length (filter (\<lambda>b. case b of MapView v \<Rightarrow> True | _ \<Rightarrow> False) bs)"

section \<open>Sample environments\<close>

text \<open>An engine whose store raises on every query, no engine, and an engine whose store
  finds nothing; no API key and no language model.\<close>

definition failing_env :: app_env where
  "failing_env = \<lparr>env_engine = Some (\<lambda>q n w. Inl StoreError), env_order = id, env_index = [], env_api_key = [],
     env_llm = \<lambda>p. None, env_gen = \<lambda>p n. GenFail []\<rparr>"

definition offline_env :: app_env where
  "offline_env = \<lparr>env_engine = None, env_order = id, env_index = [], env_api_key = [],
     env_llm = \<lambda>p. None, env_gen = \<lambda>p n. GenFail []\<rparr>"

definition empty_env :: app_env where
  "empty_env = \<lparr>env_engine = Some (\<lambda>q n w. Inr []), env_order = id, env_index = [], env_api_key = [],
     env_llm = \<lambda>p. None, env_gen = \<lambda>p n. GenFail []\<rparr>"

section \<open>Properties\<close>

subsection \<open>The history and the display\<close>

lemma handle_query_msgs:
  "fst (handle_query env c d msgs q) = msgs @ [user_message q] \<or>
   (\<exists>a. fst (handle_query env c d msgs q) = msgs @ [user_message q, a] \<and> msg_role a = Assistant)"
  by (auto simp: handle_query_def Let_def split: option.split sum.split prod.split)

lemma turns_ok_Nil [simp]: "turns_ok []"
  by (simp add: turns_ok_def)

lemma turns_ok_snoc_user:
  "turns_ok (msgs @ [user_message q]) \<longleftrightarrow> turns_ok msgs"
  by (auto simp: turns_ok_def nth_append user_message_def less_Suc_eq)

lemma turns_ok_snoc_pair:
  "msg_role a = Assistant \<Longrightarrow> turns_ok (msgs @ [user_message q, a]) \<longleftrightarrow> turns_ok msgs"
  by (auto simp: turns_ok_def nth_append user_message_def less_Suc_eq)

lemma run_handle_turns:
  "turns_ok (ss_messages s) \<Longrightarrow> turns_ok (ss_messages (fst (run_handle env s q)))"
  using handle_query_msgs [of "with_key env s" "ss_college s" "ss_degree s" "ss_messages s" q]
  by (auto simp: run_handle_def turns_ok_snoc_user turns_ok_snoc_pair split: prod.split)

lemma run_handle_turnsD:
  "run_handle env s q = (s', b, e) \<Longrightarrow> turns_ok (ss_messages s) \<Longrightarrow> turns_ok (ss_messages s')"
  using run_handle_turns [of s env q] by simp

lemma main_run_turns:
  "turns_ok (ss_messages s) \<Longrightarrow> turns_ok (ss_messages (fst (main_run env s chat)))"
  by (auto simp: main_run_def Let_def split: option.split prod.split if_split dest!: run_handle_turnsD)

lemma run_script_turns:
  "turns_ok (ss_messages s) \<Longrightarrow> turns_ok (ss_messages (fst (run_script env s ev)))"
  by (cases ev) (simp_all add: run_script_def main_run_turns)

lemma chat_bubbles_Nil [simp]: "chat_bubbles [] = []"
  by (simp add: chat_bubbles_def)

lemma chat_bubbles_Cons [simp]:
  "chat_bubbles (b # bs) = (case b of Bubble r t \<Rightarrow> [b] | _ \<Rightarrow> []) @ chat_bubbles bs"
  by (simp add: chat_bubbles_def split: bubble.split)

lemma map_count_Nil [simp]: "map_count [] = 0"
  by (simp add: map_count_def)

lemma chat_bubbles_append [simp]: "chat_bubbles (xs @ ys) = chat_bubbles xs @ chat_bubbles ys"
  by (simp add: chat_bubbles_def)

lemma map_count_append [simp]: "map_count (xs @ ys) = map_count xs + map_count ys"
  by (simp add: map_count_def)

lemma chat_bubbles_history_view [simp]:
  "chat_bubbles (history_view idx maps_on m) = [Bubble (msg_role m) (msg_content m)]"
  by (simp add: chat_bubbles_def history_view_def split: option.split)

lemma chat_bubbles_history [simp]:
  "chat_bubbles (history_bubbles idx maps_on msgs) = map (\<lambda>m. Bubble (msg_role m) (msg_content m)) msgs"
  by (induction msgs) (simp_all add: history_bubbles_def)

lemma chat_bubbles_answer_map [simp]: "chat_bubbles (answer_map bs mv) = []"
  by (simp add: chat_bubbles_def answer_map_def split: option.split)

lemma map_count_history_view:
  "map_count (history_view idx maps_on m) =
     (if maps_on \<and> msg_buildings m \<noteq> [] \<and> create_map idx (msg_buildings m) True 16 \<noteq> None then 1 else 0)"
  by (auto simp: map_count_def history_view_def split: option.split)

lemma quick_text_ne [simp]: "quick_text b \<noteq> []"
  by (cases b) (simp_all add: quick_text_def)

lemma run_handle_ok:
  assumes "snd (handle_query (with_key env s) (ss_college s) (ss_degree s) (ss_messages s) q) = Inr (Some (a, ws, mv))"
  shows "\<exists>m. run_handle env s q = (s\<lparr>ss_messages := ss_messages s @ [user_message q, m]\<rparr>,
      Bubble User q # Bubble Assistant a # answer_map ws mv @ [Sources (msg_sources m)], None) \<and>
    msg_role m = Assistant \<and> msg_content m = a"
  using assms by (auto simp: run_handle_def query_bubbles_def handle_query_def Let_def split: option.splits sum.splits prod.splits)

lemma run_handle_fail:
  assumes "snd (handle_query (with_key env s) (ss_college s) (ss_degree s) (ss_messages s) q) = Inl e"
  shows "run_handle env s q = (s\<lparr>ss_messages := ss_messages s @ [user_message q]\<rparr>, [Bubble User q, Bubble Assistant []], Some e)"
  using assms by (auto simp: run_handle_def query_bubbles_def handle_query_def Let_def split: option.splits sum.splits prod.splits)

lemma chat_question_shown_once:
  assumes "run_script env s (Chat p) = (s', bs, err)" "ss_pending s = None" "p \<noteq> []"
    and "snd (handle_query (with_key env s) (ss_college s) (ss_degree s) (ss_messages s) p) = Inr (Some (a, ws, mv))"
  shows "chat_bubbles bs = map (\<lambda>m. Bubble (msg_role m) (msg_content m)) (ss_messages s) @ [Bubble User p, Bubble Assistant a]"
  using assms run_handle_ok [OF assms(4)] by (auto simp: run_script_def main_run_def)

lemma main_run_pending_fail:
  assumes "ss_pending s = Some q" "q \<noteq> []"
    and "snd (handle_query (with_key env s) (ss_college s) (ss_degree s) (ss_messages s) q) = Inl e"
  shows "main_run env s chat = (s\<lparr>ss_messages := ss_messages s @ [user_message q]\<rparr>, [Bubble User q, Bubble Assistant []], Some e)"
  using assms run_handle_fail [OF assms(3)] by (simp add: main_run_def)

lemma run_script_main:
  "\<exists>s'. run_script env s ev = main_run env s' (case ev of Chat p \<Rightarrow> Some p | _ \<Rightarrow> None) \<and>
     ss_pending s' = (case ev of Quick b \<Rightarrow> Some (quick_text b) | _ \<Rightarrow> ss_pending s) \<and>
     ss_messages s' = (if ev = ClearHistory then [] else ss_messages s)"
  by (cases ev) (auto simp: run_script_def)

subsection \<open>Runs\<close>

text \<open>Claim C28: in every session reachable by interactions from one whose
  history is well formed, every assistant message of the history directly follows a user
  message: each run appends a question with at most its answer, or clears the history.\<close>

theorem session_turns_ok:
  assumes "reachable env s0 s" "turns_ok (ss_messages s0)"
  shows "turns_ok (ss_messages s)"
  using assms by (induction rule: reachable.induct) (simp_all add: run_script_turns)

text \<open>Claim C30: a quick question that is answered is shown twice
  in its run: \<^verbatim>\<open>handle_query\<close> displays the exchange before the history, and the history
  loop, which runs after it, displays it again at its end; the question is reset and the
  history grows by the exchange.\<close>

theorem quick_question_shown_twice:
  assumes "run_script env s (Quick b) = (s', bs, err)"
    and "snd (handle_query (with_key env s) (ss_college s) (ss_degree s) (ss_messages s) (quick_text b)) = Inr (Some (a, ws, mv))"
  shows "err = None \<and> ss_pending s' = None \<and>
    (\<exists>m. ss_messages s' = ss_messages s @ [user_message (quick_text b), m] \<and> msg_role m = Assistant \<and> msg_content m = a) \<and>
    chat_bubbles bs = [Bubble User (quick_text b), Bubble Assistant a] @
      map (\<lambda>m. Bubble (msg_role m) (msg_content m)) (ss_messages s) @ [Bubble User (quick_text b), Bubble Assistant a]"
proof -
  let ?q = "quick_text b"
  have h: "snd (handle_query (with_key env (s\<lparr>ss_pending := Some ?q\<rparr>)) (ss_college s) (ss_degree s) (ss_messages s) ?q) =
      Inr (Some (a, ws, mv))"
    using assms(2) by (simp add: with_key_def)
  from run_handle_ok [of env "s\<lparr>ss_pending := Some ?q\<rparr>", simplified, OF h] obtain m where
    r: "run_handle env (s\<lparr>ss_pending := Some ?q\<rparr>) ?q =
      (s\<lparr>ss_pending := Some ?q, ss_messages := ss_messages s @ [user_message ?q, m]\<rparr>,
       Bubble User ?q # Bubble Assistant a # answer_map ws mv @ [Sources (msg_sources m)], None)"
    and m: "msg_role m = Assistant" "msg_content m = a" by auto
  show ?thesis using assms(1) r m
    by (auto simp: run_script_def main_run_def user_message_def)
qed

text \<open>Claim C29: when answering a quick question raises whatever the key, identity and
  history, the question stays pending, so the next run asks it again, whatever the interaction
  (another quick button apart, which replaces it): the run raises, shows only the question and
  an empty assistant bubble (a chat submission of that run is never handled), and the
  history, emptied first by the clear button, gains another copy of the question.\<close>

theorem quick_failure_repeats:
  assumes "\<forall>k c d ms. \<exists>e. snd (handle_query (env\<lparr>env_api_key := k\<rparr>) c d ms (quick_text b)) = Inl e"
    and "\<forall>b'. ev = Quick b' \<longrightarrow> b' = b"
  shows "let (s1, bs1, e1) = run_script env s (Quick b); (s2, bs2, e2) = run_script env s1 ev in
    e1 \<noteq> None \<and> e2 \<noteq> None \<and> ss_pending s2 = Some (quick_text b) \<and>
    ss_messages s2 = (if ev = ClearHistory then [] else ss_messages s @ [user_message (quick_text b)]) @
      [user_message (quick_text b)] \<and>
    bs2 = [Bubble User (quick_text b), Bubble Assistant []]"
proof -
  let ?q = "quick_text b"
  have fails: "\<And>t. \<exists>e. snd (handle_query (with_key env t) (ss_college t) (ss_degree t) (ss_messages t) ?q) = Inl e"
    using assms(1) by (simp add: with_key_def)
  obtain s0 where r0: "run_script env s (Quick b) = main_run env s0 None" and p0: "ss_pending s0 = Some ?q"
    and m0: "ss_messages s0 = ss_messages s"
    using run_script_main [of env s "Quick b"] by auto
  obtain e1 where e1: "snd (handle_query (with_key env s0) (ss_college s0) (ss_degree s0) (ss_messages s0) ?q) = Inl e1"
    using fails by blast
  let ?s1 = "s0\<lparr>ss_messages := ss_messages s @ [user_message ?q]\<rparr>"
  have r1: "run_script env s (Quick b) = (?s1, [Bubble User ?q, Bubble Assistant []], Some e1)"
    using main_run_pending_fail [OF p0 quick_text_ne e1] r0 m0 by simp
  obtain s1' where r1': "run_script env ?s1 ev = main_run env s1' (case ev of Chat p \<Rightarrow> Some p | _ \<Rightarrow> None)"
    and p1: "ss_pending s1' = Some ?q"
    and m1: "ss_messages s1' = (if ev = ClearHistory then [] else ss_messages s @ [user_message ?q])"
    using run_script_main [of env ?s1 ev] assms(2) p0 by (cases ev) auto
  obtain e2 where e2: "snd (handle_query (with_key env s1') (ss_college s1') (ss_degree s1') (ss_messages s1') ?q) = Inl e2"
    using fails by blast
  show ?thesis
    using main_run_pending_fail [OF p1 quick_text_ne e2] r1 r1' m1 p1 by simp
qed

text \<open>Claim C31: the history loop renders one map for each message whose
  buildings \<^verbatim>\<open>create_map\<close> can place, when the toggle is on, and none when it is off.\<close>

theorem history_maps_toggle:
  "map_count (history_bubbles idx maps_on msgs) =
     (if maps_on then length (filter (\<lambda>m. msg_buildings m \<noteq> [] \<and> create_map idx (msg_buildings m) True 16 \<noteq> None) msgs)
      else 0)"
  by (induction msgs) (simp_all add: history_bubbles_def map_count_history_view)

subsection \<open>The model listing\<close>

lemma print_models_content: "print_models ms = map ModelLine (content_models ms)"
  by (induction ms) (simp_all add: content_models_def)

text \<open>Claim C32: when the sidebar's listing button shows a list of model names, the script
  \<^verbatim>\<open>list_models.py\<close> run with the same key and client prints, after its header, exactly those
  names in the same order, and ends normally: its printing loop and the sidebar's comprehension
  select the same models. When the iteration raises part-way, the sidebar shows only the error
  while the script has already printed the names yielded before it.\<close>

theorem list_models_agree:
  assumes "ss_api_key s = config_api_key getenv"
  shows "(last (sidebar_view ga s ListModels) = ModelNames ns \<longrightarrow>
            list_models_script getenv ga = (AvailableModels # map ModelLine ns, None)) \<and>
         (config_api_key getenv \<noteq> [] \<and> ga_configure ga (config_api_key getenv) = None \<and>
          ga_list_models ga (config_api_key getenv) = (ms, Some e) \<longrightarrow>
            last (sidebar_view ga s ListModels) = ListError \<and>
            list_models_script getenv ga = (AvailableModels # map ModelLine (content_models ms) @ [ListingError], None))"
  using assms
  by (auto simp: list_models_script_def sidebar_view_def config_api_key_def print_models_content Let_def
      split: option.splits prod.splits)

section \<open>Instances\<close>

lemma session_turns_ok_witness:
  "turns_ok (ss_messages (fst (run_script offline_env (initial_session []) (Chat (asc ''hi'')))))"
  by (rule session_turns_ok [OF reachable.run [OF reachable.start]]) (simp add: initial_session_def)

lemma quick_failure_repeats_witness:
  "let (s1, bs1, e1) = run_script failing_env (initial_session []) (Quick LibraryHours);
       (s2, bs2, e2) = run_script failing_env s1 (Chat (asc ''hi'')) in
   ss_messages s2 = [user_message (quick_text LibraryHours), user_message (quick_text LibraryHours)] \<and>
   bs2 = [Bubble User (quick_text LibraryHours), Bubble Assistant []]"
proof -
  have "\<forall>k c d ms. \<exists>e. snd (handle_query (failing_env\<lparr>env_api_key := k\<rparr>) c d ms (quick_text LibraryHours)) = Inl e"
    by (simp add: handle_query_def failing_env_def retrieve_def Let_def)
  moreover have "\<forall>b'. Chat (asc ''hi'') = Quick b' \<longrightarrow> b' = LibraryHours" by simp
  ultimately show ?thesis
    using quick_failure_repeats [of failing_env LibraryHours "Chat (asc ''hi'')" "initial_session []"]
    by (simp add: initial_session_def split: prod.splits)
qed

lemma quick_question_shown_twice_witness:
  "chat_bubbles (fst (snd (run_script empty_env (initial_session []) (Quick Transcript)))) =
     [Bubble User (quick_text Transcript), Bubble Assistant no_key_notice,
      Bubble User (quick_text Transcript), Bubble Assistant no_key_notice]"
proof -
  have h: "snd (handle_query (with_key empty_env (initial_session [])) (ss_college (initial_session []))
      (ss_degree (initial_session [])) (ss_messages (initial_session [])) (quick_text Transcript)) =
      Inr (Some (no_key_notice, [], None))"
    by (simp add: handle_query_def empty_env_def with_key_def initial_session_def retrieve_def retrieve_with_priority_def
        rewrite_query_with_context_def stage1_unit_names_def stage1_unit_ids_def rerank_with_intent_def
        extract_buildings_from_metadata_def Let_def)
  let ?r = "run_script empty_env (initial_session []) (Quick Transcript)"
  have r: "?r = (fst ?r, fst (snd ?r), snd (snd ?r))" by simp
  from quick_question_shown_twice [OF r h] show ?thesis
    by (simp add: initial_session_def)
qed

definition sample_genai :: genai where
  "sample_genai = \<lparr>ga_configure = \<lambda>k. None,
     ga_list_models = \<lambda>k. ([(asc ''models/gemini-flash-latest'', [asc ''generateContent'', asc ''countTokens'']),
       (asc ''models/embedding-001'', [asc ''embedContent''])], Some ValueError)\<rparr>"

lemma list_models_agree_witness:
  "list_models_script (Some (asc ''k'')) sample_genai =
     ([AvailableModels, ModelLine (asc ''models/gemini-flash-latest''), ListingError], None) \<and>
   last (sidebar_view sample_genai (initial_session (asc ''k'')) ListModels) = ListError"
proof -
  have "ss_api_key (initial_session (asc ''k'')) = config_api_key (Some (asc ''k''))"
    by (simp add: initial_session_def config_api_key_def)
  from list_models_agree [OF this, of sample_genai _ "fst (ga_list_models sample_genai (asc ''k''))" ValueError]
  show ?thesis
    by (simp add: sample_genai_def content_models_def generate_content_def config_api_key_def asc_def)
qed

end
