(* ===== verification/Pipeline.thy ===== *)
theory Pipeline
  imports LibScraper SiteScrapers AdminScraper ChunkBuilder
begin

text \<open>
  The data pipeline between the scrapers and the chunk builder: \<^verbatim>\<open>src/main.py\<close>, which
  selects the scrapers of a department and runs them one after the other, catching what each
  raises; the output directory each scraper writes to (\<^verbatim>\<open>BaseScraper.__init__\<close>); and
  \<^verbatim>\<open>DataProcessor.load_json_files\<close>, which walks the data directory, loads every
  \<^verbatim>\<open>.information.json\<close> file and labels its items with a department read off the
  directory. The web, the browser and the directory walk are parameters; the files are the
  JSON writes of the runs' events, the last write to a path being what is read back.
\<close>

section \<open>Paths\<close>

text \<open>\<^verbatim>\<open>os.path.join(a, b)\<close> on POSIX, for two parts.\<close>

definition py_path_join :: "pystr \<Rightarrow> pystr \<Rightarrow> pystr" where
  "py_path_join a b = (if starts_with b [47] then b else if a = [] \<or> last a = 47 then a @ b else a @ [47] @ b)"

text \<open>\<open>s.strip(chars)\<close> and \<open>s.endswith(suffix)\<close>.\<close>

definition py_strip_chars :: "pystr \<Rightarrow> pystr \<Rightarrow> pystr" where
  "py_strip_chars cs s = rev (lstrip_chars cs (rev (lstrip_chars cs s)))"

definition ends_with :: "pystr \<Rightarrow> pystr \<Rightarrow> bool" where
  "ends_with s p \<longleftrightarrow> length p \<le> length s \<and> drop (length s - length p) s = p"

section \<open>The scraper manager\<close>

text \<open>The scrapers \<^verbatim>\<open>main.py\<close> registers, in its order, and their departments.\<close>

datatype dept = ACA | OSA | LIB | OGA | ADMIN

definition dept_name :: "dept \<Rightarrow> pystr" where
  "dept_name d = (case d of ACA \<Rightarrow> asc ''aca'' | OSA \<Rightarrow> asc ''osa'' | LIB \<Rightarrow> asc ''lib'' | OGA \<Rightarrow> asc ''oga''
     | ADMIN \<Rightarrow> asc ''admin'')"

definition registered :: "dept list" where
  "registered = [ACA, OSA, LIB, OGA, ADMIN]"

text \<open>\<^verbatim>\<open>if args.dept in [name, "all"]\<close> for each scraper in turn; \<^verbatim>\<open>--dept\<close> defaults
  to \<^verbatim>\<open>all\<close>.\<close>

definition select_scrapers :: "pystr \<Rightarrow> dept list" where
  "select_scrapers arg = filter (\<lambda>d. arg = dept_name d \<or> arg = asc ''all'') registered"

definition cli_dept :: "pystr option \<Rightarrow> pystr" where
  "cli_dept a = (case a of None \<Rightarrow> asc ''all'' | Some x \<Rightarrow> x)"

text \<open>\<^verbatim>\<open>BaseScraper.__init__\<close>: the output directory \<^verbatim>\<open>os.path.join(output_dir,
  department)\<close>, where the admin scraper passes \<^verbatim>\<open>data/admin\<close> and the others keep
  \<^verbatim>\<open>data\<close>.\<close>

definition output_dir :: "dept \<Rightarrow> pystr" where
  "output_dir d = (if d = ADMIN then asc ''data/admin'' else asc ''data'')"

definition base_output_path :: "dept \<Rightarrow> pystr" where
  "base_output_path d = py_path_join (output_dir d) (dept_name d)"

text \<open>What \<^verbatim>\<open>main.py\<close> prints that matters: that no scraper matched, the departments it
  starts, and each scraper whose run raised, with the exception.\<close>

datatype log = NoScrapers pystr | Starting "pystr list" | Critical pystr py_error

text \<open>The loop over the selected scrapers: each run's events, and a critical line for a run
  that raised; the loop goes on either way.\<close>

primrec manager_loop :: "(dept \<Rightarrow> event list \<times> py_error option) \<Rightarrow> dept list \<Rightarrow> log list \<times> event list" where
  "manager_loop run [] = ([], [])"
| "manager_loop run (d # ds) =
     (let (ev, e) = run d; (ls, evs) = manager_loop run ds in
      ((case e of None \<Rightarrow> [] | Some x \<Rightarrow> [Critical (dept_name d) x]) @ ls, ev @ evs))"

definition scraper_main :: "pystr option \<Rightarrow> (dept \<Rightarrow> event list \<times> py_error option) \<Rightarrow> log list \<times> event list" where
  "scraper_main arg run =
     (let sel = select_scrapers (cli_dept arg) in
      if sel = [] then ([NoScrapers (cli_dept arg)], [])
      else let (ls, evs) = manager_loop run sel in (Starting (map dept_name sel) # ls, evs))"

text \<open>The services the five scrapers use: the two fetchers, the browser (absent, failing to
  launch, or running) with the page visits and URL resolution of the Academic Affairs
  scraper, the pages and URL resolution of the Student Affairs and library scrapers, the
  library's URL check, and the admin scraper's page parser.\<close>

record web =
  web_req :: "pystr \<Rightarrow> fetch_result"
  web_play :: "pystr \<Rightarrow> fetch_result"
  web_browser :: "(pystr + unit) option"
  web_aca_visit :: "pystr \<Rightarrow> aca_visit"
  web_aca_join :: "pystr \<Rightarrow> py_error + pystr"
  web_osa_get :: "pystr \<Rightarrow> pystr + osa_cell list list list"
  web_osa_join :: "pystr \<Rightarrow> pystr \<Rightarrow> py_error + pystr"
  web_lib_get :: "pystr \<Rightarrow> pystr + (pystr \<times> pystr) list"
  web_lib_ok :: "pystr \<Rightarrow> bool"
  web_lib_join :: "pystr \<Rightarrow> py_error + pystr"
  web_admin_get :: "pystr \<Rightarrow> pystr + dom list"

text \<open>\<^verbatim>\<open>scraper.run(max_items=args.limit)\<close> for each scraper, in its output directory.\<close>

definition scraper_run :: "web \<Rightarrow> int option \<Rightarrow> dept \<Rightarrow> event list \<times> py_error option" where
  "scraper_run w max_items d =
     (case d of
        ACA \<Rightarrow> base_run (dept_name ACA) (base_output_path ACA)
                 (aca_fetch_links (web_browser w) (web_aca_visit w) (web_aca_join w)) (web_req w) (web_play w) max_items
      | OSA \<Rightarrow> base_run (dept_name OSA) (base_output_path OSA)
                 (Inr (osa_fetch_links (web_osa_get w) (web_osa_join w))) (web_req w) (web_play w) max_items
      | LIB \<Rightarrow> (let (ev, e, r) = lib_run (base_output_path LIB)
                    (lib_fetch_links (web_lib_get w) (web_lib_ok w) (web_lib_join w)) (web_req w) (web_play w) max_items
               in (ev, e))
      | OGA \<Rightarrow> base_run (dept_name OGA) (base_output_path OGA) (Inr oga_links) (web_req w) (web_play w) max_items
      | ADMIN \<Rightarrow> (let (ev, e, r) = admin_run (base_output_path ADMIN) (web_admin_get w) in (ev, e)))"

section \<open>Loading the scraped files\<close>

text \<open>The department of a directory \<open>dirpath\<close> the walk yields: every occurrence of the data
  directory's name removed (\<^verbatim>\<open>str.replace\<close>), separators stripped at both ends, the first
  component, or \<^verbatim>\<open>unknown\<close> when it is empty.\<close>

definition walk_dept :: "pystr \<Rightarrow> pystr \<Rightarrow> pystr" where
  "walk_dept data_dir dirpath =
     (let parts = split_char 47 (py_strip_chars [47] (py_replace data_dir [] dirpath)) in
      if parts = [] \<or> hd parts = [] then asc ''unknown'' else hd parts)"

definition info_suffix :: pystr where
  "info_suffix = asc ''.information.json''"

text \<open>An item of a scraped JSON file as the processor reads it: the title and URL of the
  link, the department the loader assigned, and the success and content of the result
  (\<^verbatim>\<open>scraped.get(...)\<close>, false and empty without one).\<close>

definition json_raw :: "pystr \<Rightarrow> link_item \<times> fetch_result option \<Rightarrow> raw_item" where
  "json_raw dept x =
     (case x of (it, r) \<Rightarrow>
       \<lparr>ri_title = (case map_of it (asc ''title'') of Some (FStr t) \<Rightarrow> t | _ \<Rightarrow> []),
        ri_url = item_url it, ri_department = dept,
        ri_success = (case r of Some s \<Rightarrow> fr_success s | None \<Rightarrow> False),
        ri_content = (case r of Some s \<Rightarrow> fr_content s | None \<Rightarrow> [])\<rparr>)"

text \<open>One file of the walk: an information file is read (a file that fails to load is
  skipped) and its items labelled; other files are ignored.\<close>

definition load_file ::
    "pystr \<Rightarrow> (pystr \<Rightarrow> 'e + (link_item \<times> fetch_result option) list) \<Rightarrow> pystr \<Rightarrow> pystr \<Rightarrow> raw_item list" where
  "load_file data_dir read dirpath f =
     (if ends_with f info_suffix then
        (case read (py_path_join dirpath f) of Inl e \<Rightarrow> [] | Inr data \<Rightarrow> map (json_raw (walk_dept data_dir dirpath)) data)
      else [])"

definition load_json_files ::
    "pystr \<Rightarrow> (pystr \<times> pystr list) list \<Rightarrow> (pystr \<Rightarrow> 'e + (link_item \<times> fetch_result option) list) \<Rightarrow> raw_item list" where
  "load_json_files data_dir walk read = concat (map (\<lambda>(dirpath, files). concat (map (load_file data_dir read dirpath) files)) walk)"

text \<open>The JSON files a sequence of events leaves: the last write to each path.\<close>

definition fs_write :: "event \<Rightarrow> (pystr \<rightharpoonup> (link_item \<times> fetch_result option) list) \<Rightarrow> pystr \<rightharpoonup> (link_item \<times> fetch_result option) list" where
  "fs_write e fs = (case e of Write (JsonFile p d) \<Rightarrow> fs(p \<mapsto> d) | _ \<Rightarrow> fs)"

definition fs_of :: "event list \<Rightarrow> pystr \<rightharpoonup> (link_item \<times> fetch_result option) list" where
  "fs_of evs = fold fs_write evs Map.empty"

definition fs_read :: "(pystr \<rightharpoonup> (link_item \<times> fetch_result option) list) \<Rightarrow> pystr \<Rightarrow> unit + (link_item \<times> fetch_result option) list" where
  "fs_read fs p = (case fs p of None \<Rightarrow> Inl () | Some d \<Rightarrow> Inr d)"

definition file_path :: "file_out \<Rightarrow> pystr" where
  "file_path f = (case f of JsonFile p d \<Rightarrow> p | CsvFile p h rs \<Rightarrow> p)"

text \<open>The two files \<^verbatim>\<open>_save_data\<close> writes for a file name.\<close>

definition save_paths :: "pystr \<Rightarrow> pystr \<Rightarrow> pystr set" where
  "save_paths base name = {base @ [47] @ name @ asc ''.json'', base @ [47] @ name @ asc ''.csv''}"

section \<open>Sample inputs\<close>

text \<open>A web where every fetch gives the same good page and the listing pages have no links.\<close>

definition sample_web :: web where
  "sample_web = \<lparr>web_req = \<lambda>u. sample_page, web_play = \<lambda>u. sample_page, web_browser = None,
     web_aca_visit = \<lambda>p. Listing [], web_aca_join = \<lambda>u. Inr u, web_osa_get = \<lambda>u. Inr [],
     web_osa_join = \<lambda>b u. Inr u, web_lib_get = \<lambda>u. Inr [], web_lib_ok = \<lambda>u. True, web_lib_join = \<lambda>u. Inr u,
     web_admin_get = \<lambda>u. Inr []\<rparr>"

text \<open>Runs where the library scraper raises and every other one fetches one page.\<close>

definition failing_lib_run :: "dept \<Rightarrow> event list \<times> py_error option" where
  "failing_lib_run d = (if d = LIB then ([], Some ValueError) else ([Fetch Requests (dept_name d)], None))"

section \<open>Properties\<close>

subsection \<open>Where the runs write\<close>

lemma save_data_writes:
  "save_data base data name = (evs, e) \<Longrightarrow> Write w \<in> set evs \<Longrightarrow> file_path w \<in> save_paths base name"
  by (auto simp: save_data_def write_csv_def Let_def file_path_def save_paths_def split: prod.splits if_splits)

lemma scrape_item_no_write: "Write w \<notin> set (snd (scrape_item req play it))"
  by (auto simp: scrape_item_def Let_def split: prod.splits)

lemma base_run_writes:
  "Write w \<in> set (fst (base_run dept base links0 req play m)) \<Longrightarrow>
     file_path w \<in> save_paths base (dept @ asc ''.service_link'') \<union> save_paths base (dept @ asc ''.information'')"
  by (auto simp: base_run_def Let_def scrape_item_no_write split: sum.splits prod.splits if_splits
      dest: save_data_writes)

lemma lib_run_writes:
  "Write w \<in> set (fst (lib_run base links0 req play m)) \<Longrightarrow>
     file_path w \<in> save_paths base (asc ''lib.service_link'') \<union> save_paths base (asc ''lib.information'')"
  by (auto simp: lib_run_def Let_def split: prod.splits if_splits dest: save_data_writes)

lemma admin_run_writes:
  "Write w \<in> set (fst (admin_run base get)) \<Longrightarrow> file_path w \<in> save_paths base (asc ''admin.information'')"
  by (auto simp: admin_run_def Let_def split: prod.splits dest: save_data_writes)


lemma scraper_run_writes:
  assumes "Write x \<in> set (fst (scraper_run w max_items d))"
  shows "\<exists>n. file_path x = base_output_path d @ [47] @ n \<and> 47 \<notin> set n"
  using assms
proof (cases d)
  case LIB
  then have "Write x \<in> set (fst (lib_run (base_output_path LIB) (lib_fetch_links (web_lib_get w) (web_lib_ok w)
      (web_lib_join w)) (web_req w) (web_play w) max_items))"
    using assms by (simp add: scraper_run_def case_prod_beta)
  then show ?thesis using LIB by (auto dest!: lib_run_writes simp: save_paths_def pystr_eval)
next
  case ADMIN
  then have "Write x \<in> set (fst (admin_run (base_output_path ADMIN) (web_admin_get w)))"
    using assms by (simp add: scraper_run_def case_prod_beta)
  then show ?thesis using ADMIN by (auto dest!: admin_run_writes simp: save_paths_def pystr_eval)
qed (auto simp: scraper_run_def dept_name_def dest!: base_run_writes simp: save_paths_def pystr_eval)

subsection \<open>The loader\<close>

lemma split_sep:
  "xs @ c # ys = us @ c # vs \<Longrightarrow> c \<notin> set ys \<Longrightarrow> c \<notin> set vs \<Longrightarrow> xs = us \<and> ys = vs"
proof (induction ys arbitrary: vs rule: rev_induct)
  case Nil
  then show ?case by (cases vs rule: rev_cases) auto
next
  case (snoc y ys)
  then show ?case by (cases vs rule: rev_cases) auto
qed

lemma walk_dept_base: "walk_dept (asc ''data'') (base_output_path d) = dept_name d"
  by (cases d) (simp_all add: walk_dept_def base_output_path_def output_dir_def dept_name_def py_path_join_def
      py_strip_chars_def starts_with_def pystr_eval)

lemma fs_write_Some: "fs_write e m p = Some d \<Longrightarrow> m p = Some d \<or> e = Write (JsonFile p d)"
  by (auto simp: fs_write_def split: event.splits file_out.splits if_splits)

lemma fold_fs_Some: "fold fs_write evs m p = Some d \<Longrightarrow> m p = Some d \<or> Write (JsonFile p d) \<in> set evs"
proof (induction evs arbitrary: m)
  case (Cons e evs)
  then have "fs_write e m p = Some d \<or> Write (JsonFile p d) \<in> set evs" by simp
  then show ?case using fs_write_Some by auto
qed simp

lemma fs_of_Some: "fs_of evs p = Some d \<Longrightarrow> Write (JsonFile p d) \<in> set evs"
  using fold_fs_Some [of evs Map.empty p d] by (simp add: fs_of_def)

lemma manager_loop_events: "snd (manager_loop run ds) = concat (map (\<lambda>d. fst (run d)) ds)"
  by (induction ds) (simp_all add: case_prod_beta)

lemma manager_loop_logs:
  "fst (manager_loop run ds) = concat (map (\<lambda>d. case snd (run d) of None \<Rightarrow> [] | Some x \<Rightarrow> [Critical (dept_name d) x]) ds)"
  by (induction ds) (simp_all add: case_prod_beta)

lemma scraper_main_events: "snd (scraper_main arg run) = concat (map (\<lambda>d. fst (run d)) (select_scrapers (cli_dept arg)))"
  by (simp add: scraper_main_def Let_def manager_loop_events case_prod_beta)

lemma py_path_join_sep:
  "dirpath \<noteq> [] \<Longrightarrow> last dirpath \<noteq> 47 \<Longrightarrow> 47 \<notin> set f \<Longrightarrow> py_path_join dirpath f = dirpath @ [47] @ f"
  by (cases f) (auto simp: py_path_join_def starts_with_def)

lemma load_file_mem:
  assumes "r \<in> set (load_file dd rd dirpath f)"
  shows "\<exists>data. rd (py_path_join dirpath f) = Inr data \<and> r \<in> set (map (json_raw (walk_dept dd dirpath)) data)"
proof (cases "ends_with f info_suffix")
  case True
  then show ?thesis using assms by (cases "rd (py_path_join dirpath f)") (simp_all add: load_file_def)
next
  case False
  then show ?thesis using assms by (simp add: load_file_def)
qed

text \<open>Claim C26: whatever the web returns, every item the processor loads
  from the tree \<^verbatim>\<open>main.py\<close> left under \<^verbatim>\<open>data\<close> carries the department of the selected
  scraper whose run wrote that file: each scraper writes only in its own output directory
  (\<^verbatim>\<open>data/admin/admin\<close> for the admin scraper), and the loader reads the department off
  that directory.\<close>

theorem pipeline_departments:
  assumes "r \<in> set (load_file (asc ''data'') (fs_read (fs_of (snd (scraper_main arg (scraper_run w max_items))))) dirpath f)"
    and "47 \<notin> set f" "dirpath \<noteq> []" "last dirpath \<noteq> 47"
  shows "\<exists>d\<in>set (select_scrapers (cli_dept arg)). ri_department r = dept_name d \<and>
    (\<exists>data. Write (JsonFile (dirpath @ [47] @ f) data) \<in> set (fst (scraper_run w max_items d)))"
proof -
  let ?evs = "snd (scraper_main arg (scraper_run w max_items))"
  have p: "py_path_join dirpath f = dirpath @ [47] @ f" using assms(2-4) by (simp add: py_path_join_sep)
  obtain data where fs: "fs_read (fs_of ?evs) (dirpath @ [47] @ f) = Inr data"
    and r: "r \<in> set (map (json_raw (walk_dept (asc ''data'') dirpath)) data)"
    using load_file_mem [OF assms(1)] p by auto
  then have fs: "fs_of ?evs (dirpath @ [47] @ f) = Some data"
    by (simp add: fs_read_def split: option.splits)
  obtain d where d: "d \<in> set (select_scrapers (cli_dept arg))"
    and wr: "Write (JsonFile (dirpath @ [47] @ f) data) \<in> set (fst (scraper_run w max_items d))"
    using fs_of_Some [OF fs] by (auto simp: scraper_main_events)
  obtain n where "dirpath @ [47] @ f = base_output_path d @ [47] @ n" "47 \<notin> set n"
    using scraper_run_writes [OF wr] by (auto simp: file_path_def)
  then have "dirpath = base_output_path d" using assms(2) split_sep by fastforce
  then have "ri_department r = dept_name d"
    using r by (auto simp: json_raw_def walk_dept_base split: prod.splits)
  then show ?thesis using d wr by blast
qed

subsection \<open>The manager\<close>

lemma dept_name_inj: "dept_name d = dept_name d' \<longleftrightarrow> d = d'"
  by (cases d; cases d') (simp_all add: dept_name_def pystr_eval)

lemma scraper_main_logs:
  "select_scrapers (cli_dept arg) \<noteq> [] \<Longrightarrow>
   fst (scraper_main arg run) = Starting (map dept_name (select_scrapers (cli_dept arg))) #
     concat (map (\<lambda>d. case snd (run d) of None \<Rightarrow> [] | Some x \<Rightarrow> [Critical (dept_name d) x]) (select_scrapers (cli_dept arg)))"
  by (simp add: scraper_main_def Let_def manager_loop_logs case_prod_beta)

text \<open>Claim C27: a scraper that raises does not stop the others: every
  selected scraper's run contributes all its events, in the order of registration, and the
  manager reports a critical failure for a scraper exactly when its run raised, with that
  exception.\<close>

theorem manager_isolates_failures:
  assumes "scraper_main arg run = (logs, evs)" "d \<in> set (select_scrapers (cli_dept arg))"
  shows "(\<exists>pre post. evs = pre @ fst (run d) @ post) \<and> (\<forall>e. Critical (dept_name d) e \<in> set logs \<longleftrightarrow> snd (run d) = Some e)"
proof
  obtain xs ys where sel: "select_scrapers (cli_dept arg) = xs @ d # ys" using assms(2) split_list by fastforce
  show "\<exists>pre post. evs = pre @ fst (run d) @ post"
    using assms(1) scraper_main_events [of arg run] by (auto simp: sel)
  have "select_scrapers (cli_dept arg) \<noteq> []" using assms(2) by auto
  then have logs: "logs = Starting (map dept_name (select_scrapers (cli_dept arg))) #
     concat (map (\<lambda>d. case snd (run d) of None \<Rightarrow> [] | Some x \<Rightarrow> [Critical (dept_name d) x]) (select_scrapers (cli_dept arg)))"
    using assms(1) scraper_main_logs [of arg run] by simp
  show "\<forall>e. Critical (dept_name d) e \<in> set logs \<longleftrightarrow> snd (run d) = Some e"
    using assms(2) by (auto simp: logs dept_name_inj split: option.splits)
qed

text \<open>\<^verbatim>\<open>--limit\<close> with a negative number scrapes all links but the last ones.\<close>

lemma negative_limit_drops: "n < 0 \<Longrightarrow> limit_links (Some n) xs = take (length xs - nat (- n)) xs"
proof -
  assume "n < 0"
  then have "nat (int (length xs) + n) = length xs - nat (- n)" by arith
  with \<open>n < 0\<close> show ?thesis by (simp add: limit_links_def py_prefix_def)
qed

text \<open>The loader removes the data directory's name wherever it occurs in the path: a
  department directory whose name contains it is read as another department.\<close>

lemma walk_dept_inner_occurrence: "walk_dept (asc ''data'') (asc ''data/bigdata'') = asc ''big''"
  by (simp add: walk_dept_def py_strip_chars_def starts_with_def pystr_eval)

lemma walk_dept_top: "walk_dept (asc ''data'') (asc ''data'') = asc ''unknown''"
  by (simp add: walk_dept_def py_strip_chars_def starts_with_def pystr_eval)

section \<open>Instances\<close>

lemma pipeline_departments_witness:
  "\<exists>d\<in>set (select_scrapers (cli_dept (Some (asc ''oga'')))).
     ri_department (json_raw (asc ''oga'') (hd oga_links, Some sample_page)) = dept_name d \<and>
     (\<exists>data. Write (JsonFile (asc ''data/oga'' @ [47] @ asc ''oga.information.json'') data)
        \<in> set (fst (scraper_run sample_web None d)))"
proof (rule pipeline_departments)
  show "json_raw (asc ''oga'') (hd oga_links, Some sample_page) \<in> set (load_file (asc ''data'')
      (fs_read (fs_of (snd (scraper_main (Some (asc ''oga'')) (scraper_run sample_web None)))))
      (asc ''data/oga'') (asc ''oga.information.json''))"
    by (simp add: load_file_def scraper_main_def select_scrapers_def registered_def cli_dept_def dept_name_def
        scraper_run_def sample_web_def base_run_def save_data_def write_csv_def Let_def fs_of_def fs_write_def
        fs_read_def scrape_item_def scrape_single_def good_result_def fr_length_def sample_page_def
        limit_links_def base_output_path_def output_dir_def py_path_join_def starts_with_def ends_with_def
        info_suffix_def walk_dept_def py_strip_chars_def item_url_def oga_links_def flatten_item_def pystr_eval)
qed (simp_all add: pystr_eval)


lemma manager_isolates_failures_witness:
  "(\<exists>pre post. snd (scraper_main None failing_lib_run) = pre @ [Fetch Requests (asc ''admin'')] @ post) \<and>
   (\<forall>e. Critical (asc ''lib'') e \<in> set (fst (scraper_main None failing_lib_run)) \<longleftrightarrow> e = ValueError)"
proof -
  have l: "LIB \<in> set (select_scrapers (cli_dept None))" "ADMIN \<in> set (select_scrapers (cli_dept None))"
    by (simp_all add: select_scrapers_def cli_dept_def registered_def)
  note m = manager_isolates_failures [where run = failing_lib_run and arg = None, OF prod.collapse [symmetric]]
  from m [OF l(1)] m [OF l(2)] show ?thesis
    by (auto simp: failing_lib_run_def dept_name_def)
qed

end
