(* ===== verification/Services.thy ===== *)
theory Services
  imports Answer
begin

text \<open>
  How the chat front end obtains its services, and how long they live: the configuration of
  \<^verbatim>\<open>src/config.py\<close> (the database path, the collection name, the Chroma client factory and
  the embedding wrapper), the constructor of \<^verbatim>\<open>EnhancedRAGEngine\<close> in
  \<^verbatim>\<open>src/rag_engine.py\<close> with its choice of embedding function, \<^verbatim>\<open>get_rag_engine\<close> of
  \<^verbatim>\<open>src/app.py\<close>, and the map service of \<^verbatim>\<open>src/map_service.py\<close> (its building data
  and its module-level singleton). Opening the collection, loading the model and calling the
  campus API are parameters. Streamlit's \<^verbatim>\<open>st.cache_resource\<close>, the singleton and
  \<^verbatim>\<open>lru_cache\<close> are one cache slot: the first call that returns fixes the value every
  later call of the process gets; a call that raises leaves the slot empty.
\<close>

section \<open>Configuration\<close>

definition chroma_db_path :: pystr where
  "chroma_db_path = asc ''./chroma_db''"

definition collection_name :: pystr where
  "collection_name = asc ''ntu_assistant''"

text \<open>\<^verbatim>\<open>x or default\<close> for an optional string: \<open>None\<close> and the empty string give the
  default.\<close>

definition or_default :: "pystr option \<Rightarrow> pystr \<Rightarrow> pystr" where
  "or_default x d = (case x of None \<Rightarrow> d | Some s \<Rightarrow> if s = [] then d else s)"

text \<open>\<^verbatim>\<open>get_chroma_client(db_path)\<close>: the path of the persistent client it opens, the
  configured one when the argument is \<open>None\<close>.\<close>

definition get_chroma_client :: "pystr option \<Rightarrow> pystr" where
  "get_chroma_client db = (case db of None \<Rightarrow> chroma_db_path | Some p \<Rightarrow> p)"

text \<open>\<^verbatim>\<open>get_embedding_model\<close> chooses CUDA when \<^verbatim>\<open>torch\<close> imports and reports a GPU, the
  CPU otherwise (\<open>None\<close>: the import failed).\<close>

definition embedding_device :: "bool option \<Rightarrow> pystr" where
  "embedding_device cuda = (case cuda of Some True \<Rightarrow> asc ''cuda'' | _ \<Rightarrow> asc ''cpu'')"

text \<open>\<^verbatim>\<open>BGEEmbeddingFunction\<close>: \<^verbatim>\<open>embed_query\<close> accepts one string or a list and returns
  one embedding or a list (\<^verbatim>\<open>embeddings[0]\<close> raises on an empty answer);
  \<^verbatim>\<open>embed_documents\<close> and a call encode the list. \<open>encode\<close> is the model.\<close>

datatype embed_input = EmbStr pystr | EmbList "pystr list"

datatype 'v embed_output = OneEmb 'v | ManyEmb "'v list"

definition embed_query :: "(pystr list \<Rightarrow> 'v list) \<Rightarrow> embed_input \<Rightarrow> py_error + 'v embed_output" where
  "embed_query encode x =
     (case x of
        EmbStr s \<Rightarrow> (case encode [s] of [] \<Rightarrow> Inl IndexError | e # es \<Rightarrow> Inr (OneEmb e))
      | EmbList ts \<Rightarrow> Inr (ManyEmb (encode ts)))"

definition embed_documents :: "(pystr list \<Rightarrow> 'v list) \<Rightarrow> pystr list \<Rightarrow> 'v list" where
  "embed_documents encode ts = encode ts"

section \<open>The engine\<close>

text \<open>The embedding function passed to the engine: none, a class (whose instantiation gives
  an instance or raises), or an instance; and what the collection is opened with: nothing,
  the class itself (when its instantiation raised), or an instance.\<close>

datatype 'f ef_arg = EFNone | EFClass "'f option" | EFObj 'f

datatype 'f ef_used = UseNone | UseClass | UseInst 'f

definition ef_instance :: "'f ef_arg \<Rightarrow> 'f ef_used" where
  "ef_instance ef = (case ef of EFNone \<Rightarrow> UseNone | EFClass (Some i) \<Rightarrow> UseInst i | EFClass None \<Rightarrow> UseClass
     | EFObj i \<Rightarrow> UseInst i)"

text \<open>\<^verbatim>\<open>EnhancedRAGEngine.__init__\<close> and \<^verbatim>\<open>_initialize_collection\<close>: the path and name
  default to the configuration, the client is opened at the path, and the collection is
  opened by name with the embedding function; \<open>get_collection\<close> (path, name, function)
  raises when the collection does not exist.\<close>

definition engine_init ::
    "(pystr \<Rightarrow> pystr \<Rightarrow> 'f ef_used \<Rightarrow> py_error + store) \<Rightarrow> pystr option \<Rightarrow> pystr option \<Rightarrow> 'f ef_arg \<Rightarrow> py_error + store" where
  "engine_init get_collection db name ef =
     get_collection (get_chroma_client (Some (or_default db chroma_db_path))) (or_default name collection_name) (ef_instance ef)"

text \<open>\<^verbatim>\<open>get_rag_engine\<close>: the embedding function is an instance of
  \<^verbatim>\<open>BGEEmbeddingFunction\<close> when the configuration imported (\<open>Some\<close>: its construction gives
  an instance or raises) and none otherwise; the engine at \<^verbatim>\<open>./chroma_db\<close>. The call's
  outcome: its \<^verbatim>\<open>except Exception\<close> turns every exception into the value \<open>None\<close>, so
  the call returns (\<open>Inr\<close>) in every case.\<close>

definition get_rag_engine ::
    "(pystr \<Rightarrow> pystr \<Rightarrow> 'f ef_used \<Rightarrow> py_error + store) \<Rightarrow> 'f option option \<Rightarrow> py_error + store option" where
  "get_rag_engine get_collection bge =
     (case bge of
        Some None \<Rightarrow> Inr None
      | _ \<Rightarrow> (let ef = (case bge of Some (Some i) \<Rightarrow> EFObj i | _ \<Rightarrow> EFNone) in
             case engine_init get_collection (Some (asc ''./chroma_db'')) (Some (asc ''ntu_assistant'')) ef of
               Inl e \<Rightarrow> Inr None
             | Inr st \<Rightarrow> Inr (Some st)))"

section \<open>The map service\<close>

text \<open>The \<^verbatim>\<open>data\<close> field of the campus API's JSON answer: absent, \<^verbatim>\<open>null\<close>, or a
  list of buildings.\<close>

datatype api_data = NoData | NullData | Buildings "building list"

text \<open>\<^verbatim>\<open>_load_buildings_data\<close>: the campus API's answer, or an exception (of the request,
  the status or the JSON decoding), which gives no buildings; \<^verbatim>\<open>data.get("data", [])\<close>
  gives no buildings without the key and \<^verbatim>\<open>None\<close> (\<open>None\<close> here) for \<^verbatim>\<open>null\<close>.\<close>

definition load_buildings_data :: "py_error + api_data \<Rightarrow> building list option" where
  "load_buildings_data resp =
     (case resp of Inl e \<Rightarrow> Some [] | Inr NoData \<Rightarrow> Some [] | Inr NullData \<Rightarrow> None | Inr (Buildings bs) \<Rightarrow> Some bs)"

text \<open>\<^verbatim>\<open>NTUMapService()\<close>: the data, then the name index built from it;
  \<^verbatim>\<open>_create_name_mapping\<close> iterates over the data, which raises \<^verbatim>\<open>TypeError\<close> on
  \<^verbatim>\<open>None\<close>, so the constructor raises.\<close>

definition map_service_init :: "py_error + api_data \<Rightarrow> py_error + (pystr \<times> building) list" where
  "map_service_init resp =
     (case load_buildings_data resp of None \<Rightarrow> Inl TypeError | Some bs \<Rightarrow> Inr (create_name_mapping bs))"

section \<open>Cached services\<close>

text \<open>A cache slot (\<^verbatim>\<open>st.cache_resource\<close>, the module-level \<^verbatim>\<open>_map_service_instance\<close>,
  \<^verbatim>\<open>lru_cache(maxsize=1)\<close> of a function without arguments): a call computes the outcome
  in the state of the world at that call only when the slot is empty, and fills the slot only
  when the computation returns; an exception leaves the slot empty and propagates.\<close>

definition cached_call :: "('w \<Rightarrow> py_error + 'a) \<Rightarrow> 'a option \<Rightarrow> 'w \<Rightarrow> (py_error + 'a) \<times> 'a option" where
  "cached_call f slot w =
     (case slot of Some v \<Rightarrow> (Inr v, slot) | None \<Rightarrow> (case f w of Inl e \<Rightarrow> (Inl e, None) | Inr v \<Rightarrow> (Inr v, Some v)))"

text \<open>The outcomes of successive calls, one per state of the world.\<close>

fun cached_calls :: "('w \<Rightarrow> py_error + 'a) \<Rightarrow> 'a option \<Rightarrow> 'w list \<Rightarrow> (py_error + 'a) list" where
  "cached_calls f slot [] = []"
| "cached_calls f slot (w # ws) = (let (v, slot') = cached_call f slot w in v # cached_calls f slot' ws)"

text \<open>The engine and the map index each query of a process sees: \<^verbatim>\<open>get_rag_engine\<close>
  and \<^verbatim>\<open>get_map_service_cached\<close> (over \<^verbatim>\<open>get_map_service\<close>) under their caches, the
  database and the campus API changing between queries.\<close>

definition process_engines ::
    "('w \<Rightarrow> pystr \<Rightarrow> pystr \<Rightarrow> 'f ef_used \<Rightarrow> py_error + store) \<Rightarrow> 'f option option \<Rightarrow> 'w list \<Rightarrow>
     (py_error + store option) list" where
  "process_engines db bge ws = cached_calls (\<lambda>w. get_rag_engine (db w) bge) None ws"

text \<open>\<^verbatim>\<open>get_map_service_cached\<close>: Streamlit's slot over the module's singleton slot.\<close>

type_synonym map_index = "(pystr \<times> building) list"

definition get_map_service_cached ::
    "('w \<Rightarrow> py_error + api_data) \<Rightarrow> map_index option \<times> map_index option \<Rightarrow> 'w \<Rightarrow>
     (py_error + map_index) \<times> map_index option \<times> map_index option" where
  "get_map_service_cached api slots w =
     (case slots of (Some v, inner) \<Rightarrow> (Inr v, slots)
      | (None, inner) \<Rightarrow>
          (let (r, inner') = cached_call (\<lambda>w. map_service_init (api w)) inner w in
           (case r of Inl e \<Rightarrow> (Inl e, None, inner') | Inr v \<Rightarrow> (Inr v, Some v, inner'))))"

fun process_indexes ::
    "('w \<Rightarrow> py_error + api_data) \<Rightarrow> map_index option \<times> map_index option \<Rightarrow> 'w list \<Rightarrow> (py_error + map_index) list" where
  "process_indexes api slots [] = []"
| "process_indexes api slots (w # ws) =
     (let (v, slots') = get_map_service_cached api slots w in v # process_indexes api slots' ws)"

section \<open>Sample inputs\<close>

text \<open>A campus API that fails at the first query and answers afterwards, and one whose first
  answer has \<^verbatim>\<open>"data": null\<close>.\<close>

definition flaky_api :: "nat \<Rightarrow> py_error + api_data" where
  "flaky_api w = (if w = 0 then Inl StoreError else Inr (Buildings [admin_building]))"

definition null_api :: "nat \<Rightarrow> py_error + api_data" where
  "null_api w = (if w = 0 then Inr NullData else Inr (Buildings [admin_building]))"

section \<open>Properties\<close>

lemma cached_calls_Some: "cached_calls f (Some v) ws = replicate (length ws) (Inr v)"
  by (induction ws) (simp_all add: cached_call_def)

lemma process_indexes_Some: "process_indexes api (Some v, inner) ws = replicate (length ws) (Inr v)"
  by (induction ws) (simp_all add: get_map_service_cached_def)

lemma cached_calls_first_returns:
  "f w = Inr v \<Longrightarrow> cached_calls f None (w # ws) = replicate (Suc (length ws)) (Inr v)"
  by (simp add: cached_call_def cached_calls_Some)

lemma get_rag_engine_outcome:
  "get_rag_engine gc bge =
     Inr (if bge = Some None then None
          else case gc chroma_db_path collection_name (case bge of Some (Some i) \<Rightarrow> UseInst i | _ \<Rightarrow> UseNone) of
                 Inl e \<Rightarrow> None | Inr st \<Rightarrow> Some st)"
  by (simp add: get_rag_engine_def engine_init_def ef_instance_def or_default_def get_chroma_client_def
      chroma_db_path_def collection_name_def split: option.split sum.split)

text \<open>Claim C33: every query of a process gets the engine outcome of its first query, and
  that outcome is \<open>None\<close> exactly when, at the first query, the embedding model could not be
  built or the collection could not be opened. Because \<^verbatim>\<open>get_rag_engine\<close> catches the
  exception and returns \<open>None\<close>, the cache keeps the failure: every later query runs without
  an engine, even once the database exists.\<close>

theorem process_engine_fixed:
  "\<exists>v. process_engines db bge (w # ws) = replicate (Suc (length ws)) (Inr v) \<and>
     (v = None \<longleftrightarrow> bge = Some None \<or>
        (\<exists>e. db w chroma_db_path collection_name (case bge of Some (Some i) \<Rightarrow> UseInst i | _ \<Rightarrow> UseNone) = Inl e))"
proof -
  let ?u = "case bge of Some (Some i) \<Rightarrow> UseInst i | _ \<Rightarrow> UseNone"
  let ?v = "if bge = Some None then None else case db w chroma_db_path collection_name ?u of Inl e \<Rightarrow> None | Inr st \<Rightarrow> Some st"
  have a: "process_engines db bge (w # ws) = replicate (Suc (length ws)) (Inr ?v)"
    unfolding process_engines_def by (rule cached_calls_first_returns) (rule get_rag_engine_outcome)
  have b: "?v = None \<longleftrightarrow> bge = Some None \<or> (\<exists>e. db w chroma_db_path collection_name ?u = Inl e)"
    by (auto split: sum.split)
  show ?thesis by (rule exI [of _ ?v], rule conjI [OF a b])
qed

lemma create_map_empty_index: "create_map [] names c z = None"
  by (simp add: create_map_def get_building_coordinates_def List.map_filter_def)

text \<open>Claim C34: when the campus API fails, or answers without data, at the
  first query that needs the map service, the name index stays empty for the process: no
  later answer or history entry gets a map.\<close>

theorem map_failure_no_maps:
  assumes "load_buildings_data (api w) = Some []" "Inr idx \<in> set (process_indexes api (None, None) (w # ws))"
  shows "create_map idx names c z = None"
proof -
  have "map_service_init (api w) = Inr []"
    using assms(1) by (simp add: map_service_init_def create_name_mapping_def)
  then have "idx = []"
    using assms(2) by (auto simp: get_map_service_cached_def cached_call_def process_indexes_Some)
  then show ?thesis by (simp add: create_map_empty_index)
qed

text \<open>Claim C35: an answer with \<^verbatim>\<open>"data": null\<close> makes the map service's constructor raise
  \<^verbatim>\<open>TypeError\<close>; neither cache keeps an exception, so the query raises and the next query
  starts again from empty caches, calling the campus API again.\<close>

theorem map_null_data_retried:
  assumes "api w = Inr NullData"
  shows "process_indexes api (None, None) (w # ws) = Inl TypeError # process_indexes api (None, None) ws"
  using assms by (simp add: get_map_service_cached_def cached_call_def map_service_init_def load_buildings_data_def)

text \<open>Without the embedding model the engine is not built, whether or not the collection
  exists.\<close>

lemma model_failure_no_engine: "get_rag_engine get_collection (Some None) = Inr None"
  by (simp add: get_rag_engine_def)

lemma embed_query_single:
  "length (encode [s]) = 1 \<Longrightarrow> embed_query encode (EmbStr s) = Inr (OneEmb (hd (embed_documents encode [s])))"
  by (cases "encode [s]") (simp_all add: embed_query_def embed_documents_def)

section \<open>Instances\<close>

lemma map_failure_no_maps_witness:
  "create_map [] [asc ''x''] True 16 = None \<and> process_indexes flaky_api (None, None) [0, 1] = [Inr [], Inr []]"
proof -
  have g: "get_map_service_cached flaky_api (None, None) 0 = (Inr [], Some [], Some [])"
    by (simp add: flaky_api_def get_map_service_cached_def cached_call_def map_service_init_def
        load_buildings_data_def create_name_mapping_def)
  have p: "process_indexes flaky_api (None, None) [0, 1] = [Inr [], Inr []]"
    by (simp add: g) (simp add: get_map_service_cached_def)
  have "create_map [] [asc ''x''] True 16 = None"
    by (rule map_failure_no_maps [where api = flaky_api and w = 0 and ws = "[1]"])
      (simp add: load_buildings_data_def flaky_api_def, simp only: p list.set insert_iff simp_thms)
  then show ?thesis using p by simp
qed

lemma map_null_data_retried_witness:
  "process_indexes null_api (None, None) [0, 1] = [Inl TypeError, Inr (create_name_mapping [admin_building])]"
  using map_null_data_retried [of null_api 0 "[1]"]
  by (simp add: null_api_def get_map_service_cached_def cached_call_def map_service_init_def load_buildings_data_def)

end
