(* ===== verification/Spec2Isabelle.thy ===== *)
theory Spec2Isabelle
  imports OfficeExtractor UnitIdentifier TextCleaner Retrieval ChunkBuilder MapService Indexer Answer
    LibScraper SiteScrapers AdminScraper AppSession Pipeline Services
begin

text \<open>
  \<^bold>\<open>A verification library for the NTU administration assistant.\<close>
  The program answers questions about the university's offices. The scrapers of
  \<^verbatim>\<open>src/scrapers/\<close> fetch the office pages and write JSON and CSV files; an offline pipeline
  (\<^verbatim>\<open>src/processor.py\<close>) cleans scraped pages, extracts office locations, enriches
  documents and writes chunks with metadata; \<^verbatim>\<open>src/indexer.py\<close> loads the chunks into
  a ChromaDB collection; at query time the chat front end \<^verbatim>\<open>src/app.py\<close> rewrites the
  question, queries the two-stage engine of \<^verbatim>\<open>src/rag_engine.py\<close>, prompts the answer
  model with retries, and asks the map service \<^verbatim>\<open>src/map_service.py\<close> for the buildings
  and the campus map. The development is a shallow embedding: every operation is an
  executable HOL function over explicit data, Python strings are lists of code points
  (\<open>pystr\<close>), exceptions are \<open>Inl\<close> values of \<open>py_error + 'a\<close>, and external services are
  parameters with the contracts the code relies on.

  \<^bold>\<open>Theories.\<close>
  \<^item> \<open>Prelude\<close>: the string model (\<open>asc\<close>, the Unicode 14 tables behind
    \<open>str.isspace\<close>/\<open>\s\<close>, \<open>str.isdecimal\<close>/\<open>\d\<close>, \<open>str.isdigit\<close> and \<open>str.lower\<close>),
    \<open>strip\<close>, \<open>split\<close>, \<open>join\<close>, \<open>replace\<close>, \<open>in\<close> (\<open>contains\<close>), \<open>str(n)\<close>
    (\<open>py_str_nat\<close>, with its parse round trip), slices, and shared list lemmas.
  \<^item> \<open>TextCleaner\<close>, \<open>OfficeExtractor\<close>, \<open>UnitIdentifier\<close>, \<open>PyRepr\<close> and \<open>ChunkBuilder\<close>:
    \<^verbatim>\<open>DataProcessor\<close> of \<^verbatim>\<open>processor.py\<close> -- \<^verbatim>\<open>clean_text_advanced\<close>,
    \<^verbatim>\<open>_extract_office_locations\<close>, the unit-name detector and \<^verbatim>\<open>_normalize_unit_id\<close>,
    \<open>repr\<close> of the added-locations list, \<^verbatim>\<open>_build_location_map\<close>,
    \<^verbatim>\<open>_enrich_content_with_locations\<close>, the chunk classifier, the location chunks and
    \<^verbatim>\<open>process\<close>.
  \<^item> \<open>ChunkModel\<close> and \<open>VectorStore\<close>: the chunk artifact and ChromaDB's query interface,
    as the store contract (\<open>store_contract\<close>) with a reference store meeting it.
  \<^item> \<open>Retrieval\<close>: \<^verbatim>\<open>EnhancedRAGEngine\<close> of \<^verbatim>\<open>rag_engine.py\<close> -- intent, boost and
    rerank, stage 1, unit resolution, stage 2 with deduplication and fallbacks, location
    augmentation, and \<^verbatim>\<open>retrieve\<close>.
  \<^item> \<open>Indexer\<close>: \<^verbatim>\<open>indexer.main\<close> -- reset, ids, batching and the add loop.
  \<^item> \<open>MapService\<close>: \<^verbatim>\<open>NTUMapService\<close> -- the name index, building-name parsing,
    coordinate lookup, the map view and the buildings of retrieved documents.
  \<^item> \<open>Answer\<close>: \<^verbatim>\<open>rewrite_query_with_context\<close>, \<^verbatim>\<open>generate_response\<close> and
    \<^verbatim>\<open>handle_query\<close> of \<^verbatim>\<open>app.py\<close>.
  \<^item> \<open>ScraperBase\<close>: \<^verbatim>\<open>BaseScraper\<close> of \<^verbatim>\<open>scrapers/base.py\<close> -- text normalisation,
    the main-text search, the description, the requests and Playwright extractors (the
    network, the browser and the parsed page are parameters and inputs), \<^verbatim>\<open>scrape_single\<close>,
    \<^verbatim>\<open>_save_data\<close> with the CSV writer's \<open>ValueError\<close>, and \<^verbatim>\<open>run\<close> as a list of fetch
    and write events.
  \<^item> \<open>LibScraper\<close>: \<^verbatim>\<open>scrapers/lib.py\<close> -- \<^verbatim>\<open>urlparse\<close> after CPython, the links of
    node 115, the block split, and the boilerplate \<^verbatim>\<open>Counter\<close> as a multiset.
  \<^item> \<open>SiteScrapers\<close>: the link discovery of \<^verbatim>\<open>aca.py\<close>, \<^verbatim>\<open>osa.py\<close> and
    \<^verbatim>\<open>oga.py\<close>.
  \<^item> \<open>AdminScraper\<close>: \<^verbatim>\<open>scrapers/admin.py\<close> over a DOM tree, with the move of the
    maincontent sections and in-place \<^verbatim>\<open>decompose\<close>.
  \<^item> \<open>AppSession\<close>: the Streamlit script of \<^verbatim>\<open>app.py\<close> as a state machine over
    \<^verbatim>\<open>st.session_state\<close> (record \<open>session\<close>): one run per interaction (\<open>ui_event\<close>,
    \<open>run_script\<close>), the sidebar's updates, the pending quick question, the history display
    with its maps toggle (\<open>history_bubbles\<close>), the chat input, and \<open>reachable\<close>, the
    closure of runs; the sidebar's model listing and \<^verbatim>\<open>list_models.py\<close>.
  \<^item> \<open>Pipeline\<close>: \<^verbatim>\<open>main.py\<close> (department selection, the loop that catches each
    scraper's exception), the scrapers' output directories, the binding of the five runs to
    the web (\<open>scraper_run\<close>), the file system their JSON writes leave, and
    \<^verbatim>\<open>DataProcessor.load_json_files\<close>, which labels items with the directory's department.
  \<^item> \<open>Services\<close>: the configuration of \<^verbatim>\<open>config.py\<close> and its embedding wrapper, the
    engine's constructor and \<^verbatim>\<open>get_rag_engine\<close>, the map service's data load, and the
    caches (\<^verbatim>\<open>st.cache_resource\<close>, the singleton, \<^verbatim>\<open>lru_cache\<close>) as one slot over the
    queries of a process that keeps the first value returned and never an exception --
    which is why \<open>AppSession\<close> takes the engine and the name index as fixed parameters of
    every run (the map service raising inside \<^verbatim>\<open>handle_query\<close> is not modelled there).
  \<^item> this theory: the properties that span components -- the location string written by
    the chunk builder is parsed back by the map service; a location chunk's building
    reaches the map; a location chunk reaches the head of the answer.

  \<^bold>\<open>What the lemma groups show.\<close> For the pipeline: the cleaner fails only with the
  \<open>IndexError\<close> of its room rewrite; every extracted record comes from one entry line under a
  floor header; the location map is last-write-wins over the offices of the admin pages; emitted chunks are location-typed exactly when they carry building, floor and
  room. For the engine: under the store contract the answer is drawn from the corpus,
  deduplicated in stage 2, and covers the location chunk of every resolved unit; the
  location boost keeps a location hit less than 0.2 farther than a non-location hit in the
  top k whenever that hit is; a unit whose Stage-2 query and retry both raise aborts the
  request. For indexing: the batches partition the chunks and a
  run with a successful reset leaves exactly a prefix of the new chunks. For the front end:
  the history grows by a user and at most one assistant message, the retry loop answers once
  the quota errors stop, sleeps at most 5 + 10 seconds, and the location hints keep first
  occurrences; the identity suffix turns a medical-college user's general questions into
  service questions. For the scrapers: the main-text search equals a first-longest reference;
  the browser runs exactly when the static fetch is short, and the better result is kept; a
  run writes the link files first, and the CSV writer raises exactly on an item with a key the
  first item lacks, which no item list of the aca, osa and oga scrapers has; the library's
  boilerplate filter keeps exactly the blocks that occur once in the whole crawl; the admin
  extraction moves its sections without losing text and, having moved them, no longer sees
  their title. For the application's state: every reachable session keeps each assistant
  message right after a user message; a quick question that fails stays pending and is
  re-asked (and re-appended) by the next run whatever the interaction but another quick
  button, a chat submission of that run being dropped, and one that succeeds is displayed
  twice; history maps appear exactly when the toggle is on; when the sidebar lists models,
  \<^verbatim>\<open>list_models.py\<close> prints the same ones, and when the catalog raises part-way the script
  has printed the models before the failure while the sidebar shows only the error. For the composition of scrapers and processor: whatever the web
  returns, every item loaded from the tree \<^verbatim>\<open>main.py\<close> wrote carries the department of the
  scraper that wrote its file, and a scraper that raises does not stop the others. The ACA link discovery raises
  \<^verbatim>\<open>UnboundLocalError\<close> when the first \<^verbatim>\<open>new_page()\<close> fails. For the services: every query
  of a process gets the engine outcome of its first query, and a failed engine initialisation
  is kept as \<open>None\<close> because \<^verbatim>\<open>get_rag_engine\<close> catches it; a failed or empty first building
  load leaves the map index empty for the process, while \<^verbatim>\<open>"data": null\<close> makes the map
  service raise, uncached, at each query until a load succeeds. Findings of the modelling are in the manifest.

  \<^bold>\<open>Bounds and termination.\<close> No fuel is used: every loop of the code is a structural
  recursion over a finite list (lines, hits, unit ids, batches, attempts), and the two
  \<open>re.sub\<close> scanners of the map service are \<open>function\<close>s with a \<open>measure length\<close>
  termination proof, as is the block scanner of the library scraper (\<open>split_scan\<close>, which
  skips a whole separator run at once). The retry loop runs over \<^verbatim>\<open>range(max_retries)\<close> with
  \<open>max_retries = 3\<close> and \<open>retry_delay = 5\<close>, the indexer's batches have 50 entries, stage 1
  asks for 5 hits, stage 2 for 10 per unit, augmentation for 2 per unit.

  \<^bold>\<open>Not modelled.\<close> The HTTP requests, the browser sessions and the HTML parser of the
  scrapers (parameters and inputs: the parsed page as the texts its selectors yield, or as a
  tree for the admin scraper), the sleeps between requests and the directory creation; the
  embedding model itself (an opaque encoder behind \<^verbatim>\<open>BGEEmbeddingFunction\<close>), the
  Chroma client's settings and the GPU embedding class of the indexer (CUDA and FP16 are
  numerics outside a functional model); the campus API call (a parameter giving the answer's
  \<^verbatim>\<open>data\<close> field or an exception); folium rendering and Streamlit's layout, markdown and the static
  system-information dialog (the model keeps what a run displays, in order, not how); the
  \<^verbatim>\<open>_source_path\<close> key and the save-back of cleaned files in \<^verbatim>\<open>process\<close>; the
  \<^verbatim>\<open>__main__\<close> test drivers of \<^verbatim>\<open>rag_engine.py\<close> and \<^verbatim>\<open>processor.py\<close>. The
  language models, ChromaDB and the Gemini client's model listing are parameters; their internals are
  outside the program. The identity widgets are modelled as free strings although Streamlit
  offers only the listed options, so their properties hold a fortiori.
\<close>

section \<open>From a location chunk to the campus map\<close>

text \<open>
  Claim C22: the location string the chunk builder writes for an
  office (\<^verbatim>\<open>processor.py\<close>, building, floor and room) is parsed back by the map service to
  the office's building, when the building name is plain and the floor is a decimal number
  followed by the floor glyph, as in the docstring's example
  \<open>BUILDING 1FLOOR 106ROOM\<close>.
\<close>

theorem extract_building_loc_info:
  assumes "ofc_building ofc \<noteq> []" "MapService.plain_name (ofc_building ofc)"
    and "ofc_floor ofc = ds @ [LOU]" "ds \<noteq> []" "list_all (\<lambda>c. 48 \<le> c \<and> c \<le> 57) ds" "10 \<notin> set (ofc_room ofc)"
  shows "MapService.extract_building_from_location (ChunkBuilder.loc_info ofc) = Some (ofc_building ofc)"
proof -
  let ?b = "ofc_building ofc"
  have p1: "list_all (\<lambda>c. \<not> py_isspace c \<and> \<not> py_isdecimal c) ?b" "list_all (\<lambda>c. \<not> py_isspace c \<and> c \<noteq> 40) ?b"
    "\<not> list_ex py_isspace ?b"
    using assms(2) by (auto simp: plain_name_def list_all_iff list_ex_iff)
  have "loc_info ofc = ?b @ ([32] @ ds @ [LOU] @ (32 # ofc_room ofc @ [0x5BA4]))"
    using assms(3) by (simp add: loc_info_def)
  moreover have "10 \<notin> set (32 # ofc_room ofc @ [0x5BA4])" using assms(6) by simp
  ultimately have "sub_floor (loc_info ofc) = ?b"
    using sub_floor_plain_prefix [OF p1(1)] sub_floor_floor_tail [OF assms(4,5)] by simp
  then show ?thesis
    using assms(1) sub_parens_plain [OF p1(2)] py_strip_no_space [OF p1(3)]
    by (simp add: extract_building_from_location_def loc_info_def)
qed

theorem extract_building_loc_info_witness:
  "extract_building_from_location (loc_info directory_office) = Some (ofc_building directory_office)"
  using extract_building_loc_info [of directory_office "[0x31]"]
  by (simp add: directory_office_def plain_name_def py_isdecimal_def decimal_runs_def py_isspace_def
      space_runs_def in_runs_def LOU_def pystr_eval)

text \<open>When the map service reads back a location chunk
  of the chunk builder (its text and metadata, as retrieval returns them), the office's
  building is among the buildings it collects, provided the building is a key of the name
  index and is either longer than two characters (found in the text after the location
  mark) or plain (parsed from the \<open>building\<close> metadata field).
\<close>

theorem location_chunk_building_found:
  assumes "ofc_building ofc \<in> set (map fst mp)"
    and "2 < length (ofc_building ofc) \<or> MapService.plain_name (ofc_building ofc) \<and> ofc_building ofc \<noteq> []"
  shows "ofc_building ofc \<in> set (MapService.extract_buildings_from_metadata mp
     [(ck_text (ChunkBuilder.location_chunk_of url dept ofc), ck_meta (ChunkBuilder.location_chunk_of url dept ofc))])"
  using assms(2)
proof
  assume "2 < length (ofc_building ofc)"
  then show ?thesis using assms(1) location_text_marks [of ofc]
    by (simp add: extract_buildings_from_metadata_def buildings_of_content_def location_chunk_of_def)
next
  assume "plain_name (ofc_building ofc) \<and> ofc_building ofc \<noteq> []"
  then show ?thesis using assms(1) plain_building_self [of "ofc_building ofc"]
    by (simp add: extract_buildings_from_metadata_def buildings_of_value_def location_fields_def
        location_chunk_of_def map_filter_simps)
qed

theorem location_chunk_building_found_witness:
  "ofc_building directory_office \<in> set (extract_buildings_from_metadata campus_index
     [(ck_text (location_chunk_of [] (asc ''aca'') directory_office),
       ck_meta (location_chunk_of [] (asc ''aca'') directory_office))])"
  using location_chunk_building_found [of directory_office campus_index "[]" "asc ''aca''"]
  by (simp add: directory_office_def campus_index_def LOU_def)

section \<open>From a location chunk to the answer\<close>

lemma location_line_chunk:
  assumes "ofc_name_zh ofc \<noteq> []"
  shows "Answer.location_line (ck_meta (location_chunk_of url dept ofc)) =
    Some (asc ''- '' @ ofc_name_zh ofc @ [0xFF1A] @
          py_strip (ofc_building ofc @ [32] @ ofc_floor ofc @ [32] @ ofc_room ofc @ [0x5BA4]))"
proof -
  have "\<not> py_isspace 0x5BA4" by (simp add: py_isspace_def space_runs_def in_runs_def)
  then have "py_strip (ofc_building ofc @ [32] @ ofc_floor ofc @ [32] @ ofc_room ofc @ [0x5BA4]) \<noteq> []"
    by (simp add: py_strip_eq_Nil_iff)
  then show ?thesis using assms by (simp add: location_line_def location_chunk_of_def md_str_def Let_def)
qed

text \<open>
  Claim C23: when the hits passed to \<^verbatim>\<open>generate_response\<close>
  include a location chunk written by the chunk builder for a named office, and the model
  answers at the first attempt, the answer starts with the place-of-service block, and the
  block lists the office as \<open>- NAME: building floor roomROOM\<close>.
\<close>

theorem answer_lists_location_chunk:
  assumes "api_key \<noteq> []" "gen (answer_prompt q hits ui) 0 = GenText t" "t \<noteq> []"
    and "(doc, ck_meta (location_chunk_of url dept ofc), d) \<in> set hits" "ofc_name_zh ofc \<noteq> []"
  shows "\<exists>ls. fst (Answer.generate_response api_key gen q hits ui) = Answer.location_block ls @ t \<and>
    asc ''- '' @ ofc_name_zh ofc @ [0xFF1A] @
      py_strip (ofc_building ofc @ [32] @ ofc_floor ofc @ [32] @ ofc_room ofc @ [0x5BA4]) \<in> set ls"
  using generate_location_first [where gen = gen and h = "(doc, ck_meta (location_chunk_of url dept ofc), d)", OF assms(1-4)]
    location_line_chunk [OF assms(5)]
  by (simp add: hit_meta_def)

theorem answer_lists_location_chunk_witness:
  "\<exists>ls. fst (generate_response (asc ''key'') (\<lambda>p a. GenText (asc ''ok'')) (asc ''q'')
      [(ck_text (location_chunk_of [] (asc ''aca'') directory_office), ck_meta (location_chunk_of [] (asc ''aca'') directory_office), 0)]
      []) = location_block ls @ asc ''ok'' \<and>
    asc ''- '' @ ofc_name_zh directory_office @ [0xFF1A] @
      py_strip (ofc_building directory_office @ [32] @ ofc_floor directory_office @ [32] @ ofc_room directory_office @ [0x5BA4])
      \<in> set ls"
  by (rule answer_lists_location_chunk) (simp_all add: asc_def directory_office_def)

end
